(* ===== verification/Prelude.thy ===== *)
theory Prelude
  imports Main "HOL-Library.Word" "HOL-Library.AList"
begin

text \<open>
  The shared vocabulary of the development: Go's fixed-width numbers, the lemma collections the
  component theories fill, and the facts on association lists (Go maps) and words that several of
  them use.
\<close>

subsection \<open>Machine numbers\<close>

text \<open>
  Go integers keep their width. A signed value is read with \<open>sint\<close>, an unsigned one with
  \<open>uint\<close> or \<open>unat\<close>. A floating-point field of a message is carried as its IEEE bit pattern:
  the control plane never computes with those fields.
\<close>

type_synonym int32 = "32 word"
type_synonym int64 = "64 word"
type_synonym uint32 = "32 word"
type_synonym uint64 = "64 word"
type_synonym float32 = "32 word"
type_synonym float64 = "64 word"

subsection \<open>Lemma collections\<close>

named_theorems proto_getter \<open>a generated getter on a nil message\<close>

subsection \<open>The tables of a generated enum\<close>

text \<open>
  protoc generates, for every enum, a table from numbers to names and one from names to numbers.
  The contract they share: both are Go maps (no key twice) and one is the other swapped.
\<close>

locale enum_tables =
  fixes nm :: "(int32 \<times> string) list" and vl :: "(string \<times> int32) list"
  assumes distinct_numbers: "distinct (map fst nm)"
    and distinct_names: "distinct (map fst vl)"
    and swapped: "vl = map prod.swap nm"
begin

lemma number_of_name: "map_of nm v = Some s \<longleftrightarrow> map_of vl s = Some v"
proof -
  have "map_of nm v = Some s \<longleftrightarrow> (v, s) \<in> set nm"
    by (rule map_of_eq_Some_iff [OF distinct_numbers])
  also have "\<dots> \<longleftrightarrow> (s, v) \<in> set vl"
    by (force simp: swapped)
  also have "\<dots> \<longleftrightarrow> map_of vl s = Some v"
    by (rule map_of_eq_Some_iff [OF distinct_names, symmetric])
  finally show ?thesis .
qed

lemma names_injective: "map_of nm v = Some s \<Longrightarrow> map_of nm w = Some s \<Longrightarrow> v = w"
  by (simp add: number_of_name)

end

end
