(* ===== verification/Effects.thy ===== *)
theory Effects
  imports Prelude
begin

text \<open>
  The values Go code hands back besides its results: errors, panics, readings of the clock, and the
  calls it makes to the Prometheus and logging libraries. Those libraries are not part of this
  repository, so a call to them is only recorded, as an element of a trace; nothing is assumed about
  what the library does with it.
\<close>

subsection \<open>Errors and panics\<close>

text \<open>
  \<open>Status c m\<close> is the error built by \<open>status.Error(c, m)\<close> or \<open>status.Errorf\<close>, with the status codes
  the sources name; \<open>EOF\<close> is \<open>io.EOF\<close>; \<open>OtherError\<close> is any error a called library returns. A Go
  value of type \<open>error\<close> is \<open>None\<close> for nil.
\<close>

datatype codes = InvalidArgument | Unauthenticated | PermissionDenied | Unimplemented

datatype error = Status codes string | EOF | OtherError string

type_synonym go_error = "error option"

text \<open>
  A panic of a gRPC handler ends the process, since nothing recovers it; a panic of an HTTP handler is
  recovered by Go's HTTP server, which aborts that response. \<open>NilNodeResources\<close> is the explicit
  \<open>panic\<close> of \<open>NodeRegistry.Register\<close>, with the node id of its message; \<open>NilDeref\<close> is the
  run-time panic of a field access through a nil pointer.
\<close>

datatype panic = NilNodeResources string | NilDeref

text \<open>A call that may panic, fail, or return a value and a new state.\<close>

type_synonym ('s, 'a) call = "'s \<Rightarrow> panic + (error + 'a) \<times> 's"

subsection \<open>Clock readings\<close>

text \<open>
  A \<open>time.Time\<close> read from the clock, in nanoseconds; a \<open>time.Duration\<close> is a 64-bit number of
  nanoseconds, and \<open>Sub\<close> saturates at its ends.
\<close>

type_synonym time = int
type_synonym duration = int

definition minDuration :: duration where
  "minDuration = - (2 ^ 63)"

definition maxDuration :: duration where
  "maxDuration = 2 ^ 63 - 1"

definition time_Sub :: "time \<Rightarrow> time \<Rightarrow> duration" where
  "time_Sub t u = max minDuration (min maxDuration (t - u))"

definition time_Second :: duration where
  "time_Second = 1000000000"

lemma time_Sub_gt_iff:
  assumes "minDuration \<le> d" and "d < maxDuration"
  shows "d < time_Sub t u \<longleftrightarrow> d < t - u"
  using assms by (auto simp: time_Sub_def)

subsection \<open>Calls to the metrics library\<close>

datatype metric_op =
    RegisteredNodes_Set nat
  | RegistrationsTotal_Inc
  | HeartbeatsTotal_Inc
  | StaleNodesRemoved_Add nat
  | TasksRunning_Set nat
  | TLSCertLoadTotal_Inc string
  | GrpcServerRequests_Inc string string string
  | GrpcServerLatency_Observe string string duration
  | GrpcActiveStreams_Inc string
  | GrpcActiveStreams_Dec string

text \<open>The value last passed to \<open>Set\<close> of a gauge (a fresh gauge reads 0).\<close>

fun last_RegisteredNodes :: "nat \<Rightarrow> metric_op list \<Rightarrow> nat" where
  "last_RegisteredNodes v [] = v"
| "last_RegisteredNodes v (RegisteredNodes_Set n # ops) = last_RegisteredNodes n ops"
| "last_RegisteredNodes v (_ # ops) = last_RegisteredNodes v ops"

fun last_TasksRunning :: "nat \<Rightarrow> metric_op list \<Rightarrow> nat" where
  "last_TasksRunning v [] = v"
| "last_TasksRunning v (TasksRunning_Set n # ops) = last_TasksRunning n ops"
| "last_TasksRunning v (_ # ops) = last_TasksRunning v ops"

lemma last_RegisteredNodes_append [simp]:
  "last_RegisteredNodes v (xs @ ys) = last_RegisteredNodes (last_RegisteredNodes v xs) ys"
  by (induction v xs rule: last_RegisteredNodes.induct) auto

lemma last_TasksRunning_append [simp]:
  "last_TasksRunning v (xs @ ys) = last_TasksRunning (last_TasksRunning v xs) ys"
  by (induction v xs rule: last_TasksRunning.induct) auto

end
