(* ===== verification/Go_Maps.thy ===== *)
theory Go_Maps
  imports Prelude
begin

text \<open>
  Go maps. A map is an association list without repeated keys; its order is the order in which a
  \<open>range\<close> statement happens to visit it. The lemmas say what the library's update and delete do to
  the lookup function and to the set of entries.
\<close>

subsection \<open>Go maps as association lists\<close>

lemma set_alist_update:
  assumes "distinct (map fst al)"
  shows "set (AList.update k v al) = insert (k, v) {e \<in> set al. fst e \<noteq> k}"
  using assms
proof (induction al)
  case (Cons e al)
  obtain k' v' where e: "e = (k', v')" by (cases e)
  show ?case
  proof (cases "k' = k")
    case True
    with Cons.prems e have "\<forall>d\<in>set al. fst d \<noteq> k" by auto
    with True e show ?thesis by auto
  next
    case False
    with Cons e show ?thesis by auto
  qed
qed simp

lemma set_alist_delete: "set (AList.delete k al) = {e \<in> set al. fst e \<noteq> k}"
  by (auto simp: AList.delete_eq)

lemma map_of_alist_update: "map_of (AList.update k v al) = (map_of al)(k \<mapsto> v)"
  by (rule AList.update_conv')

lemma map_of_alist_delete: "map_of (AList.delete k al) = (map_of al)(k := None)"
  by (rule AList.delete_conv')

lemma alist_delete_notin: "map_of al k = None \<Longrightarrow> AList.delete k al = al"
  by (force simp: AList.delete_eq filter_id_conv map_of_eq_None_iff)

lemmas alist_simps = map_of_alist_update map_of_alist_delete AList.distinct_update
  AList.distinct_delete

end
