(* ===== verification/Connection_Table.thy ===== *)
theory Connection_Table
  imports Prelude
begin

text \<open>
  Runs of an operation table, and the interface between the node registry and the heartbeat streams:
  the locale \<open>connection_table\<close> states what a stream relies on, and its lemmas say what follows for
  any table that keeps it.
\<close>

subsection \<open>Runs of an operation table\<close>

text \<open>Apply operations one after the other; \<open>None\<close> when one of them panics.\<close>

fun run_ops :: "('op \<Rightarrow> 'r \<Rightarrow> 'r option) \<Rightarrow> 'op list \<Rightarrow> 'r \<Rightarrow> 'r option" where
  "run_ops app [] r = Some r"
| "run_ops app (op # ops) r = (case app op r of None \<Rightarrow> None | Some r' \<Rightarrow> run_ops app ops r')"

lemma run_ops_append:
  "run_ops app (xs @ ys) r = (case run_ops app xs r of None \<Rightarrow> None | Some r' \<Rightarrow> run_ops app ys r')"
  by (induction xs arbitrary: r) (auto split: option.splits)

text \<open>A predicate that holds after every operation of a run.\<close>

fun holds_throughout :: "('op \<Rightarrow> 'r \<Rightarrow> 'r option) \<Rightarrow> ('r \<Rightarrow> bool) \<Rightarrow> 'op list \<Rightarrow> 'r \<Rightarrow> bool" where
  "holds_throughout app P [] r = True"
| "holds_throughout app P (op # ops) r =
     (case app op r of None \<Rightarrow> True | Some r' \<Rightarrow> P r' \<and> holds_throughout app P ops r')"

text \<open>
  What a heartbeat stream relies on in the node table: a registration bumps the connection number of
  its node by one (a fresh node starts at 1), no other operation assigns a number, and closing a
  stream deletes its node only while the number is still the stream's.
\<close>

locale connection_table =
  fixes app :: "'op \<Rightarrow> 'r \<Rightarrow> 'r option"
    and conn :: "'r \<Rightarrow> string \<Rightarrow> uint64 option"
    and registers :: "'op \<Rightarrow> string \<Rightarrow> bool"
    and close_op :: "string \<Rightarrow> uint64 \<Rightarrow> 'op"
  assumes register_bumps: "app op r = Some r' \<Longrightarrow> registers op n \<Longrightarrow>
      conn r' n = Some (case conn r n of Some c \<Rightarrow> c + 1 | None \<Rightarrow> 1)"
    and others_keep: "app op r = Some r' \<Longrightarrow> \<not> registers op n \<Longrightarrow>
      conn r' n = conn r n \<or> conn r' n = None"
    and close_conn: "app (close_op n c) r = Some r' \<Longrightarrow>
      conn r' = (if conn r n = Some c then (conn r)(n := None) else conn r)"
begin

lemma conn_counts_registrations:
  assumes "run_ops app ops r = Some r'" and "conn r n = Some c"
    and "holds_throughout app (\<lambda>s. conn s n \<noteq> None) ops r"
  shows "conn r' n = Some (c + of_nat (length (filter (\<lambda>op. registers op n) ops)))"
  using assms
proof (induction ops arbitrary: r c)
  case (Cons op ops)
  then obtain r1 where r1: "app op r = Some r1" "run_ops app ops r1 = Some r'"
    and alive: "conn r1 n \<noteq> None" "holds_throughout app (\<lambda>s. conn s n \<noteq> None) ops r1"
    by (auto split: option.splits)
  show ?case
  proof (cases "registers op n")
    case True
    with register_bumps [OF r1(1)] Cons.prems have "conn r1 n = Some (c + 1)" by simp
    from Cons.IH [OF r1(2) this alive(2)] True show ?thesis by (simp add: ac_simps)
  next
    case False
    with others_keep [OF r1(1)] alive(1) Cons.prems(2) have "conn r1 n = Some c" by metis
    from Cons.IH [OF r1(2) this alive(2)] False show ?thesis by simp
  qed
qed simp

lemma old_number_gone:
  assumes "run_ops app ops r = Some r'" and "conn r n = Some c"
    and "holds_throughout app (\<lambda>s. conn s n \<noteq> None) ops r"
    and "0 < length (filter (\<lambda>op. registers op n) ops)" and "length ops < 2 ^ 64"
  shows "conn r' n \<noteq> Some c"
proof -
  let ?k = "length (filter (\<lambda>op. registers op n) ops)"
  have "?k < 2 ^ 64"
    using assms(5) length_filter_le [of "\<lambda>op. registers op n" ops] by linarith
  then have "(of_nat ?k :: uint64) \<noteq> 0"
    using assms(4) by (auto simp: word_of_nat_eq_0_iff dest: dvd_imp_le)
  then show ?thesis
    by (simp add: conn_counts_registrations [OF assms(1-3)])
qed

lemma unregistered_run:
  assumes "run_ops app ops r = Some r'" and "list_all (\<lambda>op. \<not> registers op n) ops"
  shows "conn r' n = conn r n \<or> conn r' n = None"
  using assms
proof (induction ops arbitrary: r)
  case (Cons op ops)
  then obtain r1 where r1: "app op r = Some r1" "run_ops app ops r1 = Some r'"
    by (auto split: option.splits)
  from others_keep [OF r1(1), of n] Cons.IH [OF r1(2)] Cons.prems(2) show ?case by auto
qed simp

lemma old_stream_closes_nothing:
  assumes "run_ops app ops r = Some r'" and "conn r n = Some c"
    and "holds_throughout app (\<lambda>s. conn s n \<noteq> None) ops r"
    and "0 < length (filter (\<lambda>op. registers op n) ops)" and "length ops < 2 ^ 64"
    and "app (close_op n c) r' = Some r''"
  shows "conn r'' = conn r'"
  using old_number_gone [OF assms(1-5)] close_conn [OF assms(6)] by simp

end

end
