(* ===== verification/Proto_Resource.thy ===== *)
theory Proto_Resource
  imports Prelude
begin

text \<open>
  The message types of \<^verbatim>\<open>gen/compute/v1/resource.pb.go\<close>: one record per message with the fields of
  the Go struct (its protobuf bookkeeping fields \<open>state\<close>, \<open>unknownFields\<close> and \<open>sizeCache\<close> belong
  to the runtime and are left out), the zero message written by \<open>Reset\<close>, and the nil-safe getters.
  A pointer is an \<open>option\<close> (\<open>None\<close> is nil), a slice a list, a Go map an association list, an
  enum its 32-bit number.
\<close>

subsection \<open>Enums\<close>

type_synonym GpuCapability_Cap = int32

definition GpuCapability_FP64 :: GpuCapability_Cap where
  "GpuCapability_FP64 = 0"

definition GpuCapability_FP32 :: GpuCapability_Cap where
  "GpuCapability_FP32 = 1"

definition GpuCapability_FP16 :: GpuCapability_Cap where
  "GpuCapability_FP16 = 2"

definition GpuCapability_BF16 :: GpuCapability_Cap where
  "GpuCapability_BF16 = 3"

definition GpuCapability_INT8 :: GpuCapability_Cap where
  "GpuCapability_INT8 = 4"

definition GpuCapability_INT4 :: GpuCapability_Cap where
  "GpuCapability_INT4 = 5"

definition GpuCapability_TF32 :: GpuCapability_Cap where
  "GpuCapability_TF32 = 6"

definition GpuCapability_FP8 :: GpuCapability_Cap where
  "GpuCapability_FP8 = 7"

definition GpuCapability_Cap_name :: "(int32 \<times> string) list" where
  "GpuCapability_Cap_name =
    [(0, ''FP64''),
     (1, ''FP32''),
     (2, ''FP16''),
     (3, ''BF16''),
     (4, ''INT8''),
     (5, ''INT4''),
     (6, ''TF32''),
     (7, ''FP8'')]"

definition GpuCapability_Cap_value :: "(string \<times> int32) list" where
  "GpuCapability_Cap_value =
    [(''FP64'', 0),
     (''FP32'', 1),
     (''FP16'', 2),
     (''BF16'', 3),
     (''INT8'', 4),
     (''INT4'', 5),
     (''TF32'', 6),
     (''FP8'', 7)]"

type_synonym AffinityRule_Type = int32

definition AffinityRule_SAME_NODE_AS_DATA :: AffinityRule_Type where
  "AffinityRule_SAME_NODE_AS_DATA = 0"

definition AffinityRule_SAME_NODE_AS_SERVICE :: AffinityRule_Type where
  "AffinityRule_SAME_NODE_AS_SERVICE = 1"

definition AffinityRule_DIFFERENT_NODE_THAN_SERVICE :: AffinityRule_Type where
  "AffinityRule_DIFFERENT_NODE_THAN_SERVICE = 2"

definition AffinityRule_SAME_RACK :: AffinityRule_Type where
  "AffinityRule_SAME_RACK = 3"

definition AffinityRule_SAME_SWITCH :: AffinityRule_Type where
  "AffinityRule_SAME_SWITCH = 4"

definition AffinityRule_Type_name :: "(int32 \<times> string) list" where
  "AffinityRule_Type_name =
    [(0, ''SAME_NODE_AS_DATA''),
     (1, ''SAME_NODE_AS_SERVICE''),
     (2, ''DIFFERENT_NODE_THAN_SERVICE''),
     (3, ''SAME_RACK''),
     (4, ''SAME_SWITCH'')]"

definition AffinityRule_Type_value :: "(string \<times> int32) list" where
  "AffinityRule_Type_value =
    [(''SAME_NODE_AS_DATA'', 0),
     (''SAME_NODE_AS_SERVICE'', 1),
     (''DIFFERENT_NODE_THAN_SERVICE'', 2),
     (''SAME_RACK'', 3),
     (''SAME_SWITCH'', 4)]"

subsection \<open>Messages\<close>

record NumaNode =
  NumaNode_Id :: "int32"
  NumaNode_CoreIds :: "int32 list"
  NumaNode_MemoryBytes :: "uint64"

definition NumaNode_zero :: NumaNode where
  "NumaNode_zero =
    \<lparr>NumaNode_Id = 0,
     NumaNode_CoreIds = [],
     NumaNode_MemoryBytes = 0\<rparr>"

definition NumaNode_Reset :: "NumaNode \<Rightarrow> NumaNode" where
  "NumaNode_Reset x = NumaNode_zero"

definition NumaNode_GetId :: "NumaNode option \<Rightarrow> int32" where
  "NumaNode_GetId x = (case x of Some m \<Rightarrow> NumaNode_Id m | None \<Rightarrow> 0)"

definition NumaNode_GetCoreIds :: "NumaNode option \<Rightarrow> int32 list" where
  "NumaNode_GetCoreIds x = (case x of Some m \<Rightarrow> NumaNode_CoreIds m | None \<Rightarrow> [])"

definition NumaNode_GetMemoryBytes :: "NumaNode option \<Rightarrow> uint64" where
  "NumaNode_GetMemoryBytes x = (case x of Some m \<Rightarrow> NumaNode_MemoryBytes m | None \<Rightarrow> 0)"

record CpuResources =
  CpuResources_PhysicalCores :: "int32"
  CpuResources_LogicalCores :: "int32"
  CpuResources_Architecture :: "string"
  CpuResources_ModelName :: "string"
  CpuResources_FrequencyMhz :: "int64"
  CpuResources_MaxFrequencyMhz :: "int64"
  CpuResources_NumaNodes :: "NumaNode option list"

definition CpuResources_zero :: CpuResources where
  "CpuResources_zero =
    \<lparr>CpuResources_PhysicalCores = 0,
     CpuResources_LogicalCores = 0,
     CpuResources_Architecture = '''',
     CpuResources_ModelName = '''',
     CpuResources_FrequencyMhz = 0,
     CpuResources_MaxFrequencyMhz = 0,
     CpuResources_NumaNodes = []\<rparr>"

definition CpuResources_Reset :: "CpuResources \<Rightarrow> CpuResources" where
  "CpuResources_Reset x = CpuResources_zero"

definition CpuResources_GetPhysicalCores :: "CpuResources option \<Rightarrow> int32" where
  "CpuResources_GetPhysicalCores x = (case x of Some m \<Rightarrow> CpuResources_PhysicalCores m | None \<Rightarrow> 0)"

definition CpuResources_GetLogicalCores :: "CpuResources option \<Rightarrow> int32" where
  "CpuResources_GetLogicalCores x = (case x of Some m \<Rightarrow> CpuResources_LogicalCores m | None \<Rightarrow> 0)"

definition CpuResources_GetArchitecture :: "CpuResources option \<Rightarrow> string" where
  "CpuResources_GetArchitecture x = (case x of Some m \<Rightarrow> CpuResources_Architecture m | None \<Rightarrow> '''')"

definition CpuResources_GetModelName :: "CpuResources option \<Rightarrow> string" where
  "CpuResources_GetModelName x = (case x of Some m \<Rightarrow> CpuResources_ModelName m | None \<Rightarrow> '''')"

definition CpuResources_GetFrequencyMhz :: "CpuResources option \<Rightarrow> int64" where
  "CpuResources_GetFrequencyMhz x = (case x of Some m \<Rightarrow> CpuResources_FrequencyMhz m | None \<Rightarrow> 0)"

definition CpuResources_GetMaxFrequencyMhz :: "CpuResources option \<Rightarrow> int64" where
  "CpuResources_GetMaxFrequencyMhz x = (case x of Some m \<Rightarrow> CpuResources_MaxFrequencyMhz m | None \<Rightarrow> 0)"

definition CpuResources_GetNumaNodes :: "CpuResources option \<Rightarrow> NumaNode option list" where
  "CpuResources_GetNumaNodes x = (case x of Some m \<Rightarrow> CpuResources_NumaNodes m | None \<Rightarrow> [])"

record MemoryTier =
  MemoryTier_Name :: "string"
  MemoryTier_TotalBytes :: "uint64"
  MemoryTier_AvailableBytes :: "uint64"
  MemoryTier_LatencyNs :: "int64"
  MemoryTier_BandwidthMbps :: "int64"

definition MemoryTier_zero :: MemoryTier where
  "MemoryTier_zero =
    \<lparr>MemoryTier_Name = '''',
     MemoryTier_TotalBytes = 0,
     MemoryTier_AvailableBytes = 0,
     MemoryTier_LatencyNs = 0,
     MemoryTier_BandwidthMbps = 0\<rparr>"

definition MemoryTier_Reset :: "MemoryTier \<Rightarrow> MemoryTier" where
  "MemoryTier_Reset x = MemoryTier_zero"

definition MemoryTier_GetName :: "MemoryTier option \<Rightarrow> string" where
  "MemoryTier_GetName x = (case x of Some m \<Rightarrow> MemoryTier_Name m | None \<Rightarrow> '''')"

definition MemoryTier_GetTotalBytes :: "MemoryTier option \<Rightarrow> uint64" where
  "MemoryTier_GetTotalBytes x = (case x of Some m \<Rightarrow> MemoryTier_TotalBytes m | None \<Rightarrow> 0)"

definition MemoryTier_GetAvailableBytes :: "MemoryTier option \<Rightarrow> uint64" where
  "MemoryTier_GetAvailableBytes x = (case x of Some m \<Rightarrow> MemoryTier_AvailableBytes m | None \<Rightarrow> 0)"

definition MemoryTier_GetLatencyNs :: "MemoryTier option \<Rightarrow> int64" where
  "MemoryTier_GetLatencyNs x = (case x of Some m \<Rightarrow> MemoryTier_LatencyNs m | None \<Rightarrow> 0)"

definition MemoryTier_GetBandwidthMbps :: "MemoryTier option \<Rightarrow> int64" where
  "MemoryTier_GetBandwidthMbps x = (case x of Some m \<Rightarrow> MemoryTier_BandwidthMbps m | None \<Rightarrow> 0)"

record MemoryResources =
  MemoryResources_TotalBytes :: "uint64"
  MemoryResources_Hugepage_2MbCount :: "uint64"
  MemoryResources_Hugepage_1GbCount :: "uint64"
  MemoryResources_SpeedMhz :: "int64"
  MemoryResources_Type :: "string"
  MemoryResources_Tiers :: "MemoryTier option list"

definition MemoryResources_zero :: MemoryResources where
  "MemoryResources_zero =
    \<lparr>MemoryResources_TotalBytes = 0,
     MemoryResources_Hugepage_2MbCount = 0,
     MemoryResources_Hugepage_1GbCount = 0,
     MemoryResources_SpeedMhz = 0,
     MemoryResources_Type = '''',
     MemoryResources_Tiers = []\<rparr>"

definition MemoryResources_Reset :: "MemoryResources \<Rightarrow> MemoryResources" where
  "MemoryResources_Reset x = MemoryResources_zero"

definition MemoryResources_GetTotalBytes :: "MemoryResources option \<Rightarrow> uint64" where
  "MemoryResources_GetTotalBytes x = (case x of Some m \<Rightarrow> MemoryResources_TotalBytes m | None \<Rightarrow> 0)"

definition MemoryResources_GetHugepage_2MbCount :: "MemoryResources option \<Rightarrow> uint64" where
  "MemoryResources_GetHugepage_2MbCount x = (case x of Some m \<Rightarrow> MemoryResources_Hugepage_2MbCount m | None \<Rightarrow> 0)"

definition MemoryResources_GetHugepage_1GbCount :: "MemoryResources option \<Rightarrow> uint64" where
  "MemoryResources_GetHugepage_1GbCount x = (case x of Some m \<Rightarrow> MemoryResources_Hugepage_1GbCount m | None \<Rightarrow> 0)"

definition MemoryResources_GetSpeedMhz :: "MemoryResources option \<Rightarrow> int64" where
  "MemoryResources_GetSpeedMhz x = (case x of Some m \<Rightarrow> MemoryResources_SpeedMhz m | None \<Rightarrow> 0)"

definition MemoryResources_GetType :: "MemoryResources option \<Rightarrow> string" where
  "MemoryResources_GetType x = (case x of Some m \<Rightarrow> MemoryResources_Type m | None \<Rightarrow> '''')"

definition MemoryResources_GetTiers :: "MemoryResources option \<Rightarrow> MemoryTier option list" where
  "MemoryResources_GetTiers x = (case x of Some m \<Rightarrow> MemoryResources_Tiers m | None \<Rightarrow> [])"

record GpuCapability =
  GpuCapability_Cap :: "GpuCapability_Cap"
  GpuCapability_Supported :: "bool"
  GpuCapability_Tflops :: "int64"

definition GpuCapability_zero :: GpuCapability where
  "GpuCapability_zero =
    \<lparr>GpuCapability_Cap = 0,
     GpuCapability_Supported = False,
     GpuCapability_Tflops = 0\<rparr>"

definition GpuCapability_Reset :: "GpuCapability \<Rightarrow> GpuCapability" where
  "GpuCapability_Reset x = GpuCapability_zero"

definition GpuCapability_GetCap :: "GpuCapability option \<Rightarrow> GpuCapability_Cap" where
  "GpuCapability_GetCap x = (case x of Some m \<Rightarrow> GpuCapability_Cap m | None \<Rightarrow> GpuCapability_FP64)"

definition GpuCapability_GetSupported :: "GpuCapability option \<Rightarrow> bool" where
  "GpuCapability_GetSupported x = (case x of Some m \<Rightarrow> GpuCapability_Supported m | None \<Rightarrow> False)"

definition GpuCapability_GetTflops :: "GpuCapability option \<Rightarrow> int64" where
  "GpuCapability_GetTflops x = (case x of Some m \<Rightarrow> GpuCapability_Tflops m | None \<Rightarrow> 0)"

record GpuResources =
  GpuResources_Index :: "int32"
  GpuResources_Vendor :: "string"
  GpuResources_Model :: "string"
  GpuResources_Architecture :: "string"
  GpuResources_ArchitectureGeneration :: "int32"
  GpuResources_VramBytes :: "uint64"
  GpuResources_ComputeCapability :: "string"
  GpuResources_Capabilities :: "GpuCapability option list"
  GpuResources_MultiprocessorCount :: "int32"
  GpuResources_MaxClockMhz :: "int64"
  GpuResources_MemoryClockMhz :: "int64"
  GpuResources_MemoryBusWidthBits :: "int32"
  GpuResources_MemoryBandwidthMbps :: "int64"
  GpuResources_PcieGeneration :: "int32"
  GpuResources_PcieWidth :: "int32"
  GpuResources_NvlinkCount :: "int32"
  GpuResources_NvlinkBandwidthMbps :: "int64"
  GpuResources_SupportsGpudirectRdma :: "bool"
  GpuResources_SupportsMig :: "bool"
  GpuResources_SupportsSriov :: "bool"

definition GpuResources_zero :: GpuResources where
  "GpuResources_zero =
    \<lparr>GpuResources_Index = 0,
     GpuResources_Vendor = '''',
     GpuResources_Model = '''',
     GpuResources_Architecture = '''',
     GpuResources_ArchitectureGeneration = 0,
     GpuResources_VramBytes = 0,
     GpuResources_ComputeCapability = '''',
     GpuResources_Capabilities = [],
     GpuResources_MultiprocessorCount = 0,
     GpuResources_MaxClockMhz = 0,
     GpuResources_MemoryClockMhz = 0,
     GpuResources_MemoryBusWidthBits = 0,
     GpuResources_MemoryBandwidthMbps = 0,
     GpuResources_PcieGeneration = 0,
     GpuResources_PcieWidth = 0,
     GpuResources_NvlinkCount = 0,
     GpuResources_NvlinkBandwidthMbps = 0,
     GpuResources_SupportsGpudirectRdma = False,
     GpuResources_SupportsMig = False,
     GpuResources_SupportsSriov = False\<rparr>"

definition GpuResources_Reset :: "GpuResources \<Rightarrow> GpuResources" where
  "GpuResources_Reset x = GpuResources_zero"

definition GpuResources_GetIndex :: "GpuResources option \<Rightarrow> int32" where
  "GpuResources_GetIndex x = (case x of Some m \<Rightarrow> GpuResources_Index m | None \<Rightarrow> 0)"

definition GpuResources_GetVendor :: "GpuResources option \<Rightarrow> string" where
  "GpuResources_GetVendor x = (case x of Some m \<Rightarrow> GpuResources_Vendor m | None \<Rightarrow> '''')"

definition GpuResources_GetModel :: "GpuResources option \<Rightarrow> string" where
  "GpuResources_GetModel x = (case x of Some m \<Rightarrow> GpuResources_Model m | None \<Rightarrow> '''')"

definition GpuResources_GetArchitecture :: "GpuResources option \<Rightarrow> string" where
  "GpuResources_GetArchitecture x = (case x of Some m \<Rightarrow> GpuResources_Architecture m | None \<Rightarrow> '''')"

definition GpuResources_GetArchitectureGeneration :: "GpuResources option \<Rightarrow> int32" where
  "GpuResources_GetArchitectureGeneration x = (case x of Some m \<Rightarrow> GpuResources_ArchitectureGeneration m | None \<Rightarrow> 0)"

definition GpuResources_GetVramBytes :: "GpuResources option \<Rightarrow> uint64" where
  "GpuResources_GetVramBytes x = (case x of Some m \<Rightarrow> GpuResources_VramBytes m | None \<Rightarrow> 0)"

definition GpuResources_GetComputeCapability :: "GpuResources option \<Rightarrow> string" where
  "GpuResources_GetComputeCapability x = (case x of Some m \<Rightarrow> GpuResources_ComputeCapability m | None \<Rightarrow> '''')"

definition GpuResources_GetCapabilities :: "GpuResources option \<Rightarrow> GpuCapability option list" where
  "GpuResources_GetCapabilities x = (case x of Some m \<Rightarrow> GpuResources_Capabilities m | None \<Rightarrow> [])"

definition GpuResources_GetMultiprocessorCount :: "GpuResources option \<Rightarrow> int32" where
  "GpuResources_GetMultiprocessorCount x = (case x of Some m \<Rightarrow> GpuResources_MultiprocessorCount m | None \<Rightarrow> 0)"

definition GpuResources_GetMaxClockMhz :: "GpuResources option \<Rightarrow> int64" where
  "GpuResources_GetMaxClockMhz x = (case x of Some m \<Rightarrow> GpuResources_MaxClockMhz m | None \<Rightarrow> 0)"

definition GpuResources_GetMemoryClockMhz :: "GpuResources option \<Rightarrow> int64" where
  "GpuResources_GetMemoryClockMhz x = (case x of Some m \<Rightarrow> GpuResources_MemoryClockMhz m | None \<Rightarrow> 0)"

definition GpuResources_GetMemoryBusWidthBits :: "GpuResources option \<Rightarrow> int32" where
  "GpuResources_GetMemoryBusWidthBits x = (case x of Some m \<Rightarrow> GpuResources_MemoryBusWidthBits m | None \<Rightarrow> 0)"

definition GpuResources_GetMemoryBandwidthMbps :: "GpuResources option \<Rightarrow> int64" where
  "GpuResources_GetMemoryBandwidthMbps x = (case x of Some m \<Rightarrow> GpuResources_MemoryBandwidthMbps m | None \<Rightarrow> 0)"

definition GpuResources_GetPcieGeneration :: "GpuResources option \<Rightarrow> int32" where
  "GpuResources_GetPcieGeneration x = (case x of Some m \<Rightarrow> GpuResources_PcieGeneration m | None \<Rightarrow> 0)"

definition GpuResources_GetPcieWidth :: "GpuResources option \<Rightarrow> int32" where
  "GpuResources_GetPcieWidth x = (case x of Some m \<Rightarrow> GpuResources_PcieWidth m | None \<Rightarrow> 0)"

definition GpuResources_GetNvlinkCount :: "GpuResources option \<Rightarrow> int32" where
  "GpuResources_GetNvlinkCount x = (case x of Some m \<Rightarrow> GpuResources_NvlinkCount m | None \<Rightarrow> 0)"

definition GpuResources_GetNvlinkBandwidthMbps :: "GpuResources option \<Rightarrow> int64" where
  "GpuResources_GetNvlinkBandwidthMbps x = (case x of Some m \<Rightarrow> GpuResources_NvlinkBandwidthMbps m | None \<Rightarrow> 0)"

definition GpuResources_GetSupportsGpudirectRdma :: "GpuResources option \<Rightarrow> bool" where
  "GpuResources_GetSupportsGpudirectRdma x = (case x of Some m \<Rightarrow> GpuResources_SupportsGpudirectRdma m | None \<Rightarrow> False)"

definition GpuResources_GetSupportsMig :: "GpuResources option \<Rightarrow> bool" where
  "GpuResources_GetSupportsMig x = (case x of Some m \<Rightarrow> GpuResources_SupportsMig m | None \<Rightarrow> False)"

definition GpuResources_GetSupportsSriov :: "GpuResources option \<Rightarrow> bool" where
  "GpuResources_GetSupportsSriov x = (case x of Some m \<Rightarrow> GpuResources_SupportsSriov m | None \<Rightarrow> False)"

record StorageDevice =
  StorageDevice_Path :: "string"
  StorageDevice_Type :: "string"
  StorageDevice_Filesystem :: "string"
  StorageDevice_TotalBytes :: "uint64"
  StorageDevice_AvailableBytes :: "uint64"
  StorageDevice_ReadIops :: "int64"
  StorageDevice_WriteIops :: "int64"
  StorageDevice_ReadThroughputMbps :: "int64"
  StorageDevice_WriteThroughputMbps :: "int64"

definition StorageDevice_zero :: StorageDevice where
  "StorageDevice_zero =
    \<lparr>StorageDevice_Path = '''',
     StorageDevice_Type = '''',
     StorageDevice_Filesystem = '''',
     StorageDevice_TotalBytes = 0,
     StorageDevice_AvailableBytes = 0,
     StorageDevice_ReadIops = 0,
     StorageDevice_WriteIops = 0,
     StorageDevice_ReadThroughputMbps = 0,
     StorageDevice_WriteThroughputMbps = 0\<rparr>"

definition StorageDevice_Reset :: "StorageDevice \<Rightarrow> StorageDevice" where
  "StorageDevice_Reset x = StorageDevice_zero"

definition StorageDevice_GetPath :: "StorageDevice option \<Rightarrow> string" where
  "StorageDevice_GetPath x = (case x of Some m \<Rightarrow> StorageDevice_Path m | None \<Rightarrow> '''')"

definition StorageDevice_GetType :: "StorageDevice option \<Rightarrow> string" where
  "StorageDevice_GetType x = (case x of Some m \<Rightarrow> StorageDevice_Type m | None \<Rightarrow> '''')"

definition StorageDevice_GetFilesystem :: "StorageDevice option \<Rightarrow> string" where
  "StorageDevice_GetFilesystem x = (case x of Some m \<Rightarrow> StorageDevice_Filesystem m | None \<Rightarrow> '''')"

definition StorageDevice_GetTotalBytes :: "StorageDevice option \<Rightarrow> uint64" where
  "StorageDevice_GetTotalBytes x = (case x of Some m \<Rightarrow> StorageDevice_TotalBytes m | None \<Rightarrow> 0)"

definition StorageDevice_GetAvailableBytes :: "StorageDevice option \<Rightarrow> uint64" where
  "StorageDevice_GetAvailableBytes x = (case x of Some m \<Rightarrow> StorageDevice_AvailableBytes m | None \<Rightarrow> 0)"

definition StorageDevice_GetReadIops :: "StorageDevice option \<Rightarrow> int64" where
  "StorageDevice_GetReadIops x = (case x of Some m \<Rightarrow> StorageDevice_ReadIops m | None \<Rightarrow> 0)"

definition StorageDevice_GetWriteIops :: "StorageDevice option \<Rightarrow> int64" where
  "StorageDevice_GetWriteIops x = (case x of Some m \<Rightarrow> StorageDevice_WriteIops m | None \<Rightarrow> 0)"

definition StorageDevice_GetReadThroughputMbps :: "StorageDevice option \<Rightarrow> int64" where
  "StorageDevice_GetReadThroughputMbps x = (case x of Some m \<Rightarrow> StorageDevice_ReadThroughputMbps m | None \<Rightarrow> 0)"

definition StorageDevice_GetWriteThroughputMbps :: "StorageDevice option \<Rightarrow> int64" where
  "StorageDevice_GetWriteThroughputMbps x = (case x of Some m \<Rightarrow> StorageDevice_WriteThroughputMbps m | None \<Rightarrow> 0)"

record StorageResources =
  StorageResources_Devices :: "StorageDevice option list"

definition StorageResources_zero :: StorageResources where
  "StorageResources_zero =
    \<lparr>StorageResources_Devices = []\<rparr>"

definition StorageResources_Reset :: "StorageResources \<Rightarrow> StorageResources" where
  "StorageResources_Reset x = StorageResources_zero"

definition StorageResources_GetDevices :: "StorageResources option \<Rightarrow> StorageDevice option list" where
  "StorageResources_GetDevices x = (case x of Some m \<Rightarrow> StorageResources_Devices m | None \<Rightarrow> [])"

record NetworkInterface =
  NetworkInterface_Name :: "string"
  NetworkInterface_Driver :: "string"
  NetworkInterface_MacAddress :: "string"
  NetworkInterface_IpAddresses :: "string list"
  NetworkInterface_SpeedMbps :: "int64"
  NetworkInterface_SupportsRdma :: "bool"
  NetworkInterface_SupportsRoce :: "bool"
  NetworkInterface_SupportsInfiniband :: "bool"
  NetworkInterface_PciAddress :: "string"
  NetworkInterface_NumaNode :: "int32"

definition NetworkInterface_zero :: NetworkInterface where
  "NetworkInterface_zero =
    \<lparr>NetworkInterface_Name = '''',
     NetworkInterface_Driver = '''',
     NetworkInterface_MacAddress = '''',
     NetworkInterface_IpAddresses = [],
     NetworkInterface_SpeedMbps = 0,
     NetworkInterface_SupportsRdma = False,
     NetworkInterface_SupportsRoce = False,
     NetworkInterface_SupportsInfiniband = False,
     NetworkInterface_PciAddress = '''',
     NetworkInterface_NumaNode = 0\<rparr>"

definition NetworkInterface_Reset :: "NetworkInterface \<Rightarrow> NetworkInterface" where
  "NetworkInterface_Reset x = NetworkInterface_zero"

definition NetworkInterface_GetName :: "NetworkInterface option \<Rightarrow> string" where
  "NetworkInterface_GetName x = (case x of Some m \<Rightarrow> NetworkInterface_Name m | None \<Rightarrow> '''')"

definition NetworkInterface_GetDriver :: "NetworkInterface option \<Rightarrow> string" where
  "NetworkInterface_GetDriver x = (case x of Some m \<Rightarrow> NetworkInterface_Driver m | None \<Rightarrow> '''')"

definition NetworkInterface_GetMacAddress :: "NetworkInterface option \<Rightarrow> string" where
  "NetworkInterface_GetMacAddress x = (case x of Some m \<Rightarrow> NetworkInterface_MacAddress m | None \<Rightarrow> '''')"

definition NetworkInterface_GetIpAddresses :: "NetworkInterface option \<Rightarrow> string list" where
  "NetworkInterface_GetIpAddresses x = (case x of Some m \<Rightarrow> NetworkInterface_IpAddresses m | None \<Rightarrow> [])"

definition NetworkInterface_GetSpeedMbps :: "NetworkInterface option \<Rightarrow> int64" where
  "NetworkInterface_GetSpeedMbps x = (case x of Some m \<Rightarrow> NetworkInterface_SpeedMbps m | None \<Rightarrow> 0)"

definition NetworkInterface_GetSupportsRdma :: "NetworkInterface option \<Rightarrow> bool" where
  "NetworkInterface_GetSupportsRdma x = (case x of Some m \<Rightarrow> NetworkInterface_SupportsRdma m | None \<Rightarrow> False)"

definition NetworkInterface_GetSupportsRoce :: "NetworkInterface option \<Rightarrow> bool" where
  "NetworkInterface_GetSupportsRoce x = (case x of Some m \<Rightarrow> NetworkInterface_SupportsRoce m | None \<Rightarrow> False)"

definition NetworkInterface_GetSupportsInfiniband :: "NetworkInterface option \<Rightarrow> bool" where
  "NetworkInterface_GetSupportsInfiniband x = (case x of Some m \<Rightarrow> NetworkInterface_SupportsInfiniband m | None \<Rightarrow> False)"

definition NetworkInterface_GetPciAddress :: "NetworkInterface option \<Rightarrow> string" where
  "NetworkInterface_GetPciAddress x = (case x of Some m \<Rightarrow> NetworkInterface_PciAddress m | None \<Rightarrow> '''')"

definition NetworkInterface_GetNumaNode :: "NetworkInterface option \<Rightarrow> int32" where
  "NetworkInterface_GetNumaNode x = (case x of Some m \<Rightarrow> NetworkInterface_NumaNode m | None \<Rightarrow> 0)"

record NetworkResources =
  NetworkResources_Interfaces :: "NetworkInterface option list"
  NetworkResources_TotalBandwidthMbps :: "int64"

definition NetworkResources_zero :: NetworkResources where
  "NetworkResources_zero =
    \<lparr>NetworkResources_Interfaces = [],
     NetworkResources_TotalBandwidthMbps = 0\<rparr>"

definition NetworkResources_Reset :: "NetworkResources \<Rightarrow> NetworkResources" where
  "NetworkResources_Reset x = NetworkResources_zero"

definition NetworkResources_GetInterfaces :: "NetworkResources option \<Rightarrow> NetworkInterface option list" where
  "NetworkResources_GetInterfaces x = (case x of Some m \<Rightarrow> NetworkResources_Interfaces m | None \<Rightarrow> [])"

definition NetworkResources_GetTotalBandwidthMbps :: "NetworkResources option \<Rightarrow> int64" where
  "NetworkResources_GetTotalBandwidthMbps x = (case x of Some m \<Rightarrow> NetworkResources_TotalBandwidthMbps m | None \<Rightarrow> 0)"

record Capability =
  Capability_Key :: "string"
  Capability_Value :: "string"

definition Capability_zero :: Capability where
  "Capability_zero =
    \<lparr>Capability_Key = '''',
     Capability_Value = ''''\<rparr>"

definition Capability_Reset :: "Capability \<Rightarrow> Capability" where
  "Capability_Reset x = Capability_zero"

definition Capability_GetKey :: "Capability option \<Rightarrow> string" where
  "Capability_GetKey x = (case x of Some m \<Rightarrow> Capability_Key m | None \<Rightarrow> '''')"

definition Capability_GetValue :: "Capability option \<Rightarrow> string" where
  "Capability_GetValue x = (case x of Some m \<Rightarrow> Capability_Value m | None \<Rightarrow> '''')"

record NodeResources =
  NodeResources_NodeId :: "string"
  NodeResources_Hostname :: "string"
  NodeResources_Cpu :: "CpuResources option"
  NodeResources_Memory :: "MemoryResources option"
  NodeResources_Gpus :: "GpuResources option list"
  NodeResources_Storage :: "StorageResources option"
  NodeResources_Network :: "NetworkResources option"
  NodeResources_Capabilities :: "Capability option list"
  NodeResources_KernelVersion :: "string"
  NodeResources_OsRelease :: "string"

definition NodeResources_zero :: NodeResources where
  "NodeResources_zero =
    \<lparr>NodeResources_NodeId = '''',
     NodeResources_Hostname = '''',
     NodeResources_Cpu = None,
     NodeResources_Memory = None,
     NodeResources_Gpus = [],
     NodeResources_Storage = None,
     NodeResources_Network = None,
     NodeResources_Capabilities = [],
     NodeResources_KernelVersion = '''',
     NodeResources_OsRelease = ''''\<rparr>"

definition NodeResources_Reset :: "NodeResources \<Rightarrow> NodeResources" where
  "NodeResources_Reset x = NodeResources_zero"

definition NodeResources_GetNodeId :: "NodeResources option \<Rightarrow> string" where
  "NodeResources_GetNodeId x = (case x of Some m \<Rightarrow> NodeResources_NodeId m | None \<Rightarrow> '''')"

definition NodeResources_GetHostname :: "NodeResources option \<Rightarrow> string" where
  "NodeResources_GetHostname x = (case x of Some m \<Rightarrow> NodeResources_Hostname m | None \<Rightarrow> '''')"

definition NodeResources_GetCpu :: "NodeResources option \<Rightarrow> CpuResources option" where
  "NodeResources_GetCpu x = (case x of Some m \<Rightarrow> NodeResources_Cpu m | None \<Rightarrow> None)"

definition NodeResources_GetMemory :: "NodeResources option \<Rightarrow> MemoryResources option" where
  "NodeResources_GetMemory x = (case x of Some m \<Rightarrow> NodeResources_Memory m | None \<Rightarrow> None)"

definition NodeResources_GetGpus :: "NodeResources option \<Rightarrow> GpuResources option list" where
  "NodeResources_GetGpus x = (case x of Some m \<Rightarrow> NodeResources_Gpus m | None \<Rightarrow> [])"

definition NodeResources_GetStorage :: "NodeResources option \<Rightarrow> StorageResources option" where
  "NodeResources_GetStorage x = (case x of Some m \<Rightarrow> NodeResources_Storage m | None \<Rightarrow> None)"

definition NodeResources_GetNetwork :: "NodeResources option \<Rightarrow> NetworkResources option" where
  "NodeResources_GetNetwork x = (case x of Some m \<Rightarrow> NodeResources_Network m | None \<Rightarrow> None)"

definition NodeResources_GetCapabilities :: "NodeResources option \<Rightarrow> Capability option list" where
  "NodeResources_GetCapabilities x = (case x of Some m \<Rightarrow> NodeResources_Capabilities m | None \<Rightarrow> [])"

definition NodeResources_GetKernelVersion :: "NodeResources option \<Rightarrow> string" where
  "NodeResources_GetKernelVersion x = (case x of Some m \<Rightarrow> NodeResources_KernelVersion m | None \<Rightarrow> '''')"

definition NodeResources_GetOsRelease :: "NodeResources option \<Rightarrow> string" where
  "NodeResources_GetOsRelease x = (case x of Some m \<Rightarrow> NodeResources_OsRelease m | None \<Rightarrow> '''')"

record CpuUtilization =
  CpuUtilization_OverallPercent :: "float64"
  CpuUtilization_PerCorePercent :: "float64 list"
  CpuUtilization_Load_1M :: "float64"
  CpuUtilization_Load_5M :: "float64"
  CpuUtilization_Load_15M :: "float64"

definition CpuUtilization_zero :: CpuUtilization where
  "CpuUtilization_zero =
    \<lparr>CpuUtilization_OverallPercent = 0,
     CpuUtilization_PerCorePercent = [],
     CpuUtilization_Load_1M = 0,
     CpuUtilization_Load_5M = 0,
     CpuUtilization_Load_15M = 0\<rparr>"

definition CpuUtilization_Reset :: "CpuUtilization \<Rightarrow> CpuUtilization" where
  "CpuUtilization_Reset x = CpuUtilization_zero"

definition CpuUtilization_GetOverallPercent :: "CpuUtilization option \<Rightarrow> float64" where
  "CpuUtilization_GetOverallPercent x = (case x of Some m \<Rightarrow> CpuUtilization_OverallPercent m | None \<Rightarrow> 0)"

definition CpuUtilization_GetPerCorePercent :: "CpuUtilization option \<Rightarrow> float64 list" where
  "CpuUtilization_GetPerCorePercent x = (case x of Some m \<Rightarrow> CpuUtilization_PerCorePercent m | None \<Rightarrow> [])"

definition CpuUtilization_GetLoad_1M :: "CpuUtilization option \<Rightarrow> float64" where
  "CpuUtilization_GetLoad_1M x = (case x of Some m \<Rightarrow> CpuUtilization_Load_1M m | None \<Rightarrow> 0)"

definition CpuUtilization_GetLoad_5M :: "CpuUtilization option \<Rightarrow> float64" where
  "CpuUtilization_GetLoad_5M x = (case x of Some m \<Rightarrow> CpuUtilization_Load_5M m | None \<Rightarrow> 0)"

definition CpuUtilization_GetLoad_15M :: "CpuUtilization option \<Rightarrow> float64" where
  "CpuUtilization_GetLoad_15M x = (case x of Some m \<Rightarrow> CpuUtilization_Load_15M m | None \<Rightarrow> 0)"

record MemoryUtilization =
  MemoryUtilization_UsedBytes :: "uint64"
  MemoryUtilization_AvailableBytes :: "uint64"
  MemoryUtilization_Hugepage_2MbUsed :: "uint64"
  MemoryUtilization_Hugepage_1GbUsed :: "uint64"

definition MemoryUtilization_zero :: MemoryUtilization where
  "MemoryUtilization_zero =
    \<lparr>MemoryUtilization_UsedBytes = 0,
     MemoryUtilization_AvailableBytes = 0,
     MemoryUtilization_Hugepage_2MbUsed = 0,
     MemoryUtilization_Hugepage_1GbUsed = 0\<rparr>"

definition MemoryUtilization_Reset :: "MemoryUtilization \<Rightarrow> MemoryUtilization" where
  "MemoryUtilization_Reset x = MemoryUtilization_zero"

definition MemoryUtilization_GetUsedBytes :: "MemoryUtilization option \<Rightarrow> uint64" where
  "MemoryUtilization_GetUsedBytes x = (case x of Some m \<Rightarrow> MemoryUtilization_UsedBytes m | None \<Rightarrow> 0)"

definition MemoryUtilization_GetAvailableBytes :: "MemoryUtilization option \<Rightarrow> uint64" where
  "MemoryUtilization_GetAvailableBytes x = (case x of Some m \<Rightarrow> MemoryUtilization_AvailableBytes m | None \<Rightarrow> 0)"

definition MemoryUtilization_GetHugepage_2MbUsed :: "MemoryUtilization option \<Rightarrow> uint64" where
  "MemoryUtilization_GetHugepage_2MbUsed x = (case x of Some m \<Rightarrow> MemoryUtilization_Hugepage_2MbUsed m | None \<Rightarrow> 0)"

definition MemoryUtilization_GetHugepage_1GbUsed :: "MemoryUtilization option \<Rightarrow> uint64" where
  "MemoryUtilization_GetHugepage_1GbUsed x = (case x of Some m \<Rightarrow> MemoryUtilization_Hugepage_1GbUsed m | None \<Rightarrow> 0)"

record GpuProcess =
  GpuProcess_Pid :: "int32"
  GpuProcess_Name :: "string"
  GpuProcess_VramUsedBytes :: "uint64"

definition GpuProcess_zero :: GpuProcess where
  "GpuProcess_zero =
    \<lparr>GpuProcess_Pid = 0,
     GpuProcess_Name = '''',
     GpuProcess_VramUsedBytes = 0\<rparr>"

definition GpuProcess_Reset :: "GpuProcess \<Rightarrow> GpuProcess" where
  "GpuProcess_Reset x = GpuProcess_zero"

definition GpuProcess_GetPid :: "GpuProcess option \<Rightarrow> int32" where
  "GpuProcess_GetPid x = (case x of Some m \<Rightarrow> GpuProcess_Pid m | None \<Rightarrow> 0)"

definition GpuProcess_GetName :: "GpuProcess option \<Rightarrow> string" where
  "GpuProcess_GetName x = (case x of Some m \<Rightarrow> GpuProcess_Name m | None \<Rightarrow> '''')"

definition GpuProcess_GetVramUsedBytes :: "GpuProcess option \<Rightarrow> uint64" where
  "GpuProcess_GetVramUsedBytes x = (case x of Some m \<Rightarrow> GpuProcess_VramUsedBytes m | None \<Rightarrow> 0)"

record GpuUtilization =
  GpuUtilization_Index :: "int32"
  GpuUtilization_GpuPercent :: "float64"
  GpuUtilization_MemoryPercent :: "float64"
  GpuUtilization_VramUsedBytes :: "uint64"
  GpuUtilization_VramTotalBytes :: "uint64"
  GpuUtilization_TemperatureCelsius :: "int32"
  GpuUtilization_PowerDrawWatts :: "int64"
  GpuUtilization_PowerLimitWatts :: "int64"
  GpuUtilization_ClockMhz :: "int64"
  GpuUtilization_MemoryClockMhz :: "int64"
  GpuUtilization_PcieTxMbps :: "float64"
  GpuUtilization_PcieRxMbps :: "float64"
  GpuUtilization_NvlinkTxMbps :: "float64"
  GpuUtilization_NvlinkRxMbps :: "float64"
  GpuUtilization_Processes :: "GpuProcess option list"

definition GpuUtilization_zero :: GpuUtilization where
  "GpuUtilization_zero =
    \<lparr>GpuUtilization_Index = 0,
     GpuUtilization_GpuPercent = 0,
     GpuUtilization_MemoryPercent = 0,
     GpuUtilization_VramUsedBytes = 0,
     GpuUtilization_VramTotalBytes = 0,
     GpuUtilization_TemperatureCelsius = 0,
     GpuUtilization_PowerDrawWatts = 0,
     GpuUtilization_PowerLimitWatts = 0,
     GpuUtilization_ClockMhz = 0,
     GpuUtilization_MemoryClockMhz = 0,
     GpuUtilization_PcieTxMbps = 0,
     GpuUtilization_PcieRxMbps = 0,
     GpuUtilization_NvlinkTxMbps = 0,
     GpuUtilization_NvlinkRxMbps = 0,
     GpuUtilization_Processes = []\<rparr>"

definition GpuUtilization_Reset :: "GpuUtilization \<Rightarrow> GpuUtilization" where
  "GpuUtilization_Reset x = GpuUtilization_zero"

definition GpuUtilization_GetIndex :: "GpuUtilization option \<Rightarrow> int32" where
  "GpuUtilization_GetIndex x = (case x of Some m \<Rightarrow> GpuUtilization_Index m | None \<Rightarrow> 0)"

definition GpuUtilization_GetGpuPercent :: "GpuUtilization option \<Rightarrow> float64" where
  "GpuUtilization_GetGpuPercent x = (case x of Some m \<Rightarrow> GpuUtilization_GpuPercent m | None \<Rightarrow> 0)"

definition GpuUtilization_GetMemoryPercent :: "GpuUtilization option \<Rightarrow> float64" where
  "GpuUtilization_GetMemoryPercent x = (case x of Some m \<Rightarrow> GpuUtilization_MemoryPercent m | None \<Rightarrow> 0)"

definition GpuUtilization_GetVramUsedBytes :: "GpuUtilization option \<Rightarrow> uint64" where
  "GpuUtilization_GetVramUsedBytes x = (case x of Some m \<Rightarrow> GpuUtilization_VramUsedBytes m | None \<Rightarrow> 0)"

definition GpuUtilization_GetVramTotalBytes :: "GpuUtilization option \<Rightarrow> uint64" where
  "GpuUtilization_GetVramTotalBytes x = (case x of Some m \<Rightarrow> GpuUtilization_VramTotalBytes m | None \<Rightarrow> 0)"

definition GpuUtilization_GetTemperatureCelsius :: "GpuUtilization option \<Rightarrow> int32" where
  "GpuUtilization_GetTemperatureCelsius x = (case x of Some m \<Rightarrow> GpuUtilization_TemperatureCelsius m | None \<Rightarrow> 0)"

definition GpuUtilization_GetPowerDrawWatts :: "GpuUtilization option \<Rightarrow> int64" where
  "GpuUtilization_GetPowerDrawWatts x = (case x of Some m \<Rightarrow> GpuUtilization_PowerDrawWatts m | None \<Rightarrow> 0)"

definition GpuUtilization_GetPowerLimitWatts :: "GpuUtilization option \<Rightarrow> int64" where
  "GpuUtilization_GetPowerLimitWatts x = (case x of Some m \<Rightarrow> GpuUtilization_PowerLimitWatts m | None \<Rightarrow> 0)"

definition GpuUtilization_GetClockMhz :: "GpuUtilization option \<Rightarrow> int64" where
  "GpuUtilization_GetClockMhz x = (case x of Some m \<Rightarrow> GpuUtilization_ClockMhz m | None \<Rightarrow> 0)"

definition GpuUtilization_GetMemoryClockMhz :: "GpuUtilization option \<Rightarrow> int64" where
  "GpuUtilization_GetMemoryClockMhz x = (case x of Some m \<Rightarrow> GpuUtilization_MemoryClockMhz m | None \<Rightarrow> 0)"

definition GpuUtilization_GetPcieTxMbps :: "GpuUtilization option \<Rightarrow> float64" where
  "GpuUtilization_GetPcieTxMbps x = (case x of Some m \<Rightarrow> GpuUtilization_PcieTxMbps m | None \<Rightarrow> 0)"

definition GpuUtilization_GetPcieRxMbps :: "GpuUtilization option \<Rightarrow> float64" where
  "GpuUtilization_GetPcieRxMbps x = (case x of Some m \<Rightarrow> GpuUtilization_PcieRxMbps m | None \<Rightarrow> 0)"

definition GpuUtilization_GetNvlinkTxMbps :: "GpuUtilization option \<Rightarrow> float64" where
  "GpuUtilization_GetNvlinkTxMbps x = (case x of Some m \<Rightarrow> GpuUtilization_NvlinkTxMbps m | None \<Rightarrow> 0)"

definition GpuUtilization_GetNvlinkRxMbps :: "GpuUtilization option \<Rightarrow> float64" where
  "GpuUtilization_GetNvlinkRxMbps x = (case x of Some m \<Rightarrow> GpuUtilization_NvlinkRxMbps m | None \<Rightarrow> 0)"

definition GpuUtilization_GetProcesses :: "GpuUtilization option \<Rightarrow> GpuProcess option list" where
  "GpuUtilization_GetProcesses x = (case x of Some m \<Rightarrow> GpuUtilization_Processes m | None \<Rightarrow> [])"

record StorageDeviceUtilization =
  StorageDeviceUtilization_Path :: "string"
  StorageDeviceUtilization_UsedBytes :: "uint64"
  StorageDeviceUtilization_ReadIopsCurrent :: "int64"
  StorageDeviceUtilization_WriteIopsCurrent :: "int64"
  StorageDeviceUtilization_ReadThroughputMbpsCurrent :: "int64"
  StorageDeviceUtilization_WriteThroughputMbpsCurrent :: "int64"

definition StorageDeviceUtilization_zero :: StorageDeviceUtilization where
  "StorageDeviceUtilization_zero =
    \<lparr>StorageDeviceUtilization_Path = '''',
     StorageDeviceUtilization_UsedBytes = 0,
     StorageDeviceUtilization_ReadIopsCurrent = 0,
     StorageDeviceUtilization_WriteIopsCurrent = 0,
     StorageDeviceUtilization_ReadThroughputMbpsCurrent = 0,
     StorageDeviceUtilization_WriteThroughputMbpsCurrent = 0\<rparr>"

definition StorageDeviceUtilization_Reset :: "StorageDeviceUtilization \<Rightarrow> StorageDeviceUtilization" where
  "StorageDeviceUtilization_Reset x = StorageDeviceUtilization_zero"

definition StorageDeviceUtilization_GetPath :: "StorageDeviceUtilization option \<Rightarrow> string" where
  "StorageDeviceUtilization_GetPath x = (case x of Some m \<Rightarrow> StorageDeviceUtilization_Path m | None \<Rightarrow> '''')"

definition StorageDeviceUtilization_GetUsedBytes :: "StorageDeviceUtilization option \<Rightarrow> uint64" where
  "StorageDeviceUtilization_GetUsedBytes x = (case x of Some m \<Rightarrow> StorageDeviceUtilization_UsedBytes m | None \<Rightarrow> 0)"

definition StorageDeviceUtilization_GetReadIopsCurrent :: "StorageDeviceUtilization option \<Rightarrow> int64" where
  "StorageDeviceUtilization_GetReadIopsCurrent x = (case x of Some m \<Rightarrow> StorageDeviceUtilization_ReadIopsCurrent m | None \<Rightarrow> 0)"

definition StorageDeviceUtilization_GetWriteIopsCurrent :: "StorageDeviceUtilization option \<Rightarrow> int64" where
  "StorageDeviceUtilization_GetWriteIopsCurrent x = (case x of Some m \<Rightarrow> StorageDeviceUtilization_WriteIopsCurrent m | None \<Rightarrow> 0)"

definition StorageDeviceUtilization_GetReadThroughputMbpsCurrent :: "StorageDeviceUtilization option \<Rightarrow> int64" where
  "StorageDeviceUtilization_GetReadThroughputMbpsCurrent x = (case x of Some m \<Rightarrow> StorageDeviceUtilization_ReadThroughputMbpsCurrent m | None \<Rightarrow> 0)"

definition StorageDeviceUtilization_GetWriteThroughputMbpsCurrent :: "StorageDeviceUtilization option \<Rightarrow> int64" where
  "StorageDeviceUtilization_GetWriteThroughputMbpsCurrent x = (case x of Some m \<Rightarrow> StorageDeviceUtilization_WriteThroughputMbpsCurrent m | None \<Rightarrow> 0)"

record StorageUtilization =
  StorageUtilization_Devices :: "StorageDeviceUtilization option list"

definition StorageUtilization_zero :: StorageUtilization where
  "StorageUtilization_zero =
    \<lparr>StorageUtilization_Devices = []\<rparr>"

definition StorageUtilization_Reset :: "StorageUtilization \<Rightarrow> StorageUtilization" where
  "StorageUtilization_Reset x = StorageUtilization_zero"

definition StorageUtilization_GetDevices :: "StorageUtilization option \<Rightarrow> StorageDeviceUtilization option list" where
  "StorageUtilization_GetDevices x = (case x of Some m \<Rightarrow> StorageUtilization_Devices m | None \<Rightarrow> [])"

record NetworkInterfaceUtilization =
  NetworkInterfaceUtilization_Name :: "string"
  NetworkInterfaceUtilization_RxMbps :: "int64"
  NetworkInterfaceUtilization_TxMbps :: "int64"
  NetworkInterfaceUtilization_RxPacketsPerSec :: "int64"
  NetworkInterfaceUtilization_TxPacketsPerSec :: "int64"
  NetworkInterfaceUtilization_RxErrors :: "int64"
  NetworkInterfaceUtilization_TxErrors :: "int64"
  NetworkInterfaceUtilization_RdmaRxMbps :: "int64"
  NetworkInterfaceUtilization_RdmaTxMbps :: "int64"

definition NetworkInterfaceUtilization_zero :: NetworkInterfaceUtilization where
  "NetworkInterfaceUtilization_zero =
    \<lparr>NetworkInterfaceUtilization_Name = '''',
     NetworkInterfaceUtilization_RxMbps = 0,
     NetworkInterfaceUtilization_TxMbps = 0,
     NetworkInterfaceUtilization_RxPacketsPerSec = 0,
     NetworkInterfaceUtilization_TxPacketsPerSec = 0,
     NetworkInterfaceUtilization_RxErrors = 0,
     NetworkInterfaceUtilization_TxErrors = 0,
     NetworkInterfaceUtilization_RdmaRxMbps = 0,
     NetworkInterfaceUtilization_RdmaTxMbps = 0\<rparr>"

definition NetworkInterfaceUtilization_Reset :: "NetworkInterfaceUtilization \<Rightarrow> NetworkInterfaceUtilization" where
  "NetworkInterfaceUtilization_Reset x = NetworkInterfaceUtilization_zero"

definition NetworkInterfaceUtilization_GetName :: "NetworkInterfaceUtilization option \<Rightarrow> string" where
  "NetworkInterfaceUtilization_GetName x = (case x of Some m \<Rightarrow> NetworkInterfaceUtilization_Name m | None \<Rightarrow> '''')"

definition NetworkInterfaceUtilization_GetRxMbps :: "NetworkInterfaceUtilization option \<Rightarrow> int64" where
  "NetworkInterfaceUtilization_GetRxMbps x = (case x of Some m \<Rightarrow> NetworkInterfaceUtilization_RxMbps m | None \<Rightarrow> 0)"

definition NetworkInterfaceUtilization_GetTxMbps :: "NetworkInterfaceUtilization option \<Rightarrow> int64" where
  "NetworkInterfaceUtilization_GetTxMbps x = (case x of Some m \<Rightarrow> NetworkInterfaceUtilization_TxMbps m | None \<Rightarrow> 0)"

definition NetworkInterfaceUtilization_GetRxPacketsPerSec :: "NetworkInterfaceUtilization option \<Rightarrow> int64" where
  "NetworkInterfaceUtilization_GetRxPacketsPerSec x = (case x of Some m \<Rightarrow> NetworkInterfaceUtilization_RxPacketsPerSec m | None \<Rightarrow> 0)"

definition NetworkInterfaceUtilization_GetTxPacketsPerSec :: "NetworkInterfaceUtilization option \<Rightarrow> int64" where
  "NetworkInterfaceUtilization_GetTxPacketsPerSec x = (case x of Some m \<Rightarrow> NetworkInterfaceUtilization_TxPacketsPerSec m | None \<Rightarrow> 0)"

definition NetworkInterfaceUtilization_GetRxErrors :: "NetworkInterfaceUtilization option \<Rightarrow> int64" where
  "NetworkInterfaceUtilization_GetRxErrors x = (case x of Some m \<Rightarrow> NetworkInterfaceUtilization_RxErrors m | None \<Rightarrow> 0)"

definition NetworkInterfaceUtilization_GetTxErrors :: "NetworkInterfaceUtilization option \<Rightarrow> int64" where
  "NetworkInterfaceUtilization_GetTxErrors x = (case x of Some m \<Rightarrow> NetworkInterfaceUtilization_TxErrors m | None \<Rightarrow> 0)"

definition NetworkInterfaceUtilization_GetRdmaRxMbps :: "NetworkInterfaceUtilization option \<Rightarrow> int64" where
  "NetworkInterfaceUtilization_GetRdmaRxMbps x = (case x of Some m \<Rightarrow> NetworkInterfaceUtilization_RdmaRxMbps m | None \<Rightarrow> 0)"

definition NetworkInterfaceUtilization_GetRdmaTxMbps :: "NetworkInterfaceUtilization option \<Rightarrow> int64" where
  "NetworkInterfaceUtilization_GetRdmaTxMbps x = (case x of Some m \<Rightarrow> NetworkInterfaceUtilization_RdmaTxMbps m | None \<Rightarrow> 0)"

record NetworkUtilization =
  NetworkUtilization_Interfaces :: "NetworkInterfaceUtilization option list"

definition NetworkUtilization_zero :: NetworkUtilization where
  "NetworkUtilization_zero =
    \<lparr>NetworkUtilization_Interfaces = []\<rparr>"

definition NetworkUtilization_Reset :: "NetworkUtilization \<Rightarrow> NetworkUtilization" where
  "NetworkUtilization_Reset x = NetworkUtilization_zero"

definition NetworkUtilization_GetInterfaces :: "NetworkUtilization option \<Rightarrow> NetworkInterfaceUtilization option list" where
  "NetworkUtilization_GetInterfaces x = (case x of Some m \<Rightarrow> NetworkUtilization_Interfaces m | None \<Rightarrow> [])"

record NodeUtilization =
  NodeUtilization_NodeId :: "string"
  NodeUtilization_TimestampNs :: "uint64"
  NodeUtilization_Cpu :: "CpuUtilization option"
  NodeUtilization_Memory :: "MemoryUtilization option"
  NodeUtilization_Gpus :: "GpuUtilization option list"
  NodeUtilization_Storage :: "StorageUtilization option"
  NodeUtilization_Network :: "NetworkUtilization option"

definition NodeUtilization_zero :: NodeUtilization where
  "NodeUtilization_zero =
    \<lparr>NodeUtilization_NodeId = '''',
     NodeUtilization_TimestampNs = 0,
     NodeUtilization_Cpu = None,
     NodeUtilization_Memory = None,
     NodeUtilization_Gpus = [],
     NodeUtilization_Storage = None,
     NodeUtilization_Network = None\<rparr>"

definition NodeUtilization_Reset :: "NodeUtilization \<Rightarrow> NodeUtilization" where
  "NodeUtilization_Reset x = NodeUtilization_zero"

definition NodeUtilization_GetNodeId :: "NodeUtilization option \<Rightarrow> string" where
  "NodeUtilization_GetNodeId x = (case x of Some m \<Rightarrow> NodeUtilization_NodeId m | None \<Rightarrow> '''')"

definition NodeUtilization_GetTimestampNs :: "NodeUtilization option \<Rightarrow> uint64" where
  "NodeUtilization_GetTimestampNs x = (case x of Some m \<Rightarrow> NodeUtilization_TimestampNs m | None \<Rightarrow> 0)"

definition NodeUtilization_GetCpu :: "NodeUtilization option \<Rightarrow> CpuUtilization option" where
  "NodeUtilization_GetCpu x = (case x of Some m \<Rightarrow> NodeUtilization_Cpu m | None \<Rightarrow> None)"

definition NodeUtilization_GetMemory :: "NodeUtilization option \<Rightarrow> MemoryUtilization option" where
  "NodeUtilization_GetMemory x = (case x of Some m \<Rightarrow> NodeUtilization_Memory m | None \<Rightarrow> None)"

definition NodeUtilization_GetGpus :: "NodeUtilization option \<Rightarrow> GpuUtilization option list" where
  "NodeUtilization_GetGpus x = (case x of Some m \<Rightarrow> NodeUtilization_Gpus m | None \<Rightarrow> [])"

definition NodeUtilization_GetStorage :: "NodeUtilization option \<Rightarrow> StorageUtilization option" where
  "NodeUtilization_GetStorage x = (case x of Some m \<Rightarrow> NodeUtilization_Storage m | None \<Rightarrow> None)"

definition NodeUtilization_GetNetwork :: "NodeUtilization option \<Rightarrow> NetworkUtilization option" where
  "NodeUtilization_GetNetwork x = (case x of Some m \<Rightarrow> NodeUtilization_Network m | None \<Rightarrow> None)"

record GpuRequirement =
  GpuRequirement_Count :: "int32"
  GpuRequirement_VramBytes :: "uint64"
  GpuRequirement_RequiredCapabilities :: "GpuCapability_Cap list"
  GpuRequirement_MinArchitectureGeneration :: "int32"
  GpuRequirement_Vendor :: "string"
  GpuRequirement_AllowSpilling :: "bool"

definition GpuRequirement_zero :: GpuRequirement where
  "GpuRequirement_zero =
    \<lparr>GpuRequirement_Count = 0,
     GpuRequirement_VramBytes = 0,
     GpuRequirement_RequiredCapabilities = [],
     GpuRequirement_MinArchitectureGeneration = 0,
     GpuRequirement_Vendor = '''',
     GpuRequirement_AllowSpilling = False\<rparr>"

definition GpuRequirement_Reset :: "GpuRequirement \<Rightarrow> GpuRequirement" where
  "GpuRequirement_Reset x = GpuRequirement_zero"

definition GpuRequirement_GetCount :: "GpuRequirement option \<Rightarrow> int32" where
  "GpuRequirement_GetCount x = (case x of Some m \<Rightarrow> GpuRequirement_Count m | None \<Rightarrow> 0)"

definition GpuRequirement_GetVramBytes :: "GpuRequirement option \<Rightarrow> uint64" where
  "GpuRequirement_GetVramBytes x = (case x of Some m \<Rightarrow> GpuRequirement_VramBytes m | None \<Rightarrow> 0)"

definition GpuRequirement_GetRequiredCapabilities :: "GpuRequirement option \<Rightarrow> GpuCapability_Cap list" where
  "GpuRequirement_GetRequiredCapabilities x = (case x of Some m \<Rightarrow> GpuRequirement_RequiredCapabilities m | None \<Rightarrow> [])"

definition GpuRequirement_GetMinArchitectureGeneration :: "GpuRequirement option \<Rightarrow> int32" where
  "GpuRequirement_GetMinArchitectureGeneration x = (case x of Some m \<Rightarrow> GpuRequirement_MinArchitectureGeneration m | None \<Rightarrow> 0)"

definition GpuRequirement_GetVendor :: "GpuRequirement option \<Rightarrow> string" where
  "GpuRequirement_GetVendor x = (case x of Some m \<Rightarrow> GpuRequirement_Vendor m | None \<Rightarrow> '''')"

definition GpuRequirement_GetAllowSpilling :: "GpuRequirement option \<Rightarrow> bool" where
  "GpuRequirement_GetAllowSpilling x = (case x of Some m \<Rightarrow> GpuRequirement_AllowSpilling m | None \<Rightarrow> False)"

record AffinityRule =
  AffinityRule_Type :: "AffinityRule_Type"
  AffinityRule_Target :: "string"
  AffinityRule_Required :: "bool"

definition AffinityRule_zero :: AffinityRule where
  "AffinityRule_zero =
    \<lparr>AffinityRule_Type = 0,
     AffinityRule_Target = '''',
     AffinityRule_Required = False\<rparr>"

definition AffinityRule_Reset :: "AffinityRule \<Rightarrow> AffinityRule" where
  "AffinityRule_Reset x = AffinityRule_zero"

definition AffinityRule_GetType :: "AffinityRule option \<Rightarrow> AffinityRule_Type" where
  "AffinityRule_GetType x = (case x of Some m \<Rightarrow> AffinityRule_Type m | None \<Rightarrow> AffinityRule_SAME_NODE_AS_DATA)"

definition AffinityRule_GetTarget :: "AffinityRule option \<Rightarrow> string" where
  "AffinityRule_GetTarget x = (case x of Some m \<Rightarrow> AffinityRule_Target m | None \<Rightarrow> '''')"

definition AffinityRule_GetRequired :: "AffinityRule option \<Rightarrow> bool" where
  "AffinityRule_GetRequired x = (case x of Some m \<Rightarrow> AffinityRule_Required m | None \<Rightarrow> False)"

record ResourceRequirements =
  ResourceRequirements_CpuCores :: "float32"
  ResourceRequirements_MemoryBytes :: "uint64"
  ResourceRequirements_Gpus :: "GpuRequirement option list"
  ResourceRequirements_StorageBytes :: "uint64"
  ResourceRequirements_Replicas :: "int32"
  ResourceRequirements_Priority :: "int32"
  ResourceRequirements_Affinity :: "AffinityRule option list"
  ResourceRequirements_Preemptible :: "bool"

definition ResourceRequirements_zero :: ResourceRequirements where
  "ResourceRequirements_zero =
    \<lparr>ResourceRequirements_CpuCores = 0,
     ResourceRequirements_MemoryBytes = 0,
     ResourceRequirements_Gpus = [],
     ResourceRequirements_StorageBytes = 0,
     ResourceRequirements_Replicas = 0,
     ResourceRequirements_Priority = 0,
     ResourceRequirements_Affinity = [],
     ResourceRequirements_Preemptible = False\<rparr>"

definition ResourceRequirements_Reset :: "ResourceRequirements \<Rightarrow> ResourceRequirements" where
  "ResourceRequirements_Reset x = ResourceRequirements_zero"

definition ResourceRequirements_GetCpuCores :: "ResourceRequirements option \<Rightarrow> float32" where
  "ResourceRequirements_GetCpuCores x = (case x of Some m \<Rightarrow> ResourceRequirements_CpuCores m | None \<Rightarrow> 0)"

definition ResourceRequirements_GetMemoryBytes :: "ResourceRequirements option \<Rightarrow> uint64" where
  "ResourceRequirements_GetMemoryBytes x = (case x of Some m \<Rightarrow> ResourceRequirements_MemoryBytes m | None \<Rightarrow> 0)"

definition ResourceRequirements_GetGpus :: "ResourceRequirements option \<Rightarrow> GpuRequirement option list" where
  "ResourceRequirements_GetGpus x = (case x of Some m \<Rightarrow> ResourceRequirements_Gpus m | None \<Rightarrow> [])"

definition ResourceRequirements_GetStorageBytes :: "ResourceRequirements option \<Rightarrow> uint64" where
  "ResourceRequirements_GetStorageBytes x = (case x of Some m \<Rightarrow> ResourceRequirements_StorageBytes m | None \<Rightarrow> 0)"

definition ResourceRequirements_GetReplicas :: "ResourceRequirements option \<Rightarrow> int32" where
  "ResourceRequirements_GetReplicas x = (case x of Some m \<Rightarrow> ResourceRequirements_Replicas m | None \<Rightarrow> 0)"

definition ResourceRequirements_GetPriority :: "ResourceRequirements option \<Rightarrow> int32" where
  "ResourceRequirements_GetPriority x = (case x of Some m \<Rightarrow> ResourceRequirements_Priority m | None \<Rightarrow> 0)"

definition ResourceRequirements_GetAffinity :: "ResourceRequirements option \<Rightarrow> AffinityRule option list" where
  "ResourceRequirements_GetAffinity x = (case x of Some m \<Rightarrow> ResourceRequirements_Affinity m | None \<Rightarrow> [])"

definition ResourceRequirements_GetPreemptible :: "ResourceRequirements option \<Rightarrow> bool" where
  "ResourceRequirements_GetPreemptible x = (case x of Some m \<Rightarrow> ResourceRequirements_Preemptible m | None \<Rightarrow> False)"

record ResourceUtilization =
  ResourceUtilization_CpuPercent :: "float64"
  ResourceUtilization_MemoryBytes :: "uint64"
  ResourceUtilization_GpuVramBytes :: "uint64"
  ResourceUtilization_GpuPercent :: "float64"
  ResourceUtilization_DiskBytes :: "uint64"
  ResourceUtilization_NetworkRxMbps :: "int64"
  ResourceUtilization_NetworkTxMbps :: "int64"

definition ResourceUtilization_zero :: ResourceUtilization where
  "ResourceUtilization_zero =
    \<lparr>ResourceUtilization_CpuPercent = 0,
     ResourceUtilization_MemoryBytes = 0,
     ResourceUtilization_GpuVramBytes = 0,
     ResourceUtilization_GpuPercent = 0,
     ResourceUtilization_DiskBytes = 0,
     ResourceUtilization_NetworkRxMbps = 0,
     ResourceUtilization_NetworkTxMbps = 0\<rparr>"

definition ResourceUtilization_Reset :: "ResourceUtilization \<Rightarrow> ResourceUtilization" where
  "ResourceUtilization_Reset x = ResourceUtilization_zero"

definition ResourceUtilization_GetCpuPercent :: "ResourceUtilization option \<Rightarrow> float64" where
  "ResourceUtilization_GetCpuPercent x = (case x of Some m \<Rightarrow> ResourceUtilization_CpuPercent m | None \<Rightarrow> 0)"

definition ResourceUtilization_GetMemoryBytes :: "ResourceUtilization option \<Rightarrow> uint64" where
  "ResourceUtilization_GetMemoryBytes x = (case x of Some m \<Rightarrow> ResourceUtilization_MemoryBytes m | None \<Rightarrow> 0)"

definition ResourceUtilization_GetGpuVramBytes :: "ResourceUtilization option \<Rightarrow> uint64" where
  "ResourceUtilization_GetGpuVramBytes x = (case x of Some m \<Rightarrow> ResourceUtilization_GpuVramBytes m | None \<Rightarrow> 0)"

definition ResourceUtilization_GetGpuPercent :: "ResourceUtilization option \<Rightarrow> float64" where
  "ResourceUtilization_GetGpuPercent x = (case x of Some m \<Rightarrow> ResourceUtilization_GpuPercent m | None \<Rightarrow> 0)"

definition ResourceUtilization_GetDiskBytes :: "ResourceUtilization option \<Rightarrow> uint64" where
  "ResourceUtilization_GetDiskBytes x = (case x of Some m \<Rightarrow> ResourceUtilization_DiskBytes m | None \<Rightarrow> 0)"

definition ResourceUtilization_GetNetworkRxMbps :: "ResourceUtilization option \<Rightarrow> int64" where
  "ResourceUtilization_GetNetworkRxMbps x = (case x of Some m \<Rightarrow> ResourceUtilization_NetworkRxMbps m | None \<Rightarrow> 0)"

definition ResourceUtilization_GetNetworkTxMbps :: "ResourceUtilization option \<Rightarrow> int64" where
  "ResourceUtilization_GetNetworkTxMbps x = (case x of Some m \<Rightarrow> ResourceUtilization_NetworkTxMbps m | None \<Rightarrow> 0)"

subsection \<open>Enum tables and nil-safe getters\<close>

interpretation GpuCapability_Cap: enum_tables GpuCapability_Cap_name GpuCapability_Cap_value
  by unfold_locales (simp_all add: GpuCapability_Cap_name_def GpuCapability_Cap_value_def)

interpretation AffinityRule_Type: enum_tables AffinityRule_Type_name AffinityRule_Type_value
  by unfold_locales (simp_all add: AffinityRule_Type_name_def AffinityRule_Type_value_def)

text \<open>Every getter answers on a nil message what it answers on a reset one.\<close>

lemma NumaNode_nil_safe [proto_getter]:
  "NumaNode_GetId None = NumaNode_GetId (Some (NumaNode_Reset m))"
  "NumaNode_GetCoreIds None = NumaNode_GetCoreIds (Some (NumaNode_Reset m))"
  "NumaNode_GetMemoryBytes None = NumaNode_GetMemoryBytes (Some (NumaNode_Reset m))"
  by (simp_all add: NumaNode_Reset_def NumaNode_zero_def
      NumaNode_GetId_def
      NumaNode_GetCoreIds_def
      NumaNode_GetMemoryBytes_def)

lemma CpuResources_nil_safe [proto_getter]:
  "CpuResources_GetPhysicalCores None = CpuResources_GetPhysicalCores (Some (CpuResources_Reset m))"
  "CpuResources_GetLogicalCores None = CpuResources_GetLogicalCores (Some (CpuResources_Reset m))"
  "CpuResources_GetArchitecture None = CpuResources_GetArchitecture (Some (CpuResources_Reset m))"
  "CpuResources_GetModelName None = CpuResources_GetModelName (Some (CpuResources_Reset m))"
  "CpuResources_GetFrequencyMhz None = CpuResources_GetFrequencyMhz (Some (CpuResources_Reset m))"
  "CpuResources_GetMaxFrequencyMhz None = CpuResources_GetMaxFrequencyMhz (Some (CpuResources_Reset m))"
  "CpuResources_GetNumaNodes None = CpuResources_GetNumaNodes (Some (CpuResources_Reset m))"
  by (simp_all add: CpuResources_Reset_def CpuResources_zero_def
      CpuResources_GetPhysicalCores_def
      CpuResources_GetLogicalCores_def
      CpuResources_GetArchitecture_def
      CpuResources_GetModelName_def
      CpuResources_GetFrequencyMhz_def
      CpuResources_GetMaxFrequencyMhz_def
      CpuResources_GetNumaNodes_def)

lemma MemoryTier_nil_safe [proto_getter]:
  "MemoryTier_GetName None = MemoryTier_GetName (Some (MemoryTier_Reset m))"
  "MemoryTier_GetTotalBytes None = MemoryTier_GetTotalBytes (Some (MemoryTier_Reset m))"
  "MemoryTier_GetAvailableBytes None = MemoryTier_GetAvailableBytes (Some (MemoryTier_Reset m))"
  "MemoryTier_GetLatencyNs None = MemoryTier_GetLatencyNs (Some (MemoryTier_Reset m))"
  "MemoryTier_GetBandwidthMbps None = MemoryTier_GetBandwidthMbps (Some (MemoryTier_Reset m))"
  by (simp_all add: MemoryTier_Reset_def MemoryTier_zero_def
      MemoryTier_GetName_def
      MemoryTier_GetTotalBytes_def
      MemoryTier_GetAvailableBytes_def
      MemoryTier_GetLatencyNs_def
      MemoryTier_GetBandwidthMbps_def)

lemma MemoryResources_nil_safe [proto_getter]:
  "MemoryResources_GetTotalBytes None = MemoryResources_GetTotalBytes (Some (MemoryResources_Reset m))"
  "MemoryResources_GetHugepage_2MbCount None = MemoryResources_GetHugepage_2MbCount (Some (MemoryResources_Reset m))"
  "MemoryResources_GetHugepage_1GbCount None = MemoryResources_GetHugepage_1GbCount (Some (MemoryResources_Reset m))"
  "MemoryResources_GetSpeedMhz None = MemoryResources_GetSpeedMhz (Some (MemoryResources_Reset m))"
  "MemoryResources_GetType None = MemoryResources_GetType (Some (MemoryResources_Reset m))"
  "MemoryResources_GetTiers None = MemoryResources_GetTiers (Some (MemoryResources_Reset m))"
  by (simp_all add: MemoryResources_Reset_def MemoryResources_zero_def
      MemoryResources_GetTotalBytes_def
      MemoryResources_GetHugepage_2MbCount_def
      MemoryResources_GetHugepage_1GbCount_def
      MemoryResources_GetSpeedMhz_def
      MemoryResources_GetType_def
      MemoryResources_GetTiers_def)

lemma GpuCapability_nil_safe [proto_getter]:
  "GpuCapability_GetCap None = GpuCapability_GetCap (Some (GpuCapability_Reset m))"
  "GpuCapability_GetSupported None = GpuCapability_GetSupported (Some (GpuCapability_Reset m))"
  "GpuCapability_GetTflops None = GpuCapability_GetTflops (Some (GpuCapability_Reset m))"
  by (simp_all add: GpuCapability_Reset_def GpuCapability_zero_def
      GpuCapability_GetCap_def
      GpuCapability_GetSupported_def
      GpuCapability_GetTflops_def
      GpuCapability_FP64_def)

lemma GpuResources_nil_safe [proto_getter]:
  "GpuResources_GetIndex None = GpuResources_GetIndex (Some (GpuResources_Reset m))"
  "GpuResources_GetVendor None = GpuResources_GetVendor (Some (GpuResources_Reset m))"
  "GpuResources_GetModel None = GpuResources_GetModel (Some (GpuResources_Reset m))"
  "GpuResources_GetArchitecture None = GpuResources_GetArchitecture (Some (GpuResources_Reset m))"
  "GpuResources_GetArchitectureGeneration None = GpuResources_GetArchitectureGeneration (Some (GpuResources_Reset m))"
  "GpuResources_GetVramBytes None = GpuResources_GetVramBytes (Some (GpuResources_Reset m))"
  "GpuResources_GetComputeCapability None = GpuResources_GetComputeCapability (Some (GpuResources_Reset m))"
  "GpuResources_GetCapabilities None = GpuResources_GetCapabilities (Some (GpuResources_Reset m))"
  "GpuResources_GetMultiprocessorCount None = GpuResources_GetMultiprocessorCount (Some (GpuResources_Reset m))"
  "GpuResources_GetMaxClockMhz None = GpuResources_GetMaxClockMhz (Some (GpuResources_Reset m))"
  "GpuResources_GetMemoryClockMhz None = GpuResources_GetMemoryClockMhz (Some (GpuResources_Reset m))"
  "GpuResources_GetMemoryBusWidthBits None = GpuResources_GetMemoryBusWidthBits (Some (GpuResources_Reset m))"
  "GpuResources_GetMemoryBandwidthMbps None = GpuResources_GetMemoryBandwidthMbps (Some (GpuResources_Reset m))"
  "GpuResources_GetPcieGeneration None = GpuResources_GetPcieGeneration (Some (GpuResources_Reset m))"
  "GpuResources_GetPcieWidth None = GpuResources_GetPcieWidth (Some (GpuResources_Reset m))"
  "GpuResources_GetNvlinkCount None = GpuResources_GetNvlinkCount (Some (GpuResources_Reset m))"
  "GpuResources_GetNvlinkBandwidthMbps None = GpuResources_GetNvlinkBandwidthMbps (Some (GpuResources_Reset m))"
  "GpuResources_GetSupportsGpudirectRdma None = GpuResources_GetSupportsGpudirectRdma (Some (GpuResources_Reset m))"
  "GpuResources_GetSupportsMig None = GpuResources_GetSupportsMig (Some (GpuResources_Reset m))"
  "GpuResources_GetSupportsSriov None = GpuResources_GetSupportsSriov (Some (GpuResources_Reset m))"
  by (simp_all add: GpuResources_Reset_def GpuResources_zero_def
      GpuResources_GetIndex_def
      GpuResources_GetVendor_def
      GpuResources_GetModel_def
      GpuResources_GetArchitecture_def
      GpuResources_GetArchitectureGeneration_def
      GpuResources_GetVramBytes_def
      GpuResources_GetComputeCapability_def
      GpuResources_GetCapabilities_def
      GpuResources_GetMultiprocessorCount_def
      GpuResources_GetMaxClockMhz_def
      GpuResources_GetMemoryClockMhz_def
      GpuResources_GetMemoryBusWidthBits_def
      GpuResources_GetMemoryBandwidthMbps_def
      GpuResources_GetPcieGeneration_def
      GpuResources_GetPcieWidth_def
      GpuResources_GetNvlinkCount_def
      GpuResources_GetNvlinkBandwidthMbps_def
      GpuResources_GetSupportsGpudirectRdma_def
      GpuResources_GetSupportsMig_def
      GpuResources_GetSupportsSriov_def)

lemma StorageDevice_nil_safe [proto_getter]:
  "StorageDevice_GetPath None = StorageDevice_GetPath (Some (StorageDevice_Reset m))"
  "StorageDevice_GetType None = StorageDevice_GetType (Some (StorageDevice_Reset m))"
  "StorageDevice_GetFilesystem None = StorageDevice_GetFilesystem (Some (StorageDevice_Reset m))"
  "StorageDevice_GetTotalBytes None = StorageDevice_GetTotalBytes (Some (StorageDevice_Reset m))"
  "StorageDevice_GetAvailableBytes None = StorageDevice_GetAvailableBytes (Some (StorageDevice_Reset m))"
  "StorageDevice_GetReadIops None = StorageDevice_GetReadIops (Some (StorageDevice_Reset m))"
  "StorageDevice_GetWriteIops None = StorageDevice_GetWriteIops (Some (StorageDevice_Reset m))"
  "StorageDevice_GetReadThroughputMbps None = StorageDevice_GetReadThroughputMbps (Some (StorageDevice_Reset m))"
  "StorageDevice_GetWriteThroughputMbps None = StorageDevice_GetWriteThroughputMbps (Some (StorageDevice_Reset m))"
  by (simp_all add: StorageDevice_Reset_def StorageDevice_zero_def
      StorageDevice_GetPath_def
      StorageDevice_GetType_def
      StorageDevice_GetFilesystem_def
      StorageDevice_GetTotalBytes_def
      StorageDevice_GetAvailableBytes_def
      StorageDevice_GetReadIops_def
      StorageDevice_GetWriteIops_def
      StorageDevice_GetReadThroughputMbps_def
      StorageDevice_GetWriteThroughputMbps_def)

lemma StorageResources_nil_safe [proto_getter]:
  "StorageResources_GetDevices None = StorageResources_GetDevices (Some (StorageResources_Reset m))"
  by (simp_all add: StorageResources_Reset_def StorageResources_zero_def
      StorageResources_GetDevices_def)

lemma NetworkInterface_nil_safe [proto_getter]:
  "NetworkInterface_GetName None = NetworkInterface_GetName (Some (NetworkInterface_Reset m))"
  "NetworkInterface_GetDriver None = NetworkInterface_GetDriver (Some (NetworkInterface_Reset m))"
  "NetworkInterface_GetMacAddress None = NetworkInterface_GetMacAddress (Some (NetworkInterface_Reset m))"
  "NetworkInterface_GetIpAddresses None = NetworkInterface_GetIpAddresses (Some (NetworkInterface_Reset m))"
  "NetworkInterface_GetSpeedMbps None = NetworkInterface_GetSpeedMbps (Some (NetworkInterface_Reset m))"
  "NetworkInterface_GetSupportsRdma None = NetworkInterface_GetSupportsRdma (Some (NetworkInterface_Reset m))"
  "NetworkInterface_GetSupportsRoce None = NetworkInterface_GetSupportsRoce (Some (NetworkInterface_Reset m))"
  "NetworkInterface_GetSupportsInfiniband None = NetworkInterface_GetSupportsInfiniband (Some (NetworkInterface_Reset m))"
  "NetworkInterface_GetPciAddress None = NetworkInterface_GetPciAddress (Some (NetworkInterface_Reset m))"
  "NetworkInterface_GetNumaNode None = NetworkInterface_GetNumaNode (Some (NetworkInterface_Reset m))"
  by (simp_all add: NetworkInterface_Reset_def NetworkInterface_zero_def
      NetworkInterface_GetName_def
      NetworkInterface_GetDriver_def
      NetworkInterface_GetMacAddress_def
      NetworkInterface_GetIpAddresses_def
      NetworkInterface_GetSpeedMbps_def
      NetworkInterface_GetSupportsRdma_def
      NetworkInterface_GetSupportsRoce_def
      NetworkInterface_GetSupportsInfiniband_def
      NetworkInterface_GetPciAddress_def
      NetworkInterface_GetNumaNode_def)

lemma NetworkResources_nil_safe [proto_getter]:
  "NetworkResources_GetInterfaces None = NetworkResources_GetInterfaces (Some (NetworkResources_Reset m))"
  "NetworkResources_GetTotalBandwidthMbps None = NetworkResources_GetTotalBandwidthMbps (Some (NetworkResources_Reset m))"
  by (simp_all add: NetworkResources_Reset_def NetworkResources_zero_def
      NetworkResources_GetInterfaces_def
      NetworkResources_GetTotalBandwidthMbps_def)

lemma Capability_nil_safe [proto_getter]:
  "Capability_GetKey None = Capability_GetKey (Some (Capability_Reset m))"
  "Capability_GetValue None = Capability_GetValue (Some (Capability_Reset m))"
  by (simp_all add: Capability_Reset_def Capability_zero_def
      Capability_GetKey_def
      Capability_GetValue_def)

lemma NodeResources_nil_safe [proto_getter]:
  "NodeResources_GetNodeId None = NodeResources_GetNodeId (Some (NodeResources_Reset m))"
  "NodeResources_GetHostname None = NodeResources_GetHostname (Some (NodeResources_Reset m))"
  "NodeResources_GetCpu None = NodeResources_GetCpu (Some (NodeResources_Reset m))"
  "NodeResources_GetMemory None = NodeResources_GetMemory (Some (NodeResources_Reset m))"
  "NodeResources_GetGpus None = NodeResources_GetGpus (Some (NodeResources_Reset m))"
  "NodeResources_GetStorage None = NodeResources_GetStorage (Some (NodeResources_Reset m))"
  "NodeResources_GetNetwork None = NodeResources_GetNetwork (Some (NodeResources_Reset m))"
  "NodeResources_GetCapabilities None = NodeResources_GetCapabilities (Some (NodeResources_Reset m))"
  "NodeResources_GetKernelVersion None = NodeResources_GetKernelVersion (Some (NodeResources_Reset m))"
  "NodeResources_GetOsRelease None = NodeResources_GetOsRelease (Some (NodeResources_Reset m))"
  by (simp_all add: NodeResources_Reset_def NodeResources_zero_def
      NodeResources_GetNodeId_def
      NodeResources_GetHostname_def
      NodeResources_GetCpu_def
      NodeResources_GetMemory_def
      NodeResources_GetGpus_def
      NodeResources_GetStorage_def
      NodeResources_GetNetwork_def
      NodeResources_GetCapabilities_def
      NodeResources_GetKernelVersion_def
      NodeResources_GetOsRelease_def)

lemma CpuUtilization_nil_safe [proto_getter]:
  "CpuUtilization_GetOverallPercent None = CpuUtilization_GetOverallPercent (Some (CpuUtilization_Reset m))"
  "CpuUtilization_GetPerCorePercent None = CpuUtilization_GetPerCorePercent (Some (CpuUtilization_Reset m))"
  "CpuUtilization_GetLoad_1M None = CpuUtilization_GetLoad_1M (Some (CpuUtilization_Reset m))"
  "CpuUtilization_GetLoad_5M None = CpuUtilization_GetLoad_5M (Some (CpuUtilization_Reset m))"
  "CpuUtilization_GetLoad_15M None = CpuUtilization_GetLoad_15M (Some (CpuUtilization_Reset m))"
  by (simp_all add: CpuUtilization_Reset_def CpuUtilization_zero_def
      CpuUtilization_GetOverallPercent_def
      CpuUtilization_GetPerCorePercent_def
      CpuUtilization_GetLoad_1M_def
      CpuUtilization_GetLoad_5M_def
      CpuUtilization_GetLoad_15M_def)

lemma MemoryUtilization_nil_safe [proto_getter]:
  "MemoryUtilization_GetUsedBytes None = MemoryUtilization_GetUsedBytes (Some (MemoryUtilization_Reset m))"
  "MemoryUtilization_GetAvailableBytes None = MemoryUtilization_GetAvailableBytes (Some (MemoryUtilization_Reset m))"
  "MemoryUtilization_GetHugepage_2MbUsed None = MemoryUtilization_GetHugepage_2MbUsed (Some (MemoryUtilization_Reset m))"
  "MemoryUtilization_GetHugepage_1GbUsed None = MemoryUtilization_GetHugepage_1GbUsed (Some (MemoryUtilization_Reset m))"
  by (simp_all add: MemoryUtilization_Reset_def MemoryUtilization_zero_def
      MemoryUtilization_GetUsedBytes_def
      MemoryUtilization_GetAvailableBytes_def
      MemoryUtilization_GetHugepage_2MbUsed_def
      MemoryUtilization_GetHugepage_1GbUsed_def)

lemma GpuProcess_nil_safe [proto_getter]:
  "GpuProcess_GetPid None = GpuProcess_GetPid (Some (GpuProcess_Reset m))"
  "GpuProcess_GetName None = GpuProcess_GetName (Some (GpuProcess_Reset m))"
  "GpuProcess_GetVramUsedBytes None = GpuProcess_GetVramUsedBytes (Some (GpuProcess_Reset m))"
  by (simp_all add: GpuProcess_Reset_def GpuProcess_zero_def
      GpuProcess_GetPid_def
      GpuProcess_GetName_def
      GpuProcess_GetVramUsedBytes_def)

lemma GpuUtilization_nil_safe [proto_getter]:
  "GpuUtilization_GetIndex None = GpuUtilization_GetIndex (Some (GpuUtilization_Reset m))"
  "GpuUtilization_GetGpuPercent None = GpuUtilization_GetGpuPercent (Some (GpuUtilization_Reset m))"
  "GpuUtilization_GetMemoryPercent None = GpuUtilization_GetMemoryPercent (Some (GpuUtilization_Reset m))"
  "GpuUtilization_GetVramUsedBytes None = GpuUtilization_GetVramUsedBytes (Some (GpuUtilization_Reset m))"
  "GpuUtilization_GetVramTotalBytes None = GpuUtilization_GetVramTotalBytes (Some (GpuUtilization_Reset m))"
  "GpuUtilization_GetTemperatureCelsius None = GpuUtilization_GetTemperatureCelsius (Some (GpuUtilization_Reset m))"
  "GpuUtilization_GetPowerDrawWatts None = GpuUtilization_GetPowerDrawWatts (Some (GpuUtilization_Reset m))"
  "GpuUtilization_GetPowerLimitWatts None = GpuUtilization_GetPowerLimitWatts (Some (GpuUtilization_Reset m))"
  "GpuUtilization_GetClockMhz None = GpuUtilization_GetClockMhz (Some (GpuUtilization_Reset m))"
  "GpuUtilization_GetMemoryClockMhz None = GpuUtilization_GetMemoryClockMhz (Some (GpuUtilization_Reset m))"
  "GpuUtilization_GetPcieTxMbps None = GpuUtilization_GetPcieTxMbps (Some (GpuUtilization_Reset m))"
  "GpuUtilization_GetPcieRxMbps None = GpuUtilization_GetPcieRxMbps (Some (GpuUtilization_Reset m))"
  "GpuUtilization_GetNvlinkTxMbps None = GpuUtilization_GetNvlinkTxMbps (Some (GpuUtilization_Reset m))"
  "GpuUtilization_GetNvlinkRxMbps None = GpuUtilization_GetNvlinkRxMbps (Some (GpuUtilization_Reset m))"
  "GpuUtilization_GetProcesses None = GpuUtilization_GetProcesses (Some (GpuUtilization_Reset m))"
  by (simp_all add: GpuUtilization_Reset_def GpuUtilization_zero_def
      GpuUtilization_GetIndex_def
      GpuUtilization_GetGpuPercent_def
      GpuUtilization_GetMemoryPercent_def
      GpuUtilization_GetVramUsedBytes_def
      GpuUtilization_GetVramTotalBytes_def
      GpuUtilization_GetTemperatureCelsius_def
      GpuUtilization_GetPowerDrawWatts_def
      GpuUtilization_GetPowerLimitWatts_def
      GpuUtilization_GetClockMhz_def
      GpuUtilization_GetMemoryClockMhz_def
      GpuUtilization_GetPcieTxMbps_def
      GpuUtilization_GetPcieRxMbps_def
      GpuUtilization_GetNvlinkTxMbps_def
      GpuUtilization_GetNvlinkRxMbps_def
      GpuUtilization_GetProcesses_def)

lemma StorageDeviceUtilization_nil_safe [proto_getter]:
  "StorageDeviceUtilization_GetPath None = StorageDeviceUtilization_GetPath (Some (StorageDeviceUtilization_Reset m))"
  "StorageDeviceUtilization_GetUsedBytes None = StorageDeviceUtilization_GetUsedBytes (Some (StorageDeviceUtilization_Reset m))"
  "StorageDeviceUtilization_GetReadIopsCurrent None = StorageDeviceUtilization_GetReadIopsCurrent (Some (StorageDeviceUtilization_Reset m))"
  "StorageDeviceUtilization_GetWriteIopsCurrent None = StorageDeviceUtilization_GetWriteIopsCurrent (Some (StorageDeviceUtilization_Reset m))"
  "StorageDeviceUtilization_GetReadThroughputMbpsCurrent None = StorageDeviceUtilization_GetReadThroughputMbpsCurrent (Some (StorageDeviceUtilization_Reset m))"
  "StorageDeviceUtilization_GetWriteThroughputMbpsCurrent None = StorageDeviceUtilization_GetWriteThroughputMbpsCurrent (Some (StorageDeviceUtilization_Reset m))"
  by (simp_all add: StorageDeviceUtilization_Reset_def StorageDeviceUtilization_zero_def
      StorageDeviceUtilization_GetPath_def
      StorageDeviceUtilization_GetUsedBytes_def
      StorageDeviceUtilization_GetReadIopsCurrent_def
      StorageDeviceUtilization_GetWriteIopsCurrent_def
      StorageDeviceUtilization_GetReadThroughputMbpsCurrent_def
      StorageDeviceUtilization_GetWriteThroughputMbpsCurrent_def)

lemma StorageUtilization_nil_safe [proto_getter]:
  "StorageUtilization_GetDevices None = StorageUtilization_GetDevices (Some (StorageUtilization_Reset m))"
  by (simp_all add: StorageUtilization_Reset_def StorageUtilization_zero_def
      StorageUtilization_GetDevices_def)

lemma NetworkInterfaceUtilization_nil_safe [proto_getter]:
  "NetworkInterfaceUtilization_GetName None = NetworkInterfaceUtilization_GetName (Some (NetworkInterfaceUtilization_Reset m))"
  "NetworkInterfaceUtilization_GetRxMbps None = NetworkInterfaceUtilization_GetRxMbps (Some (NetworkInterfaceUtilization_Reset m))"
  "NetworkInterfaceUtilization_GetTxMbps None = NetworkInterfaceUtilization_GetTxMbps (Some (NetworkInterfaceUtilization_Reset m))"
  "NetworkInterfaceUtilization_GetRxPacketsPerSec None = NetworkInterfaceUtilization_GetRxPacketsPerSec (Some (NetworkInterfaceUtilization_Reset m))"
  "NetworkInterfaceUtilization_GetTxPacketsPerSec None = NetworkInterfaceUtilization_GetTxPacketsPerSec (Some (NetworkInterfaceUtilization_Reset m))"
  "NetworkInterfaceUtilization_GetRxErrors None = NetworkInterfaceUtilization_GetRxErrors (Some (NetworkInterfaceUtilization_Reset m))"
  "NetworkInterfaceUtilization_GetTxErrors None = NetworkInterfaceUtilization_GetTxErrors (Some (NetworkInterfaceUtilization_Reset m))"
  "NetworkInterfaceUtilization_GetRdmaRxMbps None = NetworkInterfaceUtilization_GetRdmaRxMbps (Some (NetworkInterfaceUtilization_Reset m))"
  "NetworkInterfaceUtilization_GetRdmaTxMbps None = NetworkInterfaceUtilization_GetRdmaTxMbps (Some (NetworkInterfaceUtilization_Reset m))"
  by (simp_all add: NetworkInterfaceUtilization_Reset_def NetworkInterfaceUtilization_zero_def
      NetworkInterfaceUtilization_GetName_def
      NetworkInterfaceUtilization_GetRxMbps_def
      NetworkInterfaceUtilization_GetTxMbps_def
      NetworkInterfaceUtilization_GetRxPacketsPerSec_def
      NetworkInterfaceUtilization_GetTxPacketsPerSec_def
      NetworkInterfaceUtilization_GetRxErrors_def
      NetworkInterfaceUtilization_GetTxErrors_def
      NetworkInterfaceUtilization_GetRdmaRxMbps_def
      NetworkInterfaceUtilization_GetRdmaTxMbps_def)

lemma NetworkUtilization_nil_safe [proto_getter]:
  "NetworkUtilization_GetInterfaces None = NetworkUtilization_GetInterfaces (Some (NetworkUtilization_Reset m))"
  by (simp_all add: NetworkUtilization_Reset_def NetworkUtilization_zero_def
      NetworkUtilization_GetInterfaces_def)

lemma NodeUtilization_nil_safe [proto_getter]:
  "NodeUtilization_GetNodeId None = NodeUtilization_GetNodeId (Some (NodeUtilization_Reset m))"
  "NodeUtilization_GetTimestampNs None = NodeUtilization_GetTimestampNs (Some (NodeUtilization_Reset m))"
  "NodeUtilization_GetCpu None = NodeUtilization_GetCpu (Some (NodeUtilization_Reset m))"
  "NodeUtilization_GetMemory None = NodeUtilization_GetMemory (Some (NodeUtilization_Reset m))"
  "NodeUtilization_GetGpus None = NodeUtilization_GetGpus (Some (NodeUtilization_Reset m))"
  "NodeUtilization_GetStorage None = NodeUtilization_GetStorage (Some (NodeUtilization_Reset m))"
  "NodeUtilization_GetNetwork None = NodeUtilization_GetNetwork (Some (NodeUtilization_Reset m))"
  by (simp_all add: NodeUtilization_Reset_def NodeUtilization_zero_def
      NodeUtilization_GetNodeId_def
      NodeUtilization_GetTimestampNs_def
      NodeUtilization_GetCpu_def
      NodeUtilization_GetMemory_def
      NodeUtilization_GetGpus_def
      NodeUtilization_GetStorage_def
      NodeUtilization_GetNetwork_def)

lemma GpuRequirement_nil_safe [proto_getter]:
  "GpuRequirement_GetCount None = GpuRequirement_GetCount (Some (GpuRequirement_Reset m))"
  "GpuRequirement_GetVramBytes None = GpuRequirement_GetVramBytes (Some (GpuRequirement_Reset m))"
  "GpuRequirement_GetRequiredCapabilities None = GpuRequirement_GetRequiredCapabilities (Some (GpuRequirement_Reset m))"
  "GpuRequirement_GetMinArchitectureGeneration None = GpuRequirement_GetMinArchitectureGeneration (Some (GpuRequirement_Reset m))"
  "GpuRequirement_GetVendor None = GpuRequirement_GetVendor (Some (GpuRequirement_Reset m))"
  "GpuRequirement_GetAllowSpilling None = GpuRequirement_GetAllowSpilling (Some (GpuRequirement_Reset m))"
  by (simp_all add: GpuRequirement_Reset_def GpuRequirement_zero_def
      GpuRequirement_GetCount_def
      GpuRequirement_GetVramBytes_def
      GpuRequirement_GetRequiredCapabilities_def
      GpuRequirement_GetMinArchitectureGeneration_def
      GpuRequirement_GetVendor_def
      GpuRequirement_GetAllowSpilling_def)

lemma AffinityRule_nil_safe [proto_getter]:
  "AffinityRule_GetType None = AffinityRule_GetType (Some (AffinityRule_Reset m))"
  "AffinityRule_GetTarget None = AffinityRule_GetTarget (Some (AffinityRule_Reset m))"
  "AffinityRule_GetRequired None = AffinityRule_GetRequired (Some (AffinityRule_Reset m))"
  by (simp_all add: AffinityRule_Reset_def AffinityRule_zero_def
      AffinityRule_GetType_def
      AffinityRule_GetTarget_def
      AffinityRule_GetRequired_def
      AffinityRule_SAME_NODE_AS_DATA_def)

lemma ResourceRequirements_nil_safe [proto_getter]:
  "ResourceRequirements_GetCpuCores None = ResourceRequirements_GetCpuCores (Some (ResourceRequirements_Reset m))"
  "ResourceRequirements_GetMemoryBytes None = ResourceRequirements_GetMemoryBytes (Some (ResourceRequirements_Reset m))"
  "ResourceRequirements_GetGpus None = ResourceRequirements_GetGpus (Some (ResourceRequirements_Reset m))"
  "ResourceRequirements_GetStorageBytes None = ResourceRequirements_GetStorageBytes (Some (ResourceRequirements_Reset m))"
  "ResourceRequirements_GetReplicas None = ResourceRequirements_GetReplicas (Some (ResourceRequirements_Reset m))"
  "ResourceRequirements_GetPriority None = ResourceRequirements_GetPriority (Some (ResourceRequirements_Reset m))"
  "ResourceRequirements_GetAffinity None = ResourceRequirements_GetAffinity (Some (ResourceRequirements_Reset m))"
  "ResourceRequirements_GetPreemptible None = ResourceRequirements_GetPreemptible (Some (ResourceRequirements_Reset m))"
  by (simp_all add: ResourceRequirements_Reset_def ResourceRequirements_zero_def
      ResourceRequirements_GetCpuCores_def
      ResourceRequirements_GetMemoryBytes_def
      ResourceRequirements_GetGpus_def
      ResourceRequirements_GetStorageBytes_def
      ResourceRequirements_GetReplicas_def
      ResourceRequirements_GetPriority_def
      ResourceRequirements_GetAffinity_def
      ResourceRequirements_GetPreemptible_def)

lemma ResourceUtilization_nil_safe [proto_getter]:
  "ResourceUtilization_GetCpuPercent None = ResourceUtilization_GetCpuPercent (Some (ResourceUtilization_Reset m))"
  "ResourceUtilization_GetMemoryBytes None = ResourceUtilization_GetMemoryBytes (Some (ResourceUtilization_Reset m))"
  "ResourceUtilization_GetGpuVramBytes None = ResourceUtilization_GetGpuVramBytes (Some (ResourceUtilization_Reset m))"
  "ResourceUtilization_GetGpuPercent None = ResourceUtilization_GetGpuPercent (Some (ResourceUtilization_Reset m))"
  "ResourceUtilization_GetDiskBytes None = ResourceUtilization_GetDiskBytes (Some (ResourceUtilization_Reset m))"
  "ResourceUtilization_GetNetworkRxMbps None = ResourceUtilization_GetNetworkRxMbps (Some (ResourceUtilization_Reset m))"
  "ResourceUtilization_GetNetworkTxMbps None = ResourceUtilization_GetNetworkTxMbps (Some (ResourceUtilization_Reset m))"
  by (simp_all add: ResourceUtilization_Reset_def ResourceUtilization_zero_def
      ResourceUtilization_GetCpuPercent_def
      ResourceUtilization_GetMemoryBytes_def
      ResourceUtilization_GetGpuVramBytes_def
      ResourceUtilization_GetGpuPercent_def
      ResourceUtilization_GetDiskBytes_def
      ResourceUtilization_GetNetworkRxMbps_def
      ResourceUtilization_GetNetworkTxMbps_def)

end
