(* ===== verification/Proto_Agent.thy ===== *)
theory Proto_Agent
  imports Proto_Resource
begin

text \<open>
  The message types of \<^verbatim>\<open>gen/compute/v1/agent.pb.go\<close>: one record per message with the fields of
  the Go struct (its protobuf bookkeeping fields \<open>state\<close>, \<open>unknownFields\<close> and \<open>sizeCache\<close> belong
  to the runtime and are left out), the zero message written by \<open>Reset\<close>, and the nil-safe getters.
  A pointer is an \<open>option\<close> (\<open>None\<close> is nil), a slice a list, a Go map an association list, an
  enum its 32-bit number.
\<close>

subsection \<open>Enums\<close>

type_synonym TaskState = int32

definition TaskState_TASK_STATE_UNKNOWN :: TaskState where
  "TaskState_TASK_STATE_UNKNOWN = 0"

definition TaskState_TASK_STATE_PENDING :: TaskState where
  "TaskState_TASK_STATE_PENDING = 1"

definition TaskState_TASK_STATE_RUNNING :: TaskState where
  "TaskState_TASK_STATE_RUNNING = 2"

definition TaskState_TASK_STATE_COMPLETED :: TaskState where
  "TaskState_TASK_STATE_COMPLETED = 3"

definition TaskState_TASK_STATE_FAILED :: TaskState where
  "TaskState_TASK_STATE_FAILED = 4"

definition TaskState_TASK_STATE_PREEMPTED :: TaskState where
  "TaskState_TASK_STATE_PREEMPTED = 5"

definition TaskState_TASK_STATE_CANCELLED :: TaskState where
  "TaskState_TASK_STATE_CANCELLED = 6"

definition TaskState_name :: "(int32 \<times> string) list" where
  "TaskState_name =
    [(0, ''TASK_STATE_UNKNOWN''),
     (1, ''TASK_STATE_PENDING''),
     (2, ''TASK_STATE_RUNNING''),
     (3, ''TASK_STATE_COMPLETED''),
     (4, ''TASK_STATE_FAILED''),
     (5, ''TASK_STATE_PREEMPTED''),
     (6, ''TASK_STATE_CANCELLED'')]"

definition TaskState_value :: "(string \<times> int32) list" where
  "TaskState_value =
    [(''TASK_STATE_UNKNOWN'', 0),
     (''TASK_STATE_PENDING'', 1),
     (''TASK_STATE_RUNNING'', 2),
     (''TASK_STATE_COMPLETED'', 3),
     (''TASK_STATE_FAILED'', 4),
     (''TASK_STATE_PREEMPTED'', 5),
     (''TASK_STATE_CANCELLED'', 6)]"

type_synonym ConsistencyMode_Mode = int32

definition ConsistencyMode_STRICT :: ConsistencyMode_Mode where
  "ConsistencyMode_STRICT = 0"

definition ConsistencyMode_RELAXED :: ConsistencyMode_Mode where
  "ConsistencyMode_RELAXED = 1"

definition ConsistencyMode_RELEASE :: ConsistencyMode_Mode where
  "ConsistencyMode_RELEASE = 2"

definition ConsistencyMode_Mode_name :: "(int32 \<times> string) list" where
  "ConsistencyMode_Mode_name =
    [(0, ''STRICT''),
     (1, ''RELAXED''),
     (2, ''RELEASE'')]"

definition ConsistencyMode_Mode_value :: "(string \<times> int32) list" where
  "ConsistencyMode_Mode_value =
    [(''STRICT'', 0),
     (''RELAXED'', 1),
     (''RELEASE'', 2)]"

subsection \<open>Messages\<close>

record RegisterRequest =
  RegisterRequest_NodeId :: "string"
  RegisterRequest_Address :: "string"
  RegisterRequest_Resources :: "NodeResources option"
  RegisterRequest_AgentVersion :: "string"

definition RegisterRequest_zero :: RegisterRequest where
  "RegisterRequest_zero =
    \<lparr>RegisterRequest_NodeId = '''',
     RegisterRequest_Address = '''',
     RegisterRequest_Resources = None,
     RegisterRequest_AgentVersion = ''''\<rparr>"

definition RegisterRequest_Reset :: "RegisterRequest \<Rightarrow> RegisterRequest" where
  "RegisterRequest_Reset x = RegisterRequest_zero"

definition RegisterRequest_GetNodeId :: "RegisterRequest option \<Rightarrow> string" where
  "RegisterRequest_GetNodeId x = (case x of Some m \<Rightarrow> RegisterRequest_NodeId m | None \<Rightarrow> '''')"

definition RegisterRequest_GetAddress :: "RegisterRequest option \<Rightarrow> string" where
  "RegisterRequest_GetAddress x = (case x of Some m \<Rightarrow> RegisterRequest_Address m | None \<Rightarrow> '''')"

definition RegisterRequest_GetResources :: "RegisterRequest option \<Rightarrow> NodeResources option" where
  "RegisterRequest_GetResources x = (case x of Some m \<Rightarrow> RegisterRequest_Resources m | None \<Rightarrow> None)"

definition RegisterRequest_GetAgentVersion :: "RegisterRequest option \<Rightarrow> string" where
  "RegisterRequest_GetAgentVersion x = (case x of Some m \<Rightarrow> RegisterRequest_AgentVersion m | None \<Rightarrow> '''')"

record RegisterResponse =
  RegisterResponse_Accepted :: "bool"
  RegisterResponse_ClusterId :: "string"
  RegisterResponse_ControlPlaneLeader :: "string"
  RegisterResponse_HeartbeatIntervalMs :: "uint64"

definition RegisterResponse_zero :: RegisterResponse where
  "RegisterResponse_zero =
    \<lparr>RegisterResponse_Accepted = False,
     RegisterResponse_ClusterId = '''',
     RegisterResponse_ControlPlaneLeader = '''',
     RegisterResponse_HeartbeatIntervalMs = 0\<rparr>"

definition RegisterResponse_Reset :: "RegisterResponse \<Rightarrow> RegisterResponse" where
  "RegisterResponse_Reset x = RegisterResponse_zero"

definition RegisterResponse_GetAccepted :: "RegisterResponse option \<Rightarrow> bool" where
  "RegisterResponse_GetAccepted x = (case x of Some m \<Rightarrow> RegisterResponse_Accepted m | None \<Rightarrow> False)"

definition RegisterResponse_GetClusterId :: "RegisterResponse option \<Rightarrow> string" where
  "RegisterResponse_GetClusterId x = (case x of Some m \<Rightarrow> RegisterResponse_ClusterId m | None \<Rightarrow> '''')"

definition RegisterResponse_GetControlPlaneLeader :: "RegisterResponse option \<Rightarrow> string" where
  "RegisterResponse_GetControlPlaneLeader x = (case x of Some m \<Rightarrow> RegisterResponse_ControlPlaneLeader m | None \<Rightarrow> '''')"

definition RegisterResponse_GetHeartbeatIntervalMs :: "RegisterResponse option \<Rightarrow> uint64" where
  "RegisterResponse_GetHeartbeatIntervalMs x = (case x of Some m \<Rightarrow> RegisterResponse_HeartbeatIntervalMs m | None \<Rightarrow> 0)"

record TaskStatus =
  TaskStatus_TaskId :: "string"
  TaskStatus_State :: "TaskState"
  TaskStatus_Utilization :: "ResourceUtilization option"
  TaskStatus_StartedAtNs :: "int64"
  TaskStatus_ErrorMessage :: "string"

definition TaskStatus_zero :: TaskStatus where
  "TaskStatus_zero =
    \<lparr>TaskStatus_TaskId = '''',
     TaskStatus_State = 0,
     TaskStatus_Utilization = None,
     TaskStatus_StartedAtNs = 0,
     TaskStatus_ErrorMessage = ''''\<rparr>"

definition TaskStatus_Reset :: "TaskStatus \<Rightarrow> TaskStatus" where
  "TaskStatus_Reset x = TaskStatus_zero"

definition TaskStatus_GetTaskId :: "TaskStatus option \<Rightarrow> string" where
  "TaskStatus_GetTaskId x = (case x of Some m \<Rightarrow> TaskStatus_TaskId m | None \<Rightarrow> '''')"

definition TaskStatus_GetState :: "TaskStatus option \<Rightarrow> TaskState" where
  "TaskStatus_GetState x = (case x of Some m \<Rightarrow> TaskStatus_State m | None \<Rightarrow> TaskState_TASK_STATE_UNKNOWN)"

definition TaskStatus_GetUtilization :: "TaskStatus option \<Rightarrow> ResourceUtilization option" where
  "TaskStatus_GetUtilization x = (case x of Some m \<Rightarrow> TaskStatus_Utilization m | None \<Rightarrow> None)"

definition TaskStatus_GetStartedAtNs :: "TaskStatus option \<Rightarrow> int64" where
  "TaskStatus_GetStartedAtNs x = (case x of Some m \<Rightarrow> TaskStatus_StartedAtNs m | None \<Rightarrow> 0)"

definition TaskStatus_GetErrorMessage :: "TaskStatus option \<Rightarrow> string" where
  "TaskStatus_GetErrorMessage x = (case x of Some m \<Rightarrow> TaskStatus_ErrorMessage m | None \<Rightarrow> '''')"

record HeartbeatRequest =
  HeartbeatRequest_NodeId :: "string"
  HeartbeatRequest_Sequence :: "uint64"
  HeartbeatRequest_Utilization :: "NodeUtilization option"
  HeartbeatRequest_Tasks :: "TaskStatus option list"

definition HeartbeatRequest_zero :: HeartbeatRequest where
  "HeartbeatRequest_zero =
    \<lparr>HeartbeatRequest_NodeId = '''',
     HeartbeatRequest_Sequence = 0,
     HeartbeatRequest_Utilization = None,
     HeartbeatRequest_Tasks = []\<rparr>"

definition HeartbeatRequest_Reset :: "HeartbeatRequest \<Rightarrow> HeartbeatRequest" where
  "HeartbeatRequest_Reset x = HeartbeatRequest_zero"

definition HeartbeatRequest_GetNodeId :: "HeartbeatRequest option \<Rightarrow> string" where
  "HeartbeatRequest_GetNodeId x = (case x of Some m \<Rightarrow> HeartbeatRequest_NodeId m | None \<Rightarrow> '''')"

definition HeartbeatRequest_GetSequence :: "HeartbeatRequest option \<Rightarrow> uint64" where
  "HeartbeatRequest_GetSequence x = (case x of Some m \<Rightarrow> HeartbeatRequest_Sequence m | None \<Rightarrow> 0)"

definition HeartbeatRequest_GetUtilization :: "HeartbeatRequest option \<Rightarrow> NodeUtilization option" where
  "HeartbeatRequest_GetUtilization x = (case x of Some m \<Rightarrow> HeartbeatRequest_Utilization m | None \<Rightarrow> None)"

definition HeartbeatRequest_GetTasks :: "HeartbeatRequest option \<Rightarrow> TaskStatus option list" where
  "HeartbeatRequest_GetTasks x = (case x of Some m \<Rightarrow> HeartbeatRequest_Tasks m | None \<Rightarrow> [])"

record MemoryHandle =
  MemoryHandle_AllocationId :: "string"
  MemoryHandle_NodeId :: "string"
  MemoryHandle_RemoteKey :: "uint64"
  MemoryHandle_Address :: "uint64"
  MemoryHandle_SizeBytes :: "uint64"

definition MemoryHandle_zero :: MemoryHandle where
  "MemoryHandle_zero =
    \<lparr>MemoryHandle_AllocationId = '''',
     MemoryHandle_NodeId = '''',
     MemoryHandle_RemoteKey = 0,
     MemoryHandle_Address = 0,
     MemoryHandle_SizeBytes = 0\<rparr>"

definition MemoryHandle_Reset :: "MemoryHandle \<Rightarrow> MemoryHandle" where
  "MemoryHandle_Reset x = MemoryHandle_zero"

definition MemoryHandle_GetAllocationId :: "MemoryHandle option \<Rightarrow> string" where
  "MemoryHandle_GetAllocationId x = (case x of Some m \<Rightarrow> MemoryHandle_AllocationId m | None \<Rightarrow> '''')"

definition MemoryHandle_GetNodeId :: "MemoryHandle option \<Rightarrow> string" where
  "MemoryHandle_GetNodeId x = (case x of Some m \<Rightarrow> MemoryHandle_NodeId m | None \<Rightarrow> '''')"

definition MemoryHandle_GetRemoteKey :: "MemoryHandle option \<Rightarrow> uint64" where
  "MemoryHandle_GetRemoteKey x = (case x of Some m \<Rightarrow> MemoryHandle_RemoteKey m | None \<Rightarrow> 0)"

definition MemoryHandle_GetAddress :: "MemoryHandle option \<Rightarrow> uint64" where
  "MemoryHandle_GetAddress x = (case x of Some m \<Rightarrow> MemoryHandle_Address m | None \<Rightarrow> 0)"

definition MemoryHandle_GetSizeBytes :: "MemoryHandle option \<Rightarrow> uint64" where
  "MemoryHandle_GetSizeBytes x = (case x of Some m \<Rightarrow> MemoryHandle_SizeBytes m | None \<Rightarrow> 0)"

record GPUHandle =
  GPUHandle_AllocationId :: "string"
  GPUHandle_NodeId :: "string"
  GPUHandle_GpuDeviceIndex :: "int32"
  GPUHandle_GpuAddress :: "uint64"
  GPUHandle_SizeBytes :: "uint64"
  GPUHandle_GpuRemoteKey :: "uint64"

definition GPUHandle_zero :: GPUHandle where
  "GPUHandle_zero =
    \<lparr>GPUHandle_AllocationId = '''',
     GPUHandle_NodeId = '''',
     GPUHandle_GpuDeviceIndex = 0,
     GPUHandle_GpuAddress = 0,
     GPUHandle_SizeBytes = 0,
     GPUHandle_GpuRemoteKey = 0\<rparr>"

definition GPUHandle_Reset :: "GPUHandle \<Rightarrow> GPUHandle" where
  "GPUHandle_Reset x = GPUHandle_zero"

definition GPUHandle_GetAllocationId :: "GPUHandle option \<Rightarrow> string" where
  "GPUHandle_GetAllocationId x = (case x of Some m \<Rightarrow> GPUHandle_AllocationId m | None \<Rightarrow> '''')"

definition GPUHandle_GetNodeId :: "GPUHandle option \<Rightarrow> string" where
  "GPUHandle_GetNodeId x = (case x of Some m \<Rightarrow> GPUHandle_NodeId m | None \<Rightarrow> '''')"

definition GPUHandle_GetGpuDeviceIndex :: "GPUHandle option \<Rightarrow> int32" where
  "GPUHandle_GetGpuDeviceIndex x = (case x of Some m \<Rightarrow> GPUHandle_GpuDeviceIndex m | None \<Rightarrow> 0)"

definition GPUHandle_GetGpuAddress :: "GPUHandle option \<Rightarrow> uint64" where
  "GPUHandle_GetGpuAddress x = (case x of Some m \<Rightarrow> GPUHandle_GpuAddress m | None \<Rightarrow> 0)"

definition GPUHandle_GetSizeBytes :: "GPUHandle option \<Rightarrow> uint64" where
  "GPUHandle_GetSizeBytes x = (case x of Some m \<Rightarrow> GPUHandle_SizeBytes m | None \<Rightarrow> 0)"

definition GPUHandle_GetGpuRemoteKey :: "GPUHandle option \<Rightarrow> uint64" where
  "GPUHandle_GetGpuRemoteKey x = (case x of Some m \<Rightarrow> GPUHandle_GpuRemoteKey m | None \<Rightarrow> 0)"

record TaskSpec =
  TaskSpec_TaskId :: "string"
  TaskSpec_JobId :: "string"
  TaskSpec_ContainerImage :: "string"
  TaskSpec_Command :: "string list"
  TaskSpec_Env :: "(string \<times> string) list"
  TaskSpec_Requirements :: "ResourceRequirements option"
  TaskSpec_MemoryHandles :: "MemoryHandle option list"
  TaskSpec_GpuHandles :: "GPUHandle option list"
  TaskSpec_Priority :: "int32"

definition TaskSpec_zero :: TaskSpec where
  "TaskSpec_zero =
    \<lparr>TaskSpec_TaskId = '''',
     TaskSpec_JobId = '''',
     TaskSpec_ContainerImage = '''',
     TaskSpec_Command = [],
     TaskSpec_Env = [],
     TaskSpec_Requirements = None,
     TaskSpec_MemoryHandles = [],
     TaskSpec_GpuHandles = [],
     TaskSpec_Priority = 0\<rparr>"

definition TaskSpec_Reset :: "TaskSpec \<Rightarrow> TaskSpec" where
  "TaskSpec_Reset x = TaskSpec_zero"

definition TaskSpec_GetTaskId :: "TaskSpec option \<Rightarrow> string" where
  "TaskSpec_GetTaskId x = (case x of Some m \<Rightarrow> TaskSpec_TaskId m | None \<Rightarrow> '''')"

definition TaskSpec_GetJobId :: "TaskSpec option \<Rightarrow> string" where
  "TaskSpec_GetJobId x = (case x of Some m \<Rightarrow> TaskSpec_JobId m | None \<Rightarrow> '''')"

definition TaskSpec_GetContainerImage :: "TaskSpec option \<Rightarrow> string" where
  "TaskSpec_GetContainerImage x = (case x of Some m \<Rightarrow> TaskSpec_ContainerImage m | None \<Rightarrow> '''')"

definition TaskSpec_GetCommand :: "TaskSpec option \<Rightarrow> string list" where
  "TaskSpec_GetCommand x = (case x of Some m \<Rightarrow> TaskSpec_Command m | None \<Rightarrow> [])"

definition TaskSpec_GetEnv :: "TaskSpec option \<Rightarrow> (string \<times> string) list" where
  "TaskSpec_GetEnv x = (case x of Some m \<Rightarrow> TaskSpec_Env m | None \<Rightarrow> [])"

definition TaskSpec_GetRequirements :: "TaskSpec option \<Rightarrow> ResourceRequirements option" where
  "TaskSpec_GetRequirements x = (case x of Some m \<Rightarrow> TaskSpec_Requirements m | None \<Rightarrow> None)"

definition TaskSpec_GetMemoryHandles :: "TaskSpec option \<Rightarrow> MemoryHandle option list" where
  "TaskSpec_GetMemoryHandles x = (case x of Some m \<Rightarrow> TaskSpec_MemoryHandles m | None \<Rightarrow> [])"

definition TaskSpec_GetGpuHandles :: "TaskSpec option \<Rightarrow> GPUHandle option list" where
  "TaskSpec_GetGpuHandles x = (case x of Some m \<Rightarrow> TaskSpec_GpuHandles m | None \<Rightarrow> [])"

definition TaskSpec_GetPriority :: "TaskSpec option \<Rightarrow> int32" where
  "TaskSpec_GetPriority x = (case x of Some m \<Rightarrow> TaskSpec_Priority m | None \<Rightarrow> 0)"

record PendingTask =
  PendingTask_Spec :: "TaskSpec option"

definition PendingTask_zero :: PendingTask where
  "PendingTask_zero =
    \<lparr>PendingTask_Spec = None\<rparr>"

definition PendingTask_Reset :: "PendingTask \<Rightarrow> PendingTask" where
  "PendingTask_Reset x = PendingTask_zero"

definition PendingTask_GetSpec :: "PendingTask option \<Rightarrow> TaskSpec option" where
  "PendingTask_GetSpec x = (case x of Some m \<Rightarrow> PendingTask_Spec m | None \<Rightarrow> None)"

record HeartbeatResponse =
  HeartbeatResponse_Acknowledged :: "bool"
  HeartbeatResponse_Sequence :: "uint64"
  HeartbeatResponse_PendingTasks :: "PendingTask option list"
  HeartbeatResponse_CancelTaskIds :: "string list"

definition HeartbeatResponse_zero :: HeartbeatResponse where
  "HeartbeatResponse_zero =
    \<lparr>HeartbeatResponse_Acknowledged = False,
     HeartbeatResponse_Sequence = 0,
     HeartbeatResponse_PendingTasks = [],
     HeartbeatResponse_CancelTaskIds = []\<rparr>"

definition HeartbeatResponse_Reset :: "HeartbeatResponse \<Rightarrow> HeartbeatResponse" where
  "HeartbeatResponse_Reset x = HeartbeatResponse_zero"

definition HeartbeatResponse_GetAcknowledged :: "HeartbeatResponse option \<Rightarrow> bool" where
  "HeartbeatResponse_GetAcknowledged x = (case x of Some m \<Rightarrow> HeartbeatResponse_Acknowledged m | None \<Rightarrow> False)"

definition HeartbeatResponse_GetSequence :: "HeartbeatResponse option \<Rightarrow> uint64" where
  "HeartbeatResponse_GetSequence x = (case x of Some m \<Rightarrow> HeartbeatResponse_Sequence m | None \<Rightarrow> 0)"

definition HeartbeatResponse_GetPendingTasks :: "HeartbeatResponse option \<Rightarrow> PendingTask option list" where
  "HeartbeatResponse_GetPendingTasks x = (case x of Some m \<Rightarrow> HeartbeatResponse_PendingTasks m | None \<Rightarrow> [])"

definition HeartbeatResponse_GetCancelTaskIds :: "HeartbeatResponse option \<Rightarrow> string list" where
  "HeartbeatResponse_GetCancelTaskIds x = (case x of Some m \<Rightarrow> HeartbeatResponse_CancelTaskIds m | None \<Rightarrow> [])"

record TaskAck =
  TaskAck_Accepted :: "bool"
  TaskAck_Error :: "string"

definition TaskAck_zero :: TaskAck where
  "TaskAck_zero =
    \<lparr>TaskAck_Accepted = False,
     TaskAck_Error = ''''\<rparr>"

definition TaskAck_Reset :: "TaskAck \<Rightarrow> TaskAck" where
  "TaskAck_Reset x = TaskAck_zero"

definition TaskAck_GetAccepted :: "TaskAck option \<Rightarrow> bool" where
  "TaskAck_GetAccepted x = (case x of Some m \<Rightarrow> TaskAck_Accepted m | None \<Rightarrow> False)"

definition TaskAck_GetError :: "TaskAck option \<Rightarrow> string" where
  "TaskAck_GetError x = (case x of Some m \<Rightarrow> TaskAck_Error m | None \<Rightarrow> '''')"

record ConsistencyMode =
  ConsistencyMode_Mode :: "ConsistencyMode_Mode"

definition ConsistencyMode_zero :: ConsistencyMode where
  "ConsistencyMode_zero =
    \<lparr>ConsistencyMode_Mode = 0\<rparr>"

definition ConsistencyMode_Reset :: "ConsistencyMode \<Rightarrow> ConsistencyMode" where
  "ConsistencyMode_Reset x = ConsistencyMode_zero"

definition ConsistencyMode_GetMode :: "ConsistencyMode option \<Rightarrow> ConsistencyMode_Mode" where
  "ConsistencyMode_GetMode x = (case x of Some m \<Rightarrow> ConsistencyMode_Mode m | None \<Rightarrow> ConsistencyMode_STRICT)"

record MemoryAllocRequest =
  MemoryAllocRequest_AllocationId :: "string"
  MemoryAllocRequest_SizeBytes :: "uint64"
  MemoryAllocRequest_Consistency :: "ConsistencyMode option"
  MemoryAllocRequest_UseHugepages :: "bool"
  MemoryAllocRequest_ReplicationFactor :: "int32"

definition MemoryAllocRequest_zero :: MemoryAllocRequest where
  "MemoryAllocRequest_zero =
    \<lparr>MemoryAllocRequest_AllocationId = '''',
     MemoryAllocRequest_SizeBytes = 0,
     MemoryAllocRequest_Consistency = None,
     MemoryAllocRequest_UseHugepages = False,
     MemoryAllocRequest_ReplicationFactor = 0\<rparr>"

definition MemoryAllocRequest_Reset :: "MemoryAllocRequest \<Rightarrow> MemoryAllocRequest" where
  "MemoryAllocRequest_Reset x = MemoryAllocRequest_zero"

definition MemoryAllocRequest_GetAllocationId :: "MemoryAllocRequest option \<Rightarrow> string" where
  "MemoryAllocRequest_GetAllocationId x = (case x of Some m \<Rightarrow> MemoryAllocRequest_AllocationId m | None \<Rightarrow> '''')"

definition MemoryAllocRequest_GetSizeBytes :: "MemoryAllocRequest option \<Rightarrow> uint64" where
  "MemoryAllocRequest_GetSizeBytes x = (case x of Some m \<Rightarrow> MemoryAllocRequest_SizeBytes m | None \<Rightarrow> 0)"

definition MemoryAllocRequest_GetConsistency :: "MemoryAllocRequest option \<Rightarrow> ConsistencyMode option" where
  "MemoryAllocRequest_GetConsistency x = (case x of Some m \<Rightarrow> MemoryAllocRequest_Consistency m | None \<Rightarrow> None)"

definition MemoryAllocRequest_GetUseHugepages :: "MemoryAllocRequest option \<Rightarrow> bool" where
  "MemoryAllocRequest_GetUseHugepages x = (case x of Some m \<Rightarrow> MemoryAllocRequest_UseHugepages m | None \<Rightarrow> False)"

definition MemoryAllocRequest_GetReplicationFactor :: "MemoryAllocRequest option \<Rightarrow> int32" where
  "MemoryAllocRequest_GetReplicationFactor x = (case x of Some m \<Rightarrow> MemoryAllocRequest_ReplicationFactor m | None \<Rightarrow> 0)"

record MemoryAllocResponse =
  MemoryAllocResponse_Success :: "bool"
  MemoryAllocResponse_Handle :: "MemoryHandle option"
  MemoryAllocResponse_Error :: "string"

definition MemoryAllocResponse_zero :: MemoryAllocResponse where
  "MemoryAllocResponse_zero =
    \<lparr>MemoryAllocResponse_Success = False,
     MemoryAllocResponse_Handle = None,
     MemoryAllocResponse_Error = ''''\<rparr>"

definition MemoryAllocResponse_Reset :: "MemoryAllocResponse \<Rightarrow> MemoryAllocResponse" where
  "MemoryAllocResponse_Reset x = MemoryAllocResponse_zero"

definition MemoryAllocResponse_GetSuccess :: "MemoryAllocResponse option \<Rightarrow> bool" where
  "MemoryAllocResponse_GetSuccess x = (case x of Some m \<Rightarrow> MemoryAllocResponse_Success m | None \<Rightarrow> False)"

definition MemoryAllocResponse_GetHandle :: "MemoryAllocResponse option \<Rightarrow> MemoryHandle option" where
  "MemoryAllocResponse_GetHandle x = (case x of Some m \<Rightarrow> MemoryAllocResponse_Handle m | None \<Rightarrow> None)"

definition MemoryAllocResponse_GetError :: "MemoryAllocResponse option \<Rightarrow> string" where
  "MemoryAllocResponse_GetError x = (case x of Some m \<Rightarrow> MemoryAllocResponse_Error m | None \<Rightarrow> '''')"

record FreeMemoryRequest =
  FreeMemoryRequest_AllocationId :: "string"

definition FreeMemoryRequest_zero :: FreeMemoryRequest where
  "FreeMemoryRequest_zero =
    \<lparr>FreeMemoryRequest_AllocationId = ''''\<rparr>"

definition FreeMemoryRequest_Reset :: "FreeMemoryRequest \<Rightarrow> FreeMemoryRequest" where
  "FreeMemoryRequest_Reset x = FreeMemoryRequest_zero"

definition FreeMemoryRequest_GetAllocationId :: "FreeMemoryRequest option \<Rightarrow> string" where
  "FreeMemoryRequest_GetAllocationId x = (case x of Some m \<Rightarrow> FreeMemoryRequest_AllocationId m | None \<Rightarrow> '''')"

record FreeMemoryResponse =
  FreeMemoryResponse_Success :: "bool"

definition FreeMemoryResponse_zero :: FreeMemoryResponse where
  "FreeMemoryResponse_zero =
    \<lparr>FreeMemoryResponse_Success = False\<rparr>"

definition FreeMemoryResponse_Reset :: "FreeMemoryResponse \<Rightarrow> FreeMemoryResponse" where
  "FreeMemoryResponse_Reset x = FreeMemoryResponse_zero"

definition FreeMemoryResponse_GetSuccess :: "FreeMemoryResponse option \<Rightarrow> bool" where
  "FreeMemoryResponse_GetSuccess x = (case x of Some m \<Rightarrow> FreeMemoryResponse_Success m | None \<Rightarrow> False)"

record GPUMemoryAllocRequest =
  GPUMemoryAllocRequest_AllocationId :: "string"
  GPUMemoryAllocRequest_SizeBytes :: "uint64"
  GPUMemoryAllocRequest_GpuDeviceIndex :: "int32"

definition GPUMemoryAllocRequest_zero :: GPUMemoryAllocRequest where
  "GPUMemoryAllocRequest_zero =
    \<lparr>GPUMemoryAllocRequest_AllocationId = '''',
     GPUMemoryAllocRequest_SizeBytes = 0,
     GPUMemoryAllocRequest_GpuDeviceIndex = 0\<rparr>"

definition GPUMemoryAllocRequest_Reset :: "GPUMemoryAllocRequest \<Rightarrow> GPUMemoryAllocRequest" where
  "GPUMemoryAllocRequest_Reset x = GPUMemoryAllocRequest_zero"

definition GPUMemoryAllocRequest_GetAllocationId :: "GPUMemoryAllocRequest option \<Rightarrow> string" where
  "GPUMemoryAllocRequest_GetAllocationId x = (case x of Some m \<Rightarrow> GPUMemoryAllocRequest_AllocationId m | None \<Rightarrow> '''')"

definition GPUMemoryAllocRequest_GetSizeBytes :: "GPUMemoryAllocRequest option \<Rightarrow> uint64" where
  "GPUMemoryAllocRequest_GetSizeBytes x = (case x of Some m \<Rightarrow> GPUMemoryAllocRequest_SizeBytes m | None \<Rightarrow> 0)"

definition GPUMemoryAllocRequest_GetGpuDeviceIndex :: "GPUMemoryAllocRequest option \<Rightarrow> int32" where
  "GPUMemoryAllocRequest_GetGpuDeviceIndex x = (case x of Some m \<Rightarrow> GPUMemoryAllocRequest_GpuDeviceIndex m | None \<Rightarrow> 0)"

record GPUMemoryAllocResponse =
  GPUMemoryAllocResponse_Success :: "bool"
  GPUMemoryAllocResponse_Handle :: "GPUHandle option"
  GPUMemoryAllocResponse_Error :: "string"

definition GPUMemoryAllocResponse_zero :: GPUMemoryAllocResponse where
  "GPUMemoryAllocResponse_zero =
    \<lparr>GPUMemoryAllocResponse_Success = False,
     GPUMemoryAllocResponse_Handle = None,
     GPUMemoryAllocResponse_Error = ''''\<rparr>"

definition GPUMemoryAllocResponse_Reset :: "GPUMemoryAllocResponse \<Rightarrow> GPUMemoryAllocResponse" where
  "GPUMemoryAllocResponse_Reset x = GPUMemoryAllocResponse_zero"

definition GPUMemoryAllocResponse_GetSuccess :: "GPUMemoryAllocResponse option \<Rightarrow> bool" where
  "GPUMemoryAllocResponse_GetSuccess x = (case x of Some m \<Rightarrow> GPUMemoryAllocResponse_Success m | None \<Rightarrow> False)"

definition GPUMemoryAllocResponse_GetHandle :: "GPUMemoryAllocResponse option \<Rightarrow> GPUHandle option" where
  "GPUMemoryAllocResponse_GetHandle x = (case x of Some m \<Rightarrow> GPUMemoryAllocResponse_Handle m | None \<Rightarrow> None)"

definition GPUMemoryAllocResponse_GetError :: "GPUMemoryAllocResponse option \<Rightarrow> string" where
  "GPUMemoryAllocResponse_GetError x = (case x of Some m \<Rightarrow> GPUMemoryAllocResponse_Error m | None \<Rightarrow> '''')"

record FreeGPUMemoryRequest =
  FreeGPUMemoryRequest_AllocationId :: "string"

definition FreeGPUMemoryRequest_zero :: FreeGPUMemoryRequest where
  "FreeGPUMemoryRequest_zero =
    \<lparr>FreeGPUMemoryRequest_AllocationId = ''''\<rparr>"

definition FreeGPUMemoryRequest_Reset :: "FreeGPUMemoryRequest \<Rightarrow> FreeGPUMemoryRequest" where
  "FreeGPUMemoryRequest_Reset x = FreeGPUMemoryRequest_zero"

definition FreeGPUMemoryRequest_GetAllocationId :: "FreeGPUMemoryRequest option \<Rightarrow> string" where
  "FreeGPUMemoryRequest_GetAllocationId x = (case x of Some m \<Rightarrow> FreeGPUMemoryRequest_AllocationId m | None \<Rightarrow> '''')"

record FreeGPUMemoryResponse =
  FreeGPUMemoryResponse_Success :: "bool"

definition FreeGPUMemoryResponse_zero :: FreeGPUMemoryResponse where
  "FreeGPUMemoryResponse_zero =
    \<lparr>FreeGPUMemoryResponse_Success = False\<rparr>"

definition FreeGPUMemoryResponse_Reset :: "FreeGPUMemoryResponse \<Rightarrow> FreeGPUMemoryResponse" where
  "FreeGPUMemoryResponse_Reset x = FreeGPUMemoryResponse_zero"

definition FreeGPUMemoryResponse_GetSuccess :: "FreeGPUMemoryResponse option \<Rightarrow> bool" where
  "FreeGPUMemoryResponse_GetSuccess x = (case x of Some m \<Rightarrow> FreeGPUMemoryResponse_Success m | None \<Rightarrow> False)"

subsection \<open>Enum tables and nil-safe getters\<close>

interpretation TaskState: enum_tables TaskState_name TaskState_value
  by unfold_locales (simp_all add: TaskState_name_def TaskState_value_def)

interpretation ConsistencyMode_Mode: enum_tables ConsistencyMode_Mode_name ConsistencyMode_Mode_value
  by unfold_locales (simp_all add: ConsistencyMode_Mode_name_def ConsistencyMode_Mode_value_def)

text \<open>Every getter answers on a nil message what it answers on a reset one.\<close>

lemma RegisterRequest_nil_safe [proto_getter]:
  "RegisterRequest_GetNodeId None = RegisterRequest_GetNodeId (Some (RegisterRequest_Reset m))"
  "RegisterRequest_GetAddress None = RegisterRequest_GetAddress (Some (RegisterRequest_Reset m))"
  "RegisterRequest_GetResources None = RegisterRequest_GetResources (Some (RegisterRequest_Reset m))"
  "RegisterRequest_GetAgentVersion None = RegisterRequest_GetAgentVersion (Some (RegisterRequest_Reset m))"
  by (simp_all add: RegisterRequest_Reset_def RegisterRequest_zero_def
      RegisterRequest_GetNodeId_def
      RegisterRequest_GetAddress_def
      RegisterRequest_GetResources_def
      RegisterRequest_GetAgentVersion_def)

lemma RegisterResponse_nil_safe [proto_getter]:
  "RegisterResponse_GetAccepted None = RegisterResponse_GetAccepted (Some (RegisterResponse_Reset m))"
  "RegisterResponse_GetClusterId None = RegisterResponse_GetClusterId (Some (RegisterResponse_Reset m))"
  "RegisterResponse_GetControlPlaneLeader None = RegisterResponse_GetControlPlaneLeader (Some (RegisterResponse_Reset m))"
  "RegisterResponse_GetHeartbeatIntervalMs None = RegisterResponse_GetHeartbeatIntervalMs (Some (RegisterResponse_Reset m))"
  by (simp_all add: RegisterResponse_Reset_def RegisterResponse_zero_def
      RegisterResponse_GetAccepted_def
      RegisterResponse_GetClusterId_def
      RegisterResponse_GetControlPlaneLeader_def
      RegisterResponse_GetHeartbeatIntervalMs_def)

lemma TaskStatus_nil_safe [proto_getter]:
  "TaskStatus_GetTaskId None = TaskStatus_GetTaskId (Some (TaskStatus_Reset m))"
  "TaskStatus_GetState None = TaskStatus_GetState (Some (TaskStatus_Reset m))"
  "TaskStatus_GetUtilization None = TaskStatus_GetUtilization (Some (TaskStatus_Reset m))"
  "TaskStatus_GetStartedAtNs None = TaskStatus_GetStartedAtNs (Some (TaskStatus_Reset m))"
  "TaskStatus_GetErrorMessage None = TaskStatus_GetErrorMessage (Some (TaskStatus_Reset m))"
  by (simp_all add: TaskStatus_Reset_def TaskStatus_zero_def
      TaskStatus_GetTaskId_def
      TaskStatus_GetState_def
      TaskStatus_GetUtilization_def
      TaskStatus_GetStartedAtNs_def
      TaskStatus_GetErrorMessage_def
      TaskState_TASK_STATE_UNKNOWN_def)

lemma HeartbeatRequest_nil_safe [proto_getter]:
  "HeartbeatRequest_GetNodeId None = HeartbeatRequest_GetNodeId (Some (HeartbeatRequest_Reset m))"
  "HeartbeatRequest_GetSequence None = HeartbeatRequest_GetSequence (Some (HeartbeatRequest_Reset m))"
  "HeartbeatRequest_GetUtilization None = HeartbeatRequest_GetUtilization (Some (HeartbeatRequest_Reset m))"
  "HeartbeatRequest_GetTasks None = HeartbeatRequest_GetTasks (Some (HeartbeatRequest_Reset m))"
  by (simp_all add: HeartbeatRequest_Reset_def HeartbeatRequest_zero_def
      HeartbeatRequest_GetNodeId_def
      HeartbeatRequest_GetSequence_def
      HeartbeatRequest_GetUtilization_def
      HeartbeatRequest_GetTasks_def)

lemma MemoryHandle_nil_safe [proto_getter]:
  "MemoryHandle_GetAllocationId None = MemoryHandle_GetAllocationId (Some (MemoryHandle_Reset m))"
  "MemoryHandle_GetNodeId None = MemoryHandle_GetNodeId (Some (MemoryHandle_Reset m))"
  "MemoryHandle_GetRemoteKey None = MemoryHandle_GetRemoteKey (Some (MemoryHandle_Reset m))"
  "MemoryHandle_GetAddress None = MemoryHandle_GetAddress (Some (MemoryHandle_Reset m))"
  "MemoryHandle_GetSizeBytes None = MemoryHandle_GetSizeBytes (Some (MemoryHandle_Reset m))"
  by (simp_all add: MemoryHandle_Reset_def MemoryHandle_zero_def
      MemoryHandle_GetAllocationId_def
      MemoryHandle_GetNodeId_def
      MemoryHandle_GetRemoteKey_def
      MemoryHandle_GetAddress_def
      MemoryHandle_GetSizeBytes_def)

lemma GPUHandle_nil_safe [proto_getter]:
  "GPUHandle_GetAllocationId None = GPUHandle_GetAllocationId (Some (GPUHandle_Reset m))"
  "GPUHandle_GetNodeId None = GPUHandle_GetNodeId (Some (GPUHandle_Reset m))"
  "GPUHandle_GetGpuDeviceIndex None = GPUHandle_GetGpuDeviceIndex (Some (GPUHandle_Reset m))"
  "GPUHandle_GetGpuAddress None = GPUHandle_GetGpuAddress (Some (GPUHandle_Reset m))"
  "GPUHandle_GetSizeBytes None = GPUHandle_GetSizeBytes (Some (GPUHandle_Reset m))"
  "GPUHandle_GetGpuRemoteKey None = GPUHandle_GetGpuRemoteKey (Some (GPUHandle_Reset m))"
  by (simp_all add: GPUHandle_Reset_def GPUHandle_zero_def
      GPUHandle_GetAllocationId_def
      GPUHandle_GetNodeId_def
      GPUHandle_GetGpuDeviceIndex_def
      GPUHandle_GetGpuAddress_def
      GPUHandle_GetSizeBytes_def
      GPUHandle_GetGpuRemoteKey_def)

lemma TaskSpec_nil_safe [proto_getter]:
  "TaskSpec_GetTaskId None = TaskSpec_GetTaskId (Some (TaskSpec_Reset m))"
  "TaskSpec_GetJobId None = TaskSpec_GetJobId (Some (TaskSpec_Reset m))"
  "TaskSpec_GetContainerImage None = TaskSpec_GetContainerImage (Some (TaskSpec_Reset m))"
  "TaskSpec_GetCommand None = TaskSpec_GetCommand (Some (TaskSpec_Reset m))"
  "TaskSpec_GetEnv None = TaskSpec_GetEnv (Some (TaskSpec_Reset m))"
  "TaskSpec_GetRequirements None = TaskSpec_GetRequirements (Some (TaskSpec_Reset m))"
  "TaskSpec_GetMemoryHandles None = TaskSpec_GetMemoryHandles (Some (TaskSpec_Reset m))"
  "TaskSpec_GetGpuHandles None = TaskSpec_GetGpuHandles (Some (TaskSpec_Reset m))"
  "TaskSpec_GetPriority None = TaskSpec_GetPriority (Some (TaskSpec_Reset m))"
  by (simp_all add: TaskSpec_Reset_def TaskSpec_zero_def
      TaskSpec_GetTaskId_def
      TaskSpec_GetJobId_def
      TaskSpec_GetContainerImage_def
      TaskSpec_GetCommand_def
      TaskSpec_GetEnv_def
      TaskSpec_GetRequirements_def
      TaskSpec_GetMemoryHandles_def
      TaskSpec_GetGpuHandles_def
      TaskSpec_GetPriority_def)

lemma PendingTask_nil_safe [proto_getter]:
  "PendingTask_GetSpec None = PendingTask_GetSpec (Some (PendingTask_Reset m))"
  by (simp_all add: PendingTask_Reset_def PendingTask_zero_def
      PendingTask_GetSpec_def)

lemma HeartbeatResponse_nil_safe [proto_getter]:
  "HeartbeatResponse_GetAcknowledged None = HeartbeatResponse_GetAcknowledged (Some (HeartbeatResponse_Reset m))"
  "HeartbeatResponse_GetSequence None = HeartbeatResponse_GetSequence (Some (HeartbeatResponse_Reset m))"
  "HeartbeatResponse_GetPendingTasks None = HeartbeatResponse_GetPendingTasks (Some (HeartbeatResponse_Reset m))"
  "HeartbeatResponse_GetCancelTaskIds None = HeartbeatResponse_GetCancelTaskIds (Some (HeartbeatResponse_Reset m))"
  by (simp_all add: HeartbeatResponse_Reset_def HeartbeatResponse_zero_def
      HeartbeatResponse_GetAcknowledged_def
      HeartbeatResponse_GetSequence_def
      HeartbeatResponse_GetPendingTasks_def
      HeartbeatResponse_GetCancelTaskIds_def)

lemma TaskAck_nil_safe [proto_getter]:
  "TaskAck_GetAccepted None = TaskAck_GetAccepted (Some (TaskAck_Reset m))"
  "TaskAck_GetError None = TaskAck_GetError (Some (TaskAck_Reset m))"
  by (simp_all add: TaskAck_Reset_def TaskAck_zero_def
      TaskAck_GetAccepted_def
      TaskAck_GetError_def)

lemma ConsistencyMode_nil_safe [proto_getter]:
  "ConsistencyMode_GetMode None = ConsistencyMode_GetMode (Some (ConsistencyMode_Reset m))"
  by (simp_all add: ConsistencyMode_Reset_def ConsistencyMode_zero_def
      ConsistencyMode_GetMode_def
      ConsistencyMode_STRICT_def)

lemma MemoryAllocRequest_nil_safe [proto_getter]:
  "MemoryAllocRequest_GetAllocationId None = MemoryAllocRequest_GetAllocationId (Some (MemoryAllocRequest_Reset m))"
  "MemoryAllocRequest_GetSizeBytes None = MemoryAllocRequest_GetSizeBytes (Some (MemoryAllocRequest_Reset m))"
  "MemoryAllocRequest_GetConsistency None = MemoryAllocRequest_GetConsistency (Some (MemoryAllocRequest_Reset m))"
  "MemoryAllocRequest_GetUseHugepages None = MemoryAllocRequest_GetUseHugepages (Some (MemoryAllocRequest_Reset m))"
  "MemoryAllocRequest_GetReplicationFactor None = MemoryAllocRequest_GetReplicationFactor (Some (MemoryAllocRequest_Reset m))"
  by (simp_all add: MemoryAllocRequest_Reset_def MemoryAllocRequest_zero_def
      MemoryAllocRequest_GetAllocationId_def
      MemoryAllocRequest_GetSizeBytes_def
      MemoryAllocRequest_GetConsistency_def
      MemoryAllocRequest_GetUseHugepages_def
      MemoryAllocRequest_GetReplicationFactor_def)

lemma MemoryAllocResponse_nil_safe [proto_getter]:
  "MemoryAllocResponse_GetSuccess None = MemoryAllocResponse_GetSuccess (Some (MemoryAllocResponse_Reset m))"
  "MemoryAllocResponse_GetHandle None = MemoryAllocResponse_GetHandle (Some (MemoryAllocResponse_Reset m))"
  "MemoryAllocResponse_GetError None = MemoryAllocResponse_GetError (Some (MemoryAllocResponse_Reset m))"
  by (simp_all add: MemoryAllocResponse_Reset_def MemoryAllocResponse_zero_def
      MemoryAllocResponse_GetSuccess_def
      MemoryAllocResponse_GetHandle_def
      MemoryAllocResponse_GetError_def)

lemma FreeMemoryRequest_nil_safe [proto_getter]:
  "FreeMemoryRequest_GetAllocationId None = FreeMemoryRequest_GetAllocationId (Some (FreeMemoryRequest_Reset m))"
  by (simp_all add: FreeMemoryRequest_Reset_def FreeMemoryRequest_zero_def
      FreeMemoryRequest_GetAllocationId_def)

lemma FreeMemoryResponse_nil_safe [proto_getter]:
  "FreeMemoryResponse_GetSuccess None = FreeMemoryResponse_GetSuccess (Some (FreeMemoryResponse_Reset m))"
  by (simp_all add: FreeMemoryResponse_Reset_def FreeMemoryResponse_zero_def
      FreeMemoryResponse_GetSuccess_def)

lemma GPUMemoryAllocRequest_nil_safe [proto_getter]:
  "GPUMemoryAllocRequest_GetAllocationId None = GPUMemoryAllocRequest_GetAllocationId (Some (GPUMemoryAllocRequest_Reset m))"
  "GPUMemoryAllocRequest_GetSizeBytes None = GPUMemoryAllocRequest_GetSizeBytes (Some (GPUMemoryAllocRequest_Reset m))"
  "GPUMemoryAllocRequest_GetGpuDeviceIndex None = GPUMemoryAllocRequest_GetGpuDeviceIndex (Some (GPUMemoryAllocRequest_Reset m))"
  by (simp_all add: GPUMemoryAllocRequest_Reset_def GPUMemoryAllocRequest_zero_def
      GPUMemoryAllocRequest_GetAllocationId_def
      GPUMemoryAllocRequest_GetSizeBytes_def
      GPUMemoryAllocRequest_GetGpuDeviceIndex_def)

lemma GPUMemoryAllocResponse_nil_safe [proto_getter]:
  "GPUMemoryAllocResponse_GetSuccess None = GPUMemoryAllocResponse_GetSuccess (Some (GPUMemoryAllocResponse_Reset m))"
  "GPUMemoryAllocResponse_GetHandle None = GPUMemoryAllocResponse_GetHandle (Some (GPUMemoryAllocResponse_Reset m))"
  "GPUMemoryAllocResponse_GetError None = GPUMemoryAllocResponse_GetError (Some (GPUMemoryAllocResponse_Reset m))"
  by (simp_all add: GPUMemoryAllocResponse_Reset_def GPUMemoryAllocResponse_zero_def
      GPUMemoryAllocResponse_GetSuccess_def
      GPUMemoryAllocResponse_GetHandle_def
      GPUMemoryAllocResponse_GetError_def)

lemma FreeGPUMemoryRequest_nil_safe [proto_getter]:
  "FreeGPUMemoryRequest_GetAllocationId None = FreeGPUMemoryRequest_GetAllocationId (Some (FreeGPUMemoryRequest_Reset m))"
  by (simp_all add: FreeGPUMemoryRequest_Reset_def FreeGPUMemoryRequest_zero_def
      FreeGPUMemoryRequest_GetAllocationId_def)

lemma FreeGPUMemoryResponse_nil_safe [proto_getter]:
  "FreeGPUMemoryResponse_GetSuccess None = FreeGPUMemoryResponse_GetSuccess (Some (FreeGPUMemoryResponse_Reset m))"
  by (simp_all add: FreeGPUMemoryResponse_Reset_def FreeGPUMemoryResponse_zero_def
      FreeGPUMemoryResponse_GetSuccess_def)

end
