(* ===== verification/Registry.thy ===== *)
theory Registry
  imports Effects Go_Maps Connection_Table Proto_Agent
begin

text \<open>
  The package \<^verbatim>\<open>internal/registry\<close>: the node table, its operations, and the table's laws. The Go
  map \<open>nodes\<close> is an association list whose order stands for the order in which Go happens to range
  over the map; no theorem depends on it. Every operation runs under the registry's mutex, so it is
  one atomic step; it takes the clock reading it makes and returns the calls it makes to the metrics
  library. The third-party \<open>proto.CloneOf\<close> is a parameter of \<open>GetAll\<close>.
\<close>

subsection \<open>Data\<close>

record NodeInfo =
  NodeInfo_NodeID :: string
  NodeInfo_Address :: string
  NodeInfo_Resources :: "NodeResources option"
  NodeInfo_LastBeat :: time
  NodeInfo_Tasks :: "(string \<times> TaskStatus) list"
  NodeInfo_ConnectionID :: uint64

record NodeSummary =
  NodeSummary_NodeID :: string
  NodeSummary_Hostname :: string
  NodeSummary_Address :: string
  NodeSummary_LastBeat :: time
  NodeSummary_CPU :: "CpuResources option"
  NodeSummary_Memory :: "MemoryResources option"
  NodeSummary_GPUs :: "GpuResources option list"
  NodeSummary_ConnectionID :: uint64

record NodeRegistry =
  nodes :: "(string \<times> NodeInfo) list"

definition NewNodeRegistry :: NodeRegistry where
  "NewNodeRegistry = \<lparr>nodes = []\<rparr>"

subsection \<open>Operations\<close>

fun totalTasks :: "nat \<Rightarrow> (string \<times> NodeInfo) list \<Rightarrow> nat" where
  "totalTasks n [] = n"
| "totalTasks n ((_, info) # rest) = totalTasks (n + length (NodeInfo_Tasks info)) rest"

definition totalTasksLocked :: "NodeRegistry \<Rightarrow> nat" where
  "totalTasksLocked r = totalTasks 0 (nodes r)"

definition NodeRegistry_Register ::
  "NodeRegistry \<Rightarrow> time \<Rightarrow> string \<Rightarrow> string \<Rightarrow> NodeResources option
     \<Rightarrow> panic + NodeRegistry \<times> metric_op list" where
  "NodeRegistry_Register r now nodeID addr res =
     (if res = None then Inl (NilNodeResources nodeID)
      else let connID = (case map_of (nodes r) nodeID of
                           Some existing \<Rightarrow> NodeInfo_ConnectionID existing + 1
                         | None \<Rightarrow> 1);
               r' = r\<lparr>nodes := AList.update nodeID
                       \<lparr>NodeInfo_NodeID = nodeID, NodeInfo_Address = addr,
                        NodeInfo_Resources = res, NodeInfo_LastBeat = now,
                        NodeInfo_Tasks = [], NodeInfo_ConnectionID = connID\<rparr> (nodes r)\<rparr>
           in Inr (r', [RegistrationsTotal_Inc, RegisteredNodes_Set (length (nodes r'))]))"

text \<open>The loop that files the reported tasks by id; \<open>t.TaskId\<close> panics on a nil element.\<close>

fun file_tasks ::
  "TaskStatus option list \<Rightarrow> (string \<times> TaskStatus) list \<Rightarrow> panic + (string \<times> TaskStatus) list" where
  "file_tasks [] m = Inr m"
| "file_tasks (None # ts) m = Inl NilDeref"
| "file_tasks (Some t # ts) m = file_tasks ts (AList.update (TaskStatus_TaskId t) t m)"

definition NodeRegistry_UpdateHeartbeat ::
  "NodeRegistry \<Rightarrow> time \<Rightarrow> string \<Rightarrow> NodeUtilization option \<Rightarrow> TaskStatus option list
     \<Rightarrow> panic + NodeRegistry \<times> metric_op list" where
  "NodeRegistry_UpdateHeartbeat r now nodeID util tasks =
     (case map_of (nodes r) nodeID of
        None \<Rightarrow> Inr (r, [HeartbeatsTotal_Inc, TasksRunning_Set (totalTasksLocked r)])
      | Some n \<Rightarrow>
          (case file_tasks tasks [] of
             Inl p \<Rightarrow> Inl p
           | Inr m \<Rightarrow>
               let r' = r\<lparr>nodes := AList.update nodeID
                           (n\<lparr>NodeInfo_LastBeat := now, NodeInfo_Tasks := m\<rparr>) (nodes r)\<rparr>
               in Inr (r', [HeartbeatsTotal_Inc, TasksRunning_Set (totalTasksLocked r')])))"

definition node_summary :: "(NodeResources \<Rightarrow> NodeResources) \<Rightarrow> NodeInfo \<Rightarrow> NodeSummary" where
  "node_summary CloneOf v =
     (let cl = map_option CloneOf (NodeInfo_Resources v)
      in \<lparr>NodeSummary_NodeID = NodeInfo_NodeID v,
          NodeSummary_Hostname = (case cl of Some c \<Rightarrow> NodeResources_Hostname c | None \<Rightarrow> ''''),
          NodeSummary_Address = NodeInfo_Address v,
          NodeSummary_LastBeat = NodeInfo_LastBeat v,
          NodeSummary_CPU = (case cl of Some c \<Rightarrow> NodeResources_Cpu c | None \<Rightarrow> None),
          NodeSummary_Memory = (case cl of Some c \<Rightarrow> NodeResources_Memory c | None \<Rightarrow> None),
          NodeSummary_GPUs = (case cl of Some c \<Rightarrow> NodeResources_Gpus c | None \<Rightarrow> []),
          NodeSummary_ConnectionID = NodeInfo_ConnectionID v\<rparr>)"

definition NodeRegistry_GetAll ::
  "(NodeResources \<Rightarrow> NodeResources) \<Rightarrow> NodeRegistry \<Rightarrow> NodeSummary list" where
  "NodeRegistry_GetAll CloneOf r = map (\<lambda>(_, v). node_summary CloneOf v) (nodes r)"

definition NodeRegistry_Remove :: "NodeRegistry \<Rightarrow> string \<Rightarrow> NodeRegistry \<times> metric_op list" where
  "NodeRegistry_Remove r nodeID =
     (let r' = r\<lparr>nodes := AList.delete nodeID (nodes r)\<rparr>
      in (r', [RegisteredNodes_Set (length (nodes r')), TasksRunning_Set (totalTasksLocked r')]))"

definition NodeRegistry_RemoveIfConnectionMatches ::
  "NodeRegistry \<Rightarrow> string \<Rightarrow> uint64 \<Rightarrow> NodeRegistry \<times> metric_op list" where
  "NodeRegistry_RemoveIfConnectionMatches r nodeID connID =
     (case map_of (nodes r) nodeID of
        Some n \<Rightarrow>
          if NodeInfo_ConnectionID n = connID then
            let r' = r\<lparr>nodes := AList.delete nodeID (nodes r)\<rparr>
            in (r', [RegisteredNodes_Set (length (nodes r')), TasksRunning_Set (totalTasksLocked r')])
          else (r, [])
      | None \<Rightarrow> (r, []))"

definition NodeRegistry_ConnectionID :: "NodeRegistry \<Rightarrow> string \<Rightarrow> uint64" where
  "NodeRegistry_ConnectionID r nodeID =
     (case map_of (nodes r) nodeID of Some n \<Rightarrow> NodeInfo_ConnectionID n | None \<Rightarrow> 0)"

text \<open>
  One tick of \<open>StaleNodeCleanup\<close>. The source deletes while it ranges over the map; Go visits every
  entry that was present and not yet deleted once, so the loop runs over the entries at the start.
  The third component is the log: each removed node with the time since its last beat.
\<close>

fun sweep ::
  "time \<Rightarrow> duration \<Rightarrow> (string \<times> NodeInfo) list \<Rightarrow> (string \<times> NodeInfo) list \<Rightarrow> (string \<times> duration) list
     \<Rightarrow> (string \<times> NodeInfo) list \<times> (string \<times> duration) list" where
  "sweep now threshold [] ns logged = (ns, logged)"
| "sweep now threshold ((nid, info) # rest) ns logged =
     (if threshold < time_Sub now (NodeInfo_LastBeat info)
      then sweep now threshold rest (AList.delete nid ns)
             (logged @ [(nid, time_Sub now (NodeInfo_LastBeat info))])
      else sweep now threshold rest ns logged)"

definition StaleNodeCleanup_tick ::
  "duration \<Rightarrow> time \<Rightarrow> NodeRegistry \<Rightarrow> NodeRegistry \<times> metric_op list \<times> (string \<times> duration) list" where
  "StaleNodeCleanup_tick threshold now r =
     (let (ns, logged) = sweep now threshold (nodes r) (nodes r) [];
          r' = r\<lparr>nodes := ns\<rparr>
      in (r',
          if 0 < length logged
          then [StaleNodesRemoved_Add (length logged), RegisteredNodes_Set (length ns),
                TasksRunning_Set (totalTasksLocked r')]
          else [],
          logged))"

text \<open>The background loop: it waits for the context's end or the next tick, whichever comes.\<close>

datatype cleanup_event = CtxDone | Tick time

fun NodeRegistry_StaleNodeCleanup ::
  "duration \<Rightarrow> cleanup_event list \<Rightarrow> NodeRegistry \<Rightarrow> NodeRegistry \<times> metric_op list" where
  "NodeRegistry_StaleNodeCleanup threshold [] r = (r, [])"
| "NodeRegistry_StaleNodeCleanup threshold (CtxDone # evs) r = (r, [])"
| "NodeRegistry_StaleNodeCleanup threshold (Tick now # evs) r =
     (let (r', ops, logged) = StaleNodeCleanup_tick threshold now r;
          (r'', ops') = NodeRegistry_StaleNodeCleanup threshold evs r'
      in (r'', ops @ ops'))"

subsection \<open>Operations as a table\<close>

datatype reg_op =
    RegRegister time string string "NodeResources option"
  | RegHeartbeat time string "NodeUtilization option" "TaskStatus option list"
  | RegRemove string
  | RegRemoveIf string uint64
  | RegSweep duration time

fun reg_apply :: "reg_op \<Rightarrow> NodeRegistry \<Rightarrow> panic + NodeRegistry \<times> metric_op list" where
  "reg_apply (RegRegister now nid addr res) r = NodeRegistry_Register r now nid addr res"
| "reg_apply (RegHeartbeat now nid util tasks) r = NodeRegistry_UpdateHeartbeat r now nid util tasks"
| "reg_apply (RegRemove nid) r = Inr (NodeRegistry_Remove r nid)"
| "reg_apply (RegRemoveIf nid c) r = Inr (NodeRegistry_RemoveIfConnectionMatches r nid c)"
| "reg_apply (RegSweep threshold now) r =
     (let (r', ops, logged) = StaleNodeCleanup_tick threshold now r in Inr (r', ops))"

fun reg_next :: "reg_op \<Rightarrow> NodeRegistry \<Rightarrow> NodeRegistry option" where
  "reg_next op r = (case reg_apply op r of Inl p \<Rightarrow> None | Inr (r', ops) \<Rightarrow> Some r')"

text \<open>Every registry a running control plane can have, with the metrics calls made so far.\<close>

inductive reg_reach :: "NodeRegistry \<Rightarrow> metric_op list \<Rightarrow> bool" where
  reach_new: "reg_reach NewNodeRegistry []"
| reach_op: "reg_reach r tr \<Longrightarrow> reg_apply op r = Inr (r', ops) \<Longrightarrow> reg_reach r' (tr @ ops)"

subsection \<open>Task counting and the sweep\<close>

lemma totalTasks_sum:
  "totalTasks n ns = n + sum_list (map (\<lambda>(_, info). length (NodeInfo_Tasks info)) ns)"
  by (induction n ns rule: totalTasks.induct) auto

definition stale :: "time \<Rightarrow> duration \<Rightarrow> NodeInfo \<Rightarrow> bool" where
  "stale now threshold info \<longleftrightarrow> threshold < time_Sub now (NodeInfo_LastBeat info)"

lemma sweep_conv:
  "sweep now threshold es ns logged =
     (filter (\<lambda>e. fst e \<notin> fst ` {e \<in> set es. stale now threshold (snd e)}) ns,
      logged @ map (\<lambda>(k, info). (k, time_Sub now (NodeInfo_LastBeat info)))
                 (filter (\<lambda>e. stale now threshold (snd e)) es))"
proof (induction now threshold es ns logged rule: sweep.induct)
  case (1 now threshold ns logged)
  then show ?case by simp
next
  case (2 now threshold nid info rest ns logged)
  show ?case
  proof (cases "stale now threshold info")
    case True
    then have "{e \<in> set ((nid, info) # rest). stale now threshold (snd e)} =
        insert (nid, info) {e \<in> set rest. stale now threshold (snd e)}"
      by auto
    with True 2 show ?thesis
      by (simp add: stale_def AList.delete_eq case_prod_beta conj_commute) (metis (no_types))
  next
    case False
    then have "{e \<in> set ((nid, info) # rest). stale now threshold (snd e)} =
        {e \<in> set rest. stale now threshold (snd e)}"
      by auto
    with False 2 show ?thesis by (simp add: stale_def)
  qed
qed

lemma distinct_fst_eqD:
  "distinct (map fst xs) \<Longrightarrow> e \<in> set xs \<Longrightarrow> d \<in> set xs \<Longrightarrow> fst e = fst d \<Longrightarrow> e = d"
  by (metis distinct_map inj_on_eq_iff)

lemma sweep_filter:
  assumes "distinct (map fst ns)"
  shows "fst (sweep now threshold ns ns []) = filter (\<lambda>e. \<not> stale now threshold (snd e)) ns"
proof -
  have "fst e \<notin> fst ` {e \<in> set ns. stale now threshold (snd e)} \<longleftrightarrow> \<not> stale now threshold (snd e)"
    if "e \<in> set ns" for e
    using that by (auto simp: image_iff) (metis assms distinct_fst_eqD fst_conv snd_conv)
  then show ?thesis unfolding sweep_conv fst_conv by (intro filter_cong) simp_all
qed

subsection \<open>Well-formed tables\<close>

definition node_ok :: "string \<Rightarrow> NodeInfo \<Rightarrow> bool" where
  "node_ok nid info \<longleftrightarrow>
     NodeInfo_NodeID info = nid \<and> NodeInfo_Resources info \<noteq> None \<and>
     distinct (map fst (NodeInfo_Tasks info)) \<and>
     list_all (\<lambda>(k, t). TaskStatus_TaskId t = k) (NodeInfo_Tasks info)"

definition reg_ok :: "NodeRegistry \<Rightarrow> bool" where
  "reg_ok r \<longleftrightarrow> distinct (map fst (nodes r)) \<and> list_all (\<lambda>(k, n). node_ok k n) (nodes r)"

lemma reg_ok_lookup: "reg_ok r \<Longrightarrow> map_of (nodes r) nid = Some n \<Longrightarrow> node_ok nid n"
  by (auto simp: reg_ok_def list_all_iff dest: map_of_SomeD)

lemma reg_ok_update:
  "reg_ok r \<Longrightarrow> node_ok nid n \<Longrightarrow> reg_ok (r\<lparr>nodes := AList.update nid n (nodes r)\<rparr>)"
  by (auto simp: reg_ok_def list_all_iff set_alist_update AList.distinct_update)

lemma reg_ok_filter: "reg_ok r \<Longrightarrow> reg_ok (r\<lparr>nodes := filter P (nodes r)\<rparr>)"
  by (auto simp: reg_ok_def list_all_iff distinct_map_filter)

lemma reg_ok_delete: "reg_ok r \<Longrightarrow> reg_ok (r\<lparr>nodes := AList.delete nid (nodes r)\<rparr>)"
  by (auto simp: AList.delete_eq reg_ok_filter)

lemma file_tasks_keyed:
  assumes "file_tasks ts m = Inr m'" and "distinct (map fst m)"
    and "list_all (\<lambda>(k, t). TaskStatus_TaskId t = k) m"
  shows "distinct (map fst m') \<and> list_all (\<lambda>(k, t). TaskStatus_TaskId t = k) m'"
  using assms
  by (induction ts m rule: file_tasks.induct)
     (auto simp: list_all_iff set_alist_update AList.distinct_update)

lemma reg_ok_new: "reg_ok NewNodeRegistry"
  by (simp add: reg_ok_def NewNodeRegistry_def)

lemma reg_ok_Register:
  assumes "reg_ok r" and "NodeRegistry_Register r now nid addr res = Inr (r', ops)"
  shows "reg_ok r'"
proof -
  have "node_ok nid \<lparr>NodeInfo_NodeID = nid, NodeInfo_Address = addr, NodeInfo_Resources = res,
      NodeInfo_LastBeat = now, NodeInfo_Tasks = [], NodeInfo_ConnectionID = c\<rparr>" if "res \<noteq> None" for c
    using that by (simp add: node_ok_def)
  with assms show ?thesis
    by (auto simp: NodeRegistry_Register_def Let_def split: if_splits intro: reg_ok_update)
qed

lemma reg_ok_UpdateHeartbeat:
  assumes "reg_ok r" and "NodeRegistry_UpdateHeartbeat r now nid util tasks = Inr (r', ops)"
  shows "reg_ok r'"
proof (cases "map_of (nodes r) nid")
  case None
  with assms show ?thesis by (simp add: NodeRegistry_UpdateHeartbeat_def)
next
  case (Some n)
  then obtain m where m: "file_tasks tasks [] = Inr m"
    and r': "r' = r\<lparr>nodes := AList.update nid
               (n\<lparr>NodeInfo_LastBeat := now, NodeInfo_Tasks := m\<rparr>) (nodes r)\<rparr>"
    using assms(2) by (auto simp: NodeRegistry_UpdateHeartbeat_def Let_def split: sum.splits)
  from file_tasks_keyed [OF m] reg_ok_lookup [OF assms(1) Some]
  have "node_ok nid (n\<lparr>NodeInfo_LastBeat := now, NodeInfo_Tasks := m\<rparr>)"
    by (simp add: node_ok_def)
  then show ?thesis unfolding r' by (rule reg_ok_update [OF assms(1)])
qed

lemma StaleNodeCleanup_tick_nodes:
  assumes "distinct (map fst (nodes r))"
  shows "fst (StaleNodeCleanup_tick threshold now r) =
           r\<lparr>nodes := filter (\<lambda>e. \<not> stale now threshold (snd e)) (nodes r)\<rparr>"
  by (simp add: StaleNodeCleanup_tick_def Let_def case_prod_beta sweep_filter [OF assms])

lemma reg_ok_apply:
  assumes "reg_ok r" and "reg_apply op r = Inr (r', ops)"
  shows "reg_ok r'"
proof (cases op)
  case (RegSweep threshold now)
  with assms(2) have "r' = fst (StaleNodeCleanup_tick threshold now r)"
    by (auto simp: case_prod_beta)
  with StaleNodeCleanup_tick_nodes assms(1) show ?thesis
    by (simp add: reg_ok_def [of r] reg_ok_filter)
qed (use assms in \<open>auto simp: NodeRegistry_Remove_def NodeRegistry_RemoveIfConnectionMatches_def Let_def
      intro: reg_ok_Register reg_ok_UpdateHeartbeat reg_ok_delete split: option.splits if_splits\<close>)

lemma reg_reach_ok: "reg_reach r tr \<Longrightarrow> reg_ok r"
  by (induction rule: reg_reach.induct) (auto intro: reg_ok_new reg_ok_apply)

subsection \<open>The registry as a connection table\<close>

definition conn_of :: "NodeRegistry \<Rightarrow> string \<Rightarrow> uint64 option" where
  "conn_of r n = map_option NodeInfo_ConnectionID (map_of (nodes r) n)"

fun registers :: "reg_op \<Rightarrow> string \<Rightarrow> bool" where
  "registers (RegRegister now nid addr res) n = (nid = n)"
| "registers _ n = False"

lemma map_of_filter_key: "map_of (filter (\<lambda>e. fst e \<notin> K) al) k = (if k \<in> K then None else map_of al k)"
  by (induction al) auto

lemma conn_of_Register:
  "NodeRegistry_Register r now nid addr res = Inr (r', ops) \<Longrightarrow>
     conn_of r' = (conn_of r)(nid \<mapsto> case conn_of r nid of Some c \<Rightarrow> c + 1 | None \<Rightarrow> 1)"
  by (auto simp: NodeRegistry_Register_def Let_def conn_of_def map_of_alist_update fun_eq_iff
      split: if_splits option.splits)

lemma conn_of_UpdateHeartbeat:
  "NodeRegistry_UpdateHeartbeat r now nid util tasks = Inr (r', ops) \<Longrightarrow> conn_of r' = conn_of r"
  by (auto simp: NodeRegistry_UpdateHeartbeat_def Let_def conn_of_def map_of_alist_update fun_eq_iff
      split: option.splits sum.splits)

lemma conn_of_Remove: "conn_of (fst (NodeRegistry_Remove r nid)) = (conn_of r)(nid := None)"
  by (auto simp: NodeRegistry_Remove_def Let_def conn_of_def map_of_alist_delete)

lemma conn_of_RemoveIf:
  "conn_of (fst (NodeRegistry_RemoveIfConnectionMatches r nid c)) =
     (if conn_of r nid = Some c then (conn_of r)(nid := None) else conn_of r)"
  by (auto simp: NodeRegistry_RemoveIfConnectionMatches_def Let_def conn_of_def
      map_of_alist_delete split: option.splits)

lemma conn_of_sweep:
  "conn_of (fst (StaleNodeCleanup_tick threshold now r)) n =
     (if n \<in> fst ` {e \<in> set (nodes r). stale now threshold (snd e)} then None else conn_of r n)"
  by (simp add: StaleNodeCleanup_tick_def Let_def case_prod_beta sweep_conv conn_of_def
      map_of_filter_key)

lemma ConnectionID_conn_of:
  "NodeRegistry_ConnectionID r n = (case conn_of r n of Some c \<Rightarrow> c | None \<Rightarrow> 0)"
  by (simp add: NodeRegistry_ConnectionID_def conn_of_def split: option.split)

lemma reg_next_Some: "reg_next op r = Some r' \<longleftrightarrow> (\<exists>ops. reg_apply op r = Inr (r', ops))"
  by (auto split: sum.splits)

interpretation reg_conn: connection_table reg_next conn_of registers RegRemoveIf
proof
  fix op r r' n
  assume app: "reg_next op r = Some r'"
  show "registers op n \<Longrightarrow>
      conn_of r' n = Some (case conn_of r n of Some c \<Rightarrow> c + 1 | None \<Rightarrow> 1)"
    using app by (cases op) (auto dest: conn_of_Register split: sum.splits)
  show "\<not> registers op n \<Longrightarrow> conn_of r' n = conn_of r n \<or> conn_of r' n = None"
  proof (cases op)
    case (RegSweep threshold now)
    with app have "r' = fst (StaleNodeCleanup_tick threshold now r)"
      by (auto simp: case_prod_beta)
    then show ?thesis by (simp add: conn_of_sweep)
  next
    case (RegRemove nid)
    with app have "r' = fst (NodeRegistry_Remove r nid)" by (auto split: prod.splits)
    then show ?thesis by (simp add: conn_of_Remove)
  next
    case (RegRemoveIf nid c)
    with app have "r' = fst (NodeRegistry_RemoveIfConnectionMatches r nid c)"
      by (auto split: prod.splits)
    then show ?thesis by (simp add: conn_of_RemoveIf)
  qed (use app in \<open>auto dest: conn_of_Register conn_of_UpdateHeartbeat split: sum.splits\<close>)
next
  fix n c r r'
  assume "reg_next (RegRemoveIf n c) r = Some r'"
  then have "r' = fst (NodeRegistry_RemoveIfConnectionMatches r n c)" by (auto split: prod.splits)
  then show "conn_of r' = (if conn_of r n = Some c then (conn_of r)(n := None) else conn_of r)"
    by (simp add: conn_of_RemoveIf)
qed

subsection \<open>Gauges\<close>

lemma length_alist_update_known:
  "map_of al k = Some v \<Longrightarrow> length (AList.update k w al) = length al"
  by (induction al) auto

lemma length_tick_log:
  assumes "distinct (map fst (nodes r))"
    and "StaleNodeCleanup_tick threshold now r = (r', ops, logged)"
  shows "length logged = length (filter (\<lambda>e. stale now threshold (snd e)) (nodes r))"
  using assms by (auto simp: StaleNodeCleanup_tick_def Let_def case_prod_beta sweep_conv)

lemma registered_gauge_step:
  assumes "reg_apply op r = Inr (r', ops)" and "distinct (map fst (nodes r))"
  shows "last_RegisteredNodes (length (nodes r)) ops = length (nodes r')"
proof (cases op)
  case (RegSweep threshold now)
  let ?st = "\<lambda>e. stale now threshold (snd e)"
  have "filter (\<lambda>e. \<not> ?st e) (nodes r) = nodes r" if "filter ?st (nodes r) = []"
    using that by (auto simp: filter_id_conv filter_empty_conv)
  with assms RegSweep show ?thesis
    by (auto simp: StaleNodeCleanup_tick_def Let_def case_prod_beta sweep_filter sweep_conv
        simp flip: sweep_filter split: if_splits)
qed (use assms in \<open>auto simp: NodeRegistry_Register_def NodeRegistry_UpdateHeartbeat_def
      NodeRegistry_Remove_def NodeRegistry_RemoveIfConnectionMatches_def Let_def
      length_alist_update_known split: option.splits sum.splits if_splits\<close>)

subsection \<open>Filing tasks\<close>

lemma file_tasks_nil: "(\<exists>p. file_tasks ts m = Inl p) \<longleftrightarrow> None \<in> set ts"
  by (induction ts m rule: file_tasks.induct) auto

lemma file_tasks_NilDeref: "file_tasks ts m = Inl p \<Longrightarrow> p = NilDeref"
  by (induction ts m rule: file_tasks.induct) auto

lemma file_tasks_Some:
  "\<exists>m'. file_tasks (map Some ts) m = Inr m' \<and>
     map_of m' = map_of m ++ map_of (rev (map (\<lambda>t. (TaskStatus_TaskId t, t)) ts))"
proof (induction ts arbitrary: m)
  case (Cons t ts)
  from Cons.IH [of "AList.update (TaskStatus_TaskId t) t m"] obtain m' where
    "file_tasks (map Some ts) (AList.update (TaskStatus_TaskId t) t m) = Inr m'"
    "map_of m' = (map_of m)(TaskStatus_TaskId t \<mapsto> t) ++
       map_of (rev (map (\<lambda>t. (TaskStatus_TaskId t, t)) ts))"
    unfolding map_of_alist_update by blast
  then show ?case
    by (auto simp: map_add_def fun_eq_iff split: option.split)
qed simp

subsection \<open>Properties\<close>

text \<open>A small registry for the witnesses: one node with one running task.\<close>

definition sample_resources :: NodeResources where
  "sample_resources = NodeResources_zero\<lparr>NodeResources_NodeId := ''n1'', NodeResources_Hostname := ''h''\<rparr>"

definition sample_task :: TaskStatus where
  "sample_task = TaskStatus_zero\<lparr>TaskStatus_TaskId := ''t1''\<rparr>"

definition sample_registry :: NodeRegistry where
  "sample_registry =
     \<lparr>nodes = [(''n1'', \<lparr>NodeInfo_NodeID = ''n1'', NodeInfo_Address = ''a'',
        NodeInfo_Resources = Some sample_resources, NodeInfo_LastBeat = 5,
        NodeInfo_Tasks = [(''t1'', sample_task)], NodeInfo_ConnectionID = 1\<rparr>)]\<rparr>"

lemmas sample_defs = sample_resources_def sample_task_def sample_registry_def
  NodeResources_zero_def TaskStatus_zero_def

lemma sample_registry_reach:
  "reg_reach sample_registry
     [RegistrationsTotal_Inc, RegisteredNodes_Set 1, HeartbeatsTotal_Inc, TasksRunning_Set 1]"
proof -
  have r1: "reg_reach
      \<lparr>nodes = [(''n1'', \<lparr>NodeInfo_NodeID = ''n1'', NodeInfo_Address = ''a'',
        NodeInfo_Resources = Some sample_resources, NodeInfo_LastBeat = 3,
        NodeInfo_Tasks = [], NodeInfo_ConnectionID = 1\<rparr>)]\<rparr>
      ([] @ [RegistrationsTotal_Inc, RegisteredNodes_Set 1])"
    by (rule reach_op [OF reach_new, of "RegRegister 3 ''n1'' ''a'' (Some sample_resources)"])
       (simp add: NodeRegistry_Register_def NewNodeRegistry_def Let_def)
  have "reg_reach sample_registry
      (([] @ [RegistrationsTotal_Inc, RegisteredNodes_Set 1]) @ [HeartbeatsTotal_Inc, TasksRunning_Set 1])"
    by (rule reach_op [OF r1, of "RegHeartbeat 5 ''n1'' None [Some sample_task]"])
       (simp add: NodeRegistry_UpdateHeartbeat_def Let_def sample_registry_def sample_task_def
         TaskStatus_zero_def totalTasksLocked_def)
  then show ?thesis by simp
qed

text \<open>
  \<^bold>\<open>C6\<close>. In every registry the control plane can reach, no node id occurs twice, every entry is
  filed under its own node id and carries resources, and every task under its own task id.
\<close>

theorem registry_wellformed:
  assumes "reg_reach r tr"
  shows "distinct (map fst (nodes r)) \<and>
    (\<forall>nid n. map_of (nodes r) nid = Some n \<longrightarrow>
       NodeInfo_NodeID n = nid \<and> NodeInfo_Resources n \<noteq> None \<and>
       distinct (map fst (NodeInfo_Tasks n)) \<and>
       (\<forall>tid t. map_of (NodeInfo_Tasks n) tid = Some t \<longrightarrow> TaskStatus_TaskId t = tid))"
  using reg_reach_ok [OF assms] reg_ok_lookup [OF reg_reach_ok [OF assms]]
  by (fastforce simp: reg_ok_def node_ok_def list_all_iff dest: map_of_SomeD)

theorem registry_wellformed_witness:
  "map_of (nodes sample_registry) ''n1'' \<noteq> None \<and>
   NodeInfo_NodeID (the (map_of (nodes sample_registry) ''n1'')) = ''n1''"
  using registry_wellformed [OF sample_registry_reach] by (simp add: sample_registry_def)

text \<open>
  The gauge \<open>nmonit_nodes_registered_total\<close> is exact: after any sequence of registry
  operations, the value last set is the number of registered nodes.
\<close>

theorem registered_nodes_gauge_exact:
  assumes "reg_reach r tr"
  shows "last_RegisteredNodes 0 tr = length (nodes r)"
  using assms
proof (induction rule: reg_reach.induct)
  case reach_new
  show ?case by (simp add: NewNodeRegistry_def)
next
  case (reach_op r tr op r' ops)
  with reg_reach_ok registered_gauge_step show ?case by (fastforce simp: reg_ok_def)
qed

theorem registered_nodes_gauge_exact_witness: "length (nodes sample_registry) = 1"
  using registered_nodes_gauge_exact [OF sample_registry_reach] by simp

text \<open>
  \<open>Register\<close> panics exactly on nil resources. Otherwise it stores a fresh entry with no
  tasks, the given address and resources, the current time, and the connection number after the
  node's old one (1 for a new node); every other node is untouched, and one registration is counted.
\<close>

theorem Register_effect:
  "NodeRegistry_Register r now nid addr None = Inl (NilNodeResources nid) \<and>
   (\<exists>r'. NodeRegistry_Register r now nid addr (Some res) =
           Inr (r', [RegistrationsTotal_Inc, RegisteredNodes_Set (length (nodes r'))]) \<and>
      map_of (nodes r') = (map_of (nodes r))(nid \<mapsto>
        \<lparr>NodeInfo_NodeID = nid, NodeInfo_Address = addr, NodeInfo_Resources = Some res,
         NodeInfo_LastBeat = now, NodeInfo_Tasks = [],
         NodeInfo_ConnectionID = (case conn_of r nid of Some c \<Rightarrow> c + 1 | None \<Rightarrow> 1)\<rparr>))"
  by (simp add: NodeRegistry_Register_def Let_def map_of_alist_update conn_of_def
      split: option.split)

text \<open>
  A heartbeat of a registered node sets its last beat to the current time and replaces its
  task map by the reported tasks, a later report of the same id winning; address, resources and
  connection number stay, and so does every other node. A heartbeat of an unknown node changes
  nothing. Both are counted.
\<close>

theorem UpdateHeartbeat_effect:
  "\<exists>r'. NodeRegistry_UpdateHeartbeat r now nid util (map Some ts) =
          Inr (r', [HeartbeatsTotal_Inc, TasksRunning_Set (totalTasksLocked r')]) \<and>
     (case map_of (nodes r) nid of
        None \<Rightarrow> r' = r
      | Some n \<Rightarrow> \<exists>m. map_of m = map_of (rev (map (\<lambda>t. (TaskStatus_TaskId t, t)) ts)) \<and>
          map_of (nodes r') = (map_of (nodes r))
            (nid \<mapsto> n\<lparr>NodeInfo_LastBeat := now, NodeInfo_Tasks := m\<rparr>))"
proof (cases "map_of (nodes r) nid")
  case None
  then show ?thesis by (simp add: NodeRegistry_UpdateHeartbeat_def)
next
  case (Some n)
  obtain m where "file_tasks (map Some ts) [] = Inr m"
    "map_of m = map_of (rev (map (\<lambda>t. (TaskStatus_TaskId t, t)) ts))"
    using file_tasks_Some [of ts "[]"] by auto
  with Some show ?thesis
    by (auto simp: NodeRegistry_UpdateHeartbeat_def Let_def map_of_alist_update)
qed

text \<open>
  \<^bold>\<open>C21\<close>. One cleanup tick removes exactly the nodes whose last beat is more than the threshold
  ago and keeps every other entry as it is. The metrics are touched only when something was removed,
  and then the number removed is the number the table shrank by.
\<close>

theorem StaleNodeCleanup_tick_exact:
  assumes "reg_ok r" and "StaleNodeCleanup_tick threshold now r = (r', ops, logged)"
  shows "nodes r' = filter (\<lambda>e. \<not> threshold < time_Sub now (NodeInfo_LastBeat (snd e))) (nodes r) \<and>
    map fst logged = map fst (filter (\<lambda>e. threshold < time_Sub now (NodeInfo_LastBeat (snd e))) (nodes r)) \<and>
    length (nodes r') + length logged = length (nodes r) \<and>
    ops = (if logged = [] then []
           else [StaleNodesRemoved_Add (length logged), RegisteredNodes_Set (length (nodes r')),
                 TasksRunning_Set (totalTasksLocked r')])"
proof -
  have d: "distinct (map fst (nodes r))" using assms(1) by (simp add: reg_ok_def)
  have n: "nodes r' = filter (\<lambda>e. \<not> stale now threshold (snd e)) (nodes r)"
    using StaleNodeCleanup_tick_nodes [OF d, of threshold now] assms(2) by simp
  have l: "map fst logged = map fst (filter (\<lambda>e. stale now threshold (snd e)) (nodes r))"
    using assms(2)
    by (auto simp: StaleNodeCleanup_tick_def Let_def case_prod_beta sweep_conv)
  then have "length logged = length (filter (\<lambda>e. stale now threshold (snd e)) (nodes r))"
    by (metis length_map)
  with n have "length (nodes r') + length logged = length (nodes r)"
    using sum_length_filter_compl [of "\<lambda>e. stale now threshold (snd e)" "nodes r"] by simp
  moreover have "ops = (if logged = [] then []
           else [StaleNodesRemoved_Add (length logged), RegisteredNodes_Set (length (nodes r')),
                 TasksRunning_Set (totalTasksLocked r')])"
    using assms(2) by (auto simp: StaleNodeCleanup_tick_def Let_def case_prod_beta)
  ultimately show ?thesis using n l by (simp add: stale_def)
qed

theorem StaleNodeCleanup_tick_exact_witness:
  "nodes (fst (StaleNodeCleanup_tick (30 * time_Second) (31 * time_Second) sample_registry)) = []"
proof -
  obtain r' ops logged where t:
    "StaleNodeCleanup_tick (30 * time_Second) (31 * time_Second) sample_registry = (r', ops, logged)"
    by (cases "StaleNodeCleanup_tick (30 * time_Second) (31 * time_Second) sample_registry") auto
  from StaleNodeCleanup_tick_exact [OF reg_reach_ok [OF sample_registry_reach] t] t
  show ?thesis
    by (simp add: sample_registry_def time_Sub_def time_Second_def minDuration_def maxDuration_def)
qed

text \<open>
  A heartbeat stream that opened under connection \<open>c\<close> cannot remove its node once the node
  has registered again, whatever else happened in between, as long as the node was never removed
  meanwhile and fewer than \<open>2 ^ 64\<close> operations ran.
\<close>

theorem old_stream_cannot_remove_reconnected_node:
  assumes "run_ops reg_next ops r = Some r'" and "conn_of r n = Some c"
    and "holds_throughout reg_next (\<lambda>s. conn_of s n \<noteq> None) ops r"
    and "0 < length (filter (\<lambda>op. registers op n) ops)" and "length ops < 2 ^ 64"
  shows "NodeRegistry_RemoveIfConnectionMatches r' n c = (r', [])"
  using reg_conn.old_number_gone [OF assms]
  by (auto simp: NodeRegistry_RemoveIfConnectionMatches_def conn_of_def split: option.split)

theorem old_stream_cannot_remove_reconnected_node_witness:
  "\<exists>r'. run_ops reg_next [RegRegister 9 ''n1'' ''b'' (Some sample_resources)] sample_registry = Some r'
      \<and> NodeRegistry_RemoveIfConnectionMatches r' ''n1'' 1 = (r', [])"
proof -
  let ?ops = "[RegRegister 9 ''n1'' ''b'' (Some sample_resources)]"
  obtain r' where r': "run_ops reg_next ?ops sample_registry = Some r'"
    by (simp add: NodeRegistry_Register_def Let_def)
  have "NodeRegistry_RemoveIfConnectionMatches r' ''n1'' 1 = (r', [])"
    by (rule old_stream_cannot_remove_reconnected_node [OF r'])
       (simp_all add: conn_of_def sample_registry_def NodeRegistry_Register_def Let_def)
  with r' show ?thesis by blast
qed

text \<open>
  \<^bold>\<open>C34\<close>. The protection ends with the entry: when a node is swept as stale and registers again, it
  gets connection number 1 again, so a stream left over from its first life still matches and, when
  it closes, removes the node that has reconnected.
\<close>

theorem connection_number_reused_after_removal:
  assumes "conn_of r n = None" and "threshold < time_Sub t2 t1"
  shows "\<exists>r1 r2.
    run_ops reg_next [RegRegister t1 n a1 (Some x)] r = Some r1 \<and>
    run_ops reg_next [RegSweep threshold t2, RegRegister t3 n a2 (Some y)] r1 = Some r2 \<and>
    conn_of r2 n = Some 1 \<and>
    conn_of (fst (NodeRegistry_RemoveIfConnectionMatches r2 n (NodeRegistry_ConnectionID r1 n))) n = None"
proof -
  obtain r1 ops1 where r1: "NodeRegistry_Register r t1 n a1 (Some x) = Inr (r1, ops1)"
    by (simp add: NodeRegistry_Register_def Let_def)
  have c1: "conn_of r1 n = Some 1" using conn_of_Register [OF r1] assms(1) by simp
  have "\<exists>info. (n, info) \<in> set (nodes r1) \<and> NodeInfo_LastBeat info = t1"
  proof -
    have "map_of (nodes r1) n = Some \<lparr>NodeInfo_NodeID = n, NodeInfo_Address = a1,
        NodeInfo_Resources = Some x, NodeInfo_LastBeat = t1, NodeInfo_Tasks = [],
        NodeInfo_ConnectionID = 1\<rparr>"
      using r1 assms(1)
      by (auto simp: NodeRegistry_Register_def Let_def map_of_alist_update conn_of_def
          split: option.splits)
    from map_of_SomeD [OF this] show ?thesis by force
  qed
  then have swept: "conn_of (fst (StaleNodeCleanup_tick threshold t2 r1)) n = None"
    using assms(2) by (force simp: conn_of_sweep stale_def image_iff)
  let ?r = "fst (StaleNodeCleanup_tick threshold t2 r1)"
  obtain r2 ops2 where r2: "NodeRegistry_Register ?r t3 n a2 (Some y) = Inr (r2, ops2)"
    by (simp add: NodeRegistry_Register_def Let_def)
  have c2: "conn_of r2 n = Some 1" using conn_of_Register [OF r2] swept by simp
  have "run_ops reg_next [RegSweep threshold t2, RegRegister t3 n a2 (Some y)] r1 = Some r2"
    using r2 by (simp add: case_prod_beta)
  with r1 c1 c2 show ?thesis
    by (auto simp: conn_of_RemoveIf ConnectionID_conn_of)
qed

theorem connection_number_reused_after_removal_witness:
  "\<exists>r2. conn_of r2 ''n1'' = Some 1 \<and>
     conn_of (fst (NodeRegistry_RemoveIfConnectionMatches r2 ''n1'' 1)) ''n1'' = None"
proof -
  have "conn_of NewNodeRegistry ''n1'' = None" "(30 :: duration) < time_Sub 50 10"
    by (simp_all add: conn_of_def NewNodeRegistry_def time_Sub_def minDuration_def maxDuration_def)
  from connection_number_reused_after_removal [OF this, of _ sample_resources 60 _ sample_resources]
  show ?thesis by (auto simp: conn_of_RemoveIf)
qed

lemma sum_alist_update:
  "sum_list (map (\<lambda>(_, info). length (NodeInfo_Tasks info)) (AList.update k v al))
     + (case map_of al k of Some old \<Rightarrow> length (NodeInfo_Tasks old) | None \<Rightarrow> 0)
   = sum_list (map (\<lambda>(_, info). length (NodeInfo_Tasks info)) al) + length (NodeInfo_Tasks v)"
  by (induction al) (auto split: option.splits)

lemma tasks_gauge_step:
  assumes "reg_apply op r = Inr (r', ops)"
  shows "(case op of
      RegRegister now nid addr res \<Rightarrow> last_TasksRunning v ops = v \<and>
        totalTasksLocked r' + (case map_of (nodes r) nid of
            Some old \<Rightarrow> length (NodeInfo_Tasks old) | None \<Rightarrow> 0) = totalTasksLocked r
    | RegRemoveIf nid c \<Rightarrow> r' = r \<and> ops = [] \<or> last_TasksRunning v ops = totalTasksLocked r'
    | RegSweep threshold now \<Rightarrow> ops = [] \<or> last_TasksRunning v ops = totalTasksLocked r'
    | _ \<Rightarrow> last_TasksRunning v ops = totalTasksLocked r')"
proof (cases op)
  case (RegRegister now nid addr res)
  with assms show ?thesis
    using sum_alist_update [of nid _ "nodes r"]
    by (auto simp: NodeRegistry_Register_def Let_def totalTasksLocked_def totalTasks_sum
        split: if_splits)
qed (use assms in \<open>auto simp: NodeRegistry_UpdateHeartbeat_def NodeRegistry_Remove_def
      NodeRegistry_RemoveIfConnectionMatches_def StaleNodeCleanup_tick_def Let_def case_prod_beta
      split: option.splits sum.splits if_splits\<close>)



text \<open>
  With a \<open>CloneOf\<close> that copies its argument, \<open>GetAll\<close> returns one summary per node, under
  distinct ids, each carrying the hostname, address, CPU, memory, GPUs, last beat and connection
  number of the node stored under that id.
\<close>

theorem GetAll_snapshot:
  assumes clone: "\<forall>x. CloneOf x = x" and "reg_ok r"
  shows "length (NodeRegistry_GetAll CloneOf r) = length (nodes r) \<and>
    distinct (map NodeSummary_NodeID (NodeRegistry_GetAll CloneOf r)) \<and>
    set (NodeRegistry_GetAll CloneOf r) =
      {\<lparr>NodeSummary_NodeID = nid, NodeSummary_Hostname = NodeResources_Hostname res,
        NodeSummary_Address = NodeInfo_Address n, NodeSummary_LastBeat = NodeInfo_LastBeat n,
        NodeSummary_CPU = NodeResources_Cpu res, NodeSummary_Memory = NodeResources_Memory res,
        NodeSummary_GPUs = NodeResources_Gpus res,
        NodeSummary_ConnectionID = NodeInfo_ConnectionID n\<rparr> | nid n res.
        map_of (nodes r) nid = Some n \<and> NodeInfo_Resources n = Some res}"
  (is "?len \<and> ?dist \<and> ?L = ?R")
proof (intro conjI)
  have d: "distinct (map fst (nodes r))" and ok: "\<forall>(k, n)\<in>set (nodes r). node_ok k n"
    using assms(2) by (auto simp: reg_ok_def list_all_iff)
  show ?len by (simp add: NodeRegistry_GetAll_def)
  have "map NodeSummary_NodeID (NodeRegistry_GetAll CloneOf r) = map fst (nodes r)"
    using ok by (auto simp: NodeRegistry_GetAll_def node_summary_def Let_def node_ok_def)
  then show ?dist using d by simp
  have "?L = (\<lambda>(_, v). node_summary CloneOf v) ` {(nid, n). map_of (nodes r) nid = Some n}"
    using map_of_eq_Some_iff [OF d] by (auto simp: NodeRegistry_GetAll_def image_iff)
  also have "\<dots> = ?R"
    using reg_ok_lookup [OF assms(2)] clone
    by (fastforce simp: node_summary_def Let_def node_ok_def image_iff)
  finally show "?L = ?R" .
qed

theorem GetAll_snapshot_witness:
  "map NodeSummary_Hostname (NodeRegistry_GetAll (\<lambda>x. x) sample_registry) = [''h'']"
  using GetAll_snapshot [of "\<lambda>x. x", OF _ reg_reach_ok [OF sample_registry_reach]]
  by (simp add: NodeRegistry_GetAll_def node_summary_def sample_registry_def sample_resources_def)

end
