(* ===== verification/Go_Strings.thy ===== *)
theory Go_Strings
  imports Prelude "HOL-Library.Sublist"
begin

text \<open>
  What the control plane uses of Go's standard library on strings. A Go string is a sequence of
  bytes, and so is an Isabelle \<open>string\<close>: a character is eight bits. The packages modelled are
  \<^verbatim>\<open>strings\<close> (HasPrefix, TrimPrefix, Index, ReplaceAll, SplitN, ContainsRune), \<^verbatim>\<open>path/filepath\<close>
  (Base), \<^verbatim>\<open>crypto/subtle\<close> (ConstantTimeCompare) and the \<open>%d\<close> verb of \<^verbatim>\<open>fmt\<close>.
\<close>

unbundle bit_operations_syntax

subsection \<open>Decimal numbers\<close>

fun itoa :: "nat \<Rightarrow> string" where
  "itoa n = (if n < 10 then [char_of (48 + n)] else itoa (n div 10) @ [char_of (48 + n mod 10)])"

declare itoa.simps [simp del]

subsection \<open>Prefixes, substrings and replacement\<close>

definition strings_TrimPrefix :: "string \<Rightarrow> string \<Rightarrow> string" where
  "strings_TrimPrefix s p = (if prefix p s then drop (length p) s else s)"

text \<open>\<open>strings.Index\<close>: the first occurrence, with Go's \<open>-1\<close> as \<open>None\<close>.\<close>

fun strings_Index :: "string \<Rightarrow> string \<Rightarrow> nat option" where
  "strings_Index [] sub = (if sub = [] then Some 0 else None)"
| "strings_Index (c # s) sub =
     (if prefix sub (c # s) then Some 0 else map_option Suc (strings_Index s sub))"

text \<open>\<open>strings.ReplaceAll\<close> for a pattern of one byte.\<close>

definition strings_ReplaceAll :: "string \<Rightarrow> char \<Rightarrow> string \<Rightarrow> string" where
  "strings_ReplaceAll s old new = concat (map (\<lambda>c. if c = old then new else [c]) s)"

text \<open>\<open>strings.SplitN\<close> for a separator of one byte: at most \<open>n\<close> parts, the last one unsplit.\<close>

fun strings_SplitN :: "string \<Rightarrow> char \<Rightarrow> nat \<Rightarrow> string list" where
  "strings_SplitN s sep 0 = []"
| "strings_SplitN s sep (Suc 0) = [s]"
| "strings_SplitN s sep (Suc (Suc n)) =
     (if sep \<in> set s
      then takeWhile (\<lambda>c. c \<noteq> sep) s
             # strings_SplitN (tl (dropWhile (\<lambda>c. c \<noteq> sep) s)) sep (Suc n)
      else [s])"

text \<open>\<open>strings.ContainsRune\<close> for a rune below \<open>0x80\<close>, which Go looks up as a byte.\<close>

definition strings_ContainsRune :: "string \<Rightarrow> char \<Rightarrow> bool" where
  "strings_ContainsRune s r = (r \<in> set s)"

subsection \<open>Paths\<close>

text \<open>\<open>filepath.Base\<close> on Unix: strip trailing slashes, keep the last element.\<close>

definition filepath_Base :: "string \<Rightarrow> string" where
  "filepath_Base path =
     (if path = [] then ''.''
      else let stripped = rev (dropWhile (\<lambda>c. c = CHR ''/'') (rev path));
               lst = rev (takeWhile (\<lambda>c. c \<noteq> CHR ''/'') (rev stripped))
           in if lst = [] then ''/'' else lst)"

subsection \<open>Constant-time comparison\<close>

text \<open>
  \<open>subtle.ConstantTimeCompare\<close>: 0 for different lengths, otherwise the OR of the XORs of all byte
  pairs is compared with 0, so the running time does not depend on the contents.
\<close>

fun ct_accumulate :: "8 word \<Rightarrow> string \<Rightarrow> string \<Rightarrow> 8 word" where
  "ct_accumulate v (x # xs) (y # ys) = ct_accumulate (v OR (of_char x XOR of_char y)) xs ys"
| "ct_accumulate v _ _ = v"

definition ConstantTimeCompare :: "string \<Rightarrow> string \<Rightarrow> int" where
  "ConstantTimeCompare x y =
     (if length x \<noteq> length y then 0 else if ct_accumulate 0 x y = 0 then 1 else 0)"

subsection \<open>Laws\<close>

lemma or_eq_0_word_iff: "(a :: 8 word) OR b = 0 \<longleftrightarrow> a = 0 \<and> b = 0"
  by (metis word_bw_lcs(2) word_bw_same(2) word_log_esimps(3))

lemma xor_eq_0_word_iff: "(a :: 8 word) XOR b = 0 \<longleftrightarrow> a = b"
  by (metis word_bw_assocs(3) xor.right_neutral xor_self_eq)

lemma unat_of_char: "unat (of_char c :: 8 word) = of_char c"
proof -
  have "unat (of_nat (of_char c) :: 8 word) = of_char c mod 256"
    by (simp add: unat_of_nat)
  then show ?thesis by (simp add: of_nat_of_char)
qed

lemma of_char_word_eq_iff: "(of_char c :: 8 word) = of_char d \<longleftrightarrow> c = d"
  by (metis of_char_eq_iff unat_of_char)

lemma ct_accumulate_eq_0_iff:
  "length xs = length ys \<Longrightarrow> ct_accumulate v xs ys = 0 \<longleftrightarrow> v = 0 \<and> xs = ys"
  by (induction v xs ys rule: ct_accumulate.induct)
     (auto simp: or_eq_0_word_iff xor_eq_0_word_iff of_char_word_eq_iff)

lemma ConstantTimeCompare_eq_1_iff: "ConstantTimeCompare x y = 1 \<longleftrightarrow> x = y"
  by (auto simp: ConstantTimeCompare_def ct_accumulate_eq_0_iff)

lemma strings_Index_Some:
  "strings_Index s sub = Some i \<Longrightarrow>
     s = take i s @ sub @ drop (i + length sub) s \<and> (\<forall>j<i. \<not> prefix sub (drop j s))"
proof (induction s arbitrary: i)
  case (Cons c s)
  show ?case
  proof (cases "prefix sub (c # s)")
    case True
    with Cons.prems show ?thesis by (auto simp: prefix_def)
  next
    case False
    with Cons.prems obtain k where k: "i = Suc k" "strings_Index s sub = Some k" by auto
    from Cons.IH [OF k(2)] have "s = take k s @ sub @ drop (k + length sub) s"
      "\<forall>j<k. \<not> prefix sub (drop j s)" by simp_all
    with k(1) False show ?thesis by (simp add: All_less_Suc2)
  qed
qed (simp split: if_splits)

lemma strings_Index_None: "strings_Index s sub = None \<longleftrightarrow> \<not> sublist sub s"
  by (induction s) (auto simp: sublist_Cons_right)

end
