(* ===== verification/Go_Regexp.thy ===== *)
theory Go_Regexp
  imports Prelude
begin

text \<open>
  Go's \<^verbatim>\<open>regexp\<close> package, as far as the validator uses it: a string is read as UTF-8 runes (an
  invalid byte is the rune \<open>0xFFFD\<close>), and \<open>MatchString\<close> of a pattern that is anchored on both
  sides asks whether the whole rune sequence is in the language of the pattern. The matcher below
  computes with derivatives; \<open>rx_match_iff\<close> shows that it decides the language.
\<close>

subsection \<open>Decoding UTF-8\<close>

definition RuneError :: nat where
  "RuneError = 0xFFFD"

definition cont_byte :: "nat \<Rightarrow> bool" where
  "cont_byte b \<longleftrightarrow> 0x80 \<le> b \<and> b \<le> 0xBF"

text \<open>The range of second bytes accepted after a first byte of a three- or four-byte rune.\<close>

definition accept_second :: "nat \<Rightarrow> nat \<Rightarrow> bool" where
  "accept_second b0 b1 \<longleftrightarrow>
     (if b0 = 0xE0 then 0xA0 else if b0 = 0xF0 then 0x90 else 0x80) \<le> b1 \<and>
     b1 \<le> (if b0 = 0xED then 0x9F else if b0 = 0xF4 then 0x8F else 0xBF)"

text \<open>\<open>utf8.DecodeRuneInString\<close> on a non-empty sequence of bytes: the rune and its width.\<close>

fun decode_rune :: "nat list \<Rightarrow> nat \<times> nat" where
  "decode_rune [] = (RuneError, 0)"
| "decode_rune (b0 # bs) =
     (if b0 < 0x80 then (b0, 1)
      else if 0xC2 \<le> b0 \<and> b0 \<le> 0xDF then
        (case bs of
           b1 # _ \<Rightarrow> if cont_byte b1 then ((b0 - 0xC0) * 64 + (b1 - 0x80), 2) else (RuneError, 1)
         | _ \<Rightarrow> (RuneError, 1))
      else if 0xE0 \<le> b0 \<and> b0 \<le> 0xEF then
        (case bs of
           b1 # b2 # _ \<Rightarrow>
             if accept_second b0 b1 \<and> cont_byte b2
             then ((b0 - 0xE0) * 4096 + (b1 - 0x80) * 64 + (b2 - 0x80), 3) else (RuneError, 1)
         | _ \<Rightarrow> (RuneError, 1))
      else if 0xF0 \<le> b0 \<and> b0 \<le> 0xF4 then
        (case bs of
           b1 # b2 # b3 # _ \<Rightarrow>
             if accept_second b0 b1 \<and> cont_byte b2 \<and> cont_byte b3
             then ((b0 - 0xF0) * 262144 + (b1 - 0x80) * 4096 + (b2 - 0x80) * 64 + (b3 - 0x80), 4)
             else (RuneError, 1)
         | _ \<Rightarrow> (RuneError, 1))
      else (RuneError, 1))"

text \<open>The runes of a byte sequence; every step consumes at least one byte.\<close>

function decode_runes :: "nat list \<Rightarrow> nat list" where
  "decode_runes bs =
     (if bs = [] then []
      else fst (decode_rune bs) # decode_runes (drop (max 1 (snd (decode_rune bs))) bs))"
  by pat_completeness auto
termination
  by (relation "measure length") (auto simp del: decode_rune.simps)

declare decode_runes.simps [simp del]

definition runes :: "string \<Rightarrow> nat list" where
  "runes s = decode_runes (map of_char s)"

subsection \<open>Patterns and their language\<close>

text \<open>A character class is a list of inclusive ranges of code points.\<close>

datatype rx =
    RFail
  | REps
  | RClass "(nat \<times> nat) list"
  | RSeq rx rx
  | RAlt rx rx
  | RStar rx

definition in_class :: "nat \<Rightarrow> (nat \<times> nat) list \<Rightarrow> bool" where
  "in_class c rs \<longleftrightarrow> list_ex (\<lambda>(lo, hi). lo \<le> c \<and> c \<le> hi) rs"

definition RLit :: "nat \<Rightarrow> rx" where
  "RLit c = RClass [(c, c)]"

definition RPlus :: "rx \<Rightarrow> rx" where
  "RPlus r = RSeq r (RStar r)"

definition ROpt :: "rx \<Rightarrow> rx" where
  "ROpt r = RAlt r REps"

fun RRep :: "nat \<Rightarrow> rx \<Rightarrow> rx" where
  "RRep 0 r = REps"
| "RRep (Suc n) r = RSeq r (RRep n r)"

inductive matches :: "rx \<Rightarrow> nat list \<Rightarrow> bool" where
  m_eps: "matches REps []"
| m_class: "in_class c rs \<Longrightarrow> matches (RClass rs) [c]"
| m_seq: "matches r u \<Longrightarrow> matches s v \<Longrightarrow> matches (RSeq r s) (u @ v)"
| m_left: "matches r u \<Longrightarrow> matches (RAlt r s) u"
| m_right: "matches s u \<Longrightarrow> matches (RAlt r s) u"
| m_star_nil: "matches (RStar r) []"
| m_star_cons: "matches r u \<Longrightarrow> matches (RStar r) v \<Longrightarrow> matches (RStar r) (u @ v)"

inductive_simps matches_simps:
  "matches RFail w"
  "matches REps w"
  "matches (RClass rs) w"
  "matches (RSeq r s) w"
  "matches (RAlt r s) w"

subsection \<open>The derivative matcher\<close>

fun nullable :: "rx \<Rightarrow> bool" where
  "nullable RFail = False"
| "nullable REps = True"
| "nullable (RClass rs) = False"
| "nullable (RSeq r s) = (nullable r \<and> nullable s)"
| "nullable (RAlt r s) = (nullable r \<or> nullable s)"
| "nullable (RStar r) = True"

text \<open>Sequencing and alternation that keep the derivatives of an anchored pattern small.\<close>

fun seq :: "rx \<Rightarrow> rx \<Rightarrow> rx" where
  "seq RFail s = RFail"
| "seq REps s = s"
| "seq r s = RSeq r s"

fun alt :: "rx \<Rightarrow> rx \<Rightarrow> rx" where
  "alt RFail s = s"
| "alt r RFail = r"
| "alt r s = RAlt r s"

fun deriv :: "nat \<Rightarrow> rx \<Rightarrow> rx" where
  "deriv c RFail = RFail"
| "deriv c REps = RFail"
| "deriv c (RClass rs) = (if in_class c rs then REps else RFail)"
| "deriv c (RSeq r s) =
     (if nullable r then alt (seq (deriv c r) s) (deriv c s) else seq (deriv c r) s)"
| "deriv c (RAlt r s) = alt (deriv c r) (deriv c s)"
| "deriv c (RStar r) = seq (deriv c r) (RStar r)"

fun rx_match :: "rx \<Rightarrow> nat list \<Rightarrow> bool" where
  "rx_match r [] = nullable r"
| "rx_match r (c # w) = rx_match (deriv c r) w"

text \<open>\<open>regexp.MatchString\<close> of a pattern \<open>^r$\<close>.\<close>

definition MatchString :: "rx \<Rightarrow> string \<Rightarrow> bool" where
  "MatchString r s = rx_match r (runes s)"

subsection \<open>The matcher decides the language\<close>

lemma matches_seq: "matches (seq r s) w \<longleftrightarrow> matches (RSeq r s) w"
  by (cases r) (auto simp: matches_simps)

lemma matches_alt: "matches (alt r s) w \<longleftrightarrow> matches (RAlt r s) w"
  by (cases "(r, s)" rule: alt.cases) (auto simp: matches_simps)

lemma nullable_iff: "nullable r \<longleftrightarrow> matches r []"
  by (induction r) (auto simp: matches_simps intro: matches.intros)

lemma matches_star_Cons:
  "matches (RStar r) (c # w) \<longleftrightarrow> (\<exists>u v. w = u @ v \<and> matches r (c # u) \<and> matches (RStar r) v)"
  (is "?L \<longleftrightarrow> ?R")
proof
  show "?L \<Longrightarrow> ?R"
  proof (induction "RStar r" "c # w" rule: matches.induct)
    case (m_star_cons u v)
    show ?case
    proof (cases u)
      case Nil
      with m_star_cons show ?thesis by simp
    next
      case (Cons d u')
      with m_star_cons show ?thesis by auto
    qed
  qed
next
  assume ?R
  then obtain u v where "w = u @ v" "matches r (c # u)" "matches (RStar r) v" by blast
  then show ?L using matches.m_star_cons [of r "c # u" v] by simp
qed

lemma matches_deriv: "matches (deriv c r) w \<longleftrightarrow> matches r (c # w)"
proof (induction r arbitrary: w)
  case (RSeq r s)
  have "matches (RSeq r s) (c # w) \<longleftrightarrow>
      (\<exists>u v. w = u @ v \<and> matches r (c # u) \<and> matches s v) \<or> (nullable r \<and> matches s (c # w))"
    by (auto simp: matches_simps(4) Cons_eq_append_conv nullable_iff)
  then show ?case
    by (auto simp: matches_seq matches_alt matches_simps(4,5) RSeq.IH)
next
  case (RStar r)
  then show ?case
    by (simp add: matches_seq matches_simps(4) matches_star_Cons)
qed (auto simp: matches_simps matches_alt)

theorem rx_match_iff: "rx_match r w \<longleftrightarrow> matches r w"
  by (induction w arbitrary: r) (simp_all add: nullable_iff matches_deriv)

lemma MatchString_iff: "MatchString r s \<longleftrightarrow> matches r (runes s)"
  by (simp add: MatchString_def rx_match_iff)

subsection \<open>The language of the constructs the patterns use\<close>

lemma matches_RLit [simp]: "matches (RLit c) w \<longleftrightarrow> w = [c]"
  by (auto simp: RLit_def matches_simps in_class_def)

lemma matches_ROpt [simp]: "matches (ROpt r) w \<longleftrightarrow> w = [] \<or> matches r w"
  by (auto simp: ROpt_def matches_simps)

lemma matches_RSeq_class:
  "matches (RSeq (RClass rs) r) w \<longleftrightarrow> w \<noteq> [] \<and> in_class (hd w) rs \<and> matches r (tl w)"
proof
  assume "w \<noteq> [] \<and> in_class (hd w) rs \<and> matches r (tl w)"
  then show "matches (RSeq (RClass rs) r) w"
    using matches.m_seq [OF matches.m_class, of "hd w" rs r "tl w"] by simp
qed (auto simp: matches_simps(3,4))

lemma matches_RStar_class [simp]:
  "matches (RStar (RClass rs)) w \<longleftrightarrow> (\<forall>c\<in>set w. in_class c rs)"
  by (induction w) (auto simp: matches_star_Cons matches_simps(3) Cons_eq_append_conv
      intro: matches.m_star_nil)

lemma matches_RPlus_class [simp]:
  "matches (RPlus (RClass rs)) w \<longleftrightarrow> w \<noteq> [] \<and> (\<forall>c\<in>set w. in_class c rs)"
  by (cases w) (auto simp: RPlus_def matches_RSeq_class)

lemma matches_RRep_class [simp]:
  "matches (RRep n (RClass rs)) w \<longleftrightarrow> length w = n \<and> (\<forall>c\<in>set w. in_class c rs)"
proof (induction n arbitrary: w)
  case 0
  then show ?case by (auto simp: matches_simps)
next
  case (Suc n)
  then show ?case by (cases w) (auto simp: matches_RSeq_class)
qed

lemma matches_RStar_concat:
  "matches (RStar r) w \<longleftrightarrow> (\<exists>ws. w = concat ws \<and> (\<forall>u\<in>set ws. matches r u))"
proof
  show "matches (RStar r) w \<Longrightarrow> \<exists>ws. w = concat ws \<and> (\<forall>u\<in>set ws. matches r u)"
  proof (induction "RStar r" w rule: matches.induct)
    case m_star_nil
    show ?case by (rule exI [of _ "[]"]) simp
  next
    case (m_star_cons u v)
    then obtain ws where "v = concat ws" "\<forall>u\<in>set ws. matches r u" by blast
    with m_star_cons.hyps(1) show ?case by (intro exI [of _ "u # ws"]) simp
  qed
next
  assume "\<exists>ws. w = concat ws \<and> (\<forall>u\<in>set ws. matches r u)"
  then obtain ws where "w = concat ws" "\<forall>u\<in>set ws. matches r u" by blast
  then show "matches (RStar r) w"
    by (induction ws arbitrary: w) (auto intro: matches.m_star_nil matches.m_star_cons)
qed

lemma in_class_Nil [simp]: "\<not> in_class c []"
  by (simp add: in_class_def)

lemma in_class_append [simp]: "in_class c (rs @ qs) \<longleftrightarrow> in_class c rs \<or> in_class c qs"
  by (simp add: in_class_def)

subsection \<open>ASCII strings\<close>

lemma decode_runes_Nil [simp]: "decode_runes [] = []"
  by (simp add: decode_runes.simps)

text \<open>The branch of \<open>decode_rune\<close> taken for each range of first bytes.\<close>

lemma decode_rune_1: "b < 128 \<Longrightarrow> decode_rune (b # bs) = (b, 1)"
  by simp

lemma decode_rune_bad: "128 \<le> b \<Longrightarrow> b < 194 \<or> 244 < b \<Longrightarrow> decode_rune (b # bs) = (RuneError, 1)"
  by (elim disjE) simp_all

lemma decode_rune_2:
  "194 \<le> b \<Longrightarrow> b \<le> 223 \<Longrightarrow> decode_rune (b # bs) =
     (case bs of
        b1 # _ \<Rightarrow> if cont_byte b1 then ((b - 192) * 64 + (b1 - 128), 2) else (RuneError, 1)
      | _ \<Rightarrow> (RuneError, 1))"
  by simp

lemma decode_rune_3:
  "224 \<le> b \<Longrightarrow> b \<le> 239 \<Longrightarrow> decode_rune (b # bs) =
     (case bs of
        b1 # b2 # _ \<Rightarrow>
          if accept_second b b1 \<and> cont_byte b2
          then ((b - 224) * 4096 + (b1 - 128) * 64 + (b2 - 128), 3) else (RuneError, 1)
      | _ \<Rightarrow> (RuneError, 1))"
  by simp

lemma decode_rune_4:
  "240 \<le> b \<Longrightarrow> b \<le> 244 \<Longrightarrow> decode_rune (b # bs) =
     (case bs of
        b1 # b2 # b3 # _ \<Rightarrow>
          if accept_second b b1 \<and> cont_byte b2 \<and> cont_byte b3
          then ((b - 240) * 262144 + (b1 - 128) * 4096 + (b2 - 128) * 64 + (b3 - 128), 4)
          else (RuneError, 1)
      | _ \<Rightarrow> (RuneError, 1))"
  by simp

lemmas decode_rune_cases = decode_rune_1 decode_rune_bad decode_rune_2 decode_rune_3 decode_rune_4

declare decode_rune.simps [simp del]

lemma first_byte_cases [case_names ascii bad two three four]:
  fixes b :: nat
  assumes "b < 128 \<Longrightarrow> P" and "128 \<le> b \<Longrightarrow> b < 194 \<or> 244 < b \<Longrightarrow> P"
    and "194 \<le> b \<Longrightarrow> b \<le> 223 \<Longrightarrow> P" and "224 \<le> b \<Longrightarrow> b \<le> 239 \<Longrightarrow> P"
    and "240 \<le> b \<Longrightarrow> b \<le> 244 \<Longrightarrow> P"
  shows P
  using assms by linarith

lemma accept_second_ge: "accept_second b c \<Longrightarrow> 128 \<le> c"
  by (auto simp: accept_second_def split: if_splits)

lemma three_byte_low:
  "accept_second b c \<Longrightarrow> 224 \<le> b \<Longrightarrow> 128 \<le> (b - 224) * 4096 + (c - 128) * 64 + d"
  by (cases "b = 224") (auto simp: accept_second_def split: if_splits)

lemma four_byte_low:
  "accept_second b c \<Longrightarrow> 240 \<le> b \<Longrightarrow> 128 \<le> (b - 240) * 262144 + (c - 128) * 4096 + d + e"
  by (cases "b = 240") (auto simp: accept_second_def split: if_splits)

lemma decode_rune_ge:
  assumes "128 \<le> b"
  shows "128 \<le> fst (decode_rune (b # bs))"
proof (cases b rule: first_byte_cases)
  case ascii
  with assms show ?thesis by simp
next
  case bad
  then show ?thesis by (simp add: decode_rune_bad RuneError_def)
next
  case two
  then have "128 \<le> (b - 192) * 64 + c" for c by arith
  with two show ?thesis by (simp add: decode_rune_2 RuneError_def split: list.split)
next
  case three
  then show ?thesis
    by (simp add: decode_rune_3 RuneError_def three_byte_low split: list.split)
next
  case four
  then show ?thesis
    by (simp add: decode_rune_4 RuneError_def four_byte_low split: list.split)
qed

lemma decode_runes_ascii: "b < 128 \<Longrightarrow> decode_runes (b # bs) = b # decode_runes bs"
  by (simp add: decode_runes.simps [of "b # bs"] decode_rune_1)

text \<open>A rune below \<open>0x80\<close> is the byte it was read from.\<close>

lemma decode_runes_all_ascii:
  "(\<forall>r\<in>set (decode_runes bs). r < 128) \<longleftrightarrow> (\<forall>b\<in>set bs. b < 128)"
proof (induction bs)
  case (Cons b bs)
  show ?case
  proof (cases "b < 128")
    case True
    with Cons show ?thesis by (simp add: decode_runes_ascii)
  next
    case False
    then have "\<not> fst (decode_rune (b # bs)) < 128"
      using decode_rune_ge [of b bs] by linarith
    then have "\<exists>r\<in>set (decode_runes (b # bs)). \<not> r < 128"
      by (subst decode_runes.simps) simp
    with False show ?thesis by auto
  qed
qed simp

lemma decode_runes_id: "\<forall>b\<in>set bs. b < 128 \<Longrightarrow> decode_runes bs = bs"
  by (induction bs) (auto simp: decode_runes_ascii)

lemma runes_ascii:
  assumes "\<forall>r\<in>set (runes s). r < 128"
  shows "runes s = map of_char s"
  using assms decode_runes_all_ascii decode_runes_id by (auto simp: runes_def)

text \<open>An ASCII byte is never swallowed by a multi-byte rune.\<close>

lemma decode_rune_width:
  assumes "i < snd (decode_rune (b # bs))" and "0 < i"
  shows "128 \<le> (b # bs) ! i"
proof (cases b rule: first_byte_cases)
  case two
  have "128 \<le> (b # c # xs) ! i" if "cont_byte c" "i < 2" for c xs
    using that \<open>0 < i\<close> by (cases i) (auto simp: cont_byte_def)
  with assms two show ?thesis
    by (auto simp: decode_rune_2 split: if_split_asm list.split_asm)
next
  case three
  have "128 \<le> (b # c # d # xs) ! i" if "accept_second b c" "cont_byte d" "i < 3" for c d xs
    using that \<open>0 < i\<close> by (auto simp: cont_byte_def nth_Cons' dest: accept_second_ge)
  with assms three show ?thesis
    by (auto simp: decode_rune_3 simp del: nth_Cons_pos split: if_split_asm list.split_asm)
next
  case four
  have "128 \<le> (b # c # d # e # xs) ! i"
    if "accept_second b c" "cont_byte d" "cont_byte e" "i < 4" for c d e xs
    using that \<open>0 < i\<close> by (auto simp: cont_byte_def nth_Cons' dest: accept_second_ge)
  with assms four show ?thesis
    by (auto simp: decode_rune_4 simp del: nth_Cons_pos split: if_split_asm list.split_asm)
qed (use assms in \<open>simp_all add: decode_rune_cases\<close>)

lemma ascii_byte_in_runes: "b \<in> set bs \<Longrightarrow> b < 128 \<Longrightarrow> b \<in> set (decode_runes bs)"
proof (induction bs rule: decode_runes.induct)
  case (1 bs)
  then obtain b0 bs' where bs: "bs = b0 # bs'" by (cases bs) auto
  let ?w = "max 1 (snd (decode_rune bs))"
  have step: "decode_runes bs = fst (decode_rune bs) # decode_runes (drop ?w bs)"
    by (subst decode_runes.simps) (simp add: bs)
  from 1 obtain i where i: "i < length bs" "bs ! i = b" by (auto simp: in_set_conv_nth)
  consider "i = 0" | "0 < i \<and> i < ?w" | "?w \<le> i" by linarith
  then show ?case
  proof cases
    case 1
    with i bs \<open>b < 128\<close> have "fst (decode_rune bs) = b" by (simp add: decode_rune_1)
    then show ?thesis by (simp add: step)
  next
    case 2
    then have "128 \<le> bs ! i"
      using decode_rune_width [of i b0 bs'] by (auto simp: bs less_max_iff_disj simp del: nth_Cons_pos)
    with i \<open>b < 128\<close> show ?thesis by simp
  next
    case 3
    then have "b \<in> set (drop ?w bs)"
      using i by (auto simp: in_set_conv_nth intro!: exI [of _ "i - ?w"])
    with "1.IH" "1.prems" have "b \<in> set (decode_runes (drop ?w bs))" by (auto simp: bs)
    then show ?thesis unfolding step by simp
  qed
qed

end
