(* ===== verification/Validator.thy ===== *)
theory Validator
  imports Effects Go_Strings Go_Regexp "HOL-Library.Multiset" "HOL-Library.Char_ord"
begin

text \<open>
  The package \<^verbatim>\<open>internal/validator\<close>: the bounds on identifiers and numbers, the two regular
  expressions, and one definition per validator, each returning nil or the \<open>InvalidArgument\<close> status
  of the check that failed, in the order the source checks. The lemmas characterise exactly which
  inputs each validator accepts.
\<close>

subsection \<open>Bounds\<close>

definition MaxNodeIDLen :: nat where "MaxNodeIDLen = 255"

definition MaxTaskIDLen :: nat where "MaxTaskIDLen = 255"

definition MaxJobIDLen :: nat where "MaxJobIDLen = 255"

definition MaxAllocationIDLen :: nat where "MaxAllocationIDLen = 255"

definition MaxContainerImageLen :: nat where "MaxContainerImageLen = 1024"

definition MaxCommandLen :: nat where "MaxCommandLen = 256 * 1024"

definition MaxEnvKeyLen :: nat where "MaxEnvKeyLen = 128"

definition MaxEnvValueLen :: nat where "MaxEnvValueLen = 4096"

definition MaxEnvCount :: nat where "MaxEnvCount = 128"

definition MaxMemoryBytes :: nat where "MaxMemoryBytes = 2 ^ 40"

definition MaxGPUMemBytes :: nat where "MaxGPUMemBytes = 256 * 2 ^ 30"

definition MaxReplicas :: nat where "MaxReplicas = 100"

definition MaxPriority :: nat where "MaxPriority = 100"

definition MaxTasksPerHeartbeat :: nat where "MaxTasksPerHeartbeat = 10000"

lemmas bounds_defs =
  MaxNodeIDLen_def MaxTaskIDLen_def MaxJobIDLen_def MaxAllocationIDLen_def
  MaxContainerImageLen_def MaxCommandLen_def MaxEnvKeyLen_def MaxEnvValueLen_def MaxEnvCount_def
  MaxMemoryBytes_def MaxGPUMemBytes_def MaxReplicas_def MaxPriority_def MaxTasksPerHeartbeat_def

subsection \<open>Patterns\<close>

text \<open>Code points: 48--57 are the digits, 65--90 and 97--122 the letters, 45 \<open>-\<close>, 46 \<open>.\<close>, 47 \<open>/\<close>,
  58 \<open>:\<close>, 64 \<open>@\<close>, 95 the underscore.\<close>

definition alnum_class :: "(nat \<times> nat) list" where
  "alnum_class = [(97, 122), (65, 90), (48, 57)]"

definition name_class :: "(nat \<times> nat) list" where
  "name_class = [(97, 122), (65, 90), (48, 57), (45, 45), (95, 95), (46, 46)]"

text \<open>
  The tag class stands under \<open>(?i)\<close>. Go closes a class under Unicode simple case folding then, which
  adds U+017F (long s, folds to \<open>s\<close>) and U+212A (Kelvin sign, folds to \<open>k\<close>) to the ASCII letters.
\<close>

definition tag_class :: "(nat \<times> nat) list" where
  "tag_class = name_class @ [(0x17F, 0x17F), (0x212A, 0x212A)]"

definition hex_class :: "(nat \<times> nat) list" where
  "hex_class = [(97, 102), (65, 70), (48, 57)]"

definition SafeIDPattern :: rx where
  "SafeIDPattern = RSeq (RClass alnum_class) (RStar (RClass name_class))"

definition ContainerImagePattern :: rx where
  "ContainerImagePattern =
     RSeq (RSeq (RClass alnum_class) (RStar (RClass name_class)))
    (RSeq (ROpt (RSeq (RLit 58) (RPlus (RClass [(48, 57)]))))
    (RSeq (RStar (RSeq (RLit 47) (RSeq (RClass alnum_class) (RStar (RClass name_class)))))
    (RSeq (ROpt (RSeq (RLit 58) (RPlus (RClass tag_class))))
          (ROpt (RSeq (RLit 64) (RSeq (RLit 115) (RSeq (RLit 104) (RSeq (RLit 97) (RSeq (RLit 50)
             (RSeq (RLit 53) (RSeq (RLit 54) (RSeq (RLit 58) (RRep 64 (RClass hex_class)))))))))))))) "

subsection \<open>Validators\<close>

definition HasNullBytes :: "string \<Rightarrow> bool" where
  "HasNullBytes s = strings_ContainsRune s CHR 0x00"

definition ValidateStringID :: "string \<Rightarrow> string \<Rightarrow> nat \<Rightarrow> go_error" where
  "ValidateStringID s fieldName maxLen =
     (if s = '''' then Some (Status InvalidArgument (fieldName @ '' must not be empty''))
      else if HasNullBytes s then
        Some (Status InvalidArgument (fieldName @ '' contains null bytes''))
      else if maxLen < length s then
        Some (Status InvalidArgument
          (fieldName @ '' exceeds max length '' @ itoa maxLen @ '' (got '' @ itoa (length s) @ '')''))
      else if \<not> MatchString SafeIDPattern s then
        Some (Status InvalidArgument (fieldName @ '' contains invalid characters''))
      else None)"

definition ValidateNodeID :: "string \<Rightarrow> go_error" where
  "ValidateNodeID nodeID = ValidateStringID nodeID ''node_id'' MaxNodeIDLen"

definition ValidateTaskID :: "string \<Rightarrow> go_error" where
  "ValidateTaskID taskID = ValidateStringID taskID ''task_id'' MaxTaskIDLen"

definition ValidateJobID :: "string \<Rightarrow> go_error" where
  "ValidateJobID jobID = ValidateStringID jobID ''job_id'' MaxJobIDLen"

definition ValidateAllocationID :: "string \<Rightarrow> go_error" where
  "ValidateAllocationID allocID = ValidateStringID allocID ''allocation_id'' MaxAllocationIDLen"

definition ValidateContainerImage :: "string \<Rightarrow> go_error" where
  "ValidateContainerImage img =
     (if img = '''' then Some (Status InvalidArgument ''container_image must not be empty'')
      else if HasNullBytes img then
        Some (Status InvalidArgument ''container_image contains null bytes'')
      else if MaxContainerImageLen < length img then
        Some (Status InvalidArgument
          (''container_image exceeds max length '' @ itoa MaxContainerImageLen))
      else if \<not> MatchString ContainerImagePattern img then
        Some (Status InvalidArgument ''container_image has invalid format'')
      else None)"

definition ValidateMemorySize :: "uint64 \<Rightarrow> go_error" where
  "ValidateMemorySize sz =
     (if sz = 0 then Some (Status InvalidArgument ''size_bytes must be > 0'')
      else if MaxMemoryBytes < unat sz then
        Some (Status InvalidArgument (''size_bytes exceeds max ('' @ itoa MaxMemoryBytes @ '' bytes)''))
      else None)"

definition ValidateGPUMemorySize :: "uint64 \<Rightarrow> go_error" where
  "ValidateGPUMemorySize sz =
     (if sz = 0 then Some (Status InvalidArgument ''size_bytes must be > 0'')
      else if MaxGPUMemBytes < unat sz then
        Some (Status InvalidArgument (''size_bytes exceeds max ('' @ itoa MaxGPUMemBytes @ '' bytes)''))
      else None)"

definition ValidateReplicationFactor :: "int32 \<Rightarrow> go_error" where
  "ValidateReplicationFactor n =
     (if sint n < 0 \<or> int MaxReplicas < sint n then
        Some (Status InvalidArgument (''replication_factor must be 0-'' @ itoa MaxReplicas))
      else None)"

definition ValidatePriority :: "int32 \<Rightarrow> go_error" where
  "ValidatePriority p =
     (if sint p < 0 \<or> int MaxPriority < sint p then
        Some (Status InvalidArgument (''priority must be 0-'' @ itoa MaxPriority))
      else None)"

text \<open>
  \<open>ValidateEnvVars\<close> ranges over a Go map. The list is the map in the order of that range, which Go
  leaves open: the theorems quantify over every order.
\<close>

fun env_range :: "(string \<times> string) list \<Rightarrow> go_error" where
  "env_range [] = None"
| "env_range ((k, v) # env) =
     (if length k = 0 \<or> MaxEnvKeyLen < length k then
        Some (Status InvalidArgument (''env key length must be 1-'' @ itoa MaxEnvKeyLen))
      else if MaxEnvValueLen < length v then
        Some (Status InvalidArgument (''env value exceeds max '' @ itoa MaxEnvValueLen @ '' bytes''))
      else env_range env)"

definition ValidateEnvVars :: "(string \<times> string) list \<Rightarrow> go_error" where
  "ValidateEnvVars env =
     (if MaxEnvCount < length env then
        Some (Status InvalidArgument (''env exceeds max '' @ itoa MaxEnvCount @ '' entries''))
      else env_range env)"

fun commands_total :: "nat \<Rightarrow> string list \<Rightarrow> nat" where
  "commands_total n [] = n"
| "commands_total n (c # cmds) = commands_total (n + length c) cmds"

definition ValidateCommands :: "string list \<Rightarrow> go_error" where
  "ValidateCommands cmds =
     (if MaxCommandLen < commands_total 0 cmds then
        Some (Status InvalidArgument
          (''command+args total exceeds max '' @ itoa MaxCommandLen @ '' bytes''))
      else None)"

definition ValidateHeartbeatTaskCount :: "int \<Rightarrow> go_error" where
  "ValidateHeartbeatTaskCount n =
     (if int MaxTasksPerHeartbeat < n then
        Some (Status InvalidArgument (''tasks count exceeds max '' @ itoa MaxTasksPerHeartbeat))
      else None)"

definition ValidateGPUDeviceIndex :: "int32 \<Rightarrow> go_error" where
  "ValidateGPUDeviceIndex idx =
     (if sint idx < -1 then Some (Status InvalidArgument ''gpu_device_index must be >= -1'')
      else None)"

definition ValidateVersion :: "string \<Rightarrow> go_error" where
  "ValidateVersion v =
     (if HasNullBytes v then Some (Status InvalidArgument ''agent_version contains null bytes'')
      else if 64 < length v then
        Some (Status InvalidArgument ''agent_version exceeds max length 64'')
      else None)"

definition ValidateAddress :: "string \<Rightarrow> go_error" where
  "ValidateAddress addr =
     (if HasNullBytes addr then Some (Status InvalidArgument ''address contains null bytes'')
      else if 512 < length addr then
        Some (Status InvalidArgument ''address exceeds max length 512'')
      else None)"

subsection \<open>What the patterns accept\<close>

text \<open>A safe identifier: alphanumeric first byte, then alphanumerics, hyphens, underscores, dots.\<close>

definition alnum_char :: "char \<Rightarrow> bool" where
  "alnum_char c \<longleftrightarrow> in_class (of_char c) alnum_class"

definition safe_char :: "char \<Rightarrow> bool" where
  "safe_char c \<longleftrightarrow> in_class (of_char c) name_class"

definition safe_id :: "string \<Rightarrow> bool" where
  "safe_id s \<longleftrightarrow> s \<noteq> [] \<and> alnum_char (hd s) \<and> (\<forall>c\<in>set s. safe_char c)"

lemma class_ascii:
  "in_class c alnum_class \<Longrightarrow> c < 128"
  "in_class c name_class \<Longrightarrow> c < 128"
  "in_class c alnum_class \<Longrightarrow> in_class c name_class"
  by (auto simp: in_class_def alnum_class_def name_class_def)

lemma safe_char_ascii: "safe_char c \<Longrightarrow> (of_char c :: nat) < 128"
  by (simp add: safe_char_def class_ascii(2))

lemma matches_SafeIDPattern:
  "matches SafeIDPattern w \<longleftrightarrow>
     w \<noteq> [] \<and> in_class (hd w) alnum_class \<and> (\<forall>c\<in>set w. in_class c name_class)"
  by (cases w) (auto simp: SafeIDPattern_def matches_RSeq_class class_ascii(3))

lemma MatchString_SafeIDPattern: "MatchString SafeIDPattern s \<longleftrightarrow> safe_id s"
proof
  assume "MatchString SafeIDPattern s"
  then have m: "matches SafeIDPattern (runes s)" by (simp add: MatchString_iff)
  then have "runes s = map of_char s"
    by (intro runes_ascii) (auto simp: matches_SafeIDPattern class_ascii(2))
  with m show "safe_id s"
    by (auto simp: matches_SafeIDPattern safe_id_def alnum_char_def safe_char_def hd_map)
next
  assume s: "safe_id s"
  then have "runes s = map of_char s"
    unfolding runes_def by (intro decode_runes_id) (auto simp: safe_id_def safe_char_ascii)
  with s show "MatchString SafeIDPattern s"
    by (auto simp: MatchString_iff matches_SafeIDPattern safe_id_def alnum_char_def
        safe_char_def hd_map)
qed

lemma safe_id_no_null: "safe_id s \<Longrightarrow> \<not> HasNullBytes s"
  by (auto simp: safe_id_def HasNullBytes_def strings_ContainsRune_def safe_char_def
      in_class_def name_class_def)

subsection \<open>Acceptance\<close>

named_theorems validator_ok \<open>exactly the inputs a validator accepts\<close>

lemma ValidateStringID_ok [validator_ok]:
  "ValidateStringID s f n = None \<longleftrightarrow> safe_id s \<and> length s \<le> n"
  by (auto simp: ValidateStringID_def MatchString_SafeIDPattern safe_id_no_null)
     (simp add: safe_id_def)

lemma string_id_ok [validator_ok]:
  "ValidateNodeID s = None \<longleftrightarrow> safe_id s \<and> length s \<le> 255"
  "ValidateTaskID s = None \<longleftrightarrow> safe_id s \<and> length s \<le> 255"
  "ValidateJobID s = None \<longleftrightarrow> safe_id s \<and> length s \<le> 255"
  "ValidateAllocationID s = None \<longleftrightarrow> safe_id s \<and> length s \<le> 255"
  by (simp_all add: ValidateNodeID_def ValidateTaskID_def ValidateJobID_def
      ValidateAllocationID_def ValidateStringID_ok bounds_defs)

lemma size_ok [validator_ok]:
  "ValidateMemorySize n = None \<longleftrightarrow> 0 < unat n \<and> unat n \<le> 2 ^ 40"
  "ValidateGPUMemorySize n = None \<longleftrightarrow> 0 < unat n \<and> unat n \<le> 2 ^ 38"
  by (auto simp: ValidateMemorySize_def ValidateGPUMemorySize_def bounds_defs
      unat_eq_0 unat_gt_0)

lemma int_ok [validator_ok]:
  "ValidateReplicationFactor i = None \<longleftrightarrow> 0 \<le> sint i \<and> sint i \<le> 100"
  "ValidatePriority i = None \<longleftrightarrow> 0 \<le> sint i \<and> sint i \<le> 100"
  "ValidateGPUDeviceIndex i = None \<longleftrightarrow> -1 \<le> sint i"
  "ValidateHeartbeatTaskCount k = None \<longleftrightarrow> k \<le> 10000"
  by (auto simp: ValidateReplicationFactor_def ValidatePriority_def ValidateGPUDeviceIndex_def
      ValidateHeartbeatTaskCount_def bounds_defs)

lemma text_ok [validator_ok]:
  "ValidateVersion s = None \<longleftrightarrow> CHR 0x00 \<notin> set s \<and> length s \<le> 64"
  "ValidateAddress s = None \<longleftrightarrow> CHR 0x00 \<notin> set s \<and> length s \<le> 512"
  by (auto simp: ValidateVersion_def ValidateAddress_def HasNullBytes_def
      strings_ContainsRune_def)

lemma env_range_ok:
  "env_range env = None \<longleftrightarrow>
     (\<forall>(k, v)\<in>set env. 1 \<le> length k \<and> length k \<le> 128 \<and> length v \<le> 4096)"
  by (induction env rule: env_range.induct) (auto simp: bounds_defs Suc_le_eq)

lemma ValidateEnvVars_ok [validator_ok]:
  "ValidateEnvVars env = None \<longleftrightarrow>
     length env \<le> 128 \<and>
     (\<forall>(k, v)\<in>set env. 1 \<le> length k \<and> length k \<le> 128 \<and> length v \<le> 4096)"
  by (auto simp: ValidateEnvVars_def env_range_ok bounds_defs split: if_splits)

lemma commands_total_sum: "commands_total n cmds = n + sum_list (map length cmds)"
  by (induction n cmds rule: commands_total.induct) auto

lemma ValidateCommands_ok [validator_ok]:
  "ValidateCommands cmds = None \<longleftrightarrow> sum_list (map length cmds) \<le> 256 * 1024"
  by (auto simp: ValidateCommands_def commands_total_sum bounds_defs)

subsection \<open>Container images\<close>

text \<open>The parts of an accepted image reference, in order.\<close>

definition image_parts ::
  "nat list \<Rightarrow> nat list \<Rightarrow> nat list list \<Rightarrow> nat list \<Rightarrow> nat list \<Rightarrow> bool" where
  "image_parts name port comps tag digest \<longleftrightarrow>
     matches SafeIDPattern name \<and>
     (port = [] \<or> (\<exists>ds. port = 58 # ds \<and> ds \<noteq> [] \<and> (\<forall>d\<in>set ds. 48 \<le> d \<and> d \<le> 57))) \<and>
     (\<forall>c\<in>set comps. \<exists>n. c = 47 # n \<and> matches SafeIDPattern n) \<and>
     (tag = [] \<or> (\<exists>ts. tag = 58 # ts \<and> ts \<noteq> [] \<and> (\<forall>t\<in>set ts. in_class t tag_class))) \<and>
     (digest = [] \<or> (\<exists>h. digest = map of_char ''@sha256:'' @ h \<and> length h = 64
        \<and> (\<forall>d\<in>set h. in_class d hex_class)))"

lemma matches_RSeq_lit:
  "matches (RSeq (RLit c) r) w \<longleftrightarrow> (\<exists>v. w = c # v \<and> matches r v)"
  by (cases w) (auto simp: RLit_def matches_RSeq_class in_class_def)

lemma matches_ContainerImagePattern:
  "matches ContainerImagePattern w \<longleftrightarrow>
     (\<exists>name port comps tag digest. w = name @ port @ concat comps @ tag @ digest
        \<and> image_parts name port comps tag digest)"
proof -
  have port: "matches (ROpt (RSeq (RLit 58) (RPlus (RClass [(48, 57)])))) p \<longleftrightarrow>
      p = [] \<or> (\<exists>ds. p = 58 # ds \<and> ds \<noteq> [] \<and> (\<forall>d\<in>set ds. 48 \<le> d \<and> d \<le> 57))" for p
    by (auto simp: matches_RSeq_lit in_class_def)
  have comps: "matches (RStar (RSeq (RLit 47) SafeIDPattern)) p \<longleftrightarrow>
      (\<exists>cs. p = concat cs \<and> (\<forall>c\<in>set cs. \<exists>n. c = 47 # n \<and> matches SafeIDPattern n))" for p
    by (simp add: matches_RStar_concat matches_RSeq_lit)
  have tag: "matches (ROpt (RSeq (RLit 58) (RPlus (RClass tag_class)))) p \<longleftrightarrow>
      p = [] \<or> (\<exists>ts. p = 58 # ts \<and> ts \<noteq> [] \<and> (\<forall>t\<in>set ts. in_class t tag_class))" for p
    by (auto simp: matches_RSeq_lit)
  have digest: "matches (ROpt (RSeq (RLit 64) (RSeq (RLit 115) (RSeq (RLit 104) (RSeq (RLit 97)
      (RSeq (RLit 50) (RSeq (RLit 53) (RSeq (RLit 54) (RSeq (RLit 58)
      (RRep 64 (RClass hex_class))))))))))) p \<longleftrightarrow>
      p = [] \<or> (\<exists>h. p = map of_char ''@sha256:'' @ h \<and> length h = 64
        \<and> (\<forall>d\<in>set h. in_class d hex_class))" for p
    by (auto simp: matches_RSeq_lit)
  show ?thesis
    unfolding ContainerImagePattern_def SafeIDPattern_def [symmetric] image_parts_def
      matches_simps(4) port comps tag digest
    by blast
qed

lemma image_runes:
  assumes "matches ContainerImagePattern w" and "c \<in> set w"
  shows "in_class c name_class \<or> c \<in> {47, 58, 64, 0x17F, 0x212A}"
proof -
  from assms(1) obtain name port comps tag digest
    where w: "w = name @ port @ concat comps @ tag @ digest"
      and parts: "image_parts name port comps tag digest"
    by (auto simp: matches_ContainerImagePattern)
  have "in_class d name_class" if "48 \<le> d \<and> d \<le> 57" for d
    using that by (simp add: in_class_def name_class_def)
  with parts have port: "c \<in> set port \<Longrightarrow> c = 58 \<or> in_class c name_class"
    by (auto simp: image_parts_def)
  from parts have comps: "c \<in> set (concat comps) \<Longrightarrow> c = 47 \<or> in_class c name_class"
    by (fastforce simp: image_parts_def matches_SafeIDPattern)
  have "d = 0x17F \<or> d = 0x212A \<or> in_class d name_class" if "in_class d tag_class" for d
    using that by (auto simp: in_class_def tag_class_def)
  with parts have tag:
    "c \<in> set tag \<Longrightarrow> c = 58 \<or> c = 0x17F \<or> c = 0x212A \<or> in_class c name_class"
    unfolding image_parts_def by (metis empty_iff list.set(1) set_ConsD)
  have "in_class d name_class" if "in_class d hex_class" for d
    using that by (auto simp: in_class_def name_class_def hex_class_def)
  moreover have "d = 64 \<or> d = 58 \<or> in_class d name_class" if "d \<in> set (map of_char ''@sha256:'')" for d
    using that by (auto simp: in_class_def name_class_def)
  ultimately have digest: "c \<in> set digest \<Longrightarrow> c = 64 \<or> c = 58 \<or> in_class c name_class"
    using parts unfolding image_parts_def by (metis UnE empty_iff list.set(1) set_append)
  from parts have "c \<in> set name \<Longrightarrow> in_class c name_class"
    by (auto simp: image_parts_def matches_SafeIDPattern)
  with port comps tag digest assms(2) show ?thesis by (auto simp: w)
qed

lemma image_no_null:
  assumes "matches ContainerImagePattern (runes img)"
  shows "img \<noteq> []" and "\<not> HasNullBytes img"
proof -
  show "img \<noteq> []"
    using assms by (auto simp: runes_def matches_ContainerImagePattern image_parts_def
        matches_SafeIDPattern)
  show "\<not> HasNullBytes img"
  proof
    assume "HasNullBytes img"
    then have "0 \<in> set (map of_char img :: nat list)"
      by (force simp: HasNullBytes_def strings_ContainsRune_def)
    then have "0 \<in> set (runes img)"
      unfolding runes_def by (rule ascii_byte_in_runes) simp
    with image_runes [OF assms, of 0] show False
      by (simp add: in_class_def name_class_def)
  qed
qed

lemma ValidateContainerImage_ok [validator_ok]:
  "ValidateContainerImage img = None \<longleftrightarrow>
     length img \<le> 1024 \<and> matches ContainerImagePattern (runes img)"
  using image_no_null [of img]
  by (auto simp: ValidateContainerImage_def MatchString_iff bounds_defs)

text \<open>The character classes, as bytes.\<close>

lemma of_char_eq_numeral:
  "of_char c = (45 :: nat) \<longleftrightarrow> c = CHR ''-''"
  "of_char c = (95 :: nat) \<longleftrightarrow> c = CHR ''_''"
  "of_char c = (46 :: nat) \<longleftrightarrow> c = CHR ''.''"
proof -
  have "of_char CHR ''-'' = (45 :: nat)" "of_char CHR ''_'' = (95 :: nat)"
    "of_char CHR ''.'' = (46 :: nat)"
    by simp_all
  then show "of_char c = (45 :: nat) \<longleftrightarrow> c = CHR ''-''" "of_char c = (95 :: nat) \<longleftrightarrow> c = CHR ''_''"
    "of_char c = (46 :: nat) \<longleftrightarrow> c = CHR ''.''"
    by (metis of_char_eq_iff)+
qed

text \<open>The letters and digits of ASCII, and the punctuation an identifier may contain.\<close>

definition letters_digits :: "char set" where
  "letters_digits = {CHR ''0''..CHR ''9''} \<union> {CHR ''A''..CHR ''Z''} \<union> {CHR ''a''..CHR ''z''}"

definition id_punctuation :: "char set" where
  "id_punctuation = {CHR ''-'', CHR ''.'', CHR ''_''}"

lemma alnum_char_iff: "alnum_char c \<longleftrightarrow> c \<in> letters_digits"
  by (auto simp: alnum_char_def in_class_def alnum_class_def less_eq_char_def letters_digits_def)

lemma safe_char_iff: "safe_char c \<longleftrightarrow> c \<in> letters_digits \<union> id_punctuation"
proof -
  have "safe_char c \<longleftrightarrow> alnum_char c \<or> of_char c \<in> {45, 46, 95 :: nat}"
    by (auto simp: safe_char_def alnum_char_def in_class_def name_class_def alnum_class_def)
  then show ?thesis by (auto simp: of_char_eq_numeral alnum_char_iff id_punctuation_def)
qed

subsection \<open>Properties\<close>

lemmas image_eval = ContainerImagePattern_def RLit_def ROpt_def RPlus_def in_class_def
  alnum_class_def name_class_def tag_class_def HasNullBytes_def strings_ContainsRune_def
  MaxContainerImageLen_def

text \<open>
  \<^bold>\<open>C23\<close>. The identifier validators accept exactly the strings of 1 to 255 bytes that start with an
  ASCII letter or digit and continue with letters, digits, hyphens, underscores and dots; the null
  byte check never decides, since the pattern excludes it.
\<close>

theorem identifiers_accepted:
  "V \<in> {ValidateNodeID, ValidateTaskID, ValidateJobID, ValidateAllocationID} \<Longrightarrow>
   V s = None \<longleftrightarrow>
     length s \<le> 255 \<and> s \<noteq> '''' \<and>
     hd s \<in> letters_digits \<and> set s \<subseteq> letters_digits \<union> id_punctuation"
proof -
  assume "V \<in> {ValidateNodeID, ValidateTaskID, ValidateJobID, ValidateAllocationID}"
  then have "V s = None \<longleftrightarrow> safe_id s \<and> length s \<le> 255" by (auto simp: string_id_ok)
  then show ?thesis
    unfolding safe_id_def alnum_char_iff safe_char_iff by blast
qed

theorem identifiers_accepted_witness: "ValidateNodeID ''node-1.local'' = None"
  by (subst identifiers_accepted) (simp_all add: less_eq_char_def letters_digits_def id_punctuation_def)

text \<open>
  \<^bold>\<open>C24\<close>. A container image is accepted exactly when it has at most 1024 bytes and splits into a name,
  an optional numeric port, path components, an optional tag and an optional sha256 digest of 64 hex
  digits; emptiness and null bytes need no further check.
\<close>

theorem container_image_accepted:
  "ValidateContainerImage img = None \<longleftrightarrow>
     length img \<le> 1024 \<and>
     (\<exists>name port comps tag digest. runes img = name @ port @ concat comps @ tag @ digest \<and>
        image_parts name port comps tag digest)"
  by (simp add: ValidateContainerImage_ok matches_ContainerImagePattern)

text \<open>
  An accepted image reference contains no space, quote, shell metacharacter or control
  character: every rune is a letter, digit, hyphen, underscore, dot, slash, colon or at sign, or one
  of the two non-ASCII letters that fold to an ASCII one.
\<close>

theorem container_image_runes:
  assumes "ValidateContainerImage img = None" and "c \<in> set (runes img)"
  shows "97 \<le> c \<and> c \<le> 122 \<or> 65 \<le> c \<and> c \<le> 90 \<or> 48 \<le> c \<and> c \<le> 57 \<or>
    c \<in> {45, 95, 46, 47, 58, 64, 0x17F, 0x212A}"
proof -
  have "in_class c name_class \<Longrightarrow> 97 \<le> c \<and> c \<le> 122 \<or> 65 \<le> c \<and> c \<le> 90 \<or> 48 \<le> c \<and> c \<le> 57 \<or>
      c = 45 \<or> c = 95 \<or> c = 46"
    by (simp add: in_class_def name_class_def) presburger
  with image_runes [of "runes img" c] assms show ?thesis
    unfolding ValidateContainerImage_ok by blast
qed

theorem container_image_runes_witness: "(110 :: nat) \<in> set (runes ''nginx:1.25'') \<and> (110 :: nat) \<le> 122"
proof -
  have r: "runes ''nginx:1.25'' = [110, 103, 105, 110, 120, 58, 49, 46, 50, 53]"
    by (simp add: runes_def decode_runes_ascii)
  then have "ValidateContainerImage ''nginx:1.25'' = None"
    by (simp add: ValidateContainerImage_def MatchString_def r image_eval)
  moreover have "110 \<in> set (runes ''nginx:1.25'')" by (simp add: r)
  ultimately show ?thesis using container_image_runes [of "''nginx:1.25''" 110] by simp
qed

text \<open>
  The tag class was written for ASCII, but \<open>(?i)\<close> closes it under Unicode case folding: a tag
  of the Kelvin sign (bytes E2 84 AA) or of the long s (bytes C5 BF) is accepted, although the same
  character is rejected in the name.
\<close>

theorem container_image_tag_not_ascii:
  "ValidateContainerImage (''nginx:'' @ [CHR 0xE2, CHR 0x84, CHR 0xAA]) = None \<and>
   ValidateContainerImage (''nginx:'' @ [CHR 0xC5, CHR 0xBF]) = None \<and>
   ValidateContainerImage (''nginx'' @ [CHR 0xE2, CHR 0x84, CHR 0xAA]) \<noteq> None"
proof -
  have kelvin: "decode_runes [226, 132, 170] = [0x212A]" and long_s: "decode_runes [197, 191] = [0x17F]"
    by (simp_all add: decode_runes.simps [of "_ # _"] decode_rune_2 decode_rune_3 accept_second_def
        cont_byte_def)
  have "runes (''nginx:'' @ [CHR 0xE2, CHR 0x84, CHR 0xAA]) = [110, 103, 105, 110, 120, 58, 0x212A]"
    "runes (''nginx:'' @ [CHR 0xC5, CHR 0xBF]) = [110, 103, 105, 110, 120, 58, 0x17F]"
    "runes (''nginx'' @ [CHR 0xE2, CHR 0x84, CHR 0xAA]) = [110, 103, 105, 110, 120, 0x212A]"
    by (simp_all add: runes_def decode_runes_ascii kelvin long_s)
  then show ?thesis
    by (simp add: ValidateContainerImage_def MatchString_def image_eval)
qed

text \<open>
  \<^bold>\<open>C30\<close>. The numeric validators accept exactly the documented ranges: memory sizes of 1 byte to 1 TB,
  GPU memory of 1 byte to 256 GB, replication factors and priorities of 0 to 100, GPU device indices
  from -1 up, at most 10000 tasks per heartbeat, and at most 256 KB of command and arguments.
\<close>

theorem numeric_ranges_accepted:
  "(ValidateMemorySize n = None \<longleftrightarrow> 1 \<le> unat n \<and> unat n \<le> 1024 ^ 4) \<and>
   (ValidateGPUMemorySize n = None \<longleftrightarrow> 1 \<le> unat n \<and> unat n \<le> 256 * 1024 ^ 3) \<and>
   (ValidateReplicationFactor i = None \<longleftrightarrow> sint i \<in> {0..100}) \<and>
   (ValidatePriority i = None \<longleftrightarrow> sint i \<in> {0..100}) \<and>
   (ValidateGPUDeviceIndex i = None \<longleftrightarrow> -1 \<le> sint i) \<and>
   (ValidateHeartbeatTaskCount k = None \<longleftrightarrow> k \<le> 10000) \<and>
   (ValidateCommands cmds = None \<longleftrightarrow> length (concat cmds) \<le> 256 * 1024)"
  by (auto simp: validator_ok length_concat)

text \<open>
  \<^bold>\<open>C31\<close>. Environment variables are accepted exactly when there are at most 128, every key has 1 to
  128 bytes and every value at most 4096; so whether they are accepted does not depend on the order
  in which Go ranges over the map.
\<close>

theorem env_vars_accepted:
  "(ValidateEnvVars env = None \<longleftrightarrow>
      length env \<le> 128 \<and>
      (\<forall>(k, v)\<in>set env. length k \<in> {1..128} \<and> length v \<le> 4096)) \<and>
   (mset env' = mset env \<longrightarrow> (ValidateEnvVars env' = None \<longleftrightarrow> ValidateEnvVars env = None))"
  by (auto simp: ValidateEnvVars_ok dest: mset_eq_length mset_eq_setD)

theorem env_vars_accepted_witness:
  "ValidateEnvVars [(''B'', ''2''), (''A'', ''1'')] = None"
  using env_vars_accepted [of "[(''A'', ''1''), (''B'', ''2'')]" "[(''B'', ''2''), (''A'', ''1'')]"]
  by simp

text \<open>A rejection, when there is one, carries the status code \<open>InvalidArgument\<close>.\<close>

definition invalid_argument :: "go_error \<Rightarrow> bool" where
  "invalid_argument e \<longleftrightarrow> e = None \<or> (\<exists>msg. e = Some (Status InvalidArgument msg))"

lemma invalid_argument_ValidateStringID: "invalid_argument (ValidateStringID s f m)"
  by (simp add: ValidateStringID_def invalid_argument_def)

lemma invalid_argument_env_range: "invalid_argument (env_range env)"
  by (induction env rule: env_range.induct) (auto simp: invalid_argument_def)

lemma invalid_argument_validators [simp]:
  "invalid_argument (ValidateNodeID s)" "invalid_argument (ValidateTaskID s)"
  "invalid_argument (ValidateJobID s)" "invalid_argument (ValidateAllocationID s)"
  "invalid_argument (ValidateContainerImage s)" "invalid_argument (ValidateMemorySize n)"
  "invalid_argument (ValidateGPUMemorySize n)" "invalid_argument (ValidateReplicationFactor i)"
  "invalid_argument (ValidatePriority i)" "invalid_argument (ValidateCommands cmds)"
  "invalid_argument (ValidateHeartbeatTaskCount k)" "invalid_argument (ValidateGPUDeviceIndex i)"
  "invalid_argument (ValidateVersion s)" "invalid_argument (ValidateAddress s)"
  "invalid_argument (ValidateEnvVars env)"
  using invalid_argument_env_range [of env] invalid_argument_ValidateStringID
  by (simp_all add: invalid_argument_def ValidateNodeID_def ValidateTaskID_def ValidateJobID_def
      ValidateAllocationID_def ValidateContainerImage_def ValidateMemorySize_def
      ValidateGPUMemorySize_def ValidateReplicationFactor_def ValidatePriority_def
      ValidateEnvVars_def ValidateCommands_def ValidateHeartbeatTaskCount_def
      ValidateGPUDeviceIndex_def ValidateVersion_def ValidateAddress_def)

text \<open>
  Every rejection of the package is an \<open>InvalidArgument\<close> status.
\<close>

theorem rejections_are_InvalidArgument:
  "e \<in> {ValidateStringID s f m, ValidateNodeID s, ValidateTaskID s, ValidateJobID s,
        ValidateAllocationID s, ValidateContainerImage s, ValidateMemorySize n,
        ValidateGPUMemorySize n, ValidateReplicationFactor i, ValidatePriority i,
        ValidateEnvVars env, ValidateCommands cmds, ValidateHeartbeatTaskCount k,
        ValidateGPUDeviceIndex i, ValidateVersion s, ValidateAddress s} \<Longrightarrow>
   e = None \<or> (\<exists>msg. e = Some (Status InvalidArgument msg))"
  using invalid_argument_ValidateStringID [of s f m] invalid_argument_validators
  unfolding invalid_argument_def by (elim insertE) (simp_all only: empty_iff)

theorem rejections_are_InvalidArgument_witness:
  "\<exists>msg. ValidateGPUDeviceIndex (-2) = Some (Status InvalidArgument msg)"
  using rejections_are_InvalidArgument [of "ValidateGPUDeviceIndex (-2)" "''a''" "''f''" 1 1 "-2" "[]" "[]" 1]
  by (simp add: ValidateGPUDeviceIndex_def)

end
