(* ===== verification/Metrics.thy ===== *)
theory Metrics
  imports Effects Go_Strings
begin

text \<open>
  The package \<^verbatim>\<open>internal/metrics\<close>: the method labels with their cache, and the unary and stream
  interceptors that record a call around its handler. The cache and the trace of calls to the
  Prometheus library are the state; the server's own state extends this record. \<open>status.Code(err)\<close>
  and its \<open>String\<close> method belong to the gRPC library: the interceptors take that function as the
  parameter \<open>codeString\<close>. The latency is recorded as the duration it is; the conversion to seconds
  for the histogram is left to the reader of the trace.
\<close>

subsection \<open>Known methods\<close>

definition knownServiceMethods :: "string list" where
  "knownServiceMethods =
     [''AgentService/Register'',
      ''AgentService/Heartbeat'',
      ''AgentService/ExecuteTask'',
      ''AgentService/AllocateMemory'',
      ''AgentService/AllocateGPUMemory'',
      ''AgentService/FreeMemory'',
      ''AgentService/FreeGPUMemory'',
      ''MemoryService/AllocateDistributed'',
      ''MemoryService/MigrateRegion'',
      ''MemoryService/GetRegion'',
      ''ControlService/GetClusterState'',
      ''ControlService/JoinCluster'']"

text \<open>The content of the cache after the package's \<open>init\<close>.\<close>

definition init_knownMethods :: "string list" where
  "init_knownMethods = map (\<lambda>m. strings_ReplaceAll m CHR ''/'' ''.'') knownServiceMethods"

definition sanitizeMethod :: "string list \<Rightarrow> string \<Rightarrow> string \<times> string list" where
  "sanitizeMethod known full =
     (let full = strings_TrimPrefix full ''/'';
          method = strings_ReplaceAll full CHR ''/'' ''.''
      in if method \<in> set known then (method, known)
         else let parts = strings_SplitN method CHR ''.'' 4
              in if 3 \<le> length parts
                    \<and> parts ! (length parts - 2) @ ''/'' @ parts ! (length parts - 1)
                        \<in> set knownServiceMethods
                 then (method, method # known)
                 else (''unknown_method'', known))"

subsection \<open>Interceptors\<close>

record metrics_state =
  knownMethods :: "string list"
  metric_trace :: "metric_op list"

text \<open>The error of a result, nil when the call succeeded.\<close>

fun error_of :: "error + 'a \<Rightarrow> go_error" where
  "error_of (Inl e) = Some e"
| "error_of (Inr _) = None"

definition UnaryServerInterceptor ::
  "(go_error \<Rightarrow> string) \<Rightarrow> time \<Rightarrow> time \<Rightarrow> 'ctx \<Rightarrow> 'req \<Rightarrow> string
     \<Rightarrow> ('ctx \<Rightarrow> 'req \<Rightarrow> ('s metrics_state_scheme, 'resp) call)
     \<Rightarrow> ('s metrics_state_scheme, 'resp) call" where
  "UnaryServerInterceptor codeString start stop ctx req fullMethod handler st =
     (case handler ctx req st of
        Inl p \<Rightarrow> Inl p
      | Inr (res, st1) \<Rightarrow>
          let elapsed = time_Sub stop start;
              (method, known) = sanitizeMethod (knownMethods st1) fullMethod;
              code = codeString (error_of res)
          in Inr (res, st1\<lparr>knownMethods := known,
               metric_trace := metric_trace st1 @
                 [GrpcServerRequests_Inc method ''unary'' code,
                  GrpcServerLatency_Observe method ''unary'' elapsed]\<rparr>))"

definition StreamServerInterceptor ::
  "(go_error \<Rightarrow> string) \<Rightarrow> time \<Rightarrow> time \<Rightarrow> string
     \<Rightarrow> ('s metrics_state_scheme, 'resp) call
     \<Rightarrow> ('s metrics_state_scheme, 'resp) call" where
  "StreamServerInterceptor codeString start stop fullMethod handler st =
     (let (method, known) = sanitizeMethod (knownMethods st) fullMethod;
          st1 = st\<lparr>knownMethods := known,
                   metric_trace := metric_trace st @ [GrpcActiveStreams_Inc method]\<rparr>
      in case handler st1 of
           Inl p \<Rightarrow> Inl p
         | Inr (res, st2) \<Rightarrow>
             let elapsed = time_Sub stop start;
                 code = codeString (error_of res)
             in Inr (res, st2\<lparr>metric_trace := metric_trace st2 @
                  [GrpcServerRequests_Inc method ''stream'' code,
                   GrpcServerLatency_Observe method ''stream'' elapsed,
                   GrpcActiveStreams_Dec method]\<rparr>))"

subsection \<open>Labels\<close>

text \<open>The label of a method with an empty cache: what the code computes without caching.\<close>

definition method_of :: "string \<Rightarrow> string" where
  "method_of full = strings_ReplaceAll (strings_TrimPrefix full ''/'') CHR ''/'' ''.''"

definition known_pattern :: "string \<Rightarrow> bool" where
  "known_pattern method \<longleftrightarrow>
     (let parts = strings_SplitN method CHR ''.'' 4
      in 3 \<le> length parts \<and>
         parts ! (length parts - 2) @ ''/'' @ parts ! (length parts - 1) \<in> set knownServiceMethods)"

definition label_of :: "string \<Rightarrow> string" where
  "label_of full =
     (if method_of full \<in> set init_knownMethods \<or> known_pattern (method_of full)
      then method_of full else ''unknown_method'')"

text \<open>What the cache holds: the preloaded names, and methods the slow path has accepted.\<close>

definition cache_ok :: "string list \<Rightarrow> bool" where
  "cache_ok known \<longleftrightarrow>
     set init_knownMethods \<subseteq> set known \<and>
     (\<forall>m\<in>set known. m \<in> set init_knownMethods \<or> known_pattern m)"

lemma cache_ok_init: "cache_ok init_knownMethods"
  by (simp add: cache_ok_def)

lemma sanitizeMethod_eq:
  "sanitizeMethod known full =
     (if method_of full \<in> set known then (method_of full, known)
      else if known_pattern (method_of full) then (method_of full, method_of full # known)
      else (''unknown_method'', known))"
  by (simp only: sanitizeMethod_def method_of_def known_pattern_def Let_def)

lemma sanitizeMethod_cached:
  assumes "cache_ok known"
  shows "fst (sanitizeMethod known full) = label_of full \<and> cache_ok (snd (sanitizeMethod known full))"
  using assms unfolding sanitizeMethod_eq label_of_def cache_ok_def by auto

text \<open>Splitting loses nothing: the parts joined by the separator give the string back.\<close>

fun join :: "char \<Rightarrow> string list \<Rightarrow> string" where
  "join sep [] = []"
| "join sep [p] = p"
| "join sep (p # q # ps) = p @ sep # join sep (q # ps)"

lemma SplitN_nonempty: "strings_SplitN s sep (Suc n) \<noteq> []"
  by (cases n) auto

lemma dropWhile_sep:
  "sep \<in> set s \<Longrightarrow> dropWhile (\<lambda>c. c \<noteq> sep) s = sep # tl (dropWhile (\<lambda>c. c \<noteq> sep) s)"
  by (induction s) auto

lemma join_SplitN: "join sep (strings_SplitN s sep (Suc n)) = s"
proof (induction n arbitrary: s)
  case (Suc n)
  show ?case
  proof (cases "sep \<in> set s")
    case True
    then have "dropWhile (\<lambda>c. c \<noteq> sep) s = sep # tl (dropWhile (\<lambda>c. c \<noteq> sep) s)"
      by (rule dropWhile_sep)
    then have "s = takeWhile (\<lambda>c. c \<noteq> sep) s @ sep # tl (dropWhile (\<lambda>c. c \<noteq> sep) s)"
      by (metis takeWhile_dropWhile_id)
    moreover obtain q qs where
      "strings_SplitN (tl (dropWhile (\<lambda>c. c \<noteq> sep) s)) sep (Suc n) = q # qs"
      using SplitN_nonempty by (metis list.exhaust)
    ultimately show ?thesis using True Suc.IH by (metis join.simps(3) strings_SplitN.simps(3))
  qed simp
qed simp

lemma join_last_two:
  "2 \<le> length ps \<Longrightarrow> suffix (ps ! (length ps - 2) @ sep # ps ! (length ps - 1)) (join sep ps)"
proof (induction sep ps rule: join.induct)
  case (3 sep p q ps)
  then show ?case
    by (cases ps) (auto intro: suffix_ConsI suffix_appendI)
qed simp_all

subsection \<open>Properties of the labels\<close>

text \<open>The labels of a sequence of calls, the cache passed from one to the next.\<close>

fun sanitize_calls :: "string list \<Rightarrow> string list \<Rightarrow> string list" where
  "sanitize_calls known [] = []"
| "sanitize_calls known (full # fulls) =
     (case sanitizeMethod known full of (label, known') \<Rightarrow> label # sanitize_calls known' fulls)"

lemma sanitize_calls_cache_ok:
  "cache_ok known \<Longrightarrow> sanitize_calls known fulls = map label_of fulls"
proof (induction fulls arbitrary: known)
  case (Cons full fulls)
  then show ?case using sanitizeMethod_cached [of known full] by (auto split: prod.split)
qed simp

lemma known_pattern_suffix:
  assumes "known_pattern m"
  shows "\<exists>svc meth. svc @ ''/'' @ meth \<in> set knownServiceMethods \<and> suffix (svc @ ''.'' @ meth) m"
proof -
  let ?ps = "strings_SplitN m CHR ''.'' 4"
  from assms have len: "3 \<le> length ?ps"
    and known: "?ps ! (length ?ps - 2) @ ''/'' @ ?ps ! (length ?ps - 1) \<in> set knownServiceMethods"
    by (simp_all add: known_pattern_def Let_def)
  from len have "suffix (?ps ! (length ?ps - 2) @ CHR ''.'' # ?ps ! (length ?ps - 1)) (join CHR ''.'' ?ps)"
    by (intro join_last_two) simp
  moreover have "join CHR ''.'' ?ps = m"
    using join_SplitN [of "CHR ''.''" m 3] by (simp add: eval_nat_numeral)
  ultimately show ?thesis using known by auto
qed

lemma init_knownMethods_suffix:
  assumes "m \<in> set init_knownMethods"
  shows "\<exists>svc meth. svc @ ''/'' @ meth \<in> set knownServiceMethods \<and> suffix (svc @ ''.'' @ meth) m"
proof -
  have split: "\<forall>k\<in>set knownServiceMethods. \<exists>svc meth. k = svc @ ''/'' @ meth
      \<and> strings_ReplaceAll k CHR ''/'' ''.'' = svc @ ''.'' @ meth"
  proof
    fix k assume k: "k \<in> set knownServiceMethods"
    let ?svc = "takeWhile (\<lambda>c. c \<noteq> CHR ''/'') k" and ?meth = "tl (dropWhile (\<lambda>c. c \<noteq> CHR ''/'') k)"
    from k have "k = ?svc @ ''/'' @ ?meth
      \<and> strings_ReplaceAll k CHR ''/'' ''.'' = ?svc @ ''.'' @ ?meth"
      unfolding knownServiceMethods_def by (auto simp: strings_ReplaceAll_def)
    then show "\<exists>svc meth. k = svc @ ''/'' @ meth
      \<and> strings_ReplaceAll k CHR ''/'' ''.'' = svc @ ''.'' @ meth" by blast
  qed
  from assms obtain k where "k \<in> set knownServiceMethods" "m = strings_ReplaceAll k CHR ''/'' ''.''"
    by (auto simp: init_knownMethods_def)
  with split show ?thesis by (metis suffix_order.order_refl)
qed

text \<open>\<^bold>\<open>C25\<close>
  The cache of known methods never changes an answer: whatever calls came before, the label of a
  method is the one computed without a cache. It is either \<open>unknown_method\<close>, or the method's own
  dotted name, which then ends in the service and the method of an entry of the table of served
  methods.
\<close>

theorem method_labels:
  "sanitize_calls init_knownMethods fulls = map label_of fulls \<and>
   (label_of full = ''unknown_method'' \<or>
    label_of full = method_of full \<and>
      (\<exists>svc meth. svc @ ''/'' @ meth \<in> set knownServiceMethods \<and>
                   suffix (svc @ ''.'' @ meth) (label_of full)))"
  using sanitize_calls_cache_ok [OF cache_ok_init] known_pattern_suffix init_knownMethods_suffix
  by (simp add: label_of_def)

lemma SplitN_prefix:
  assumes "sep \<notin> set p"
  shows "strings_SplitN (p @ sep # s) sep (Suc (Suc n)) = p # strings_SplitN s sep (Suc n)"
proof -
  from assms have "\<And>c. c \<in> set p \<Longrightarrow> c \<noteq> sep" by auto
  then show ?thesis by (simp add: takeWhile_append2 dropWhile_append2)
qed

text \<open>The number of labels is not bounded by the table: a method name whose last two components name a
  served method keeps its own label, whatever single component stands before them. Two callers that
  choose different package names are recorded under different labels.
\<close>

theorem package_name_reaches_label:
  assumes "CHR ''.'' \<notin> set p" and "CHR ''/'' \<notin> set p"
  shows "fst (sanitizeMethod init_knownMethods (''/'' @ p @ ''.AgentService/Register''))
           = p @ ''.AgentService.Register''"
proof -
  let ?m = "p @ ''.AgentService.Register''"
  have m: "method_of (''/'' @ p @ ''.AgentService/Register'') = ?m"
    using assms(2)
    by (simp add: method_of_def strings_TrimPrefix_def strings_ReplaceAll_def)
       (induction p; auto)
  have "strings_SplitN ?m CHR ''.'' (Suc (Suc 2)) = [p, ''AgentService'', ''Register'']"
    using SplitN_prefix [OF assms(1), of "''AgentService.Register''" 2]
    by (simp add: eval_nat_numeral)
  then have "known_pattern ?m"
    by (simp add: known_pattern_def knownServiceMethods_def eval_nat_numeral)
  with m show ?thesis by (simp add: sanitizeMethod_eq)
qed

theorem package_name_reaches_label_witness:
  "fst (sanitizeMethod init_knownMethods ''/attacker1.AgentService/Register'')
     = ''attacker1.AgentService.Register'' \<and>
   fst (sanitizeMethod init_knownMethods ''/attacker2.AgentService/Register'')
     = ''attacker2.AgentService.Register''"
  using package_name_reaches_label [of "''attacker1''"] package_name_reaches_label [of "''attacker2''"]
  by simp

subsection \<open>Properties of the interceptors\<close>

text \<open>The unary interceptor is transparent: it panics when the handler does, and otherwise returns the
  handler's result over the handler's final state, to which it adds exactly one request and one
  latency observation, under the method's label and the handler's status code.
\<close>

theorem UnaryServerInterceptor_effect:
  "(handler ctx req st = Inl p \<longrightarrow>
      UnaryServerInterceptor codeString start stop ctx req full handler st = Inl p) \<and>
   (handler ctx req st = Inr (res, st1) \<and> cache_ok (knownMethods st1) \<longrightarrow>
      (\<exists>known. cache_ok known \<and>
         UnaryServerInterceptor codeString start stop ctx req full handler st =
           Inr (res, st1\<lparr>knownMethods := known,
             metric_trace := metric_trace st1 @
               [GrpcServerRequests_Inc (label_of full) ''unary'' (codeString (error_of res)),
                GrpcServerLatency_Observe (label_of full) ''unary'' (time_Sub stop start)]\<rparr>)))"
  using sanitizeMethod_cached [of "knownMethods st1" full]
  by (auto simp: UnaryServerInterceptor_def Let_def split: prod.split)

definition idle_metrics :: metrics_state where
  "idle_metrics = \<lparr>knownMethods = init_knownMethods, metric_trace = []\<rparr>"

theorem UnaryServerInterceptor_effect_witness:
  "\<exists>known. cache_ok known \<and>
     UnaryServerInterceptor (\<lambda>_. ''OK'') 3 10 () () ''/compute.v1.AgentService/Register''
       (\<lambda>_ _ st. Inr (Inr (), st)) idle_metrics =
     Inr (Inr (), idle_metrics\<lparr>knownMethods := known,
       metric_trace :=
         [GrpcServerRequests_Inc (label_of ''/compute.v1.AgentService/Register'') ''unary'' ''OK'',
          GrpcServerLatency_Observe (label_of ''/compute.v1.AgentService/Register'') ''unary'' 7]\<rparr>)"
  using UnaryServerInterceptor_effect [of "\<lambda>_ _ st. Inr (Inr (), st)" "()" "()" idle_metrics _
      "\<lambda>_. ''OK''" 3 10 "''/compute.v1.AgentService/Register''" "Inr ()" idle_metrics]
  by (simp add: idle_metrics_def cache_ok_init time_Sub_def minDuration_def maxDuration_def)

text \<open>The number of open streams of a label that a trace leaves in the gauge.\<close>

fun active_streams :: "string \<Rightarrow> metric_op list \<Rightarrow> int" where
  "active_streams m [] = 0"
| "active_streams m (GrpcActiveStreams_Inc l # ops) = (if l = m then 1 else 0) + active_streams m ops"
| "active_streams m (GrpcActiveStreams_Dec l # ops) = (if l = m then -1 else 0) + active_streams m ops"
| "active_streams m (_ # ops) = active_streams m ops"

lemma active_streams_append [simp]:
  "active_streams m (xs @ ys) = active_streams m xs + active_streams m ys"
  by (induction m xs rule: active_streams.induct) auto

text \<open>The stream interceptor starts the handler with the gauge of active streams of the method's label
  one higher, and panics when the handler does. When the handler returns, normally or with an error,
  the interceptor returns its result, has counted one request under the label and the status code,
  and has lowered the gauge again: a handler that leaves the gauge alone leaves it, for every label,
  where it was before the stream was opened.
\<close>

theorem StreamServerInterceptor_effect:
  assumes "cache_ok (knownMethods st)"
  shows "\<exists>known. cache_ok known \<and>
    (let st1 = st\<lparr>knownMethods := known,
                  metric_trace := metric_trace st @ [GrpcActiveStreams_Inc (label_of full)]\<rparr>
     in case handler st1 of
          Inl p \<Rightarrow> StreamServerInterceptor codeString start stop full handler st = Inl p
        | Inr (res, st2) \<Rightarrow>
            \<exists>st'. StreamServerInterceptor codeString start stop full handler st = Inr (res, st') \<and>
              (\<exists>ops. metric_trace st' = metric_trace st2 @
                 GrpcServerRequests_Inc (label_of full) ''stream'' (codeString (error_of res)) # ops) \<and>
              knownMethods st' = knownMethods st2 \<and>
              metrics_state.more st' = metrics_state.more st2 \<and>
              (\<forall>l. active_streams l (metric_trace st2) = active_streams l (metric_trace st1) \<longrightarrow>
                   active_streams l (metric_trace st') = active_streams l (metric_trace st)))"
proof -
  obtain known where k: "sanitizeMethod (knownMethods st) full = (label_of full, known)" "cache_ok known"
    using sanitizeMethod_cached [OF assms, of full] by (metis prod.collapse)
  let ?st1 = "st\<lparr>knownMethods := known,
    metric_trace := metric_trace st @ [GrpcActiveStreams_Inc (label_of full)]\<rparr>"
  show ?thesis
    by (rule exI [of _ known], cases "handler ?st1")
       (auto simp: StreamServerInterceptor_def k Let_def split: prod.split)
qed

theorem StreamServerInterceptor_effect_witness:
  "cache_ok (knownMethods idle_metrics) \<and>
   (\<exists>st'. StreamServerInterceptor (\<lambda>_. ''OK'') 3 10 ''/compute.v1.AgentService/Heartbeat''
       (\<lambda>st. Inr (Inr (), st)) idle_metrics = Inr (Inr (), st') \<and>
     active_streams ''compute.v1.AgentService.Heartbeat'' (metric_trace st') = 0)"
  using StreamServerInterceptor_effect [where st = idle_metrics
      and full = "''/compute.v1.AgentService/Heartbeat''" and handler = "\<lambda>st. Inr (Inr (), st)"
      and codeString = "\<lambda>_. ''OK''" and start = 3 and stop = 10]
  by (auto simp: idle_metrics_def cache_ok_init)

end
