(* ===== verification/Agent.thy ===== *)
theory Agent
  imports Registry Validator Metrics
begin

text \<open>
  The package \<^verbatim>\<open>internal/agent\<close> without its heartbeat stream: bearer-token authentication, the
  chains of validation checks with their audit entries, and the six unary handlers. The state of the
  server is the metrics package's state extended by the node registry and the log.

  The gRPC library is reached through the record \<open>grpc_lib\<close>: the incoming metadata of a context, the
  lookup in it, the peer's address, and the text of an error. Its field \<open>Caller_file\<close> is the path
  that \<open>runtime.Caller\<close> reports for \<^verbatim>\<open>agent.go\<close> in the running binary (\<open>None\<close> when it reports
  nothing); the line it reports is the line of the call, which the handlers below carry.
\<close>

subsection \<open>Server state\<close>

record ('ctx, 'md) grpc_lib =
  FromIncomingContext :: "'ctx \<Rightarrow> 'md option"
  MD_Get :: "'md \<Rightarrow> string \<Rightarrow> string list"
  peer_Addr :: "'ctx \<Rightarrow> string option"
  error_Error :: "error \<Rightarrow> string"
  Caller_file :: "string option"

text \<open>The log lines of the package, each with the fields the code attaches.\<close>

datatype log_entry =
    ValidationRejected (remote_ip: string) (log_method: string) (log_field: string) (chain_pos: nat)
      (source_file: string) (source_line: nat) (detail: string)
  | NodeRegistering string string string
  | HeartbeatStreamOpened string uint64
  | InitialAckFailed error
  | AckFailed error
  | HeartbeatStreamClosed string
  | HeartbeatStreamError error string
  | HeartbeatReceived string uint64
  | TaskExecutionRequested string string
  | MemoryAllocationRequested string uint64
  | GPUMemoryAllocationRequested string uint64
  | MemoryFreeRequested string
  | GPUMemoryFreeRequested string

record server = metrics_state +
  srv_registry :: NodeRegistry
  srv_log :: "log_entry list"

definition log_event :: "log_entry \<Rightarrow> server \<Rightarrow> server" where
  "log_event e st = st\<lparr>srv_log := srv_log st @ [e]\<rparr>"

text \<open>Run an operation of the registry on the server's registry and record its metrics calls.\<close>

definition with_registry ::
  "(NodeRegistry \<Rightarrow> panic + NodeRegistry \<times> metric_op list) \<Rightarrow> server \<Rightarrow> panic + server" where
  "with_registry f st =
     (case f (srv_registry st) of
        Inl p \<Rightarrow> Inl p
      | Inr (r, ops) \<Rightarrow> Inr (st\<lparr>srv_registry := r, metric_trace := metric_trace st @ ops\<rparr>))"

record AgentServer =
  AgentServer_clusterID :: string
  AgentServer_leaderAddr :: string
  AgentServer_agentToken :: string

definition NewAgentServer :: "string \<Rightarrow> string \<Rightarrow> string \<Rightarrow> AgentServer" where
  "NewAgentServer clusterID leaderAddr agentToken =
     \<lparr>AgentServer_clusterID = clusterID, AgentServer_leaderAddr = leaderAddr,
      AgentServer_agentToken = agentToken\<rparr>"

subsection \<open>Authentication\<close>

fun match_token :: "string \<Rightarrow> string list \<Rightarrow> go_error" where
  "match_token expected [] = Some (Status PermissionDenied ''invalid token'')"
| "match_token expected (tok # tokens) =
     (if ConstantTimeCompare tok expected = 1 then None else match_token expected tokens)"

definition validateBearerToken :: "('ctx, 'md) grpc_lib \<Rightarrow> 'ctx \<Rightarrow> string \<Rightarrow> go_error" where
  "validateBearerToken lib ctx expectedToken =
     (if expectedToken = '''' then None
      else case FromIncomingContext lib ctx of
             None \<Rightarrow> Some (Status Unauthenticated ''missing metadata'')
           | Some md \<Rightarrow>
               let tokens = MD_Get lib md ''authorization''
               in if length tokens = 0
                  then Some (Status Unauthenticated ''missing authorization token'')
                  else match_token (''Bearer '' @ expectedToken) tokens)"

definition checkAuth :: "('ctx, 'md) grpc_lib \<Rightarrow> AgentServer \<Rightarrow> 'ctx \<Rightarrow> go_error" where
  "checkAuth lib s ctx = validateBearerToken lib ctx (AgentServer_agentToken s)"

definition AuthUnaryInterceptorFor ::
  "('ctx, 'md) grpc_lib \<Rightarrow> string \<Rightarrow> 'ctx \<Rightarrow> 'req \<Rightarrow> ('ctx \<Rightarrow> 'req \<Rightarrow> ('s, 'resp) call)
     \<Rightarrow> ('s, 'resp) call" where
  "AuthUnaryInterceptorFor lib agentToken ctx req handler st =
     (case validateBearerToken lib ctx agentToken of
        Some err \<Rightarrow> Inr (Inl err, st)
      | None \<Rightarrow> handler ctx req st)"

subsection \<open>Validation chains\<close>

definition logValidationRejection ::
  "('ctx, 'md) grpc_lib \<Rightarrow> 'ctx \<Rightarrow> string \<Rightarrow> string \<Rightarrow> string \<Rightarrow> string \<Rightarrow> nat \<Rightarrow> nat
     \<Rightarrow> server \<Rightarrow> server" where
  "logValidationRejection lib ctx meth field det sourceFile sourceLine position st =
     (let remoteIP = (case peer_Addr lib ctx of Some a \<Rightarrow> a | None \<Rightarrow> ''unknown'')
      in log_event (ValidationRejected remoteIP meth field position sourceFile sourceLine det) st)"

text \<open>
  A check is a closure; running it has no effect and either panics or returns an error value, so the
  field \<open>check\<close> holds the outcome of running it.
\<close>

record validationCheck =
  check_field :: string
  check_sourceFile :: string
  check_sourceLine :: nat
  check_run :: "panic + go_error"

fun first_marker :: "string \<Rightarrow> string list \<Rightarrow> string option" where
  "first_marker path [] = None"
| "first_marker path (marker # markers) =
     (case strings_Index path (''/'' @ marker) of
        Some i \<Rightarrow> Some (drop (i + 1) path)
      | None \<Rightarrow> first_marker path markers)"

definition trimToRepoPath :: "string \<Rightarrow> string" where
  "trimToRepoPath path =
     (case strings_Index path ''/internal/'' of
        Some i \<Rightarrow> drop (i + 1) path
      | None \<Rightarrow>
          (case first_marker path [''control-plane/'', ''cli/''] of
             Some p \<Rightarrow> p
           | None \<Rightarrow> filepath_Base path))"

definition newCheck :: "(string \<times> nat) option \<Rightarrow> string \<Rightarrow> panic + go_error \<Rightarrow> validationCheck" where
  "newCheck caller field chk =
     (let (file, line) = (case caller of
                            None \<Rightarrow> (''unknown'', 0)
                          | Some (file, line) \<Rightarrow> (trimToRepoPath file, line))
      in \<lparr>check_field = field, check_sourceFile = file, check_sourceLine = line, check_run = chk\<rparr>)"

fun validate_from ::
  "('ctx, 'md) grpc_lib \<Rightarrow> 'ctx \<Rightarrow> string \<Rightarrow> nat \<Rightarrow> validationCheck list
     \<Rightarrow> server \<Rightarrow> panic + go_error \<times> server" where
  "validate_from lib ctx meth i [] st = Inr (None, st)"
| "validate_from lib ctx meth i (c # cs) st =
     (case check_run c of
        Inl p \<Rightarrow> Inl p
      | Inr (Some err) \<Rightarrow>
          Inr (Some err, logValidationRejection lib ctx meth (check_field c) (error_Error lib err)
                           (check_sourceFile c) (check_sourceLine c) i st)
      | Inr None \<Rightarrow> validate_from lib ctx meth (i + 1) cs st)"

definition validateAll ::
  "('ctx, 'md) grpc_lib \<Rightarrow> 'ctx \<Rightarrow> string \<Rightarrow> validationCheck list
     \<Rightarrow> server \<Rightarrow> panic + go_error \<times> server" where
  "validateAll lib ctx meth checks st = validate_from lib ctx meth 0 checks st"

subsection \<open>Unary handlers\<close>

text \<open>\<open>newCheck\<close> at a line of \<^verbatim>\<open>agent.go\<close>, for a closure that reads a field of the request.\<close>

definition check_at ::
  "('ctx, 'md) grpc_lib \<Rightarrow> nat \<Rightarrow> string \<Rightarrow> 'req option \<Rightarrow> ('req \<Rightarrow> go_error) \<Rightarrow> validationCheck" where
  "check_at lib line field req chk =
     newCheck (map_option (\<lambda>file. (file, line)) (Caller_file lib)) field
       (case req of None \<Rightarrow> Inl NilDeref | Some m \<Rightarrow> Inr (chk m))"

text \<open>The opening of every unary handler, then its body; the body reads fields of the request.\<close>

definition validated ::
  "('ctx, 'md) grpc_lib \<Rightarrow> 'ctx \<Rightarrow> string \<Rightarrow> validationCheck list \<Rightarrow> 'req option
     \<Rightarrow> ('req \<Rightarrow> (server, 'resp) call) \<Rightarrow> (server, 'resp) call" where
  "validated lib ctx meth checks req body st =
     (case validateAll lib ctx meth checks st of
        Inl p \<Rightarrow> Inl p
      | Inr (Some err, st1) \<Rightarrow> Inr (Inl err, st1)
      | Inr (None, st1) \<Rightarrow> (case req of None \<Rightarrow> Inl NilDeref | Some m \<Rightarrow> body m st1))"

definition Register_checks ::
  "('ctx, 'md) grpc_lib \<Rightarrow> RegisterRequest option \<Rightarrow> validationCheck list" where
  "Register_checks lib req =
     [check_at lib 213 ''node_id'' req (\<lambda>m. ValidateNodeID (RegisterRequest_NodeId m)),
      check_at lib 214 ''address'' req (\<lambda>m. ValidateAddress (RegisterRequest_Address m)),
      check_at lib 215 ''agent_version'' req (\<lambda>m. ValidateVersion (RegisterRequest_AgentVersion m))]"

definition AgentServer_Register ::
  "('ctx, 'md) grpc_lib \<Rightarrow> AgentServer \<Rightarrow> time \<Rightarrow> 'ctx \<Rightarrow> RegisterRequest option
     \<Rightarrow> (server, RegisterResponse) call" where
  "AgentServer_Register lib s now ctx req =
     validated lib ctx ''Register'' (Register_checks lib req) req (\<lambda>m st.
       (case with_registry
               (\<lambda>r. NodeRegistry_Register r now (RegisterRequest_NodeId m) (RegisterRequest_Address m)
                      (RegisterRequest_Resources m))
               (log_event (NodeRegistering (RegisterRequest_NodeId m) (RegisterRequest_Address m)
                  (RegisterRequest_AgentVersion m)) st) of
          Inl p \<Rightarrow> Inl p
        | Inr st1 \<Rightarrow>
            Inr (Inr (RegisterResponse_zero\<lparr>RegisterResponse_Accepted := True,
                   RegisterResponse_ClusterId := AgentServer_clusterID s,
                   RegisterResponse_ControlPlaneLeader := AgentServer_leaderAddr s,
                   RegisterResponse_HeartbeatIntervalMs := 5000\<rparr>), st1)))"

definition ExecuteTask_checks ::
  "('ctx, 'md) grpc_lib \<Rightarrow> TaskSpec option \<Rightarrow> validationCheck list" where
  "ExecuteTask_checks lib req =
     [check_at lib 326 ''task_id'' req (\<lambda>m. ValidateTaskID (TaskSpec_TaskId m)),
      check_at lib 327 ''job_id'' req (\<lambda>m. ValidateJobID (TaskSpec_JobId m)),
      check_at lib 328 ''container_image'' req (\<lambda>m. ValidateContainerImage (TaskSpec_ContainerImage m)),
      check_at lib 329 ''command'' req (\<lambda>m. ValidateCommands (TaskSpec_Command m)),
      check_at lib 330 ''env'' req (\<lambda>m. ValidateEnvVars (TaskSpec_Env m)),
      check_at lib 331 ''priority'' req (\<lambda>m. ValidatePriority (TaskSpec_Priority m))]"

definition AgentServer_ExecuteTask ::
  "('ctx, 'md) grpc_lib \<Rightarrow> AgentServer \<Rightarrow> 'ctx \<Rightarrow> TaskSpec option \<Rightarrow> (server, TaskAck) call" where
  "AgentServer_ExecuteTask lib s ctx req =
     validated lib ctx ''ExecuteTask'' (ExecuteTask_checks lib req) req (\<lambda>m st.
       Inr (Inr (TaskAck_zero\<lparr>TaskAck_Accepted := True\<rparr>),
            log_event (TaskExecutionRequested (TaskSpec_TaskId m) (TaskSpec_ContainerImage m)) st))"

definition AllocateMemory_checks ::
  "('ctx, 'md) grpc_lib \<Rightarrow> MemoryAllocRequest option \<Rightarrow> validationCheck list" where
  "AllocateMemory_checks lib req =
     [check_at lib 349 ''allocation_id'' req (\<lambda>m. ValidateAllocationID (MemoryAllocRequest_AllocationId m)),
      check_at lib 350 ''size_bytes'' req (\<lambda>m. ValidateMemorySize (MemoryAllocRequest_SizeBytes m)),
      check_at lib 351 ''replication_factor'' req
        (\<lambda>m. ValidateReplicationFactor (MemoryAllocRequest_ReplicationFactor m))]"

definition AgentServer_AllocateMemory ::
  "('ctx, 'md) grpc_lib \<Rightarrow> AgentServer \<Rightarrow> 'ctx \<Rightarrow> MemoryAllocRequest option
     \<Rightarrow> (server, MemoryAllocResponse) call" where
  "AgentServer_AllocateMemory lib s ctx req =
     validated lib ctx ''AllocateMemory'' (AllocateMemory_checks lib req) req (\<lambda>m st.
       Inr (Inr (MemoryAllocResponse_zero\<lparr>MemoryAllocResponse_Success := True,
                   MemoryAllocResponse_Handle := Some (MemoryHandle_zero\<lparr>
                     MemoryHandle_AllocationId := MemoryAllocRequest_AllocationId m,
                     MemoryHandle_SizeBytes := MemoryAllocRequest_SizeBytes m\<rparr>)\<rparr>),
            log_event (MemoryAllocationRequested (MemoryAllocRequest_AllocationId m)
              (MemoryAllocRequest_SizeBytes m)) st))"

definition AllocateGPUMemory_checks ::
  "('ctx, 'md) grpc_lib \<Rightarrow> GPUMemoryAllocRequest option \<Rightarrow> validationCheck list" where
  "AllocateGPUMemory_checks lib req =
     [check_at lib 370 ''allocation_id'' req
        (\<lambda>m. ValidateAllocationID (GPUMemoryAllocRequest_AllocationId m)),
      check_at lib 371 ''size_bytes'' req (\<lambda>m. ValidateGPUMemorySize (GPUMemoryAllocRequest_SizeBytes m)),
      check_at lib 372 ''gpu_device_index'' req
        (\<lambda>m. ValidateGPUDeviceIndex (GPUMemoryAllocRequest_GpuDeviceIndex m))]"

definition AgentServer_AllocateGPUMemory ::
  "('ctx, 'md) grpc_lib \<Rightarrow> AgentServer \<Rightarrow> 'ctx \<Rightarrow> GPUMemoryAllocRequest option
     \<Rightarrow> (server, GPUMemoryAllocResponse) call" where
  "AgentServer_AllocateGPUMemory lib s ctx req =
     validated lib ctx ''AllocateGPUMemory'' (AllocateGPUMemory_checks lib req) req (\<lambda>m st.
       Inr (Inr (GPUMemoryAllocResponse_zero\<lparr>GPUMemoryAllocResponse_Success := True,
                   GPUMemoryAllocResponse_Handle := Some (GPUHandle_zero\<lparr>
                     GPUHandle_AllocationId := GPUMemoryAllocRequest_AllocationId m,
                     GPUHandle_SizeBytes := GPUMemoryAllocRequest_SizeBytes m\<rparr>)\<rparr>),
            log_event (GPUMemoryAllocationRequested (GPUMemoryAllocRequest_AllocationId m)
              (GPUMemoryAllocRequest_SizeBytes m)) st))"

definition FreeMemory_checks ::
  "('ctx, 'md) grpc_lib \<Rightarrow> FreeMemoryRequest option \<Rightarrow> validationCheck list" where
  "FreeMemory_checks lib req =
     [check_at lib 391 ''allocation_id'' req (\<lambda>m. ValidateAllocationID (FreeMemoryRequest_AllocationId m))]"

definition AgentServer_FreeMemory ::
  "('ctx, 'md) grpc_lib \<Rightarrow> AgentServer \<Rightarrow> 'ctx \<Rightarrow> FreeMemoryRequest option
     \<Rightarrow> (server, FreeMemoryResponse) call" where
  "AgentServer_FreeMemory lib s ctx req =
     validated lib ctx ''FreeMemory'' (FreeMemory_checks lib req) req (\<lambda>m st.
       Inr (Inr (FreeMemoryResponse_zero\<lparr>FreeMemoryResponse_Success := True\<rparr>),
            log_event (MemoryFreeRequested (FreeMemoryRequest_AllocationId m)) st))"

definition FreeGPUMemory_checks ::
  "('ctx, 'md) grpc_lib \<Rightarrow> FreeGPUMemoryRequest option \<Rightarrow> validationCheck list" where
  "FreeGPUMemory_checks lib req =
     [check_at lib 401 ''allocation_id'' req
        (\<lambda>m. ValidateAllocationID (FreeGPUMemoryRequest_AllocationId m))]"

definition AgentServer_FreeGPUMemory ::
  "('ctx, 'md) grpc_lib \<Rightarrow> AgentServer \<Rightarrow> 'ctx \<Rightarrow> FreeGPUMemoryRequest option
     \<Rightarrow> (server, FreeGPUMemoryResponse) call" where
  "AgentServer_FreeGPUMemory lib s ctx req =
     validated lib ctx ''FreeGPUMemory'' (FreeGPUMemory_checks lib req) req (\<lambda>m st.
       Inr (Inr (FreeGPUMemoryResponse_zero\<lparr>FreeGPUMemoryResponse_Success := True\<rparr>),
            log_event (GPUMemoryFreeRequested (FreeGPUMemoryRequest_AllocationId m)) st))"

subsection \<open>Authentication: what is accepted\<close>

lemma match_token_None_iff: "match_token expected tokens = None \<longleftrightarrow> expected \<in> set tokens"
  by (induction tokens) (auto simp: ConstantTimeCompare_eq_1_iff)

lemma match_token_Some: "match_token expected tokens \<in> {None, Some (Status PermissionDenied ''invalid token'')}"
  by (induction tokens) auto

lemma AuthUnaryInterceptorFor_cases:
  "AuthUnaryInterceptorFor lib token ctx req handler st =
     (if validateBearerToken lib ctx token = None then handler ctx req st
      else Inr (Inl (the (validateBearerToken lib ctx token)), st))"
  by (simp add: AuthUnaryInterceptorFor_def split: option.split)

subsection \<open>Validated handlers\<close>

text \<open>
  A rule of a handler: the source line that declares it, its field, and its check. The first rule
  that rejects a request, with its position in the chain.
\<close>

type_synonym 'req rule = "nat \<times> string \<times> ('req \<Rightarrow> go_error)"

fun first_failure :: "nat \<Rightarrow> 'req rule list \<Rightarrow> 'req \<Rightarrow> (nat \<times> nat \<times> string \<times> error) option" where
  "first_failure i [] m = None"
| "first_failure i ((line, field, chk) # rules) m =
     (case chk m of Some err \<Rightarrow> Some (i, line, field, err) | None \<Rightarrow> first_failure (i + 1) rules m)"

definition audit_file :: "('ctx, 'md) grpc_lib \<Rightarrow> string" where
  "audit_file lib = (case Caller_file lib of Some f \<Rightarrow> trimToRepoPath f | None \<Rightarrow> ''unknown'')"

definition audit_line :: "('ctx, 'md) grpc_lib \<Rightarrow> nat \<Rightarrow> nat" where
  "audit_line lib line = (if Caller_file lib = None then 0 else line)"

definition rejection_entry ::
  "('ctx, 'md) grpc_lib \<Rightarrow> 'ctx \<Rightarrow> string \<Rightarrow> nat \<times> nat \<times> string \<times> error \<Rightarrow> log_entry" where
  "rejection_entry lib ctx meth = (\<lambda>(i, line, field, err).
     ValidationRejected (case peer_Addr lib ctx of Some a \<Rightarrow> a | None \<Rightarrow> ''unknown'')
       meth field i (audit_file lib) (audit_line lib line) (error_Error lib err))"

abbreviation rule_check :: "('ctx, 'md) grpc_lib \<Rightarrow> 'req option \<Rightarrow> 'req rule \<Rightarrow> validationCheck" where
  "rule_check lib req rule \<equiv> check_at lib (fst rule) (fst (snd rule)) req (snd (snd rule))"

lemma check_run_check_at [simp]:
  "check_run (check_at lib line field req chk) =
     (case req of None \<Rightarrow> Inl NilDeref | Some m \<Rightarrow> Inr (chk m))"
  by (simp add: check_at_def newCheck_def Let_def split: prod.split)

lemma validate_from_rules:
  "validate_from lib ctx meth i (map (rule_check lib (Some m)) rules) st =
     (case first_failure i rules m of
        None \<Rightarrow> Inr (None, st)
      | Some f \<Rightarrow> Inr (Some (snd (snd (snd f))), log_event (rejection_entry lib ctx meth f) st))"
proof (induction i rules m arbitrary: st rule: first_failure.induct)
  case (2 i line field chk rules m)
  then show ?case
    by (auto simp: check_at_def newCheck_def logValidationRejection_def rejection_entry_def
        audit_file_def audit_line_def Let_def split: option.split)
qed simp

lemma first_failure_Some:
  "first_failure i rules m = Some (j, line, field, err) \<Longrightarrow>
     i \<le> j \<and> j - i < length rules \<and> (\<exists>chk. rules ! (j - i) = (line, field, chk) \<and> chk m = Some err) \<and>
     (\<forall>k<j - i. snd (snd (rules ! k)) m = None)"
proof (induction i rules m rule: first_failure.induct)
  case (2 i l f chk rules m)
  show ?case
  proof (cases "chk m")
    case None
    with 2 have IH: "Suc i \<le> j" "j - Suc i < length rules"
      "\<exists>chk. rules ! (j - Suc i) = (line, field, chk) \<and> chk m = Some err"
      "\<forall>k<j - Suc i. snd (snd (rules ! k)) m = None"
      by simp_all
    then have "j - i = Suc (j - Suc i)" by simp
    with IH None show ?thesis by (auto simp: less_Suc_eq_0_disj)
  qed (use 2 in auto)
qed simp

lemma first_failure_None:
  "first_failure i rules m = None \<longleftrightarrow> (\<forall>rule\<in>set rules. snd (snd rule) m = None)"
  by (induction i rules m rule: first_failure.induct) (auto split: option.split)

lemma first_failure_invalid_argument:
  assumes "\<And>rule. rule \<in> set rules \<Longrightarrow> invalid_argument (snd (snd rule) m)"
    and "first_failure i rules m = Some (j, line, field, err)"
  shows "\<exists>msg. err = Status InvalidArgument msg"
proof -
  from first_failure_Some [OF assms(2)] obtain chk
    where "(line, field, chk) \<in> set rules" and "chk m = Some err"
    by (metis nth_mem)
  with assms(1) [of "(line, field, chk)"] show ?thesis by (simp add: invalid_argument_def)
qed

text \<open>
  What the unary handlers share: they run their rules before anything else, and every rule rejects
  with \<open>InvalidArgument\<close>.
\<close>

locale validated_rpc =
  fixes handler :: "('ctx, 'md) grpc_lib \<Rightarrow> 'ctx \<Rightarrow> 'req option \<Rightarrow> (server, 'resp) call"
    and meth :: string
    and rules :: "'req rule list"
    and body :: "'req \<Rightarrow> (server, 'resp) call"
  assumes handler_eq: "handler lib ctx req =
      validated lib ctx meth (map (rule_check lib req) rules) req body"
    and rules_nonempty: "rules \<noteq> []"
    and rules_reject: "rule \<in> set rules \<Longrightarrow> invalid_argument (snd (snd rule) m)"
begin

lemma nil_request: "handler lib ctx None st = Inl NilDeref"
  using rules_nonempty
  by (cases rules) (simp_all add: handler_eq validated_def validateAll_def)

lemma valid_request: "first_failure 0 rules m = None \<Longrightarrow> handler lib ctx (Some m) st = body m st"
  by (simp add: handler_eq validated_def validateAll_def validate_from_rules)

lemma invalid_request:
  assumes "first_failure 0 rules m = Some f"
  shows "\<exists>msg. snd (snd (snd f)) = Status InvalidArgument msg \<and>
     handler lib ctx (Some m) st =
       Inr (Inl (Status InvalidArgument msg), log_event (rejection_entry lib ctx meth f) st)"
proof -
  obtain i line field err where f: "f = (i, line, field, err)" by (metis prod_cases4)
  with first_failure_invalid_argument [of rules m 0] rules_reject assms
  obtain msg where "err = Status InvalidArgument msg" by blast
  with assms f show ?thesis
    by (simp add: handler_eq validated_def validateAll_def validate_from_rules)
qed

end

text \<open>A handler whose body never fails and only logs.\<close>

locale logging_rpc =
  validated_rpc handler meth rules "\<lambda>m st. Inr (Inr (resp m), log_event (entry m) st)"
  for handler :: "('ctx, 'md) grpc_lib \<Rightarrow> 'ctx \<Rightarrow> 'req option \<Rightarrow> (server, 'resp) call"
    and meth :: string and rules :: "'req rule list"
    and resp :: "'req \<Rightarrow> 'resp" and entry :: "'req \<Rightarrow> log_entry"
begin

lemma only_logs:
  "handler lib ctx (Some m) st =
     Inr (case first_failure 0 rules m of None \<Rightarrow> Inr (resp m) | Some f \<Rightarrow> Inl (snd (snd (snd f))),
          log_event (case first_failure 0 rules m of
                       None \<Rightarrow> entry m | Some f \<Rightarrow> rejection_entry lib ctx meth f) st)"
proof (cases "first_failure 0 rules m")
  case None
  with valid_request [OF None] show ?thesis by simp
next
  case (Some f)
  with invalid_request [OF Some, of lib ctx st] show ?thesis by auto
qed

end

subsection \<open>The unary handlers as validated handlers\<close>

definition Register_rules :: "RegisterRequest rule list" where
  "Register_rules =
     [(213, ''node_id'', \<lambda>m. ValidateNodeID (RegisterRequest_NodeId m)),
      (214, ''address'', \<lambda>m. ValidateAddress (RegisterRequest_Address m)),
      (215, ''agent_version'', \<lambda>m. ValidateVersion (RegisterRequest_AgentVersion m))]"

definition ExecuteTask_rules :: "TaskSpec rule list" where
  "ExecuteTask_rules =
     [(326, ''task_id'', \<lambda>m. ValidateTaskID (TaskSpec_TaskId m)),
      (327, ''job_id'', \<lambda>m. ValidateJobID (TaskSpec_JobId m)),
      (328, ''container_image'', \<lambda>m. ValidateContainerImage (TaskSpec_ContainerImage m)),
      (329, ''command'', \<lambda>m. ValidateCommands (TaskSpec_Command m)),
      (330, ''env'', \<lambda>m. ValidateEnvVars (TaskSpec_Env m)),
      (331, ''priority'', \<lambda>m. ValidatePriority (TaskSpec_Priority m))]"

definition AllocateMemory_rules :: "MemoryAllocRequest rule list" where
  "AllocateMemory_rules =
     [(349, ''allocation_id'', \<lambda>m. ValidateAllocationID (MemoryAllocRequest_AllocationId m)),
      (350, ''size_bytes'', \<lambda>m. ValidateMemorySize (MemoryAllocRequest_SizeBytes m)),
      (351, ''replication_factor'',
         \<lambda>m. ValidateReplicationFactor (MemoryAllocRequest_ReplicationFactor m))]"

definition AllocateGPUMemory_rules :: "GPUMemoryAllocRequest rule list" where
  "AllocateGPUMemory_rules =
     [(370, ''allocation_id'', \<lambda>m. ValidateAllocationID (GPUMemoryAllocRequest_AllocationId m)),
      (371, ''size_bytes'', \<lambda>m. ValidateGPUMemorySize (GPUMemoryAllocRequest_SizeBytes m)),
      (372, ''gpu_device_index'',
         \<lambda>m. ValidateGPUDeviceIndex (GPUMemoryAllocRequest_GpuDeviceIndex m))]"

definition FreeMemory_rules :: "FreeMemoryRequest rule list" where
  "FreeMemory_rules =
     [(391, ''allocation_id'', \<lambda>m. ValidateAllocationID (FreeMemoryRequest_AllocationId m))]"

definition FreeGPUMemory_rules :: "FreeGPUMemoryRequest rule list" where
  "FreeGPUMemory_rules =
     [(401, ''allocation_id'', \<lambda>m. ValidateAllocationID (FreeGPUMemoryRequest_AllocationId m))]"

definition registered_response :: "AgentServer \<Rightarrow> RegisterResponse" where
  "registered_response s =
     \<lparr>RegisterResponse_Accepted = True, RegisterResponse_ClusterId = AgentServer_clusterID s,
      RegisterResponse_ControlPlaneLeader = AgentServer_leaderAddr s,
      RegisterResponse_HeartbeatIntervalMs = 5000\<rparr>"

definition Register_body :: "AgentServer \<Rightarrow> time \<Rightarrow> RegisterRequest \<Rightarrow> (server, RegisterResponse) call" where
  "Register_body s now m st =
     (case NodeRegistry_Register (srv_registry st) now (RegisterRequest_NodeId m)
             (RegisterRequest_Address m) (RegisterRequest_Resources m) of
        Inl p \<Rightarrow> Inl p
      | Inr (r, ops) \<Rightarrow>
          Inr (Inr (registered_response s),
               (log_event (NodeRegistering (RegisterRequest_NodeId m) (RegisterRequest_Address m)
                  (RegisterRequest_AgentVersion m)) st)
               \<lparr>srv_registry := r, metric_trace := metric_trace st @ ops\<rparr>))"

interpretation register_rpc: validated_rpc "\<lambda>lib. AgentServer_Register lib s now" "''Register''"
  Register_rules "Register_body s now" for s now
proof
  have body: "Register_body s now = (\<lambda>m st.
       (case with_registry
               (\<lambda>r. NodeRegistry_Register r now (RegisterRequest_NodeId m) (RegisterRequest_Address m)
                      (RegisterRequest_Resources m))
               (log_event (NodeRegistering (RegisterRequest_NodeId m) (RegisterRequest_Address m)
                  (RegisterRequest_AgentVersion m)) st) of
          Inl p \<Rightarrow> Inl p
        | Inr st1 \<Rightarrow>
            Inr (Inr (RegisterResponse_zero\<lparr>RegisterResponse_Accepted := True,
                   RegisterResponse_ClusterId := AgentServer_clusterID s,
                   RegisterResponse_ControlPlaneLeader := AgentServer_leaderAddr s,
                   RegisterResponse_HeartbeatIntervalMs := 5000\<rparr>), st1)))"
    by (auto simp: Register_body_def with_registry_def log_event_def registered_response_def
        RegisterResponse_zero_def fun_eq_iff split: sum.split prod.split)
  show "AgentServer_Register lib s now ctx req = validated lib ctx ''Register''
      (map (rule_check lib req) Register_rules) req (Register_body s now)"
    for lib :: "('a, 'b) grpc_lib" and ctx req
    unfolding AgentServer_Register_def body by (simp add: Register_checks_def Register_rules_def)
qed (auto simp: Register_rules_def)

interpretation execute_rpc: logging_rpc "\<lambda>lib. AgentServer_ExecuteTask lib s" "''ExecuteTask''"
  ExecuteTask_rules
  "\<lambda>m. TaskAck_zero\<lparr>TaskAck_Accepted := True\<rparr>"
  "\<lambda>m. TaskExecutionRequested (TaskSpec_TaskId m) (TaskSpec_ContainerImage m)" for s
  by unfold_locales
     (auto simp: AgentServer_ExecuteTask_def ExecuteTask_checks_def ExecuteTask_rules_def)

interpretation alloc_rpc: logging_rpc "\<lambda>lib. AgentServer_AllocateMemory lib s" "''AllocateMemory''"
  AllocateMemory_rules
  "\<lambda>m. MemoryAllocResponse_zero\<lparr>MemoryAllocResponse_Success := True,
       MemoryAllocResponse_Handle := Some (MemoryHandle_zero\<lparr>
         MemoryHandle_AllocationId := MemoryAllocRequest_AllocationId m,
         MemoryHandle_SizeBytes := MemoryAllocRequest_SizeBytes m\<rparr>)\<rparr>"
  "\<lambda>m. MemoryAllocationRequested (MemoryAllocRequest_AllocationId m)
       (MemoryAllocRequest_SizeBytes m)" for s
  by unfold_locales
     (auto simp: AgentServer_AllocateMemory_def AllocateMemory_checks_def AllocateMemory_rules_def)

interpretation gpu_alloc_rpc: logging_rpc "\<lambda>lib. AgentServer_AllocateGPUMemory lib s"
  "''AllocateGPUMemory''" AllocateGPUMemory_rules
  "\<lambda>m. GPUMemoryAllocResponse_zero\<lparr>GPUMemoryAllocResponse_Success := True,
       GPUMemoryAllocResponse_Handle := Some (GPUHandle_zero\<lparr>
         GPUHandle_AllocationId := GPUMemoryAllocRequest_AllocationId m,
         GPUHandle_SizeBytes := GPUMemoryAllocRequest_SizeBytes m\<rparr>)\<rparr>"
  "\<lambda>m. GPUMemoryAllocationRequested (GPUMemoryAllocRequest_AllocationId m)
       (GPUMemoryAllocRequest_SizeBytes m)" for s
  by unfold_locales
     (auto simp: AgentServer_AllocateGPUMemory_def AllocateGPUMemory_checks_def
        AllocateGPUMemory_rules_def)

interpretation free_rpc: logging_rpc "\<lambda>lib. AgentServer_FreeMemory lib s" "''FreeMemory''"
  FreeMemory_rules
  "\<lambda>m. FreeMemoryResponse_zero\<lparr>FreeMemoryResponse_Success := True\<rparr>"
  "\<lambda>m. MemoryFreeRequested (FreeMemoryRequest_AllocationId m)" for s
  by unfold_locales
     (auto simp: AgentServer_FreeMemory_def FreeMemory_checks_def FreeMemory_rules_def)

interpretation gpu_free_rpc: logging_rpc "\<lambda>lib. AgentServer_FreeGPUMemory lib s" "''FreeGPUMemory''"
  FreeGPUMemory_rules
  "\<lambda>m. FreeGPUMemoryResponse_zero\<lparr>FreeGPUMemoryResponse_Success := True\<rparr>"
  "\<lambda>m. GPUMemoryFreeRequested (FreeGPUMemoryRequest_AllocationId m)" for s
  by unfold_locales
     (auto simp: AgentServer_FreeGPUMemory_def FreeGPUMemory_checks_def FreeGPUMemory_rules_def)

subsection \<open>Properties\<close>

text \<open>\<^bold>\<open>C12\<close>
  The bearer-token policy. With no token configured every call is accepted; otherwise a call is
  accepted exactly when one of its \<open>authorization\<close> values is the configured token behind
  \<open>Bearer\<close> and a space, to the byte. A refused call is \<open>PermissionDenied\<close> when it brought some value,
  and \<open>Unauthenticated\<close> when it brought none.
\<close>

theorem bearer_token_policy:
  "(validateBearerToken lib ctx token = None \<longleftrightarrow>
      token = '''' \<or>
      (\<exists>md. FromIncomingContext lib ctx = Some md \<and>
            ''Bearer '' @ token \<in> set (MD_Get lib md ''authorization''))) \<and>
   (validateBearerToken lib ctx token = Some (Status PermissionDenied ''invalid token'') \<longleftrightarrow>
      token \<noteq> '''' \<and>
      (\<exists>md. FromIncomingContext lib ctx = Some md \<and> MD_Get lib md ''authorization'' \<noteq> [] \<and>
            ''Bearer '' @ token \<notin> set (MD_Get lib md ''authorization''))) \<and>
   ((\<exists>msg. validateBearerToken lib ctx token = Some (Status Unauthenticated msg)) \<longleftrightarrow>
      token \<noteq> '''' \<and>
      (\<forall>md. FromIncomingContext lib ctx = Some md \<longrightarrow> MD_Get lib md ''authorization'' = []))"
proof (cases "FromIncomingContext lib ctx")
  case None
  then show ?thesis by (simp add: validateBearerToken_def)
next
  case (Some md)
  let ?ts = "MD_Get lib md ''authorization''"
  have "match_token (''Bearer '' @ token) ?ts = Some (Status PermissionDenied ''invalid token'')"
    if "''Bearer '' @ token \<notin> set ?ts"
    using match_token_Some [of "''Bearer '' @ token" ?ts] that
    by (auto simp: match_token_None_iff [symmetric])
  moreover have "match_token (''Bearer '' @ token) ?ts = None" if "''Bearer '' @ token \<in> set ?ts"
    using that by (simp only: match_token_None_iff)
  ultimately show ?thesis
    using Some by (cases "''Bearer '' @ token \<in> set ?ts") (auto simp: validateBearerToken_def Let_def)
qed

definition sample_lib :: "(string list, string list) grpc_lib" where
  "sample_lib =
     \<lparr>FromIncomingContext = (\<lambda>ctx. Some ctx),
      MD_Get = (\<lambda>md key. if key = ''authorization'' then md else []),
      peer_Addr = (\<lambda>_. Some ''10.0.0.7:4242''),
      error_Error = (\<lambda>e. case e of Status c msg \<Rightarrow> msg | EOF \<Rightarrow> ''EOF'' | OtherError msg \<Rightarrow> msg),
      Caller_file = Some ''/build/control-plane/internal/agent/agent.go''\<rparr>"

theorem bearer_token_policy_witness:
  "validateBearerToken sample_lib [''Basic x'', ''Bearer s3cret''] ''s3cret'' = None \<and>
   validateBearerToken sample_lib [''Bearer wrong''] ''s3cret''
     = Some (Status PermissionDenied ''invalid token'') \<and>
   (\<exists>msg. validateBearerToken sample_lib [] ''s3cret'' = Some (Status Unauthenticated msg))"
  using bearer_token_policy [of sample_lib "[''Basic x'', ''Bearer s3cret'']" "''s3cret''"]
    bearer_token_policy [of sample_lib "[''Bearer wrong'']" "''s3cret''"]
    bearer_token_policy [of sample_lib "[]" "''s3cret''"]
  by (simp add: sample_lib_def)

lemma validate_from_failure:
  assumes "i < length checks" and "\<forall>k<i. check_run (checks ! k) = Inr None"
    and "check_run (checks ! i) = Inr (Some err)"
  shows "validate_from lib ctx meth j checks st =
      Inr (Some err, logValidationRejection lib ctx meth (check_field (checks ! i)) (error_Error lib err)
        (check_sourceFile (checks ! i)) (check_sourceLine (checks ! i)) (j + i) st)"
  using assms
proof (induction checks arbitrary: i j)
  case (Cons c cs)
  then show ?case by (cases i) (auto simp: All_less_Suc2)
qed simp

lemma validate_from_pass:
  "\<forall>c\<in>set checks. check_run c = Inr None \<Longrightarrow> validate_from lib ctx meth j checks st = Inr (None, st)"
  by (induction checks arbitrary: j) auto

text \<open>\<^bold>\<open>C15\<close>
  A chain of checks accepts exactly when every check does, and then leaves no trace. Otherwise it
  returns the error of the first check that fails and appends exactly one audit entry, which carries
  that check's field, its position in the chain and the source location recorded for it, with the
  peer's address.
\<close>

theorem validateAll_first_failure:
  assumes "i \<le> length checks" and "\<forall>k<i. check_run (checks ! k) = Inr None"
  shows "(i = length checks \<longrightarrow> validateAll lib ctx meth checks st = Inr (None, st)) \<and>
    (i < length checks \<and> check_run (checks ! i) = Inr (Some err) \<longrightarrow>
      validateAll lib ctx meth checks st =
        Inr (Some err, st\<lparr>srv_log := srv_log st @
          [ValidationRejected (case peer_Addr lib ctx of Some a \<Rightarrow> a | None \<Rightarrow> ''unknown'') meth
             (check_field (checks ! i)) i (check_sourceFile (checks ! i))
             (check_sourceLine (checks ! i)) (error_Error lib err)]\<rparr>)) \<and>
    (i < length checks \<and> check_run (checks ! i) = Inl p \<longrightarrow>
      validateAll lib ctx meth checks st = Inl p)"
proof (intro conjI impI)
  assume "i = length checks"
  with assms(2) have "\<forall>c\<in>set checks. check_run c = Inr None" by (simp add: all_set_conv_all_nth)
  then show "validateAll lib ctx meth checks st = Inr (None, st)"
    by (simp add: validateAll_def validate_from_pass)
next
  assume "i < length checks \<and> check_run (checks ! i) = Inl p"
  then have "validate_from lib ctx meth j checks st = Inl p" for j
    using assms(2)
  proof (induction checks arbitrary: i j)
    case (Cons c cs)
    then show ?case by (cases i) (auto simp: All_less_Suc2)
  qed simp
  then show "validateAll lib ctx meth checks st = Inl p" by (simp add: validateAll_def)
qed (use validate_from_failure [of i checks err lib ctx meth 0 st] assms(2) in
      \<open>simp add: validateAll_def logValidationRejection_def log_event_def\<close>)

definition idle_server :: server where
  "idle_server = \<lparr>knownMethods = init_knownMethods, metric_trace = [], srv_registry = NewNodeRegistry,
     srv_log = []\<rparr>"

theorem validateAll_first_failure_witness:
  "validateAll sample_lib [] ''FreeMemory''
     [newCheck None ''a'' (Inr None), newCheck None ''b'' (Inr (Some (Status InvalidArgument ''bad'')))]
     idle_server
   = Inr (Some (Status InvalidArgument ''bad''), idle_server\<lparr>srv_log :=
       [ValidationRejected ''10.0.0.7:4242'' ''FreeMemory'' ''b'' 1 ''unknown'' 0 ''bad'']\<rparr>)"
  using validateAll_first_failure [of 1
      "[newCheck None ''a'' (Inr None), newCheck None ''b'' (Inr (Some (Status InvalidArgument ''bad'')))]"
      sample_lib "[]" "''FreeMemory''" idle_server "Status InvalidArgument ''bad''" NilDeref]
  by (simp add: newCheck_def sample_lib_def idle_server_def Let_def)

text \<open>\<^bold>\<open>C22\<close>
  The \<open>Register\<close> call. A request whose three fields are valid and that carries resources is answered
  with the cluster's id, the leader's address and the heartbeat interval, and its node is registered
  under its id, with the next connection number; no other node changes. A request with an invalid
  field is answered \<open>InvalidArgument\<close> and registers nothing. A valid request without resources is not
  answered at all: no check looks at the resources, and the registry panics.
\<close>

theorem Register_rpc:
  assumes "m = \<lparr>RegisterRequest_NodeId = nid, RegisterRequest_Address = addr,
                 RegisterRequest_Resources = res, RegisterRequest_AgentVersion = ver\<rparr>"
  shows "(ValidateNodeID nid = None \<and> ValidateAddress addr = None \<and> ValidateVersion ver = None \<longrightarrow>
      (case res of
         None \<Rightarrow> AgentServer_Register lib s now ctx (Some m) st = Inl (NilNodeResources nid)
       | Some _ \<Rightarrow>
           (\<exists>st'. AgentServer_Register lib s now ctx (Some m) st = Inr (Inr (registered_response s), st') \<and>
              map_of (nodes (srv_registry st')) = (map_of (nodes (srv_registry st)))(nid \<mapsto>
                \<lparr>NodeInfo_NodeID = nid, NodeInfo_Address = addr, NodeInfo_Resources = res,
                 NodeInfo_LastBeat = now, NodeInfo_Tasks = [],
                 NodeInfo_ConnectionID = NodeRegistry_ConnectionID (srv_registry st) nid + 1\<rparr>) \<and>
              srv_log st' = srv_log st @ [NodeRegistering nid addr ver]))) \<and>
    (ValidateNodeID nid \<noteq> None \<or> ValidateAddress addr \<noteq> None \<or> ValidateVersion ver \<noteq> None \<longrightarrow>
      (\<exists>msg e. AgentServer_Register lib s now ctx (Some m) st =
         Inr (Inl (Status InvalidArgument msg), st\<lparr>srv_log := srv_log st @ [e]\<rparr>)))"
proof (intro conjI impI)
  assume "ValidateNodeID nid = None \<and> ValidateAddress addr = None \<and> ValidateVersion ver = None"
  then have "first_failure 0 Register_rules m = None"
    by (simp add: first_failure_None Register_rules_def assms)
  from register_rpc.valid_request [OF this, of lib s now ctx st]
  show "case res of
         None \<Rightarrow> AgentServer_Register lib s now ctx (Some m) st = Inl (NilNodeResources nid)
       | Some _ \<Rightarrow>
           (\<exists>st'. AgentServer_Register lib s now ctx (Some m) st = Inr (Inr (registered_response s), st') \<and>
              map_of (nodes (srv_registry st')) = (map_of (nodes (srv_registry st)))(nid \<mapsto>
                \<lparr>NodeInfo_NodeID = nid, NodeInfo_Address = addr, NodeInfo_Resources = res,
                 NodeInfo_LastBeat = now, NodeInfo_Tasks = [],
                 NodeInfo_ConnectionID = NodeRegistry_ConnectionID (srv_registry st) nid + 1\<rparr>) \<and>
              srv_log st' = srv_log st @ [NodeRegistering nid addr ver])"
    by (auto simp: Register_body_def NodeRegistry_Register_def NodeRegistry_ConnectionID_def assms
        log_event_def Let_def map_of_alist_update fun_eq_iff split: option.split)
next
  assume "ValidateNodeID nid \<noteq> None \<or> ValidateAddress addr \<noteq> None \<or> ValidateVersion ver \<noteq> None"
  then have "first_failure 0 Register_rules m \<noteq> None"
    unfolding first_failure_None by (auto simp: Register_rules_def assms)
  then obtain f where "first_failure 0 Register_rules m = Some f" by blast
  from register_rpc.invalid_request [OF this, of lib s now ctx st]
  show "\<exists>msg e. AgentServer_Register lib s now ctx (Some m) st =
         Inr (Inl (Status InvalidArgument msg), st\<lparr>srv_log := srv_log st @ [e]\<rparr>)"
    by (auto simp: log_event_def)
qed

theorem Register_rpc_witness:
  "AgentServer_Register sample_lib (NewAgentServer ''c'' ''l'' '''') 5 []
     (Some \<lparr>RegisterRequest_NodeId = ''node-1'', RegisterRequest_Address = ''10.0.0.1:9000'',
            RegisterRequest_Resources = None, RegisterRequest_AgentVersion = ''1.0''\<rparr>) idle_server
   = Inl (NilNodeResources ''node-1'')"
proof -
  have "ValidateNodeID ''node-1'' = None" "ValidateAddress ''10.0.0.1:9000'' = None"
    "ValidateVersion ''1.0'' = None"
    by (simp_all add: validator_ok safe_id_def alnum_char_iff safe_char_iff less_eq_char_def letters_digits_def id_punctuation_def)
  then show ?thesis
    using Register_rpc [OF refl, where nid = "''node-1''" and addr = "''10.0.0.1:9000''"
        and res = None and ver = "''1.0''" and lib = sample_lib and now = 5 and ctx = "[]"
        and s = "NewAgentServer ''c'' ''l'' ''''" and st = idle_server]
    by simp
qed

text \<open>\<^bold>\<open>C28\<close>
  The task and memory handlers accept or reject and do nothing else: on every request each returns,
  appends one log line, and leaves the registry and the metrics as they were. The answer is the error
  of the first failing rule, or the success response: an allocation echoes the request's id and size
  in a handle that names no node, address or key.
\<close>

theorem task_and_memory_handlers:
  "(AgentServer_ExecuteTask lib s ctx (Some task) st =
      Inr (case first_failure 0 ExecuteTask_rules task of
             None \<Rightarrow> Inr \<lparr>TaskAck_Accepted = True, TaskAck_Error = ''''\<rparr>
           | Some f \<Rightarrow> Inl (snd (snd (snd f))),
           log_event (case first_failure 0 ExecuteTask_rules task of
             None \<Rightarrow> TaskExecutionRequested (TaskSpec_TaskId task) (TaskSpec_ContainerImage task)
           | Some f \<Rightarrow> rejection_entry lib ctx ''ExecuteTask'' f) st)) \<and>
   (AgentServer_AllocateMemory lib s ctx (Some alloc) st =
      Inr (case first_failure 0 AllocateMemory_rules alloc of
             None \<Rightarrow> Inr (MemoryAllocResponse_zero\<lparr>MemoryAllocResponse_Success := True,
               MemoryAllocResponse_Handle := Some
                 \<lparr>MemoryHandle_AllocationId = MemoryAllocRequest_AllocationId alloc,
                  MemoryHandle_NodeId = '''', MemoryHandle_RemoteKey = 0, MemoryHandle_Address = 0,
                  MemoryHandle_SizeBytes = MemoryAllocRequest_SizeBytes alloc\<rparr>\<rparr>)
           | Some f \<Rightarrow> Inl (snd (snd (snd f))),
           log_event (case first_failure 0 AllocateMemory_rules alloc of
             None \<Rightarrow> MemoryAllocationRequested (MemoryAllocRequest_AllocationId alloc) (MemoryAllocRequest_SizeBytes alloc)
           | Some f \<Rightarrow> rejection_entry lib ctx ''AllocateMemory'' f) st)) \<and>
   (AgentServer_AllocateGPUMemory lib s ctx (Some galloc) st =
      Inr (case first_failure 0 AllocateGPUMemory_rules galloc of
             None \<Rightarrow> Inr (GPUMemoryAllocResponse_zero\<lparr>GPUMemoryAllocResponse_Success := True,
               GPUMemoryAllocResponse_Handle := Some
                 \<lparr>GPUHandle_AllocationId = GPUMemoryAllocRequest_AllocationId galloc,
                  GPUHandle_NodeId = '''', GPUHandle_GpuDeviceIndex = 0, GPUHandle_GpuAddress = 0,
                  GPUHandle_SizeBytes = GPUMemoryAllocRequest_SizeBytes galloc,
                  GPUHandle_GpuRemoteKey = 0\<rparr>\<rparr>)
           | Some f \<Rightarrow> Inl (snd (snd (snd f))),
           log_event (case first_failure 0 AllocateGPUMemory_rules galloc of
             None \<Rightarrow> GPUMemoryAllocationRequested (GPUMemoryAllocRequest_AllocationId galloc) (GPUMemoryAllocRequest_SizeBytes galloc)
           | Some f \<Rightarrow> rejection_entry lib ctx ''AllocateGPUMemory'' f) st)) \<and>
   (AgentServer_FreeMemory lib s ctx (Some free) st =
      Inr (case first_failure 0 FreeMemory_rules free of
             None \<Rightarrow> Inr (FreeMemoryResponse_zero\<lparr>FreeMemoryResponse_Success := True\<rparr>)
           | Some f \<Rightarrow> Inl (snd (snd (snd f))),
           log_event (case first_failure 0 FreeMemory_rules free of
             None \<Rightarrow> MemoryFreeRequested (FreeMemoryRequest_AllocationId free)
           | Some f \<Rightarrow> rejection_entry lib ctx ''FreeMemory'' f) st)) \<and>
   (AgentServer_FreeGPUMemory lib s ctx (Some gfree) st =
      Inr (case first_failure 0 FreeGPUMemory_rules gfree of
             None \<Rightarrow> Inr (FreeGPUMemoryResponse_zero\<lparr>FreeGPUMemoryResponse_Success := True\<rparr>)
           | Some f \<Rightarrow> Inl (snd (snd (snd f))),
           log_event (case first_failure 0 FreeGPUMemory_rules gfree of
             None \<Rightarrow> GPUMemoryFreeRequested (FreeGPUMemoryRequest_AllocationId gfree)
           | Some f \<Rightarrow> rejection_entry lib ctx ''FreeGPUMemory'' f) st))"
  by (simp add: execute_rpc.only_logs alloc_rpc.only_logs gpu_alloc_rpc.only_logs free_rpc.only_logs
      gpu_free_rpc.only_logs TaskAck_zero_def MemoryHandle_zero_def GPUHandle_zero_def
      split: option.split)

text \<open>\<open>p\<close> is what remains of a path from its first directory \<open>dir\<close> on.\<close>

definition cut_at :: "string \<Rightarrow> string \<Rightarrow> string \<Rightarrow> bool" where
  "cut_at dir path p \<longleftrightarrow>
     (\<exists>root rest. path = root @ CHR ''/'' # dir @ rest \<and> p = dir @ rest \<and>
        (\<forall>j<length root. \<not> prefix (CHR ''/'' # dir) (drop j path)))"

lemma Index_cut:
  assumes "strings_Index path (CHR ''/'' # dir) = Some i"
  shows "cut_at dir path (drop (Suc i) path)"
proof -
  from strings_Index_Some [OF assms]
  have s: "path = take i path @ CHR ''/'' # dir @ drop (Suc i + length dir) path"
    and first: "\<forall>j<i. \<not> prefix (CHR ''/'' # dir) (drop j path)" by simp_all
  have "i < length path"
    using arg_cong [OF s, of length] by (simp add: min_def split: if_splits)
  moreover from this have "drop (Suc i) path = dir @ drop (Suc i + length dir) path"
    using arg_cong [OF s, of "drop (Suc i)"] by (simp add: min_def)
  ultimately show ?thesis
    using s first unfolding cut_at_def
    by (intro exI [of _ "take i path"] exI [of _ "drop (Suc i + length dir) path"]) (simp add: min_def)
qed

text \<open>The file name recorded with a check. A path with a directory \<^verbatim>\<open>internal\<close> is cut right before its
  first one; failing that, before the first \<^verbatim>\<open>control-plane\<close>, and failing that, before the first
  \<^verbatim>\<open>cli\<close>; any other path keeps only its last element.
\<close>

theorem trimToRepoPath_cases:
  "if sublist ''/internal/'' path then cut_at ''internal/'' path (trimToRepoPath path)
   else if sublist ''/control-plane/'' path then cut_at ''control-plane/'' path (trimToRepoPath path)
   else if sublist ''/cli/'' path then cut_at ''cli/'' path (trimToRepoPath path)
   else trimToRepoPath path = filepath_Base path"
proof -
  have *: "sublist sub path \<longleftrightarrow> strings_Index path sub \<noteq> None" for sub
    by (simp only: strings_Index_None not_not)
  show ?thesis unfolding * by (auto simp: trimToRepoPath_def Index_cut split: option.split)
qed

end
