(* ===== verification/Heartbeat.thy ===== *)
theory Heartbeat
  imports Agent
begin

text \<open>
  The heartbeat stream of \<^verbatim>\<open>internal/agent\<close>, as a step machine. \<open>AgentServer.Heartbeat\<close> runs beside
  other streams and calls, so its control state is kept explicitly: a step runs up to and including
  the next operation other goroutines can observe (a receive, a send, or one locked operation of the
  registry). The outcome of a receive or a send is the stream's, and comes with the event. The
  goroutine that acknowledges every ten seconds is a second, small machine of the same stream.
\<close>

subsection \<open>The machine\<close>

datatype hb_pc =
    HbOpened
  | HbRecvFirst
  | HbGetConnID HeartbeatRequest
  | HbUpdateFirst HeartbeatRequest uint64
  | HbSendFirst HeartbeatRequest uint64
  | HbRecv string uint64
  | HbUpdate string uint64 HeartbeatRequest
  | HbRemove string uint64 go_error
  | HbReturned go_error

datatype ack_goroutine = AckNotStarted | AckRunning | AckStopped

record hb_stream =
  hb_pc :: hb_pc
  hb_ack :: ack_goroutine
  hb_sent :: "HeartbeatResponse list"

definition hb_open :: hb_stream where
  "hb_open = \<lparr>hb_pc = HbOpened, hb_ack = AckNotStarted, hb_sent = []\<rparr>"

text \<open>
  \<open>HbGo now\<close> is a step of the handler that waits for nothing, at a clock reading; \<open>HbReceived\<close> and
  \<open>HbSentFirst\<close> bring the outcome of \<open>stream.Recv\<close> and of the first \<open>stream.Send\<close>; \<open>HbTick\<close> is a tick
  of the acknowledging goroutine with the outcome of its send, \<open>HbDone\<close> its reading of the closed
  channel.
\<close>

datatype hb_event =
    HbGo time
  | HbReceived "error + HeartbeatRequest"
  | HbSentFirst go_error
  | HbTick go_error
  | HbDone

definition hb_checks ::
  "('ctx, 'md) grpc_lib \<Rightarrow> nat \<Rightarrow> nat \<Rightarrow> HeartbeatRequest \<Rightarrow> validationCheck list" where
  "hb_checks lib line1 line2 m =
     [check_at lib line1 ''node_id'' (Some m) (\<lambda>m. ValidateNodeID (HeartbeatRequest_NodeId m)),
      check_at lib line2 ''tasks'' (Some m)
        (\<lambda>m. ValidateHeartbeatTaskCount (int (length (HeartbeatRequest_Tasks m))))]"

text \<open>Validate a received message and go on with \<open>ok\<close>, or return the error.\<close>

definition hb_validated ::
  "('ctx, 'md) grpc_lib \<Rightarrow> 'ctx \<Rightarrow> nat \<Rightarrow> nat \<Rightarrow> HeartbeatRequest \<Rightarrow> hb_pc \<Rightarrow> server
     \<Rightarrow> panic + hb_pc \<times> server" where
  "hb_validated lib ctx line1 line2 m ok st =
     (case validateAll lib ctx ''Heartbeat'' (hb_checks lib line1 line2 m) st of
        Inl p \<Rightarrow> Inl p
      | Inr (Some err, st1) \<Rightarrow> Inr (HbReturned (Some err), st1)
      | Inr (None, st1) \<Rightarrow> Inr (ok, st1))"

definition hb_update :: "time \<Rightarrow> HeartbeatRequest \<Rightarrow> server \<Rightarrow> panic + server" where
  "hb_update now m = with_registry (\<lambda>r. NodeRegistry_UpdateHeartbeat r now (HeartbeatRequest_NodeId m)
     (HeartbeatRequest_Utilization m) (HeartbeatRequest_Tasks m))"

text \<open>The handler's own steps; \<open>None\<close> when it waits for another event.\<close>

fun Heartbeat_main ::
  "('ctx, 'md) grpc_lib \<Rightarrow> AgentServer \<Rightarrow> 'ctx \<Rightarrow> hb_pc \<Rightarrow> hb_event \<Rightarrow> server
     \<Rightarrow> (panic + hb_pc \<times> server) option" where
  "Heartbeat_main lib s ctx HbOpened (HbGo now) st =
     Some (Inr (case checkAuth lib s ctx of
                  Some err \<Rightarrow> HbReturned (Some err)
                | None \<Rightarrow> HbRecvFirst, st))"
| "Heartbeat_main lib s ctx HbRecvFirst (HbReceived (Inl err)) st =
     Some (Inr (HbReturned (if err = EOF then None else Some err), st))"
| "Heartbeat_main lib s ctx HbRecvFirst (HbReceived (Inr first)) st =
     Some (hb_validated lib ctx 254 255 first (HbGetConnID first) st)"
| "Heartbeat_main lib s ctx (HbGetConnID first) (HbGo now) st =
     (let nodeID = HeartbeatRequest_NodeId first;
          connID = NodeRegistry_ConnectionID (srv_registry st) nodeID
      in Some (Inr (HbUpdateFirst first connID, log_event (HeartbeatStreamOpened nodeID connID) st)))"
| "Heartbeat_main lib s ctx (HbUpdateFirst first connID) (HbGo now) st =
     Some (case hb_update now first st of
             Inl p \<Rightarrow> Inl p
           | Inr st1 \<Rightarrow> Inr (HbSendFirst first connID, st1))"
| "Heartbeat_main lib s ctx (HbSendFirst first connID) (HbSentFirst (Some err)) st =
     Some (Inr (HbReturned (Some err), log_event (InitialAckFailed err) st))"
| "Heartbeat_main lib s ctx (HbSendFirst first connID) (HbSentFirst None) st =
     Some (Inr (HbRecv (HeartbeatRequest_NodeId first) connID, st))"
| "Heartbeat_main lib s ctx (HbRecv nodeID connID) (HbReceived (Inl err)) st =
     Some (Inr (if err = EOF
                then (HbRemove nodeID connID None, log_event (HeartbeatStreamClosed nodeID) st)
                else (HbRemove nodeID connID (Some err), log_event (HeartbeatStreamError err nodeID) st)))"
| "Heartbeat_main lib s ctx (HbRecv nodeID connID) (HbReceived (Inr m)) st =
     Some (hb_validated lib ctx 309 310 m (HbUpdate nodeID connID m) st)"
| "Heartbeat_main lib s ctx (HbUpdate nodeID connID m) (HbGo now) st =
     Some (case hb_update now m st of
             Inl p \<Rightarrow> Inl p
           | Inr st1 \<Rightarrow>
               Inr (HbRecv nodeID connID, log_event
                 (HeartbeatReceived (HeartbeatRequest_NodeId m) (HeartbeatRequest_Sequence m)) st1))"
| "Heartbeat_main lib s ctx (HbRemove nodeID connID err) (HbGo now) st =
     Some (case with_registry (\<lambda>r. Inr (NodeRegistry_RemoveIfConnectionMatches r nodeID connID)) st of
             Inl p \<Rightarrow> Inl p
           | Inr st1 \<Rightarrow> Inr (HbReturned err, st1))"
| "Heartbeat_main lib s ctx _ _ st = None"

definition first_ack :: "HeartbeatRequest \<Rightarrow> HeartbeatResponse" where
  "first_ack m = HeartbeatResponse_zero\<lparr>HeartbeatResponse_Acknowledged := True,
     HeartbeatResponse_Sequence := HeartbeatRequest_Sequence m\<rparr>"

definition periodic_ack :: HeartbeatResponse where
  "periodic_ack = HeartbeatResponse_zero\<lparr>HeartbeatResponse_Acknowledged := True\<rparr>"

text \<open>
  The acknowledging goroutine. It starts once the first acknowledgement is sent. When both the
  channel is closed and a tick is due, Go's \<open>select\<close> may take either, so a tick can still be
  acknowledged after the handler has returned.
\<close>

definition ack_tick :: "go_error \<Rightarrow> hb_stream \<Rightarrow> server \<Rightarrow> (hb_stream \<times> server) option" where
  "ack_tick r h st =
     (if hb_ack h = AckRunning
      then Some (case r of
                   Some err \<Rightarrow> (h\<lparr>hb_sent := hb_sent h @ [periodic_ack], hb_ack := AckStopped\<rparr>,
                                log_event (AckFailed err) st)
                 | None \<Rightarrow> (h\<lparr>hb_sent := hb_sent h @ [periodic_ack]\<rparr>, st))
      else None)"

fun hb_returned :: "hb_pc \<Rightarrow> bool" where
  "hb_returned (HbReturned err) = True"
| "hb_returned _ = False"

definition ack_done :: "hb_stream \<Rightarrow> server \<Rightarrow> (hb_stream \<times> server) option" where
  "ack_done h st =
     (if hb_ack h = AckRunning \<and> hb_returned (hb_pc h)
      then Some (h\<lparr>hb_ack := AckStopped\<rparr>, st) else None)"

text \<open>What a handler step adds to the stream: the first acknowledgement and the goroutine.\<close>

fun hb_sends :: "hb_pc \<Rightarrow> hb_event \<Rightarrow> hb_stream \<Rightarrow> hb_stream" where
  "hb_sends (HbSendFirst first connID) (HbSentFirst None) h =
     h\<lparr>hb_sent := hb_sent h @ [first_ack first], hb_ack := AckRunning\<rparr>"
| "hb_sends (HbSendFirst first connID) (HbSentFirst (Some err)) h =
     h\<lparr>hb_sent := hb_sent h @ [first_ack first]\<rparr>"
| "hb_sends _ _ h = h"

definition AgentServer_Heartbeat ::
  "('ctx, 'md) grpc_lib \<Rightarrow> AgentServer \<Rightarrow> 'ctx \<Rightarrow> hb_event \<Rightarrow> hb_stream \<Rightarrow> server
     \<Rightarrow> (panic + hb_stream \<times> server) option" where
  "AgentServer_Heartbeat lib s ctx ev h st =
     (case ev of
        HbTick r \<Rightarrow> map_option Inr (ack_tick r h st)
      | HbDone \<Rightarrow> map_option Inr (ack_done h st)
      | _ \<Rightarrow>
          (case Heartbeat_main lib s ctx (hb_pc h) ev st of
             None \<Rightarrow> None
           | Some (Inl p) \<Rightarrow> Some (Inl p)
           | Some (Inr (pc', st')) \<Rightarrow> Some (Inr ((hb_sends (hb_pc h) ev h)\<lparr>hb_pc := pc'\<rparr>, st'))))"

subsection \<open>Single steps\<close>

definition hb_valid :: "HeartbeatRequest \<Rightarrow> bool" where
  "hb_valid m \<longleftrightarrow>
     ValidateNodeID (HeartbeatRequest_NodeId m) = None \<and>
     ValidateHeartbeatTaskCount (int (length (HeartbeatRequest_Tasks m))) = None"

definition hb_rules :: "nat \<Rightarrow> nat \<Rightarrow> HeartbeatRequest rule list" where
  "hb_rules line1 line2 =
     [(line1, ''node_id'', \<lambda>m. ValidateNodeID (HeartbeatRequest_NodeId m)),
      (line2, ''tasks'', \<lambda>m. ValidateHeartbeatTaskCount (int (length (HeartbeatRequest_Tasks m))))]"

lemma hb_valid_iff: "hb_valid m \<longleftrightarrow> first_failure 0 (hb_rules l1 l2) m = None"
  unfolding first_failure_None by (simp add: hb_valid_def hb_rules_def)

lemma validate_heartbeat:
  "validateAll lib ctx ''Heartbeat'' (hb_checks lib l1 l2 m) st =
     (case first_failure 0 (hb_rules l1 l2) m of
        None \<Rightarrow> Inr (None, st)
      | Some f \<Rightarrow> Inr (Some (snd (snd (snd f))),
                   log_event (rejection_entry lib ctx ''Heartbeat'' f) st))"
  using validate_from_rules [of lib ctx "''Heartbeat''" 0 m "hb_rules l1 l2" st]
  by (simp add: validateAll_def hb_checks_def hb_rules_def)

lemma hb_validated_ok: "hb_valid m \<Longrightarrow> hb_validated lib ctx l1 l2 m ok st = Inr (ok, st)"
  by (simp add: hb_validated_def validate_heartbeat hb_valid_iff [of m l1 l2])

lemma hb_validated_reject:
  assumes "\<not> hb_valid m"
  shows "\<exists>msg e. hb_validated lib ctx l1 l2 m ok st =
           Inr (HbReturned (Some (Status InvalidArgument msg)), log_event e st)"
proof -
  from assms obtain i line field err
    where f: "first_failure 0 (hb_rules l1 l2) m = Some (i, line, field, err)"
    by (auto simp: hb_valid_iff [of m l1 l2])
  have "invalid_argument (snd (snd rule) m)" if "rule \<in> set (hb_rules l1 l2)" for rule
    using that by (auto simp: hb_rules_def)
  from first_failure_invalid_argument [OF this f] obtain msg where "err = Status InvalidArgument msg"
    by blast
  with f show ?thesis by (auto simp: hb_validated_def validate_heartbeat)
qed

lemma with_registry_Inr:
  "with_registry f st = Inr st' \<longleftrightarrow>
     (\<exists>r ops. f (srv_registry st) = Inr (r, ops) \<and>
        st' = st\<lparr>srv_registry := r, metric_trace := metric_trace st @ ops\<rparr>)"
  by (auto simp: with_registry_def split: sum.splits prod.splits)

lemma with_registry_Inl: "with_registry f st = Inl p \<longleftrightarrow> f (srv_registry st) = Inl p"
  by (auto simp: with_registry_def split: sum.splits prod.splits)

lemma log_event_sel [simp]:
  "srv_registry (log_event e st) = srv_registry st"
  "metric_trace (log_event e st) = metric_trace st"
  "knownMethods (log_event e st) = knownMethods st"
  "srv_log (log_event e st) = srv_log st @ [e]"
  by (simp_all add: log_event_def)

text \<open>The messages a control state has taken in are valid, and a stream's own node id is one.\<close>

fun hb_pc_ok :: "hb_pc \<Rightarrow> bool" where
  "hb_pc_ok (HbGetConnID m) = hb_valid m"
| "hb_pc_ok (HbUpdateFirst m c) = hb_valid m"
| "hb_pc_ok (HbSendFirst m c) = hb_valid m"
| "hb_pc_ok (HbRecv n c) = (ValidateNodeID n = None)"
| "hb_pc_ok (HbUpdate n c m) = (ValidateNodeID n = None \<and> hb_valid m)"
| "hb_pc_ok (HbRemove n c e) = (ValidateNodeID n = None)"
| "hb_pc_ok _ = True"

lemma hb_validated_cases:
  assumes "hb_validated lib ctx l1 l2 m ok st = Inr (pc', st')"
  obtains "hb_valid m" "pc' = ok" "st' = st"
  | msg e where "\<not> hb_valid m" "pc' = HbReturned (Some (Status InvalidArgument msg))" "st' = log_event e st"
proof (cases "hb_valid m")
  case True
  with assms that(1) show thesis by (simp add: hb_validated_ok)
next
  case False
  from hb_validated_reject [OF this, of lib ctx l1 l2 ok st] obtain msg e where
    "hb_validated lib ctx l1 l2 m ok st =
       Inr (HbReturned (Some (Status InvalidArgument msg)), log_event e st)" by blast
  with assms show thesis by (intro that(2) [OF False, of msg e]) simp_all
qed

text \<open>The registry operation a control state performs next, if it performs one.\<close>

fun hb_reg_op :: "hb_pc \<Rightarrow> hb_event \<Rightarrow> reg_op option" where
  "hb_reg_op (HbUpdateFirst m c) (HbGo now) =
     Some (RegHeartbeat now (HeartbeatRequest_NodeId m) (HeartbeatRequest_Utilization m)
             (HeartbeatRequest_Tasks m))"
| "hb_reg_op (HbUpdate n c m) (HbGo now) =
     Some (RegHeartbeat now (HeartbeatRequest_NodeId m) (HeartbeatRequest_Utilization m)
             (HeartbeatRequest_Tasks m))"
| "hb_reg_op (HbRemove n c e) (HbGo now) = Some (RegRemoveIf n c)"
| "hb_reg_op _ _ = None"

lemma Heartbeat_main_registry:
  assumes "Heartbeat_main lib s ctx pc ev st = Some (Inr (pc', st'))"
  shows "case hb_reg_op pc ev of
      None \<Rightarrow> srv_registry st' = srv_registry st \<and> metric_trace st' = metric_trace st
    | Some op \<Rightarrow> \<exists>ops. reg_apply op (srv_registry st) = Inr (srv_registry st', ops) \<and>
                      metric_trace st' = metric_trace st @ ops"
  using assms
  by (cases "(lib, s, ctx, pc, ev, st)" rule: Heartbeat_main.cases)
     (auto simp: hb_update_def Let_def with_registry_Inr elim!: hb_validated_cases
        split: if_splits sum.splits)

lemma Heartbeat_main_pc_ok:
  assumes "Heartbeat_main lib s ctx pc ev st = Some (Inr (pc', st'))" and "hb_pc_ok pc"
  shows "hb_pc_ok pc'"
  using assms
  by (cases "(lib, s, ctx, pc, ev, st)" rule: Heartbeat_main.cases)
     (auto simp: Let_def hb_valid_def elim!: hb_validated_cases split: if_splits sum.splits option.splits)

lemma Heartbeat_main_returned: "Heartbeat_main lib s ctx (HbReturned err) ev st = None"
  by simp

subsection \<open>Runs of one stream\<close>

declare reg_next.simps [simp del]

fun hb_run ::
  "('ctx, 'md) grpc_lib \<Rightarrow> AgentServer \<Rightarrow> 'ctx \<Rightarrow> hb_event list \<Rightarrow> hb_stream \<Rightarrow> server
     \<Rightarrow> (panic + hb_stream \<times> server) option" where
  "hb_run lib s ctx [] h st = Some (Inr (h, st))"
| "hb_run lib s ctx (ev # evs) h st =
     (case AgentServer_Heartbeat lib s ctx ev h st of
        None \<Rightarrow> None
      | Some (Inl p) \<Rightarrow> Some (Inl p)
      | Some (Inr (h', st')) \<Rightarrow> hb_run lib s ctx evs h' st')"

lemma hb_run_append:
  assumes "hb_run lib s ctx evs h st = Some (Inr (h1, st1))"
  shows "hb_run lib s ctx (evs @ evs') h st = hb_run lib s ctx evs' h1 st1"
  using assms
  by (induction lib s ctx evs h st rule: hb_run.induct) (auto split: option.splits sum.splits prod.splits)

lemma hb_run_snoc:
  assumes "hb_run lib s ctx (evs @ [ev]) h st = Some (Inr (h', st'))"
  obtains h1 st1 where "hb_run lib s ctx evs h st = Some (Inr (h1, st1))"
    and "AgentServer_Heartbeat lib s ctx ev h1 st1 = Some (Inr (h', st'))"
  using assms
  by (induction lib s ctx evs h st arbitrary: thesis rule: hb_run.induct)
     (fastforce split: option.splits sum.splits prod.splits)+

lemma UpdateHeartbeat_no_panic:
  assumes "None \<notin> set tasks"
  shows "\<exists>r' ops. NodeRegistry_UpdateHeartbeat r now nid util tasks = Inr (r', ops)"
proof -
  have "\<exists>m'. file_tasks tasks m = Inr m'" for m
    using assms by (induction tasks m rule: file_tasks.induct) auto
  then show ?thesis
    by (auto simp: NodeRegistry_UpdateHeartbeat_def Let_def split: option.split sum.split) (metis sum.distinct(1))
qed

text \<open>A message the handler can process, and the registry operation it causes.\<close>

definition hb_good :: "HeartbeatRequest \<Rightarrow> bool" where
  "hb_good m \<longleftrightarrow> hb_valid m \<and> None \<notin> set (HeartbeatRequest_Tasks m)"

definition beat_op :: "time \<times> HeartbeatRequest \<Rightarrow> reg_op" where
  "beat_op tm = RegHeartbeat (fst tm) (HeartbeatRequest_NodeId (snd tm))
     (HeartbeatRequest_Utilization (snd tm)) (HeartbeatRequest_Tasks (snd tm))"

lemma hb_update_good:
  assumes "hb_good m"
  obtains st' where "hb_update now m st = Inr st'"
    and "reg_next (beat_op (now, m)) (srv_registry st) = Some (srv_registry st')"
proof -
  from assms UpdateHeartbeat_no_panic obtain r ops where
    u: "NodeRegistry_UpdateHeartbeat (srv_registry st) now (HeartbeatRequest_NodeId m)
         (HeartbeatRequest_Utilization m) (HeartbeatRequest_Tasks m) = Inr (r, ops)"
    unfolding hb_good_def by blast
  then show thesis
    using that [of "st\<lparr>srv_registry := r, metric_trace := metric_trace st @ ops\<rparr>"]
    by (simp add: hb_update_def with_registry_def beat_op_def reg_next.simps)
qed

lemma beats_keep_conn:
  "run_ops reg_next (map beat_op tms) r = Some r' \<Longrightarrow> conn_of r' = conn_of r"
proof (induction tms arbitrary: r)
  case (Cons tm tms)
  then obtain r1 where r1: "reg_next (beat_op tm) r = Some r1" "run_ops reg_next (map beat_op tms) r1 = Some r'"
    by (auto split: option.splits)
  from r1(1) have "conn_of r1 = conn_of r"
    by (auto simp: beat_op_def reg_next_Some dest: conn_of_UpdateHeartbeat split: sum.splits)
  with Cons.IH [OF r1(2)] show ?case by simp
qed simp

text \<open>The receive loop over good messages.\<close>

definition beat_events :: "time \<times> HeartbeatRequest \<Rightarrow> hb_event list" where
  "beat_events tm = [HbReceived (Inr (snd tm)), HbGo (fst tm)]"

lemma hb_loop_run:
  assumes "\<forall>tm\<in>set tms. hb_good (snd tm)" and "hb_pc h = HbRecv n c"
  shows "\<exists>st'. hb_run lib s ctx (concat (map beat_events tms)) h st = Some (Inr (h, st')) \<and>
     run_ops reg_next (map beat_op tms) (srv_registry st) = Some (srv_registry st')"
  using assms(1)
proof (induction tms arbitrary: st)
  case (Cons tm tms)
  then have good: "hb_good (snd tm)" by simp
  let ?m = "snd tm"
  from hb_update_good [OF good, of "fst tm" st] obtain st1 where
    st1: "hb_update (fst tm) ?m st = Inr st1"
    "reg_next (beat_op tm) (srv_registry st) = Some (srv_registry st1)" by auto
  let ?st1 = "log_event (HeartbeatReceived (HeartbeatRequest_NodeId ?m) (HeartbeatRequest_Sequence ?m)) st1"
  have h: "h\<lparr>hb_pc := HbRecv n c\<rparr> = h" using assms(2) by (cases h) simp
  have "hb_run lib s ctx (beat_events tm) h st = Some (Inr (h, ?st1))"
    using good st1(1) assms(2)
    by (simp add: beat_events_def AgentServer_Heartbeat_def hb_validated_ok hb_good_def h)
  from hb_run_append [OF this] Cons.IH [of ?st1] Cons.prems st1(2) show ?case by auto
qed (use assms(2) in simp)

text \<open>The events of a stream that opens, beats and closes, with nothing in between.\<close>

definition stream_script :: "time \<times> HeartbeatRequest \<Rightarrow> (time \<times> HeartbeatRequest) list \<Rightarrow> error \<Rightarrow> hb_event list" where
  "stream_script tm0 tms close =
     [HbGo 0, HbReceived (Inr (snd tm0)), HbGo 0, HbGo (fst tm0), HbSentFirst None]
       @ concat (map beat_events tms) @ [HbReceived (Inl close), HbGo 0]"

lemma hb_run_opening:
  assumes "checkAuth lib s ctx = None" and "hb_good m"
  shows "\<exists>h st'. hb_run lib s ctx
       [HbGo 0, HbReceived (Inr m), HbGo 0, HbGo now, HbSentFirst None] hb_open st = Some (Inr (h, st')) \<and>
     hb_pc h = HbRecv (HeartbeatRequest_NodeId m)
       (NodeRegistry_ConnectionID (srv_registry st) (HeartbeatRequest_NodeId m)) \<and>
     reg_next (beat_op (now, m)) (srv_registry st) = Some (srv_registry st')"
proof -
  let ?st = "log_event (HeartbeatStreamOpened (HeartbeatRequest_NodeId m)
      (NodeRegistry_ConnectionID (srv_registry st) (HeartbeatRequest_NodeId m))) st"
  from hb_update_good [OF assms(2), of now ?st] obtain st' where
    "hb_update now m ?st = Inr st'" "reg_next (beat_op (now, m)) (srv_registry ?st) = Some (srv_registry st')"
    by auto
  then show ?thesis
    using assms by (simp add: AgentServer_Heartbeat_def hb_open_def hb_validated_ok hb_good_def Let_def)
qed

lemma hb_run_closing:
  assumes "hb_pc h = HbRecv n c"
  shows "\<exists>h' st'. hb_run lib s ctx [HbReceived (Inl close), HbGo 0] h st = Some (Inr (h', st')) \<and>
     hb_pc h' = HbReturned (if close = EOF then None else Some close) \<and>
     reg_next (RegRemoveIf n c) (srv_registry st) = Some (srv_registry st')"
  using assms
  by (auto simp: AgentServer_Heartbeat_def with_registry_def reg_next.simps split: prod.split)

text \<open>\<^bold>\<open>C11\<close>
  An undisturbed heartbeat stream. When the stream is authenticated and every message is valid, the
  handler runs to its end: it performs on the registry one heartbeat per message and then one guarded
  removal of the node of the first message, and returns nil on \<open>io.EOF\<close> and the stream's error
  otherwise. Afterwards that node is not registered, and the registration of every other node,
  with its connection number, is what it was.
\<close>

theorem heartbeat_stream_run:
  assumes "checkAuth lib s ctx = None" and "\<forall>tm\<in>set (tm0 # tms). hb_good (snd tm)"
    and "nid = HeartbeatRequest_NodeId (snd tm0)"
  shows "\<exists>h st'. hb_run lib s ctx (stream_script tm0 tms close) hb_open st = Some (Inr (h, st')) \<and>
     hb_pc h = HbReturned (if close = EOF then None else Some close) \<and>
     run_ops reg_next (map beat_op (tm0 # tms) @
         [RegRemoveIf nid (NodeRegistry_ConnectionID (srv_registry st) nid)]) (srv_registry st)
       = Some (srv_registry st') \<and>
     conn_of (srv_registry st') = (conn_of (srv_registry st))(nid := None)"
proof -
  let ?r = "srv_registry st" and ?c = "NodeRegistry_ConnectionID (srv_registry st) nid"
  from assms(2) have good0: "hb_good (snd tm0)" by simp
  obtain h1 st1 where opened: "hb_run lib s ctx
       [HbGo 0, HbReceived (Inr (snd tm0)), HbGo 0, HbGo (fst tm0), HbSentFirst None] hb_open st
         = Some (Inr (h1, st1))"
    and pc1: "hb_pc h1 = HbRecv nid ?c"
    and beat0: "reg_next (beat_op tm0) ?r = Some (srv_registry st1)"
    using hb_run_opening [OF assms(1) good0, of "fst tm0" st] by (auto simp: assms(3))
  from assms(2) have "\<forall>tm\<in>set tms. hb_good (snd tm)" by simp
  from hb_loop_run [OF this pc1, of lib s ctx st1] obtain st2 where
    loop: "hb_run lib s ctx (concat (map beat_events tms)) h1 st1 = Some (Inr (h1, st2))"
    and beats: "run_ops reg_next (map beat_op tms) (srv_registry st1) = Some (srv_registry st2)"
    by blast
  from hb_run_closing [OF pc1, of lib s ctx close st2] obtain h3 st3 where
    closed: "hb_run lib s ctx [HbReceived (Inl close), HbGo 0] h1 st2 = Some (Inr (h3, st3))"
    and pc3: "hb_pc h3 = HbReturned (if close = EOF then None else Some close)"
    and remove: "reg_next (RegRemoveIf nid ?c) (srv_registry st2) = Some (srv_registry st3)"
    by blast
  have run: "hb_run lib s ctx (stream_script tm0 tms close) hb_open st = Some (Inr (h3, st3))"
    using hb_run_append [OF opened] hb_run_append [OF loop] closed
    by (simp only: stream_script_def)
  have "run_ops reg_next (map beat_op (tm0 # tms)) ?r = Some (srv_registry st2)"
    using beat0 beats by simp
  note ops = this and conn = beats_keep_conn [OF this]
  have "conn_of (srv_registry st3) = (conn_of ?r)(nid := None)"
    using reg_conn.close_conn [OF remove] conn
    by (auto simp: ConnectionID_conn_of fun_eq_iff split: option.splits if_splits)
  moreover have "run_ops reg_next (map beat_op (tm0 # tms) @ [RegRemoveIf nid ?c]) ?r
      = Some (srv_registry st3)"
    using ops remove by (simp only: run_ops_append option.case run_ops.simps)
  ultimately show ?thesis using run pc3 by blast
qed

definition sample_beat :: HeartbeatRequest where
  "sample_beat = HeartbeatRequest_zero\<lparr>HeartbeatRequest_NodeId := ''node-1'', HeartbeatRequest_Sequence := 7\<rparr>"

definition sample_registered :: server where
  "sample_registered = idle_server\<lparr>srv_registry := \<lparr>nodes =
     [(''node-1'', \<lparr>NodeInfo_NodeID = ''node-1'', NodeInfo_Address = '''', NodeInfo_Resources = Some NodeResources_zero,
        NodeInfo_LastBeat = 0, NodeInfo_Tasks = [], NodeInfo_ConnectionID = 3\<rparr>)]\<rparr>\<rparr>"

lemma sample_beat_good: "hb_good sample_beat"
proof -
  have "ValidateNodeID ''node-1'' = None"
    by (simp add: validator_ok safe_id_def alnum_char_iff safe_char_iff less_eq_char_def letters_digits_def id_punctuation_def)
  then show ?thesis
    by (simp add: hb_good_def hb_valid_def sample_beat_def HeartbeatRequest_zero_def
        ValidateHeartbeatTaskCount_def MaxTasksPerHeartbeat_def)
qed

theorem heartbeat_stream_run_witness:
  "\<exists>h st'. hb_run sample_lib (NewAgentServer ''c'' ''l'' '''') []
       (stream_script (5, sample_beat) [(9, sample_beat)] EOF) hb_open sample_registered = Some (Inr (h, st')) \<and>
     hb_pc h = HbReturned None \<and>
     conn_of (srv_registry sample_registered) ''node-1'' = Some 3 \<and>
     conn_of (srv_registry st') ''node-1'' = None"
proof -
  have "checkAuth sample_lib (NewAgentServer ''c'' ''l'' '''') [] = None"
    by (simp add: checkAuth_def validateBearerToken_def NewAgentServer_def)
  moreover have "''node-1'' = HeartbeatRequest_NodeId (snd (5, sample_beat))"
    by (simp add: sample_beat_def)
  moreover have "\<forall>tm\<in>set [(5, sample_beat), (9, sample_beat)]. hb_good (snd tm)"
    by (simp add: sample_beat_good)
  ultimately obtain h st' where
    "hb_run sample_lib (NewAgentServer ''c'' ''l'' '''') []
       (stream_script (5, sample_beat) [(9, sample_beat)] EOF) hb_open sample_registered = Some (Inr (h, st'))"
    "hb_pc h = HbReturned (if EOF = EOF then None else Some EOF)"
    "conn_of (srv_registry st') = (conn_of (srv_registry sample_registered))(''node-1'' := None)"
    using heartbeat_stream_run [of sample_lib "NewAgentServer ''c'' ''l'' ''''" "[]" "(5, sample_beat)"
        "[(9, sample_beat)]" "''node-1''" EOF sample_registered] by blast
  moreover have "conn_of (srv_registry sample_registered) ''node-1'' = Some 3"
    by (simp add: sample_registered_def conn_of_def)
  ultimately show ?thesis by (metis (full_types) fun_upd_same)
qed

subsection \<open>Acknowledgements\<close>

fun first_received :: "hb_event list \<Rightarrow> (error + HeartbeatRequest) option" where
  "first_received [] = None"
| "first_received (HbReceived r # evs) = Some r"
| "first_received (_ # evs) = first_received evs"

lemma first_received_snoc:
  "first_received (evs @ [ev]) =
     (case first_received evs of
        Some r \<Rightarrow> Some r
      | None \<Rightarrow> (case ev of HbReceived r \<Rightarrow> Some r | _ \<Rightarrow> None))"
  by (induction evs rule: first_received.induct) (auto split: hb_event.split)

text \<open>What a stream has sent, by control state.\<close>

definition acks_from :: "hb_event list \<Rightarrow> HeartbeatResponse list \<Rightarrow> bool" where
  "acks_from evs sent \<longleftrightarrow>
     (\<exists>m k. first_received evs = Some (Inr m) \<and> sent = first_ack m # replicate k periodic_ack)"

fun acks_inv :: "hb_event list \<Rightarrow> hb_pc \<Rightarrow> ack_goroutine \<Rightarrow> HeartbeatResponse list \<Rightarrow> bool" where
  "acks_inv evs HbOpened a sent = (first_received evs = None \<and> a = AckNotStarted \<and> sent = [])"
| "acks_inv evs HbRecvFirst a sent = (first_received evs = None \<and> a = AckNotStarted \<and> sent = [])"
| "acks_inv evs (HbGetConnID m) a sent =
     (first_received evs = Some (Inr m) \<and> a = AckNotStarted \<and> sent = [])"
| "acks_inv evs (HbUpdateFirst m c) a sent =
     (first_received evs = Some (Inr m) \<and> a = AckNotStarted \<and> sent = [])"
| "acks_inv evs (HbSendFirst m c) a sent =
     (first_received evs = Some (Inr m) \<and> a = AckNotStarted \<and> sent = [])"
| "acks_inv evs (HbReturned e) a sent =
     (a = AckNotStarted \<and> sent = [] \<or> acks_from evs sent)"
| "acks_inv evs _ a sent = acks_from evs sent"

lemma acks_from_snoc: "acks_from evs sent \<Longrightarrow> acks_from (evs @ [ev]) sent"
  by (auto simp: acks_from_def first_received_snoc)

lemma acks_from_tick: "acks_from evs sent \<Longrightarrow> acks_from (evs @ [ev]) (sent @ [periodic_ack])"
  by (auto simp: acks_from_def first_received_snoc replicate_append_same) (metis replicate_Suc)

lemma acks_inv_main:
  assumes "Heartbeat_main lib s ctx pc ev st = Some (Inr (pc', st'))" and "acks_inv evs pc a sent"
    and "hb_pc h = pc" and "hb_ack h = a" and "hb_sent h = sent"
  shows "acks_inv (evs @ [ev]) pc' (hb_ack (hb_sends pc ev h)) (hb_sent (hb_sends pc ev h))"
  using assms
  by (cases "(lib, s, ctx, pc, ev, st)" rule: Heartbeat_main.cases)
     (auto simp: Let_def first_received_snoc acks_from_def elim!: hb_validated_cases
        split: if_splits sum.splits option.splits)

text \<open>A step of a stream is a tick or the end of its goroutine, or a step of the handler.\<close>

lemma AgentServer_Heartbeat_cases:
  assumes "AgentServer_Heartbeat lib s ctx ev h st = Some (Inr (h', st'))"
  obtains (tick) r where "ev = HbTick r" and "ack_tick r h st = Some (h', st')"
  | (stop) "ev = HbDone" and "ack_done h st = Some (h', st')"
  | (main) pc' where "Heartbeat_main lib s ctx (hb_pc h) ev st = Some (Inr (pc', st'))"
      and "h' = (hb_sends (hb_pc h) ev h)\<lparr>hb_pc := pc'\<rparr>"
  using assms
  by (auto simp: AgentServer_Heartbeat_def split: hb_event.splits option.splits sum.splits)

lemma acks_inv_goroutine:
  assumes "acks_inv evs (hb_pc h) (hb_ack h) (hb_sent h)" and "hb_ack h \<noteq> AckNotStarted"
  shows "acks_from evs (hb_sent h)"
  using assms by (cases "hb_pc h") auto

lemma acks_inv_of_acks_from:
  assumes "acks_inv evs pc a sent" and "a \<noteq> AckNotStarted" and "acks_from evs' sent'"
  shows "acks_inv evs' pc a' sent'"
  using assms by (cases pc) auto

lemma acks_inv_step:
  assumes "AgentServer_Heartbeat lib s ctx ev h st = Some (Inr (h', st'))"
    and "acks_inv evs (hb_pc h) (hb_ack h) (hb_sent h)"
  shows "acks_inv (evs @ [ev]) (hb_pc h') (hb_ack h') (hb_sent h')"
  using assms(1)
proof (cases rule: AgentServer_Heartbeat_cases)
  case (tick r)
  then have "hb_ack h \<noteq> AckNotStarted" "hb_sent h' = hb_sent h @ [periodic_ack]" "hb_pc h' = hb_pc h"
    by (auto simp: ack_tick_def split: if_splits option.splits)
  with acks_inv_of_acks_from [OF assms(2)] acks_from_tick [OF acks_inv_goroutine [OF assms(2)]]
  show ?thesis by simp
next
  case stop
  then have "hb_ack h \<noteq> AckNotStarted" "hb_sent h' = hb_sent h" "hb_pc h' = hb_pc h"
    by (auto simp: ack_done_def split: if_splits)
  with acks_inv_of_acks_from [OF assms(2)] acks_from_snoc [OF acks_inv_goroutine [OF assms(2)]]
  show ?thesis by simp
next
  case (main pc')
  with acks_inv_main [OF main(1) assms(2)] show ?thesis by simp
qed

lemma acks_inv_run:
  "hb_run lib s ctx evs hb_open st = Some (Inr (h, st')) \<Longrightarrow> acks_inv evs (hb_pc h) (hb_ack h) (hb_sent h)"
proof (induction evs arbitrary: h st' rule: rev_induct)
  case (snoc ev evs)
  then show ?case by (auto elim!: hb_run_snoc intro: acks_inv_step)
qed (simp add: hb_open_def)

text \<open>\<^bold>\<open>C33\<close>
  The acknowledgements of a stream. Whatever the events, a stream has sent either nothing, or one
  acknowledgement with the sequence number of the first message it received, followed by periodic
  acknowledgements, all with sequence number 0: no message after the first has its number echoed.
\<close>

theorem heartbeat_acknowledgements:
  assumes "hb_run lib s ctx evs hb_open st = Some (Inr (h, st'))" and "hb_sent h \<noteq> []"
  shows "\<exists>m k. first_received evs = Some (Inr m) \<and>
     hb_sent h = \<lparr>HeartbeatResponse_Acknowledged = True,
        HeartbeatResponse_Sequence = HeartbeatRequest_Sequence m,
        HeartbeatResponse_PendingTasks = [], HeartbeatResponse_CancelTaskIds = []\<rparr>
       # replicate k \<lparr>HeartbeatResponse_Acknowledged = True, HeartbeatResponse_Sequence = 0,
           HeartbeatResponse_PendingTasks = [], HeartbeatResponse_CancelTaskIds = []\<rparr>"
proof -
  from acks_inv_run [OF assms(1)] assms(2) have "acks_from evs (hb_sent h)"
    by (cases "hb_pc h") auto
  then show ?thesis
    by (auto simp: acks_from_def first_ack_def periodic_ack_def HeartbeatResponse_zero_def)
qed

definition sample_events :: "hb_event list" where
  "sample_events = [HbGo 0, HbReceived (Inr sample_beat), HbGo 0, HbGo 5, HbSentFirst None,
     HbReceived (Inr sample_beat), HbGo 9, HbTick None]"

lemma sample_events_run:
  "\<exists>h st'. hb_run sample_lib (NewAgentServer ''c'' ''l'' '''') [] sample_events hb_open sample_registered
     = Some (Inr (h, st')) \<and> hb_sent h = [first_ack sample_beat, periodic_ack]"
proof -
  have valid: "hb_valid sample_beat" using sample_beat_good by (simp add: hb_good_def)
  have auth: "checkAuth sample_lib (NewAgentServer ''c'' ''l'' '''') [] = None"
    by (simp add: checkAuth_def validateBearerToken_def NewAgentServer_def)
  have upd: "\<exists>st'. hb_update now sample_beat st = Inr st'" for now st
    by (rule hb_update_good [OF sample_beat_good, of now st]) blast
  obtain st1 where st1: "hb_update 5 sample_beat (log_event (HeartbeatStreamOpened
      (HeartbeatRequest_NodeId sample_beat) (NodeRegistry_ConnectionID (srv_registry sample_registered)
        (HeartbeatRequest_NodeId sample_beat))) sample_registered) = Inr st1"
    using upd by blast
  obtain st2 where st2: "hb_update 9 sample_beat st1 = Inr st2" using upd by blast
  show ?thesis
    by (simp add: sample_events_def AgentServer_Heartbeat_def hb_open_def auth hb_validated_ok valid
        Let_def st1 st2 ack_tick_def)
qed

theorem heartbeat_acknowledgements_witness:
  "\<exists>h st' m k. hb_run sample_lib (NewAgentServer ''c'' ''l'' '''') [] sample_events hb_open sample_registered
     = Some (Inr (h, st')) \<and> hb_sent h = first_ack m # replicate k periodic_ack"
proof -
  obtain h st' where "hb_run sample_lib (NewAgentServer ''c'' ''l'' '''') [] sample_events hb_open
      sample_registered = Some (Inr (h, st'))" "hb_sent h \<noteq> []"
    using sample_events_run by fastforce
  with heartbeat_acknowledgements [OF this] show ?thesis
    unfolding first_ack_def periodic_ack_def HeartbeatResponse_zero_def by auto
qed

subsection \<open>Rejections, and the node a message names\<close>

lemma returned_stream_inert:
  assumes "hb_returned (hb_pc h)"
    and "AgentServer_Heartbeat lib s ctx ev h st = Some (Inr (h', st'))"
  shows "srv_registry st' = srv_registry st \<and> metric_trace st' = metric_trace st \<and> hb_pc h' = hb_pc h"
  using assms(2)
proof (cases rule: AgentServer_Heartbeat_cases)
  case (main pc')
  with assms(1) show ?thesis by (cases "hb_pc h") auto
qed (auto simp: ack_tick_def ack_done_def split: if_splits option.splits)

text \<open>\<^bold>\<open>C26\<close>
  How a stream is refused. A stream that fails authentication returns that error before it receives
  anything. A message that is not valid, the first or a later one, ends the handler with
  \<open>InvalidArgument\<close>; the registry keeps what it had, so unlike a stream that closes or breaks, a
  stream refused in mid-course leaves its node registered. Nothing a returned stream still does
  changes the registry.
\<close>

theorem heartbeat_rejections:
  "(checkAuth lib s ctx = Some err \<longrightarrow>
      AgentServer_Heartbeat lib s ctx (HbGo now) hb_open st =
        Some (Inr (hb_open\<lparr>hb_pc := HbReturned (Some err)\<rparr>, st))) \<and>
   (\<not> hb_valid m \<and> hb_pc h \<in> {HbRecvFirst, HbRecv n c} \<longrightarrow>
      (\<exists>msg e. AgentServer_Heartbeat lib s ctx (HbReceived (Inr m)) h st =
         Some (Inr (h\<lparr>hb_pc := HbReturned (Some (Status InvalidArgument msg))\<rparr>,
                    st\<lparr>srv_log := srv_log st @ [e]\<rparr>)))) \<and>
   (hb_pc h = HbReturned res \<and> AgentServer_Heartbeat lib s ctx ev h st = Some (Inr (h', st')) \<longrightarrow>
      srv_registry st' = srv_registry st \<and> hb_pc h' = HbReturned res)"
proof (intro conjI impI)
  assume "checkAuth lib s ctx = Some err"
  then show "AgentServer_Heartbeat lib s ctx (HbGo now) hb_open st =
      Some (Inr (hb_open\<lparr>hb_pc := HbReturned (Some err)\<rparr>, st))"
    by (simp add: AgentServer_Heartbeat_def hb_open_def)
next
  assume a: "\<not> hb_valid m \<and> hb_pc h \<in> {HbRecvFirst, HbRecv n c}"
  then have "\<not> hb_valid m" by simp
  note rejected = hb_validated_reject [OF this]
  from a consider "hb_pc h = HbRecvFirst" | "hb_pc h = HbRecv n c" by auto
  then show "\<exists>msg e. AgentServer_Heartbeat lib s ctx (HbReceived (Inr m)) h st =
      Some (Inr (h\<lparr>hb_pc := HbReturned (Some (Status InvalidArgument msg))\<rparr>,
                 st\<lparr>srv_log := srv_log st @ [e]\<rparr>))"
  proof cases
    case 1
    with rejected [of lib ctx 254 255 "HbGetConnID m" st] show ?thesis
      by (auto simp: AgentServer_Heartbeat_def log_event_def)
  next
    case 2
    with rejected [of lib ctx 309 310 "HbUpdate n c m" st] show ?thesis
      by (auto simp: AgentServer_Heartbeat_def log_event_def)
  qed
qed (use returned_stream_inert [of h lib s ctx ev st h' st'] in auto)

definition nameless_beat :: HeartbeatRequest where
  "nameless_beat = HeartbeatRequest_zero"

theorem heartbeat_rejections_witness:
  "\<exists>msg e. AgentServer_Heartbeat sample_lib (NewAgentServer ''c'' ''l'' '''') [] (HbReceived (Inr nameless_beat))
       (hb_open\<lparr>hb_pc := HbRecv ''node-1'' 3\<rparr>) sample_registered =
     Some (Inr (hb_open\<lparr>hb_pc := HbReturned (Some (Status InvalidArgument msg))\<rparr>,
                sample_registered\<lparr>srv_log := srv_log sample_registered @ [e]\<rparr>))"
proof -
  have "ValidateNodeID '''' \<noteq> None" by (simp add: validator_ok safe_id_def)
  then have "\<not> hb_valid nameless_beat"
    by (simp add: hb_valid_def nameless_beat_def HeartbeatRequest_zero_def)
  with heartbeat_rejections [where m = nameless_beat and h = "hb_open\<lparr>hb_pc := HbRecv ''node-1'' 3\<rparr>"
      and n = "''node-1''" and c = 3 and lib = sample_lib and ctx = "[]" and st = sample_registered
      and s = "NewAgentServer ''c'' ''l'' ''''"]
  show ?thesis by simp
qed

text \<open>\<^bold>\<open>C37\<close>
  A message is filed under the node it names, not under the node of its stream. In the receive loop
  of a stream opened for one node, a good message that names another refreshes that other node, with
  its reported tasks, and leaves the stream's own node as it was.
\<close>

theorem message_refreshes_named_node:
  assumes "hb_pc h = HbUpdate n c m" and "hb_good m" and "HeartbeatRequest_NodeId m \<noteq> n"
    and "map_of (nodes (srv_registry st)) (HeartbeatRequest_NodeId m) = Some info"
  shows "\<exists>st' ts. AgentServer_Heartbeat lib s ctx (HbGo now) h st = Some (Inr (h\<lparr>hb_pc := HbRecv n c\<rparr>, st')) \<and>
     map_of (nodes (srv_registry st')) (HeartbeatRequest_NodeId m) =
       Some (info\<lparr>NodeInfo_LastBeat := now, NodeInfo_Tasks := ts\<rparr>) \<and>
     map_of (nodes (srv_registry st')) n = map_of (nodes (srv_registry st)) n"
proof -
  from assms(2) obtain ts where "file_tasks (HeartbeatRequest_Tasks m) [] = Inr ts"
    using file_tasks_nil [of "HeartbeatRequest_Tasks m" "[]"]
    by (cases "file_tasks (HeartbeatRequest_Tasks m) []") (auto simp: hb_good_def)
  with assms(1,3,4) show ?thesis
    by (auto simp: AgentServer_Heartbeat_def hb_update_def with_registry_def
        NodeRegistry_UpdateHeartbeat_def Let_def map_of_alist_update)
qed

theorem message_refreshes_named_node_witness:
  "\<exists>st' ts. AgentServer_Heartbeat sample_lib (NewAgentServer ''c'' ''l'' '''') [] (HbGo 9)
       (hb_open\<lparr>hb_pc := HbUpdate ''other'' 1 sample_beat\<rparr>) sample_registered
     = Some (Inr (hb_open\<lparr>hb_pc := HbRecv ''other'' 1\<rparr>, st')) \<and>
     map_of (nodes (srv_registry st')) ''node-1'' = Some
       (\<lparr>NodeInfo_NodeID = ''node-1'', NodeInfo_Address = '''', NodeInfo_Resources = Some NodeResources_zero,
         NodeInfo_LastBeat = 9, NodeInfo_Tasks = ts, NodeInfo_ConnectionID = 3\<rparr>)"
proof -
  have nid: "HeartbeatRequest_NodeId sample_beat = ''node-1''" by (simp add: sample_beat_def)
  show ?thesis
    using message_refreshes_named_node [where h = "hb_open\<lparr>hb_pc := HbUpdate ''other'' 1 sample_beat\<rparr>"
      and n = "''other''" and c = 1 and m = sample_beat and st = sample_registered and now = 9
      and lib = sample_lib and ctx = "[]" and s = "NewAgentServer ''c'' ''l'' ''''",
      unfolded nid, OF _ sample_beat_good]
    by (auto simp: sample_registered_def)
qed

end
