(* ===== verification/Proto_Job.thy ===== *)
theory Proto_Job
  imports Proto_Agent Proto_Resource
begin

text \<open>
  The message types of \<^verbatim>\<open>gen/compute/v1/job.pb.go\<close>: one record per message with the fields of
  the Go struct (its protobuf bookkeeping fields \<open>state\<close>, \<open>unknownFields\<close> and \<open>sizeCache\<close> belong
  to the runtime and are left out), the zero message written by \<open>Reset\<close>, and the nil-safe getters.
  A pointer is an \<open>option\<close> (\<open>None\<close> is nil), a slice a list, a Go map an association list, an
  enum its 32-bit number.
\<close>

subsection \<open>Enums\<close>

type_synonym JobType = int32

definition JobType_JOB_TYPE_UNKNOWN :: JobType where
  "JobType_JOB_TYPE_UNKNOWN = 0"

definition JobType_JOB_TYPE_SIMPLE :: JobType where
  "JobType_JOB_TYPE_SIMPLE = 1"

definition JobType_JOB_TYPE_DAG :: JobType where
  "JobType_JOB_TYPE_DAG = 2"

definition JobType_JOB_TYPE_GANG :: JobType where
  "JobType_JOB_TYPE_GANG = 3"

definition JobType_JOB_TYPE_SERVICE :: JobType where
  "JobType_JOB_TYPE_SERVICE = 4"

definition JobType_name :: "(int32 \<times> string) list" where
  "JobType_name =
    [(0, ''JOB_TYPE_UNKNOWN''),
     (1, ''JOB_TYPE_SIMPLE''),
     (2, ''JOB_TYPE_DAG''),
     (3, ''JOB_TYPE_GANG''),
     (4, ''JOB_TYPE_SERVICE'')]"

definition JobType_value :: "(string \<times> int32) list" where
  "JobType_value =
    [(''JOB_TYPE_UNKNOWN'', 0),
     (''JOB_TYPE_SIMPLE'', 1),
     (''JOB_TYPE_DAG'', 2),
     (''JOB_TYPE_GANG'', 3),
     (''JOB_TYPE_SERVICE'', 4)]"

type_synonym JobState = int32

definition JobState_JOB_STATE_UNKNOWN :: JobState where
  "JobState_JOB_STATE_UNKNOWN = 0"

definition JobState_JOB_STATE_QUEUED :: JobState where
  "JobState_JOB_STATE_QUEUED = 1"

definition JobState_JOB_STATE_SCHEDULING :: JobState where
  "JobState_JOB_STATE_SCHEDULING = 2"

definition JobState_JOB_STATE_RUNNING :: JobState where
  "JobState_JOB_STATE_RUNNING = 3"

definition JobState_JOB_STATE_COMPLETED :: JobState where
  "JobState_JOB_STATE_COMPLETED = 4"

definition JobState_JOB_STATE_FAILED :: JobState where
  "JobState_JOB_STATE_FAILED = 5"

definition JobState_JOB_STATE_CANCELLED :: JobState where
  "JobState_JOB_STATE_CANCELLED = 6"

definition JobState_JOB_STATE_PREEMPTED :: JobState where
  "JobState_JOB_STATE_PREEMPTED = 7"

definition JobState_name :: "(int32 \<times> string) list" where
  "JobState_name =
    [(0, ''JOB_STATE_UNKNOWN''),
     (1, ''JOB_STATE_QUEUED''),
     (2, ''JOB_STATE_SCHEDULING''),
     (3, ''JOB_STATE_RUNNING''),
     (4, ''JOB_STATE_COMPLETED''),
     (5, ''JOB_STATE_FAILED''),
     (6, ''JOB_STATE_CANCELLED''),
     (7, ''JOB_STATE_PREEMPTED'')]"

definition JobState_value :: "(string \<times> int32) list" where
  "JobState_value =
    [(''JOB_STATE_UNKNOWN'', 0),
     (''JOB_STATE_QUEUED'', 1),
     (''JOB_STATE_SCHEDULING'', 2),
     (''JOB_STATE_RUNNING'', 3),
     (''JOB_STATE_COMPLETED'', 4),
     (''JOB_STATE_FAILED'', 5),
     (''JOB_STATE_CANCELLED'', 6),
     (''JOB_STATE_PREEMPTED'', 7)]"

subsection \<open>Messages\<close>

record DAGTask =
  DAGTask_TaskId :: "string"
  DAGTask_Name :: "string"
  DAGTask_ContainerImage :: "string"
  DAGTask_Command :: "string list"
  DAGTask_Requirements :: "ResourceRequirements option"

definition DAGTask_zero :: DAGTask where
  "DAGTask_zero =
    \<lparr>DAGTask_TaskId = '''',
     DAGTask_Name = '''',
     DAGTask_ContainerImage = '''',
     DAGTask_Command = [],
     DAGTask_Requirements = None\<rparr>"

definition DAGTask_Reset :: "DAGTask \<Rightarrow> DAGTask" where
  "DAGTask_Reset x = DAGTask_zero"

definition DAGTask_GetTaskId :: "DAGTask option \<Rightarrow> string" where
  "DAGTask_GetTaskId x = (case x of Some m \<Rightarrow> DAGTask_TaskId m | None \<Rightarrow> '''')"

definition DAGTask_GetName :: "DAGTask option \<Rightarrow> string" where
  "DAGTask_GetName x = (case x of Some m \<Rightarrow> DAGTask_Name m | None \<Rightarrow> '''')"

definition DAGTask_GetContainerImage :: "DAGTask option \<Rightarrow> string" where
  "DAGTask_GetContainerImage x = (case x of Some m \<Rightarrow> DAGTask_ContainerImage m | None \<Rightarrow> '''')"

definition DAGTask_GetCommand :: "DAGTask option \<Rightarrow> string list" where
  "DAGTask_GetCommand x = (case x of Some m \<Rightarrow> DAGTask_Command m | None \<Rightarrow> [])"

definition DAGTask_GetRequirements :: "DAGTask option \<Rightarrow> ResourceRequirements option" where
  "DAGTask_GetRequirements x = (case x of Some m \<Rightarrow> DAGTask_Requirements m | None \<Rightarrow> None)"

record DAGEdge =
  DAGEdge_FromTask :: "string"
  DAGEdge_ToTask :: "string"

definition DAGEdge_zero :: DAGEdge where
  "DAGEdge_zero =
    \<lparr>DAGEdge_FromTask = '''',
     DAGEdge_ToTask = ''''\<rparr>"

definition DAGEdge_Reset :: "DAGEdge \<Rightarrow> DAGEdge" where
  "DAGEdge_Reset x = DAGEdge_zero"

definition DAGEdge_GetFromTask :: "DAGEdge option \<Rightarrow> string" where
  "DAGEdge_GetFromTask x = (case x of Some m \<Rightarrow> DAGEdge_FromTask m | None \<Rightarrow> '''')"

definition DAGEdge_GetToTask :: "DAGEdge option \<Rightarrow> string" where
  "DAGEdge_GetToTask x = (case x of Some m \<Rightarrow> DAGEdge_ToTask m | None \<Rightarrow> '''')"

record DAGSpec =
  DAGSpec_Tasks :: "DAGTask option list"
  DAGSpec_Edges :: "DAGEdge option list"

definition DAGSpec_zero :: DAGSpec where
  "DAGSpec_zero =
    \<lparr>DAGSpec_Tasks = [],
     DAGSpec_Edges = []\<rparr>"

definition DAGSpec_Reset :: "DAGSpec \<Rightarrow> DAGSpec" where
  "DAGSpec_Reset x = DAGSpec_zero"

definition DAGSpec_GetTasks :: "DAGSpec option \<Rightarrow> DAGTask option list" where
  "DAGSpec_GetTasks x = (case x of Some m \<Rightarrow> DAGSpec_Tasks m | None \<Rightarrow> [])"

definition DAGSpec_GetEdges :: "DAGSpec option \<Rightarrow> DAGEdge option list" where
  "DAGSpec_GetEdges x = (case x of Some m \<Rightarrow> DAGSpec_Edges m | None \<Rightarrow> [])"

record CheckpointConfig =
  CheckpointConfig_Enabled :: "bool"
  CheckpointConfig_IntervalSeconds :: "int64"
  CheckpointConfig_StoragePath :: "string"
  CheckpointConfig_Incremental :: "bool"
  CheckpointConfig_Transparent :: "bool"

definition CheckpointConfig_zero :: CheckpointConfig where
  "CheckpointConfig_zero =
    \<lparr>CheckpointConfig_Enabled = False,
     CheckpointConfig_IntervalSeconds = 0,
     CheckpointConfig_StoragePath = '''',
     CheckpointConfig_Incremental = False,
     CheckpointConfig_Transparent = False\<rparr>"

definition CheckpointConfig_Reset :: "CheckpointConfig \<Rightarrow> CheckpointConfig" where
  "CheckpointConfig_Reset x = CheckpointConfig_zero"

definition CheckpointConfig_GetEnabled :: "CheckpointConfig option \<Rightarrow> bool" where
  "CheckpointConfig_GetEnabled x = (case x of Some m \<Rightarrow> CheckpointConfig_Enabled m | None \<Rightarrow> False)"

definition CheckpointConfig_GetIntervalSeconds :: "CheckpointConfig option \<Rightarrow> int64" where
  "CheckpointConfig_GetIntervalSeconds x = (case x of Some m \<Rightarrow> CheckpointConfig_IntervalSeconds m | None \<Rightarrow> 0)"

definition CheckpointConfig_GetStoragePath :: "CheckpointConfig option \<Rightarrow> string" where
  "CheckpointConfig_GetStoragePath x = (case x of Some m \<Rightarrow> CheckpointConfig_StoragePath m | None \<Rightarrow> '''')"

definition CheckpointConfig_GetIncremental :: "CheckpointConfig option \<Rightarrow> bool" where
  "CheckpointConfig_GetIncremental x = (case x of Some m \<Rightarrow> CheckpointConfig_Incremental m | None \<Rightarrow> False)"

definition CheckpointConfig_GetTransparent :: "CheckpointConfig option \<Rightarrow> bool" where
  "CheckpointConfig_GetTransparent x = (case x of Some m \<Rightarrow> CheckpointConfig_Transparent m | None \<Rightarrow> False)"

record RetryPolicy =
  RetryPolicy_MaxRetries :: "int32"
  RetryPolicy_InitialBackoffMs :: "int64"
  RetryPolicy_MaxBackoffMs :: "int64"
  RetryPolicy_BackoffMultiplier :: "float64"
  RetryPolicy_RetryOnInfrastructureFailure :: "bool"
  RetryPolicy_RetryOnApplicationError :: "bool"

definition RetryPolicy_zero :: RetryPolicy where
  "RetryPolicy_zero =
    \<lparr>RetryPolicy_MaxRetries = 0,
     RetryPolicy_InitialBackoffMs = 0,
     RetryPolicy_MaxBackoffMs = 0,
     RetryPolicy_BackoffMultiplier = 0,
     RetryPolicy_RetryOnInfrastructureFailure = False,
     RetryPolicy_RetryOnApplicationError = False\<rparr>"

definition RetryPolicy_Reset :: "RetryPolicy \<Rightarrow> RetryPolicy" where
  "RetryPolicy_Reset x = RetryPolicy_zero"

definition RetryPolicy_GetMaxRetries :: "RetryPolicy option \<Rightarrow> int32" where
  "RetryPolicy_GetMaxRetries x = (case x of Some m \<Rightarrow> RetryPolicy_MaxRetries m | None \<Rightarrow> 0)"

definition RetryPolicy_GetInitialBackoffMs :: "RetryPolicy option \<Rightarrow> int64" where
  "RetryPolicy_GetInitialBackoffMs x = (case x of Some m \<Rightarrow> RetryPolicy_InitialBackoffMs m | None \<Rightarrow> 0)"

definition RetryPolicy_GetMaxBackoffMs :: "RetryPolicy option \<Rightarrow> int64" where
  "RetryPolicy_GetMaxBackoffMs x = (case x of Some m \<Rightarrow> RetryPolicy_MaxBackoffMs m | None \<Rightarrow> 0)"

definition RetryPolicy_GetBackoffMultiplier :: "RetryPolicy option \<Rightarrow> float64" where
  "RetryPolicy_GetBackoffMultiplier x = (case x of Some m \<Rightarrow> RetryPolicy_BackoffMultiplier m | None \<Rightarrow> 0)"

definition RetryPolicy_GetRetryOnInfrastructureFailure :: "RetryPolicy option \<Rightarrow> bool" where
  "RetryPolicy_GetRetryOnInfrastructureFailure x = (case x of Some m \<Rightarrow> RetryPolicy_RetryOnInfrastructureFailure m | None \<Rightarrow> False)"

definition RetryPolicy_GetRetryOnApplicationError :: "RetryPolicy option \<Rightarrow> bool" where
  "RetryPolicy_GetRetryOnApplicationError x = (case x of Some m \<Rightarrow> RetryPolicy_RetryOnApplicationError m | None \<Rightarrow> False)"

record SubmitJobRequest =
  SubmitJobRequest_Name :: "string"
  SubmitJobRequest_TenantId :: "string"
  SubmitJobRequest_ContainerImage :: "string"
  SubmitJobRequest_Command :: "string list"
  SubmitJobRequest_Env :: "(string \<times> string) list"
  SubmitJobRequest_Requirements :: "ResourceRequirements option"
  SubmitJobRequest_Type :: "JobType"
  SubmitJobRequest_Dag :: "DAGSpec option"
  SubmitJobRequest_Checkpoint :: "CheckpointConfig option"
  SubmitJobRequest_RetryPolicy :: "RetryPolicy option"

definition SubmitJobRequest_zero :: SubmitJobRequest where
  "SubmitJobRequest_zero =
    \<lparr>SubmitJobRequest_Name = '''',
     SubmitJobRequest_TenantId = '''',
     SubmitJobRequest_ContainerImage = '''',
     SubmitJobRequest_Command = [],
     SubmitJobRequest_Env = [],
     SubmitJobRequest_Requirements = None,
     SubmitJobRequest_Type = 0,
     SubmitJobRequest_Dag = None,
     SubmitJobRequest_Checkpoint = None,
     SubmitJobRequest_RetryPolicy = None\<rparr>"

definition SubmitJobRequest_Reset :: "SubmitJobRequest \<Rightarrow> SubmitJobRequest" where
  "SubmitJobRequest_Reset x = SubmitJobRequest_zero"

definition SubmitJobRequest_GetName :: "SubmitJobRequest option \<Rightarrow> string" where
  "SubmitJobRequest_GetName x = (case x of Some m \<Rightarrow> SubmitJobRequest_Name m | None \<Rightarrow> '''')"

definition SubmitJobRequest_GetTenantId :: "SubmitJobRequest option \<Rightarrow> string" where
  "SubmitJobRequest_GetTenantId x = (case x of Some m \<Rightarrow> SubmitJobRequest_TenantId m | None \<Rightarrow> '''')"

definition SubmitJobRequest_GetContainerImage :: "SubmitJobRequest option \<Rightarrow> string" where
  "SubmitJobRequest_GetContainerImage x = (case x of Some m \<Rightarrow> SubmitJobRequest_ContainerImage m | None \<Rightarrow> '''')"

definition SubmitJobRequest_GetCommand :: "SubmitJobRequest option \<Rightarrow> string list" where
  "SubmitJobRequest_GetCommand x = (case x of Some m \<Rightarrow> SubmitJobRequest_Command m | None \<Rightarrow> [])"

definition SubmitJobRequest_GetEnv :: "SubmitJobRequest option \<Rightarrow> (string \<times> string) list" where
  "SubmitJobRequest_GetEnv x = (case x of Some m \<Rightarrow> SubmitJobRequest_Env m | None \<Rightarrow> [])"

definition SubmitJobRequest_GetRequirements :: "SubmitJobRequest option \<Rightarrow> ResourceRequirements option" where
  "SubmitJobRequest_GetRequirements x = (case x of Some m \<Rightarrow> SubmitJobRequest_Requirements m | None \<Rightarrow> None)"

definition SubmitJobRequest_GetType :: "SubmitJobRequest option \<Rightarrow> JobType" where
  "SubmitJobRequest_GetType x = (case x of Some m \<Rightarrow> SubmitJobRequest_Type m | None \<Rightarrow> JobType_JOB_TYPE_UNKNOWN)"

definition SubmitJobRequest_GetDag :: "SubmitJobRequest option \<Rightarrow> DAGSpec option" where
  "SubmitJobRequest_GetDag x = (case x of Some m \<Rightarrow> SubmitJobRequest_Dag m | None \<Rightarrow> None)"

definition SubmitJobRequest_GetCheckpoint :: "SubmitJobRequest option \<Rightarrow> CheckpointConfig option" where
  "SubmitJobRequest_GetCheckpoint x = (case x of Some m \<Rightarrow> SubmitJobRequest_Checkpoint m | None \<Rightarrow> None)"

definition SubmitJobRequest_GetRetryPolicy :: "SubmitJobRequest option \<Rightarrow> RetryPolicy option" where
  "SubmitJobRequest_GetRetryPolicy x = (case x of Some m \<Rightarrow> SubmitJobRequest_RetryPolicy m | None \<Rightarrow> None)"

record SubmitJobResponse =
  SubmitJobResponse_Accepted :: "bool"
  SubmitJobResponse_JobId :: "string"
  SubmitJobResponse_Error :: "string"
  SubmitJobResponse_EstimatedWaitMs :: "int64"

definition SubmitJobResponse_zero :: SubmitJobResponse where
  "SubmitJobResponse_zero =
    \<lparr>SubmitJobResponse_Accepted = False,
     SubmitJobResponse_JobId = '''',
     SubmitJobResponse_Error = '''',
     SubmitJobResponse_EstimatedWaitMs = 0\<rparr>"

definition SubmitJobResponse_Reset :: "SubmitJobResponse \<Rightarrow> SubmitJobResponse" where
  "SubmitJobResponse_Reset x = SubmitJobResponse_zero"

definition SubmitJobResponse_GetAccepted :: "SubmitJobResponse option \<Rightarrow> bool" where
  "SubmitJobResponse_GetAccepted x = (case x of Some m \<Rightarrow> SubmitJobResponse_Accepted m | None \<Rightarrow> False)"

definition SubmitJobResponse_GetJobId :: "SubmitJobResponse option \<Rightarrow> string" where
  "SubmitJobResponse_GetJobId x = (case x of Some m \<Rightarrow> SubmitJobResponse_JobId m | None \<Rightarrow> '''')"

definition SubmitJobResponse_GetError :: "SubmitJobResponse option \<Rightarrow> string" where
  "SubmitJobResponse_GetError x = (case x of Some m \<Rightarrow> SubmitJobResponse_Error m | None \<Rightarrow> '''')"

definition SubmitJobResponse_GetEstimatedWaitMs :: "SubmitJobResponse option \<Rightarrow> int64" where
  "SubmitJobResponse_GetEstimatedWaitMs x = (case x of Some m \<Rightarrow> SubmitJobResponse_EstimatedWaitMs m | None \<Rightarrow> 0)"

record GetJobRequest =
  GetJobRequest_JobId :: "string"

definition GetJobRequest_zero :: GetJobRequest where
  "GetJobRequest_zero =
    \<lparr>GetJobRequest_JobId = ''''\<rparr>"

definition GetJobRequest_Reset :: "GetJobRequest \<Rightarrow> GetJobRequest" where
  "GetJobRequest_Reset x = GetJobRequest_zero"

definition GetJobRequest_GetJobId :: "GetJobRequest option \<Rightarrow> string" where
  "GetJobRequest_GetJobId x = (case x of Some m \<Rightarrow> GetJobRequest_JobId m | None \<Rightarrow> '''')"

record Task =
  Task_TaskId :: "string"
  Task_JobId :: "string"
  Task_NodeId :: "string"
  Task_State :: "TaskState"
  Task_ReplicaIndex :: "int32"
  Task_Utilization :: "ResourceUtilization option"
  Task_StartedAtNs :: "int64"
  Task_FinishedAtNs :: "int64"
  Task_ErrorMessage :: "string"
  Task_LogsUrl :: "string"

definition Task_zero :: Task where
  "Task_zero =
    \<lparr>Task_TaskId = '''',
     Task_JobId = '''',
     Task_NodeId = '''',
     Task_State = 0,
     Task_ReplicaIndex = 0,
     Task_Utilization = None,
     Task_StartedAtNs = 0,
     Task_FinishedAtNs = 0,
     Task_ErrorMessage = '''',
     Task_LogsUrl = ''''\<rparr>"

definition Task_Reset :: "Task \<Rightarrow> Task" where
  "Task_Reset x = Task_zero"

definition Task_GetTaskId :: "Task option \<Rightarrow> string" where
  "Task_GetTaskId x = (case x of Some m \<Rightarrow> Task_TaskId m | None \<Rightarrow> '''')"

definition Task_GetJobId :: "Task option \<Rightarrow> string" where
  "Task_GetJobId x = (case x of Some m \<Rightarrow> Task_JobId m | None \<Rightarrow> '''')"

definition Task_GetNodeId :: "Task option \<Rightarrow> string" where
  "Task_GetNodeId x = (case x of Some m \<Rightarrow> Task_NodeId m | None \<Rightarrow> '''')"

definition Task_GetState :: "Task option \<Rightarrow> TaskState" where
  "Task_GetState x = (case x of Some m \<Rightarrow> Task_State m | None \<Rightarrow> TaskState_TASK_STATE_UNKNOWN)"

definition Task_GetReplicaIndex :: "Task option \<Rightarrow> int32" where
  "Task_GetReplicaIndex x = (case x of Some m \<Rightarrow> Task_ReplicaIndex m | None \<Rightarrow> 0)"

definition Task_GetUtilization :: "Task option \<Rightarrow> ResourceUtilization option" where
  "Task_GetUtilization x = (case x of Some m \<Rightarrow> Task_Utilization m | None \<Rightarrow> None)"

definition Task_GetStartedAtNs :: "Task option \<Rightarrow> int64" where
  "Task_GetStartedAtNs x = (case x of Some m \<Rightarrow> Task_StartedAtNs m | None \<Rightarrow> 0)"

definition Task_GetFinishedAtNs :: "Task option \<Rightarrow> int64" where
  "Task_GetFinishedAtNs x = (case x of Some m \<Rightarrow> Task_FinishedAtNs m | None \<Rightarrow> 0)"

definition Task_GetErrorMessage :: "Task option \<Rightarrow> string" where
  "Task_GetErrorMessage x = (case x of Some m \<Rightarrow> Task_ErrorMessage m | None \<Rightarrow> '''')"

definition Task_GetLogsUrl :: "Task option \<Rightarrow> string" where
  "Task_GetLogsUrl x = (case x of Some m \<Rightarrow> Task_LogsUrl m | None \<Rightarrow> '''')"

record Job =
  Job_JobId :: "string"
  Job_Name :: "string"
  Job_TenantId :: "string"
  Job_State :: "JobState"
  Job_Type :: "JobType"
  Job_ContainerImage :: "string"
  Job_Requirements :: "ResourceRequirements option"
  Job_Tasks :: "Task option list"
  Job_CreatedAtNs :: "int64"
  Job_StartedAtNs :: "int64"
  Job_FinishedAtNs :: "int64"
  Job_ErrorMessage :: "string"
  Job_RetryCount :: "int32"
  Job_Checkpoint :: "CheckpointConfig option"

definition Job_zero :: Job where
  "Job_zero =
    \<lparr>Job_JobId = '''',
     Job_Name = '''',
     Job_TenantId = '''',
     Job_State = 0,
     Job_Type = 0,
     Job_ContainerImage = '''',
     Job_Requirements = None,
     Job_Tasks = [],
     Job_CreatedAtNs = 0,
     Job_StartedAtNs = 0,
     Job_FinishedAtNs = 0,
     Job_ErrorMessage = '''',
     Job_RetryCount = 0,
     Job_Checkpoint = None\<rparr>"

definition Job_Reset :: "Job \<Rightarrow> Job" where
  "Job_Reset x = Job_zero"

definition Job_GetJobId :: "Job option \<Rightarrow> string" where
  "Job_GetJobId x = (case x of Some m \<Rightarrow> Job_JobId m | None \<Rightarrow> '''')"

definition Job_GetName :: "Job option \<Rightarrow> string" where
  "Job_GetName x = (case x of Some m \<Rightarrow> Job_Name m | None \<Rightarrow> '''')"

definition Job_GetTenantId :: "Job option \<Rightarrow> string" where
  "Job_GetTenantId x = (case x of Some m \<Rightarrow> Job_TenantId m | None \<Rightarrow> '''')"

definition Job_GetState :: "Job option \<Rightarrow> JobState" where
  "Job_GetState x = (case x of Some m \<Rightarrow> Job_State m | None \<Rightarrow> JobState_JOB_STATE_UNKNOWN)"

definition Job_GetType :: "Job option \<Rightarrow> JobType" where
  "Job_GetType x = (case x of Some m \<Rightarrow> Job_Type m | None \<Rightarrow> JobType_JOB_TYPE_UNKNOWN)"

definition Job_GetContainerImage :: "Job option \<Rightarrow> string" where
  "Job_GetContainerImage x = (case x of Some m \<Rightarrow> Job_ContainerImage m | None \<Rightarrow> '''')"

definition Job_GetRequirements :: "Job option \<Rightarrow> ResourceRequirements option" where
  "Job_GetRequirements x = (case x of Some m \<Rightarrow> Job_Requirements m | None \<Rightarrow> None)"

definition Job_GetTasks :: "Job option \<Rightarrow> Task option list" where
  "Job_GetTasks x = (case x of Some m \<Rightarrow> Job_Tasks m | None \<Rightarrow> [])"

definition Job_GetCreatedAtNs :: "Job option \<Rightarrow> int64" where
  "Job_GetCreatedAtNs x = (case x of Some m \<Rightarrow> Job_CreatedAtNs m | None \<Rightarrow> 0)"

definition Job_GetStartedAtNs :: "Job option \<Rightarrow> int64" where
  "Job_GetStartedAtNs x = (case x of Some m \<Rightarrow> Job_StartedAtNs m | None \<Rightarrow> 0)"

definition Job_GetFinishedAtNs :: "Job option \<Rightarrow> int64" where
  "Job_GetFinishedAtNs x = (case x of Some m \<Rightarrow> Job_FinishedAtNs m | None \<Rightarrow> 0)"

definition Job_GetErrorMessage :: "Job option \<Rightarrow> string" where
  "Job_GetErrorMessage x = (case x of Some m \<Rightarrow> Job_ErrorMessage m | None \<Rightarrow> '''')"

definition Job_GetRetryCount :: "Job option \<Rightarrow> int32" where
  "Job_GetRetryCount x = (case x of Some m \<Rightarrow> Job_RetryCount m | None \<Rightarrow> 0)"

definition Job_GetCheckpoint :: "Job option \<Rightarrow> CheckpointConfig option" where
  "Job_GetCheckpoint x = (case x of Some m \<Rightarrow> Job_Checkpoint m | None \<Rightarrow> None)"

record GetJobResponse =
  GetJobResponse_Job :: "Job option"

definition GetJobResponse_zero :: GetJobResponse where
  "GetJobResponse_zero =
    \<lparr>GetJobResponse_Job = None\<rparr>"

definition GetJobResponse_Reset :: "GetJobResponse \<Rightarrow> GetJobResponse" where
  "GetJobResponse_Reset x = GetJobResponse_zero"

definition GetJobResponse_GetJob :: "GetJobResponse option \<Rightarrow> Job option" where
  "GetJobResponse_GetJob x = (case x of Some m \<Rightarrow> GetJobResponse_Job m | None \<Rightarrow> None)"

record ListJobsRequest =
  ListJobsRequest_TenantId :: "string"
  ListJobsRequest_States :: "JobState list"
  ListJobsRequest_PageSize :: "int32"
  ListJobsRequest_PageToken :: "string"

definition ListJobsRequest_zero :: ListJobsRequest where
  "ListJobsRequest_zero =
    \<lparr>ListJobsRequest_TenantId = '''',
     ListJobsRequest_States = [],
     ListJobsRequest_PageSize = 0,
     ListJobsRequest_PageToken = ''''\<rparr>"

definition ListJobsRequest_Reset :: "ListJobsRequest \<Rightarrow> ListJobsRequest" where
  "ListJobsRequest_Reset x = ListJobsRequest_zero"

definition ListJobsRequest_GetTenantId :: "ListJobsRequest option \<Rightarrow> string" where
  "ListJobsRequest_GetTenantId x = (case x of Some m \<Rightarrow> ListJobsRequest_TenantId m | None \<Rightarrow> '''')"

definition ListJobsRequest_GetStates :: "ListJobsRequest option \<Rightarrow> JobState list" where
  "ListJobsRequest_GetStates x = (case x of Some m \<Rightarrow> ListJobsRequest_States m | None \<Rightarrow> [])"

definition ListJobsRequest_GetPageSize :: "ListJobsRequest option \<Rightarrow> int32" where
  "ListJobsRequest_GetPageSize x = (case x of Some m \<Rightarrow> ListJobsRequest_PageSize m | None \<Rightarrow> 0)"

definition ListJobsRequest_GetPageToken :: "ListJobsRequest option \<Rightarrow> string" where
  "ListJobsRequest_GetPageToken x = (case x of Some m \<Rightarrow> ListJobsRequest_PageToken m | None \<Rightarrow> '''')"

record ListJobsResponse =
  ListJobsResponse_Jobs :: "Job option list"
  ListJobsResponse_NextPageToken :: "string"

definition ListJobsResponse_zero :: ListJobsResponse where
  "ListJobsResponse_zero =
    \<lparr>ListJobsResponse_Jobs = [],
     ListJobsResponse_NextPageToken = ''''\<rparr>"

definition ListJobsResponse_Reset :: "ListJobsResponse \<Rightarrow> ListJobsResponse" where
  "ListJobsResponse_Reset x = ListJobsResponse_zero"

definition ListJobsResponse_GetJobs :: "ListJobsResponse option \<Rightarrow> Job option list" where
  "ListJobsResponse_GetJobs x = (case x of Some m \<Rightarrow> ListJobsResponse_Jobs m | None \<Rightarrow> [])"

definition ListJobsResponse_GetNextPageToken :: "ListJobsResponse option \<Rightarrow> string" where
  "ListJobsResponse_GetNextPageToken x = (case x of Some m \<Rightarrow> ListJobsResponse_NextPageToken m | None \<Rightarrow> '''')"

record CancelJobRequest =
  CancelJobRequest_JobId :: "string"
  CancelJobRequest_Reason :: "string"

definition CancelJobRequest_zero :: CancelJobRequest where
  "CancelJobRequest_zero =
    \<lparr>CancelJobRequest_JobId = '''',
     CancelJobRequest_Reason = ''''\<rparr>"

definition CancelJobRequest_Reset :: "CancelJobRequest \<Rightarrow> CancelJobRequest" where
  "CancelJobRequest_Reset x = CancelJobRequest_zero"

definition CancelJobRequest_GetJobId :: "CancelJobRequest option \<Rightarrow> string" where
  "CancelJobRequest_GetJobId x = (case x of Some m \<Rightarrow> CancelJobRequest_JobId m | None \<Rightarrow> '''')"

definition CancelJobRequest_GetReason :: "CancelJobRequest option \<Rightarrow> string" where
  "CancelJobRequest_GetReason x = (case x of Some m \<Rightarrow> CancelJobRequest_Reason m | None \<Rightarrow> '''')"

record CancelJobResponse =
  CancelJobResponse_Success :: "bool"

definition CancelJobResponse_zero :: CancelJobResponse where
  "CancelJobResponse_zero =
    \<lparr>CancelJobResponse_Success = False\<rparr>"

definition CancelJobResponse_Reset :: "CancelJobResponse \<Rightarrow> CancelJobResponse" where
  "CancelJobResponse_Reset x = CancelJobResponse_zero"

definition CancelJobResponse_GetSuccess :: "CancelJobResponse option \<Rightarrow> bool" where
  "CancelJobResponse_GetSuccess x = (case x of Some m \<Rightarrow> CancelJobResponse_Success m | None \<Rightarrow> False)"

record StreamLogsRequest =
  StreamLogsRequest_JobId :: "string"
  StreamLogsRequest_TaskId :: "string"
  StreamLogsRequest_Follow :: "bool"
  StreamLogsRequest_TailLines :: "int64"

definition StreamLogsRequest_zero :: StreamLogsRequest where
  "StreamLogsRequest_zero =
    \<lparr>StreamLogsRequest_JobId = '''',
     StreamLogsRequest_TaskId = '''',
     StreamLogsRequest_Follow = False,
     StreamLogsRequest_TailLines = 0\<rparr>"

definition StreamLogsRequest_Reset :: "StreamLogsRequest \<Rightarrow> StreamLogsRequest" where
  "StreamLogsRequest_Reset x = StreamLogsRequest_zero"

definition StreamLogsRequest_GetJobId :: "StreamLogsRequest option \<Rightarrow> string" where
  "StreamLogsRequest_GetJobId x = (case x of Some m \<Rightarrow> StreamLogsRequest_JobId m | None \<Rightarrow> '''')"

definition StreamLogsRequest_GetTaskId :: "StreamLogsRequest option \<Rightarrow> string" where
  "StreamLogsRequest_GetTaskId x = (case x of Some m \<Rightarrow> StreamLogsRequest_TaskId m | None \<Rightarrow> '''')"

definition StreamLogsRequest_GetFollow :: "StreamLogsRequest option \<Rightarrow> bool" where
  "StreamLogsRequest_GetFollow x = (case x of Some m \<Rightarrow> StreamLogsRequest_Follow m | None \<Rightarrow> False)"

definition StreamLogsRequest_GetTailLines :: "StreamLogsRequest option \<Rightarrow> int64" where
  "StreamLogsRequest_GetTailLines x = (case x of Some m \<Rightarrow> StreamLogsRequest_TailLines m | None \<Rightarrow> 0)"

record LogEntry =
  LogEntry_TaskId :: "string"
  LogEntry_NodeId :: "string"
  LogEntry_TimestampNs :: "int64"
  LogEntry_Stream :: "string"
  LogEntry_Message :: "string"

definition LogEntry_zero :: LogEntry where
  "LogEntry_zero =
    \<lparr>LogEntry_TaskId = '''',
     LogEntry_NodeId = '''',
     LogEntry_TimestampNs = 0,
     LogEntry_Stream = '''',
     LogEntry_Message = ''''\<rparr>"

definition LogEntry_Reset :: "LogEntry \<Rightarrow> LogEntry" where
  "LogEntry_Reset x = LogEntry_zero"

definition LogEntry_GetTaskId :: "LogEntry option \<Rightarrow> string" where
  "LogEntry_GetTaskId x = (case x of Some m \<Rightarrow> LogEntry_TaskId m | None \<Rightarrow> '''')"

definition LogEntry_GetNodeId :: "LogEntry option \<Rightarrow> string" where
  "LogEntry_GetNodeId x = (case x of Some m \<Rightarrow> LogEntry_NodeId m | None \<Rightarrow> '''')"

definition LogEntry_GetTimestampNs :: "LogEntry option \<Rightarrow> int64" where
  "LogEntry_GetTimestampNs x = (case x of Some m \<Rightarrow> LogEntry_TimestampNs m | None \<Rightarrow> 0)"

definition LogEntry_GetStream :: "LogEntry option \<Rightarrow> string" where
  "LogEntry_GetStream x = (case x of Some m \<Rightarrow> LogEntry_Stream m | None \<Rightarrow> '''')"

definition LogEntry_GetMessage :: "LogEntry option \<Rightarrow> string" where
  "LogEntry_GetMessage x = (case x of Some m \<Rightarrow> LogEntry_Message m | None \<Rightarrow> '''')"

record GetJobMetricsRequest =
  GetJobMetricsRequest_JobId :: "string"
  GetJobMetricsRequest_StartTimeNs :: "int64"
  GetJobMetricsRequest_EndTimeNs :: "int64"

definition GetJobMetricsRequest_zero :: GetJobMetricsRequest where
  "GetJobMetricsRequest_zero =
    \<lparr>GetJobMetricsRequest_JobId = '''',
     GetJobMetricsRequest_StartTimeNs = 0,
     GetJobMetricsRequest_EndTimeNs = 0\<rparr>"

definition GetJobMetricsRequest_Reset :: "GetJobMetricsRequest \<Rightarrow> GetJobMetricsRequest" where
  "GetJobMetricsRequest_Reset x = GetJobMetricsRequest_zero"

definition GetJobMetricsRequest_GetJobId :: "GetJobMetricsRequest option \<Rightarrow> string" where
  "GetJobMetricsRequest_GetJobId x = (case x of Some m \<Rightarrow> GetJobMetricsRequest_JobId m | None \<Rightarrow> '''')"

definition GetJobMetricsRequest_GetStartTimeNs :: "GetJobMetricsRequest option \<Rightarrow> int64" where
  "GetJobMetricsRequest_GetStartTimeNs x = (case x of Some m \<Rightarrow> GetJobMetricsRequest_StartTimeNs m | None \<Rightarrow> 0)"

definition GetJobMetricsRequest_GetEndTimeNs :: "GetJobMetricsRequest option \<Rightarrow> int64" where
  "GetJobMetricsRequest_GetEndTimeNs x = (case x of Some m \<Rightarrow> GetJobMetricsRequest_EndTimeNs m | None \<Rightarrow> 0)"

record MetricPoint =
  MetricPoint_TimestampNs :: "int64"
  MetricPoint_Value :: "float64"

definition MetricPoint_zero :: MetricPoint where
  "MetricPoint_zero =
    \<lparr>MetricPoint_TimestampNs = 0,
     MetricPoint_Value = 0\<rparr>"

definition MetricPoint_Reset :: "MetricPoint \<Rightarrow> MetricPoint" where
  "MetricPoint_Reset x = MetricPoint_zero"

definition MetricPoint_GetTimestampNs :: "MetricPoint option \<Rightarrow> int64" where
  "MetricPoint_GetTimestampNs x = (case x of Some m \<Rightarrow> MetricPoint_TimestampNs m | None \<Rightarrow> 0)"

definition MetricPoint_GetValue :: "MetricPoint option \<Rightarrow> float64" where
  "MetricPoint_GetValue x = (case x of Some m \<Rightarrow> MetricPoint_Value m | None \<Rightarrow> 0)"

record MetricSeries =
  MetricSeries_Name :: "string"
  MetricSeries_TaskId :: "string"
  MetricSeries_Points :: "MetricPoint option list"

definition MetricSeries_zero :: MetricSeries where
  "MetricSeries_zero =
    \<lparr>MetricSeries_Name = '''',
     MetricSeries_TaskId = '''',
     MetricSeries_Points = []\<rparr>"

definition MetricSeries_Reset :: "MetricSeries \<Rightarrow> MetricSeries" where
  "MetricSeries_Reset x = MetricSeries_zero"

definition MetricSeries_GetName :: "MetricSeries option \<Rightarrow> string" where
  "MetricSeries_GetName x = (case x of Some m \<Rightarrow> MetricSeries_Name m | None \<Rightarrow> '''')"

definition MetricSeries_GetTaskId :: "MetricSeries option \<Rightarrow> string" where
  "MetricSeries_GetTaskId x = (case x of Some m \<Rightarrow> MetricSeries_TaskId m | None \<Rightarrow> '''')"

definition MetricSeries_GetPoints :: "MetricSeries option \<Rightarrow> MetricPoint option list" where
  "MetricSeries_GetPoints x = (case x of Some m \<Rightarrow> MetricSeries_Points m | None \<Rightarrow> [])"

record GetJobMetricsResponse =
  GetJobMetricsResponse_JobId :: "string"
  GetJobMetricsResponse_Series :: "MetricSeries option list"

definition GetJobMetricsResponse_zero :: GetJobMetricsResponse where
  "GetJobMetricsResponse_zero =
    \<lparr>GetJobMetricsResponse_JobId = '''',
     GetJobMetricsResponse_Series = []\<rparr>"

definition GetJobMetricsResponse_Reset :: "GetJobMetricsResponse \<Rightarrow> GetJobMetricsResponse" where
  "GetJobMetricsResponse_Reset x = GetJobMetricsResponse_zero"

definition GetJobMetricsResponse_GetJobId :: "GetJobMetricsResponse option \<Rightarrow> string" where
  "GetJobMetricsResponse_GetJobId x = (case x of Some m \<Rightarrow> GetJobMetricsResponse_JobId m | None \<Rightarrow> '''')"

definition GetJobMetricsResponse_GetSeries :: "GetJobMetricsResponse option \<Rightarrow> MetricSeries option list" where
  "GetJobMetricsResponse_GetSeries x = (case x of Some m \<Rightarrow> GetJobMetricsResponse_Series m | None \<Rightarrow> [])"

subsection \<open>Enum tables and nil-safe getters\<close>

interpretation JobType: enum_tables JobType_name JobType_value
  by unfold_locales (simp_all add: JobType_name_def JobType_value_def)

interpretation JobState: enum_tables JobState_name JobState_value
  by unfold_locales (simp_all add: JobState_name_def JobState_value_def)

text \<open>Every getter answers on a nil message what it answers on a reset one.\<close>

lemma DAGTask_nil_safe [proto_getter]:
  "DAGTask_GetTaskId None = DAGTask_GetTaskId (Some (DAGTask_Reset m))"
  "DAGTask_GetName None = DAGTask_GetName (Some (DAGTask_Reset m))"
  "DAGTask_GetContainerImage None = DAGTask_GetContainerImage (Some (DAGTask_Reset m))"
  "DAGTask_GetCommand None = DAGTask_GetCommand (Some (DAGTask_Reset m))"
  "DAGTask_GetRequirements None = DAGTask_GetRequirements (Some (DAGTask_Reset m))"
  by (simp_all add: DAGTask_Reset_def DAGTask_zero_def
      DAGTask_GetTaskId_def
      DAGTask_GetName_def
      DAGTask_GetContainerImage_def
      DAGTask_GetCommand_def
      DAGTask_GetRequirements_def)

lemma DAGEdge_nil_safe [proto_getter]:
  "DAGEdge_GetFromTask None = DAGEdge_GetFromTask (Some (DAGEdge_Reset m))"
  "DAGEdge_GetToTask None = DAGEdge_GetToTask (Some (DAGEdge_Reset m))"
  by (simp_all add: DAGEdge_Reset_def DAGEdge_zero_def
      DAGEdge_GetFromTask_def
      DAGEdge_GetToTask_def)

lemma DAGSpec_nil_safe [proto_getter]:
  "DAGSpec_GetTasks None = DAGSpec_GetTasks (Some (DAGSpec_Reset m))"
  "DAGSpec_GetEdges None = DAGSpec_GetEdges (Some (DAGSpec_Reset m))"
  by (simp_all add: DAGSpec_Reset_def DAGSpec_zero_def
      DAGSpec_GetTasks_def
      DAGSpec_GetEdges_def)

lemma CheckpointConfig_nil_safe [proto_getter]:
  "CheckpointConfig_GetEnabled None = CheckpointConfig_GetEnabled (Some (CheckpointConfig_Reset m))"
  "CheckpointConfig_GetIntervalSeconds None = CheckpointConfig_GetIntervalSeconds (Some (CheckpointConfig_Reset m))"
  "CheckpointConfig_GetStoragePath None = CheckpointConfig_GetStoragePath (Some (CheckpointConfig_Reset m))"
  "CheckpointConfig_GetIncremental None = CheckpointConfig_GetIncremental (Some (CheckpointConfig_Reset m))"
  "CheckpointConfig_GetTransparent None = CheckpointConfig_GetTransparent (Some (CheckpointConfig_Reset m))"
  by (simp_all add: CheckpointConfig_Reset_def CheckpointConfig_zero_def
      CheckpointConfig_GetEnabled_def
      CheckpointConfig_GetIntervalSeconds_def
      CheckpointConfig_GetStoragePath_def
      CheckpointConfig_GetIncremental_def
      CheckpointConfig_GetTransparent_def)

lemma RetryPolicy_nil_safe [proto_getter]:
  "RetryPolicy_GetMaxRetries None = RetryPolicy_GetMaxRetries (Some (RetryPolicy_Reset m))"
  "RetryPolicy_GetInitialBackoffMs None = RetryPolicy_GetInitialBackoffMs (Some (RetryPolicy_Reset m))"
  "RetryPolicy_GetMaxBackoffMs None = RetryPolicy_GetMaxBackoffMs (Some (RetryPolicy_Reset m))"
  "RetryPolicy_GetBackoffMultiplier None = RetryPolicy_GetBackoffMultiplier (Some (RetryPolicy_Reset m))"
  "RetryPolicy_GetRetryOnInfrastructureFailure None = RetryPolicy_GetRetryOnInfrastructureFailure (Some (RetryPolicy_Reset m))"
  "RetryPolicy_GetRetryOnApplicationError None = RetryPolicy_GetRetryOnApplicationError (Some (RetryPolicy_Reset m))"
  by (simp_all add: RetryPolicy_Reset_def RetryPolicy_zero_def
      RetryPolicy_GetMaxRetries_def
      RetryPolicy_GetInitialBackoffMs_def
      RetryPolicy_GetMaxBackoffMs_def
      RetryPolicy_GetBackoffMultiplier_def
      RetryPolicy_GetRetryOnInfrastructureFailure_def
      RetryPolicy_GetRetryOnApplicationError_def)

lemma SubmitJobRequest_nil_safe [proto_getter]:
  "SubmitJobRequest_GetName None = SubmitJobRequest_GetName (Some (SubmitJobRequest_Reset m))"
  "SubmitJobRequest_GetTenantId None = SubmitJobRequest_GetTenantId (Some (SubmitJobRequest_Reset m))"
  "SubmitJobRequest_GetContainerImage None = SubmitJobRequest_GetContainerImage (Some (SubmitJobRequest_Reset m))"
  "SubmitJobRequest_GetCommand None = SubmitJobRequest_GetCommand (Some (SubmitJobRequest_Reset m))"
  "SubmitJobRequest_GetEnv None = SubmitJobRequest_GetEnv (Some (SubmitJobRequest_Reset m))"
  "SubmitJobRequest_GetRequirements None = SubmitJobRequest_GetRequirements (Some (SubmitJobRequest_Reset m))"
  "SubmitJobRequest_GetType None = SubmitJobRequest_GetType (Some (SubmitJobRequest_Reset m))"
  "SubmitJobRequest_GetDag None = SubmitJobRequest_GetDag (Some (SubmitJobRequest_Reset m))"
  "SubmitJobRequest_GetCheckpoint None = SubmitJobRequest_GetCheckpoint (Some (SubmitJobRequest_Reset m))"
  "SubmitJobRequest_GetRetryPolicy None = SubmitJobRequest_GetRetryPolicy (Some (SubmitJobRequest_Reset m))"
  by (simp_all add: SubmitJobRequest_Reset_def SubmitJobRequest_zero_def
      SubmitJobRequest_GetName_def
      SubmitJobRequest_GetTenantId_def
      SubmitJobRequest_GetContainerImage_def
      SubmitJobRequest_GetCommand_def
      SubmitJobRequest_GetEnv_def
      SubmitJobRequest_GetRequirements_def
      SubmitJobRequest_GetType_def
      SubmitJobRequest_GetDag_def
      SubmitJobRequest_GetCheckpoint_def
      SubmitJobRequest_GetRetryPolicy_def
      JobType_JOB_TYPE_UNKNOWN_def)

lemma SubmitJobResponse_nil_safe [proto_getter]:
  "SubmitJobResponse_GetAccepted None = SubmitJobResponse_GetAccepted (Some (SubmitJobResponse_Reset m))"
  "SubmitJobResponse_GetJobId None = SubmitJobResponse_GetJobId (Some (SubmitJobResponse_Reset m))"
  "SubmitJobResponse_GetError None = SubmitJobResponse_GetError (Some (SubmitJobResponse_Reset m))"
  "SubmitJobResponse_GetEstimatedWaitMs None = SubmitJobResponse_GetEstimatedWaitMs (Some (SubmitJobResponse_Reset m))"
  by (simp_all add: SubmitJobResponse_Reset_def SubmitJobResponse_zero_def
      SubmitJobResponse_GetAccepted_def
      SubmitJobResponse_GetJobId_def
      SubmitJobResponse_GetError_def
      SubmitJobResponse_GetEstimatedWaitMs_def)

lemma GetJobRequest_nil_safe [proto_getter]:
  "GetJobRequest_GetJobId None = GetJobRequest_GetJobId (Some (GetJobRequest_Reset m))"
  by (simp_all add: GetJobRequest_Reset_def GetJobRequest_zero_def
      GetJobRequest_GetJobId_def)

lemma Task_nil_safe [proto_getter]:
  "Task_GetTaskId None = Task_GetTaskId (Some (Task_Reset m))"
  "Task_GetJobId None = Task_GetJobId (Some (Task_Reset m))"
  "Task_GetNodeId None = Task_GetNodeId (Some (Task_Reset m))"
  "Task_GetState None = Task_GetState (Some (Task_Reset m))"
  "Task_GetReplicaIndex None = Task_GetReplicaIndex (Some (Task_Reset m))"
  "Task_GetUtilization None = Task_GetUtilization (Some (Task_Reset m))"
  "Task_GetStartedAtNs None = Task_GetStartedAtNs (Some (Task_Reset m))"
  "Task_GetFinishedAtNs None = Task_GetFinishedAtNs (Some (Task_Reset m))"
  "Task_GetErrorMessage None = Task_GetErrorMessage (Some (Task_Reset m))"
  "Task_GetLogsUrl None = Task_GetLogsUrl (Some (Task_Reset m))"
  by (simp_all add: Task_Reset_def Task_zero_def
      Task_GetTaskId_def
      Task_GetJobId_def
      Task_GetNodeId_def
      Task_GetState_def
      Task_GetReplicaIndex_def
      Task_GetUtilization_def
      Task_GetStartedAtNs_def
      Task_GetFinishedAtNs_def
      Task_GetErrorMessage_def
      Task_GetLogsUrl_def
      TaskState_TASK_STATE_UNKNOWN_def)

lemma Job_nil_safe [proto_getter]:
  "Job_GetJobId None = Job_GetJobId (Some (Job_Reset m))"
  "Job_GetName None = Job_GetName (Some (Job_Reset m))"
  "Job_GetTenantId None = Job_GetTenantId (Some (Job_Reset m))"
  "Job_GetState None = Job_GetState (Some (Job_Reset m))"
  "Job_GetType None = Job_GetType (Some (Job_Reset m))"
  "Job_GetContainerImage None = Job_GetContainerImage (Some (Job_Reset m))"
  "Job_GetRequirements None = Job_GetRequirements (Some (Job_Reset m))"
  "Job_GetTasks None = Job_GetTasks (Some (Job_Reset m))"
  "Job_GetCreatedAtNs None = Job_GetCreatedAtNs (Some (Job_Reset m))"
  "Job_GetStartedAtNs None = Job_GetStartedAtNs (Some (Job_Reset m))"
  "Job_GetFinishedAtNs None = Job_GetFinishedAtNs (Some (Job_Reset m))"
  "Job_GetErrorMessage None = Job_GetErrorMessage (Some (Job_Reset m))"
  "Job_GetRetryCount None = Job_GetRetryCount (Some (Job_Reset m))"
  "Job_GetCheckpoint None = Job_GetCheckpoint (Some (Job_Reset m))"
  by (simp_all add: Job_Reset_def Job_zero_def
      Job_GetJobId_def
      Job_GetName_def
      Job_GetTenantId_def
      Job_GetState_def
      Job_GetType_def
      Job_GetContainerImage_def
      Job_GetRequirements_def
      Job_GetTasks_def
      Job_GetCreatedAtNs_def
      Job_GetStartedAtNs_def
      Job_GetFinishedAtNs_def
      Job_GetErrorMessage_def
      Job_GetRetryCount_def
      Job_GetCheckpoint_def
      JobState_JOB_STATE_UNKNOWN_def
      JobType_JOB_TYPE_UNKNOWN_def)

lemma GetJobResponse_nil_safe [proto_getter]:
  "GetJobResponse_GetJob None = GetJobResponse_GetJob (Some (GetJobResponse_Reset m))"
  by (simp_all add: GetJobResponse_Reset_def GetJobResponse_zero_def
      GetJobResponse_GetJob_def)

lemma ListJobsRequest_nil_safe [proto_getter]:
  "ListJobsRequest_GetTenantId None = ListJobsRequest_GetTenantId (Some (ListJobsRequest_Reset m))"
  "ListJobsRequest_GetStates None = ListJobsRequest_GetStates (Some (ListJobsRequest_Reset m))"
  "ListJobsRequest_GetPageSize None = ListJobsRequest_GetPageSize (Some (ListJobsRequest_Reset m))"
  "ListJobsRequest_GetPageToken None = ListJobsRequest_GetPageToken (Some (ListJobsRequest_Reset m))"
  by (simp_all add: ListJobsRequest_Reset_def ListJobsRequest_zero_def
      ListJobsRequest_GetTenantId_def
      ListJobsRequest_GetStates_def
      ListJobsRequest_GetPageSize_def
      ListJobsRequest_GetPageToken_def)

lemma ListJobsResponse_nil_safe [proto_getter]:
  "ListJobsResponse_GetJobs None = ListJobsResponse_GetJobs (Some (ListJobsResponse_Reset m))"
  "ListJobsResponse_GetNextPageToken None = ListJobsResponse_GetNextPageToken (Some (ListJobsResponse_Reset m))"
  by (simp_all add: ListJobsResponse_Reset_def ListJobsResponse_zero_def
      ListJobsResponse_GetJobs_def
      ListJobsResponse_GetNextPageToken_def)

lemma CancelJobRequest_nil_safe [proto_getter]:
  "CancelJobRequest_GetJobId None = CancelJobRequest_GetJobId (Some (CancelJobRequest_Reset m))"
  "CancelJobRequest_GetReason None = CancelJobRequest_GetReason (Some (CancelJobRequest_Reset m))"
  by (simp_all add: CancelJobRequest_Reset_def CancelJobRequest_zero_def
      CancelJobRequest_GetJobId_def
      CancelJobRequest_GetReason_def)

lemma CancelJobResponse_nil_safe [proto_getter]:
  "CancelJobResponse_GetSuccess None = CancelJobResponse_GetSuccess (Some (CancelJobResponse_Reset m))"
  by (simp_all add: CancelJobResponse_Reset_def CancelJobResponse_zero_def
      CancelJobResponse_GetSuccess_def)

lemma StreamLogsRequest_nil_safe [proto_getter]:
  "StreamLogsRequest_GetJobId None = StreamLogsRequest_GetJobId (Some (StreamLogsRequest_Reset m))"
  "StreamLogsRequest_GetTaskId None = StreamLogsRequest_GetTaskId (Some (StreamLogsRequest_Reset m))"
  "StreamLogsRequest_GetFollow None = StreamLogsRequest_GetFollow (Some (StreamLogsRequest_Reset m))"
  "StreamLogsRequest_GetTailLines None = StreamLogsRequest_GetTailLines (Some (StreamLogsRequest_Reset m))"
  by (simp_all add: StreamLogsRequest_Reset_def StreamLogsRequest_zero_def
      StreamLogsRequest_GetJobId_def
      StreamLogsRequest_GetTaskId_def
      StreamLogsRequest_GetFollow_def
      StreamLogsRequest_GetTailLines_def)

lemma LogEntry_nil_safe [proto_getter]:
  "LogEntry_GetTaskId None = LogEntry_GetTaskId (Some (LogEntry_Reset m))"
  "LogEntry_GetNodeId None = LogEntry_GetNodeId (Some (LogEntry_Reset m))"
  "LogEntry_GetTimestampNs None = LogEntry_GetTimestampNs (Some (LogEntry_Reset m))"
  "LogEntry_GetStream None = LogEntry_GetStream (Some (LogEntry_Reset m))"
  "LogEntry_GetMessage None = LogEntry_GetMessage (Some (LogEntry_Reset m))"
  by (simp_all add: LogEntry_Reset_def LogEntry_zero_def
      LogEntry_GetTaskId_def
      LogEntry_GetNodeId_def
      LogEntry_GetTimestampNs_def
      LogEntry_GetStream_def
      LogEntry_GetMessage_def)

lemma GetJobMetricsRequest_nil_safe [proto_getter]:
  "GetJobMetricsRequest_GetJobId None = GetJobMetricsRequest_GetJobId (Some (GetJobMetricsRequest_Reset m))"
  "GetJobMetricsRequest_GetStartTimeNs None = GetJobMetricsRequest_GetStartTimeNs (Some (GetJobMetricsRequest_Reset m))"
  "GetJobMetricsRequest_GetEndTimeNs None = GetJobMetricsRequest_GetEndTimeNs (Some (GetJobMetricsRequest_Reset m))"
  by (simp_all add: GetJobMetricsRequest_Reset_def GetJobMetricsRequest_zero_def
      GetJobMetricsRequest_GetJobId_def
      GetJobMetricsRequest_GetStartTimeNs_def
      GetJobMetricsRequest_GetEndTimeNs_def)

lemma MetricPoint_nil_safe [proto_getter]:
  "MetricPoint_GetTimestampNs None = MetricPoint_GetTimestampNs (Some (MetricPoint_Reset m))"
  "MetricPoint_GetValue None = MetricPoint_GetValue (Some (MetricPoint_Reset m))"
  by (simp_all add: MetricPoint_Reset_def MetricPoint_zero_def
      MetricPoint_GetTimestampNs_def
      MetricPoint_GetValue_def)

lemma MetricSeries_nil_safe [proto_getter]:
  "MetricSeries_GetName None = MetricSeries_GetName (Some (MetricSeries_Reset m))"
  "MetricSeries_GetTaskId None = MetricSeries_GetTaskId (Some (MetricSeries_Reset m))"
  "MetricSeries_GetPoints None = MetricSeries_GetPoints (Some (MetricSeries_Reset m))"
  by (simp_all add: MetricSeries_Reset_def MetricSeries_zero_def
      MetricSeries_GetName_def
      MetricSeries_GetTaskId_def
      MetricSeries_GetPoints_def)

lemma GetJobMetricsResponse_nil_safe [proto_getter]:
  "GetJobMetricsResponse_GetJobId None = GetJobMetricsResponse_GetJobId (Some (GetJobMetricsResponse_Reset m))"
  "GetJobMetricsResponse_GetSeries None = GetJobMetricsResponse_GetSeries (Some (GetJobMetricsResponse_Reset m))"
  by (simp_all add: GetJobMetricsResponse_Reset_def GetJobMetricsResponse_zero_def
      GetJobMetricsResponse_GetJobId_def
      GetJobMetricsResponse_GetSeries_def)

end
