(* ===== verification/Proto_Storage.thy ===== *)
theory Proto_Storage
  imports Prelude
begin

text \<open>
  The message types of \<^verbatim>\<open>gen/compute/v1/storage.pb.go\<close>: one record per message with the fields of
  the Go struct (its protobuf bookkeeping fields \<open>state\<close>, \<open>unknownFields\<close> and \<open>sizeCache\<close> belong
  to the runtime and are left out), the zero message written by \<open>Reset\<close>, and the nil-safe getters.
  A pointer is an \<open>option\<close> (\<open>None\<close> is nil), a slice a list, a Go map an association list, an
  enum its 32-bit number.
\<close>

subsection \<open>Enums\<close>

type_synonym ReplicationPolicy_Mode = int32

definition ReplicationPolicy_SYNCHRONOUS :: ReplicationPolicy_Mode where
  "ReplicationPolicy_SYNCHRONOUS = 0"

definition ReplicationPolicy_ASYNCHRONOUS :: ReplicationPolicy_Mode where
  "ReplicationPolicy_ASYNCHRONOUS = 1"

definition ReplicationPolicy_ERASURE_CODED :: ReplicationPolicy_Mode where
  "ReplicationPolicy_ERASURE_CODED = 2"

definition ReplicationPolicy_Mode_name :: "(int32 \<times> string) list" where
  "ReplicationPolicy_Mode_name =
    [(0, ''SYNCHRONOUS''),
     (1, ''ASYNCHRONOUS''),
     (2, ''ERASURE_CODED'')]"

definition ReplicationPolicy_Mode_value :: "(string \<times> int32) list" where
  "ReplicationPolicy_Mode_value =
    [(''SYNCHRONOUS'', 0),
     (''ASYNCHRONOUS'', 1),
     (''ERASURE_CODED'', 2)]"

subsection \<open>Messages\<close>

record ReplicationPolicy =
  ReplicationPolicy_Mode :: "ReplicationPolicy_Mode"
  ReplicationPolicy_ReplicationFactor :: "int32"

definition ReplicationPolicy_zero :: ReplicationPolicy where
  "ReplicationPolicy_zero =
    \<lparr>ReplicationPolicy_Mode = 0,
     ReplicationPolicy_ReplicationFactor = 0\<rparr>"

definition ReplicationPolicy_Reset :: "ReplicationPolicy \<Rightarrow> ReplicationPolicy" where
  "ReplicationPolicy_Reset x = ReplicationPolicy_zero"

definition ReplicationPolicy_GetMode :: "ReplicationPolicy option \<Rightarrow> ReplicationPolicy_Mode" where
  "ReplicationPolicy_GetMode x = (case x of Some m \<Rightarrow> ReplicationPolicy_Mode m | None \<Rightarrow> ReplicationPolicy_SYNCHRONOUS)"

definition ReplicationPolicy_GetReplicationFactor :: "ReplicationPolicy option \<Rightarrow> int32" where
  "ReplicationPolicy_GetReplicationFactor x = (case x of Some m \<Rightarrow> ReplicationPolicy_ReplicationFactor m | None \<Rightarrow> 0)"

record CreateDatasetRequest =
  CreateDatasetRequest_Name :: "string"
  CreateDatasetRequest_SizeBytes :: "uint64"
  CreateDatasetRequest_Replication :: "ReplicationPolicy option"
  CreateDatasetRequest_TenantId :: "string"

definition CreateDatasetRequest_zero :: CreateDatasetRequest where
  "CreateDatasetRequest_zero =
    \<lparr>CreateDatasetRequest_Name = '''',
     CreateDatasetRequest_SizeBytes = 0,
     CreateDatasetRequest_Replication = None,
     CreateDatasetRequest_TenantId = ''''\<rparr>"

definition CreateDatasetRequest_Reset :: "CreateDatasetRequest \<Rightarrow> CreateDatasetRequest" where
  "CreateDatasetRequest_Reset x = CreateDatasetRequest_zero"

definition CreateDatasetRequest_GetName :: "CreateDatasetRequest option \<Rightarrow> string" where
  "CreateDatasetRequest_GetName x = (case x of Some m \<Rightarrow> CreateDatasetRequest_Name m | None \<Rightarrow> '''')"

definition CreateDatasetRequest_GetSizeBytes :: "CreateDatasetRequest option \<Rightarrow> uint64" where
  "CreateDatasetRequest_GetSizeBytes x = (case x of Some m \<Rightarrow> CreateDatasetRequest_SizeBytes m | None \<Rightarrow> 0)"

definition CreateDatasetRequest_GetReplication :: "CreateDatasetRequest option \<Rightarrow> ReplicationPolicy option" where
  "CreateDatasetRequest_GetReplication x = (case x of Some m \<Rightarrow> CreateDatasetRequest_Replication m | None \<Rightarrow> None)"

definition CreateDatasetRequest_GetTenantId :: "CreateDatasetRequest option \<Rightarrow> string" where
  "CreateDatasetRequest_GetTenantId x = (case x of Some m \<Rightarrow> CreateDatasetRequest_TenantId m | None \<Rightarrow> '''')"

record CreateDatasetResponse =
  CreateDatasetResponse_Success :: "bool"
  CreateDatasetResponse_DatasetId :: "string"
  CreateDatasetResponse_Error :: "string"

definition CreateDatasetResponse_zero :: CreateDatasetResponse where
  "CreateDatasetResponse_zero =
    \<lparr>CreateDatasetResponse_Success = False,
     CreateDatasetResponse_DatasetId = '''',
     CreateDatasetResponse_Error = ''''\<rparr>"

definition CreateDatasetResponse_Reset :: "CreateDatasetResponse \<Rightarrow> CreateDatasetResponse" where
  "CreateDatasetResponse_Reset x = CreateDatasetResponse_zero"

definition CreateDatasetResponse_GetSuccess :: "CreateDatasetResponse option \<Rightarrow> bool" where
  "CreateDatasetResponse_GetSuccess x = (case x of Some m \<Rightarrow> CreateDatasetResponse_Success m | None \<Rightarrow> False)"

definition CreateDatasetResponse_GetDatasetId :: "CreateDatasetResponse option \<Rightarrow> string" where
  "CreateDatasetResponse_GetDatasetId x = (case x of Some m \<Rightarrow> CreateDatasetResponse_DatasetId m | None \<Rightarrow> '''')"

definition CreateDatasetResponse_GetError :: "CreateDatasetResponse option \<Rightarrow> string" where
  "CreateDatasetResponse_GetError x = (case x of Some m \<Rightarrow> CreateDatasetResponse_Error m | None \<Rightarrow> '''')"

record ListDatasetsRequest =
  ListDatasetsRequest_TenantId :: "string"

definition ListDatasetsRequest_zero :: ListDatasetsRequest where
  "ListDatasetsRequest_zero =
    \<lparr>ListDatasetsRequest_TenantId = ''''\<rparr>"

definition ListDatasetsRequest_Reset :: "ListDatasetsRequest \<Rightarrow> ListDatasetsRequest" where
  "ListDatasetsRequest_Reset x = ListDatasetsRequest_zero"

definition ListDatasetsRequest_GetTenantId :: "ListDatasetsRequest option \<Rightarrow> string" where
  "ListDatasetsRequest_GetTenantId x = (case x of Some m \<Rightarrow> ListDatasetsRequest_TenantId m | None \<Rightarrow> '''')"

record DatasetInfo =
  DatasetInfo_DatasetId :: "string"
  DatasetInfo_Name :: "string"
  DatasetInfo_SizeBytes :: "uint64"
  DatasetInfo_Replication :: "ReplicationPolicy option"
  DatasetInfo_Nodes :: "string list"

definition DatasetInfo_zero :: DatasetInfo where
  "DatasetInfo_zero =
    \<lparr>DatasetInfo_DatasetId = '''',
     DatasetInfo_Name = '''',
     DatasetInfo_SizeBytes = 0,
     DatasetInfo_Replication = None,
     DatasetInfo_Nodes = []\<rparr>"

definition DatasetInfo_Reset :: "DatasetInfo \<Rightarrow> DatasetInfo" where
  "DatasetInfo_Reset x = DatasetInfo_zero"

definition DatasetInfo_GetDatasetId :: "DatasetInfo option \<Rightarrow> string" where
  "DatasetInfo_GetDatasetId x = (case x of Some m \<Rightarrow> DatasetInfo_DatasetId m | None \<Rightarrow> '''')"

definition DatasetInfo_GetName :: "DatasetInfo option \<Rightarrow> string" where
  "DatasetInfo_GetName x = (case x of Some m \<Rightarrow> DatasetInfo_Name m | None \<Rightarrow> '''')"

definition DatasetInfo_GetSizeBytes :: "DatasetInfo option \<Rightarrow> uint64" where
  "DatasetInfo_GetSizeBytes x = (case x of Some m \<Rightarrow> DatasetInfo_SizeBytes m | None \<Rightarrow> 0)"

definition DatasetInfo_GetReplication :: "DatasetInfo option \<Rightarrow> ReplicationPolicy option" where
  "DatasetInfo_GetReplication x = (case x of Some m \<Rightarrow> DatasetInfo_Replication m | None \<Rightarrow> None)"

definition DatasetInfo_GetNodes :: "DatasetInfo option \<Rightarrow> string list" where
  "DatasetInfo_GetNodes x = (case x of Some m \<Rightarrow> DatasetInfo_Nodes m | None \<Rightarrow> [])"

record ListDatasetsResponse =
  ListDatasetsResponse_Datasets :: "DatasetInfo option list"

definition ListDatasetsResponse_zero :: ListDatasetsResponse where
  "ListDatasetsResponse_zero =
    \<lparr>ListDatasetsResponse_Datasets = []\<rparr>"

definition ListDatasetsResponse_Reset :: "ListDatasetsResponse \<Rightarrow> ListDatasetsResponse" where
  "ListDatasetsResponse_Reset x = ListDatasetsResponse_zero"

definition ListDatasetsResponse_GetDatasets :: "ListDatasetsResponse option \<Rightarrow> DatasetInfo option list" where
  "ListDatasetsResponse_GetDatasets x = (case x of Some m \<Rightarrow> ListDatasetsResponse_Datasets m | None \<Rightarrow> [])"

record GetDatasetStatusRequest =
  GetDatasetStatusRequest_DatasetId :: "string"

definition GetDatasetStatusRequest_zero :: GetDatasetStatusRequest where
  "GetDatasetStatusRequest_zero =
    \<lparr>GetDatasetStatusRequest_DatasetId = ''''\<rparr>"

definition GetDatasetStatusRequest_Reset :: "GetDatasetStatusRequest \<Rightarrow> GetDatasetStatusRequest" where
  "GetDatasetStatusRequest_Reset x = GetDatasetStatusRequest_zero"

definition GetDatasetStatusRequest_GetDatasetId :: "GetDatasetStatusRequest option \<Rightarrow> string" where
  "GetDatasetStatusRequest_GetDatasetId x = (case x of Some m \<Rightarrow> GetDatasetStatusRequest_DatasetId m | None \<Rightarrow> '''')"

record GetDatasetStatusResponse =
  GetDatasetStatusResponse_Info :: "DatasetInfo option"
  GetDatasetStatusResponse_ReadIops :: "int64"
  GetDatasetStatusResponse_WriteIops :: "int64"
  GetDatasetStatusResponse_CurrentTier :: "string"

definition GetDatasetStatusResponse_zero :: GetDatasetStatusResponse where
  "GetDatasetStatusResponse_zero =
    \<lparr>GetDatasetStatusResponse_Info = None,
     GetDatasetStatusResponse_ReadIops = 0,
     GetDatasetStatusResponse_WriteIops = 0,
     GetDatasetStatusResponse_CurrentTier = ''''\<rparr>"

definition GetDatasetStatusResponse_Reset :: "GetDatasetStatusResponse \<Rightarrow> GetDatasetStatusResponse" where
  "GetDatasetStatusResponse_Reset x = GetDatasetStatusResponse_zero"

definition GetDatasetStatusResponse_GetInfo :: "GetDatasetStatusResponse option \<Rightarrow> DatasetInfo option" where
  "GetDatasetStatusResponse_GetInfo x = (case x of Some m \<Rightarrow> GetDatasetStatusResponse_Info m | None \<Rightarrow> None)"

definition GetDatasetStatusResponse_GetReadIops :: "GetDatasetStatusResponse option \<Rightarrow> int64" where
  "GetDatasetStatusResponse_GetReadIops x = (case x of Some m \<Rightarrow> GetDatasetStatusResponse_ReadIops m | None \<Rightarrow> 0)"

definition GetDatasetStatusResponse_GetWriteIops :: "GetDatasetStatusResponse option \<Rightarrow> int64" where
  "GetDatasetStatusResponse_GetWriteIops x = (case x of Some m \<Rightarrow> GetDatasetStatusResponse_WriteIops m | None \<Rightarrow> 0)"

definition GetDatasetStatusResponse_GetCurrentTier :: "GetDatasetStatusResponse option \<Rightarrow> string" where
  "GetDatasetStatusResponse_GetCurrentTier x = (case x of Some m \<Rightarrow> GetDatasetStatusResponse_CurrentTier m | None \<Rightarrow> '''')"

subsection \<open>Enum tables and nil-safe getters\<close>

interpretation ReplicationPolicy_Mode: enum_tables ReplicationPolicy_Mode_name ReplicationPolicy_Mode_value
  by unfold_locales (simp_all add: ReplicationPolicy_Mode_name_def ReplicationPolicy_Mode_value_def)

text \<open>Every getter answers on a nil message what it answers on a reset one.\<close>

lemma ReplicationPolicy_nil_safe [proto_getter]:
  "ReplicationPolicy_GetMode None = ReplicationPolicy_GetMode (Some (ReplicationPolicy_Reset m))"
  "ReplicationPolicy_GetReplicationFactor None = ReplicationPolicy_GetReplicationFactor (Some (ReplicationPolicy_Reset m))"
  by (simp_all add: ReplicationPolicy_Reset_def ReplicationPolicy_zero_def
      ReplicationPolicy_GetMode_def
      ReplicationPolicy_GetReplicationFactor_def
      ReplicationPolicy_SYNCHRONOUS_def)

lemma CreateDatasetRequest_nil_safe [proto_getter]:
  "CreateDatasetRequest_GetName None = CreateDatasetRequest_GetName (Some (CreateDatasetRequest_Reset m))"
  "CreateDatasetRequest_GetSizeBytes None = CreateDatasetRequest_GetSizeBytes (Some (CreateDatasetRequest_Reset m))"
  "CreateDatasetRequest_GetReplication None = CreateDatasetRequest_GetReplication (Some (CreateDatasetRequest_Reset m))"
  "CreateDatasetRequest_GetTenantId None = CreateDatasetRequest_GetTenantId (Some (CreateDatasetRequest_Reset m))"
  by (simp_all add: CreateDatasetRequest_Reset_def CreateDatasetRequest_zero_def
      CreateDatasetRequest_GetName_def
      CreateDatasetRequest_GetSizeBytes_def
      CreateDatasetRequest_GetReplication_def
      CreateDatasetRequest_GetTenantId_def)

lemma CreateDatasetResponse_nil_safe [proto_getter]:
  "CreateDatasetResponse_GetSuccess None = CreateDatasetResponse_GetSuccess (Some (CreateDatasetResponse_Reset m))"
  "CreateDatasetResponse_GetDatasetId None = CreateDatasetResponse_GetDatasetId (Some (CreateDatasetResponse_Reset m))"
  "CreateDatasetResponse_GetError None = CreateDatasetResponse_GetError (Some (CreateDatasetResponse_Reset m))"
  by (simp_all add: CreateDatasetResponse_Reset_def CreateDatasetResponse_zero_def
      CreateDatasetResponse_GetSuccess_def
      CreateDatasetResponse_GetDatasetId_def
      CreateDatasetResponse_GetError_def)

lemma ListDatasetsRequest_nil_safe [proto_getter]:
  "ListDatasetsRequest_GetTenantId None = ListDatasetsRequest_GetTenantId (Some (ListDatasetsRequest_Reset m))"
  by (simp_all add: ListDatasetsRequest_Reset_def ListDatasetsRequest_zero_def
      ListDatasetsRequest_GetTenantId_def)

lemma DatasetInfo_nil_safe [proto_getter]:
  "DatasetInfo_GetDatasetId None = DatasetInfo_GetDatasetId (Some (DatasetInfo_Reset m))"
  "DatasetInfo_GetName None = DatasetInfo_GetName (Some (DatasetInfo_Reset m))"
  "DatasetInfo_GetSizeBytes None = DatasetInfo_GetSizeBytes (Some (DatasetInfo_Reset m))"
  "DatasetInfo_GetReplication None = DatasetInfo_GetReplication (Some (DatasetInfo_Reset m))"
  "DatasetInfo_GetNodes None = DatasetInfo_GetNodes (Some (DatasetInfo_Reset m))"
  by (simp_all add: DatasetInfo_Reset_def DatasetInfo_zero_def
      DatasetInfo_GetDatasetId_def
      DatasetInfo_GetName_def
      DatasetInfo_GetSizeBytes_def
      DatasetInfo_GetReplication_def
      DatasetInfo_GetNodes_def)

lemma ListDatasetsResponse_nil_safe [proto_getter]:
  "ListDatasetsResponse_GetDatasets None = ListDatasetsResponse_GetDatasets (Some (ListDatasetsResponse_Reset m))"
  by (simp_all add: ListDatasetsResponse_Reset_def ListDatasetsResponse_zero_def
      ListDatasetsResponse_GetDatasets_def)

lemma GetDatasetStatusRequest_nil_safe [proto_getter]:
  "GetDatasetStatusRequest_GetDatasetId None = GetDatasetStatusRequest_GetDatasetId (Some (GetDatasetStatusRequest_Reset m))"
  by (simp_all add: GetDatasetStatusRequest_Reset_def GetDatasetStatusRequest_zero_def
      GetDatasetStatusRequest_GetDatasetId_def)

lemma GetDatasetStatusResponse_nil_safe [proto_getter]:
  "GetDatasetStatusResponse_GetInfo None = GetDatasetStatusResponse_GetInfo (Some (GetDatasetStatusResponse_Reset m))"
  "GetDatasetStatusResponse_GetReadIops None = GetDatasetStatusResponse_GetReadIops (Some (GetDatasetStatusResponse_Reset m))"
  "GetDatasetStatusResponse_GetWriteIops None = GetDatasetStatusResponse_GetWriteIops (Some (GetDatasetStatusResponse_Reset m))"
  "GetDatasetStatusResponse_GetCurrentTier None = GetDatasetStatusResponse_GetCurrentTier (Some (GetDatasetStatusResponse_Reset m))"
  by (simp_all add: GetDatasetStatusResponse_Reset_def GetDatasetStatusResponse_zero_def
      GetDatasetStatusResponse_GetInfo_def
      GetDatasetStatusResponse_GetReadIops_def
      GetDatasetStatusResponse_GetWriteIops_def
      GetDatasetStatusResponse_GetCurrentTier_def)

end
