(* ===== verification/Proto_Memory.thy ===== *)
theory Proto_Memory
  imports Proto_Agent
begin

text \<open>
  The message types of \<^verbatim>\<open>gen/compute/v1/memory.pb.go\<close>: one record per message with the fields of
  the Go struct (its protobuf bookkeeping fields \<open>state\<close>, \<open>unknownFields\<close> and \<open>sizeCache\<close> belong
  to the runtime and are left out), the zero message written by \<open>Reset\<close>, and the nil-safe getters.
  A pointer is an \<open>option\<close> (\<open>None\<close> is nil), a slice a list, a Go map an association list, an
  enum its 32-bit number.
\<close>

subsection \<open>Messages\<close>

record DistributedAllocRequest =
  DistributedAllocRequest_SizeBytes :: "uint64"
  DistributedAllocRequest_Consistency :: "ConsistencyMode_Mode"
  DistributedAllocRequest_UseHugepages :: "bool"
  DistributedAllocRequest_ReplicationFactor :: "int32"
  DistributedAllocRequest_TenantId :: "string"

definition DistributedAllocRequest_zero :: DistributedAllocRequest where
  "DistributedAllocRequest_zero =
    \<lparr>DistributedAllocRequest_SizeBytes = 0,
     DistributedAllocRequest_Consistency = 0,
     DistributedAllocRequest_UseHugepages = False,
     DistributedAllocRequest_ReplicationFactor = 0,
     DistributedAllocRequest_TenantId = ''''\<rparr>"

definition DistributedAllocRequest_Reset :: "DistributedAllocRequest \<Rightarrow> DistributedAllocRequest" where
  "DistributedAllocRequest_Reset x = DistributedAllocRequest_zero"

definition DistributedAllocRequest_GetSizeBytes :: "DistributedAllocRequest option \<Rightarrow> uint64" where
  "DistributedAllocRequest_GetSizeBytes x = (case x of Some m \<Rightarrow> DistributedAllocRequest_SizeBytes m | None \<Rightarrow> 0)"

definition DistributedAllocRequest_GetConsistency :: "DistributedAllocRequest option \<Rightarrow> ConsistencyMode_Mode" where
  "DistributedAllocRequest_GetConsistency x = (case x of Some m \<Rightarrow> DistributedAllocRequest_Consistency m | None \<Rightarrow> ConsistencyMode_STRICT)"

definition DistributedAllocRequest_GetUseHugepages :: "DistributedAllocRequest option \<Rightarrow> bool" where
  "DistributedAllocRequest_GetUseHugepages x = (case x of Some m \<Rightarrow> DistributedAllocRequest_UseHugepages m | None \<Rightarrow> False)"

definition DistributedAllocRequest_GetReplicationFactor :: "DistributedAllocRequest option \<Rightarrow> int32" where
  "DistributedAllocRequest_GetReplicationFactor x = (case x of Some m \<Rightarrow> DistributedAllocRequest_ReplicationFactor m | None \<Rightarrow> 0)"

definition DistributedAllocRequest_GetTenantId :: "DistributedAllocRequest option \<Rightarrow> string" where
  "DistributedAllocRequest_GetTenantId x = (case x of Some m \<Rightarrow> DistributedAllocRequest_TenantId m | None \<Rightarrow> '''')"

record DistributedAllocResponse =
  DistributedAllocResponse_Success :: "bool"
  DistributedAllocResponse_AllocationId :: "string"
  DistributedAllocResponse_Handles :: "MemoryHandle option list"
  DistributedAllocResponse_Error :: "string"

definition DistributedAllocResponse_zero :: DistributedAllocResponse where
  "DistributedAllocResponse_zero =
    \<lparr>DistributedAllocResponse_Success = False,
     DistributedAllocResponse_AllocationId = '''',
     DistributedAllocResponse_Handles = [],
     DistributedAllocResponse_Error = ''''\<rparr>"

definition DistributedAllocResponse_Reset :: "DistributedAllocResponse \<Rightarrow> DistributedAllocResponse" where
  "DistributedAllocResponse_Reset x = DistributedAllocResponse_zero"

definition DistributedAllocResponse_GetSuccess :: "DistributedAllocResponse option \<Rightarrow> bool" where
  "DistributedAllocResponse_GetSuccess x = (case x of Some m \<Rightarrow> DistributedAllocResponse_Success m | None \<Rightarrow> False)"

definition DistributedAllocResponse_GetAllocationId :: "DistributedAllocResponse option \<Rightarrow> string" where
  "DistributedAllocResponse_GetAllocationId x = (case x of Some m \<Rightarrow> DistributedAllocResponse_AllocationId m | None \<Rightarrow> '''')"

definition DistributedAllocResponse_GetHandles :: "DistributedAllocResponse option \<Rightarrow> MemoryHandle option list" where
  "DistributedAllocResponse_GetHandles x = (case x of Some m \<Rightarrow> DistributedAllocResponse_Handles m | None \<Rightarrow> [])"

definition DistributedAllocResponse_GetError :: "DistributedAllocResponse option \<Rightarrow> string" where
  "DistributedAllocResponse_GetError x = (case x of Some m \<Rightarrow> DistributedAllocResponse_Error m | None \<Rightarrow> '''')"

record MigrateRegionRequest =
  MigrateRegionRequest_AllocationId :: "string"
  MigrateRegionRequest_TargetNodeId :: "string"
  MigrateRegionRequest_TargetTier :: "string"

definition MigrateRegionRequest_zero :: MigrateRegionRequest where
  "MigrateRegionRequest_zero =
    \<lparr>MigrateRegionRequest_AllocationId = '''',
     MigrateRegionRequest_TargetNodeId = '''',
     MigrateRegionRequest_TargetTier = ''''\<rparr>"

definition MigrateRegionRequest_Reset :: "MigrateRegionRequest \<Rightarrow> MigrateRegionRequest" where
  "MigrateRegionRequest_Reset x = MigrateRegionRequest_zero"

definition MigrateRegionRequest_GetAllocationId :: "MigrateRegionRequest option \<Rightarrow> string" where
  "MigrateRegionRequest_GetAllocationId x = (case x of Some m \<Rightarrow> MigrateRegionRequest_AllocationId m | None \<Rightarrow> '''')"

definition MigrateRegionRequest_GetTargetNodeId :: "MigrateRegionRequest option \<Rightarrow> string" where
  "MigrateRegionRequest_GetTargetNodeId x = (case x of Some m \<Rightarrow> MigrateRegionRequest_TargetNodeId m | None \<Rightarrow> '''')"

definition MigrateRegionRequest_GetTargetTier :: "MigrateRegionRequest option \<Rightarrow> string" where
  "MigrateRegionRequest_GetTargetTier x = (case x of Some m \<Rightarrow> MigrateRegionRequest_TargetTier m | None \<Rightarrow> '''')"

record MigrateRegionResponse =
  MigrateRegionResponse_Success :: "bool"
  MigrateRegionResponse_Error :: "string"

definition MigrateRegionResponse_zero :: MigrateRegionResponse where
  "MigrateRegionResponse_zero =
    \<lparr>MigrateRegionResponse_Success = False,
     MigrateRegionResponse_Error = ''''\<rparr>"

definition MigrateRegionResponse_Reset :: "MigrateRegionResponse \<Rightarrow> MigrateRegionResponse" where
  "MigrateRegionResponse_Reset x = MigrateRegionResponse_zero"

definition MigrateRegionResponse_GetSuccess :: "MigrateRegionResponse option \<Rightarrow> bool" where
  "MigrateRegionResponse_GetSuccess x = (case x of Some m \<Rightarrow> MigrateRegionResponse_Success m | None \<Rightarrow> False)"

definition MigrateRegionResponse_GetError :: "MigrateRegionResponse option \<Rightarrow> string" where
  "MigrateRegionResponse_GetError x = (case x of Some m \<Rightarrow> MigrateRegionResponse_Error m | None \<Rightarrow> '''')"

record GetRegionRequest =
  GetRegionRequest_AllocationId :: "string"

definition GetRegionRequest_zero :: GetRegionRequest where
  "GetRegionRequest_zero =
    \<lparr>GetRegionRequest_AllocationId = ''''\<rparr>"

definition GetRegionRequest_Reset :: "GetRegionRequest \<Rightarrow> GetRegionRequest" where
  "GetRegionRequest_Reset x = GetRegionRequest_zero"

definition GetRegionRequest_GetAllocationId :: "GetRegionRequest option \<Rightarrow> string" where
  "GetRegionRequest_GetAllocationId x = (case x of Some m \<Rightarrow> GetRegionRequest_AllocationId m | None \<Rightarrow> '''')"

record GetRegionResponse =
  GetRegionResponse_AllocationId :: "string"
  GetRegionResponse_SizeBytes :: "uint64"
  GetRegionResponse_Consistency :: "ConsistencyMode_Mode"
  GetRegionResponse_Handles :: "MemoryHandle option list"
  GetRegionResponse_AccessCount :: "int64"
  GetRegionResponse_CurrentTier :: "string"

definition GetRegionResponse_zero :: GetRegionResponse where
  "GetRegionResponse_zero =
    \<lparr>GetRegionResponse_AllocationId = '''',
     GetRegionResponse_SizeBytes = 0,
     GetRegionResponse_Consistency = 0,
     GetRegionResponse_Handles = [],
     GetRegionResponse_AccessCount = 0,
     GetRegionResponse_CurrentTier = ''''\<rparr>"

definition GetRegionResponse_Reset :: "GetRegionResponse \<Rightarrow> GetRegionResponse" where
  "GetRegionResponse_Reset x = GetRegionResponse_zero"

definition GetRegionResponse_GetAllocationId :: "GetRegionResponse option \<Rightarrow> string" where
  "GetRegionResponse_GetAllocationId x = (case x of Some m \<Rightarrow> GetRegionResponse_AllocationId m | None \<Rightarrow> '''')"

definition GetRegionResponse_GetSizeBytes :: "GetRegionResponse option \<Rightarrow> uint64" where
  "GetRegionResponse_GetSizeBytes x = (case x of Some m \<Rightarrow> GetRegionResponse_SizeBytes m | None \<Rightarrow> 0)"

definition GetRegionResponse_GetConsistency :: "GetRegionResponse option \<Rightarrow> ConsistencyMode_Mode" where
  "GetRegionResponse_GetConsistency x = (case x of Some m \<Rightarrow> GetRegionResponse_Consistency m | None \<Rightarrow> ConsistencyMode_STRICT)"

definition GetRegionResponse_GetHandles :: "GetRegionResponse option \<Rightarrow> MemoryHandle option list" where
  "GetRegionResponse_GetHandles x = (case x of Some m \<Rightarrow> GetRegionResponse_Handles m | None \<Rightarrow> [])"

definition GetRegionResponse_GetAccessCount :: "GetRegionResponse option \<Rightarrow> int64" where
  "GetRegionResponse_GetAccessCount x = (case x of Some m \<Rightarrow> GetRegionResponse_AccessCount m | None \<Rightarrow> 0)"

definition GetRegionResponse_GetCurrentTier :: "GetRegionResponse option \<Rightarrow> string" where
  "GetRegionResponse_GetCurrentTier x = (case x of Some m \<Rightarrow> GetRegionResponse_CurrentTier m | None \<Rightarrow> '''')"

subsection \<open>Enum tables and nil-safe getters\<close>

text \<open>Every getter answers on a nil message what it answers on a reset one.\<close>

lemma DistributedAllocRequest_nil_safe [proto_getter]:
  "DistributedAllocRequest_GetSizeBytes None = DistributedAllocRequest_GetSizeBytes (Some (DistributedAllocRequest_Reset m))"
  "DistributedAllocRequest_GetConsistency None = DistributedAllocRequest_GetConsistency (Some (DistributedAllocRequest_Reset m))"
  "DistributedAllocRequest_GetUseHugepages None = DistributedAllocRequest_GetUseHugepages (Some (DistributedAllocRequest_Reset m))"
  "DistributedAllocRequest_GetReplicationFactor None = DistributedAllocRequest_GetReplicationFactor (Some (DistributedAllocRequest_Reset m))"
  "DistributedAllocRequest_GetTenantId None = DistributedAllocRequest_GetTenantId (Some (DistributedAllocRequest_Reset m))"
  by (simp_all add: DistributedAllocRequest_Reset_def DistributedAllocRequest_zero_def
      DistributedAllocRequest_GetSizeBytes_def
      DistributedAllocRequest_GetConsistency_def
      DistributedAllocRequest_GetUseHugepages_def
      DistributedAllocRequest_GetReplicationFactor_def
      DistributedAllocRequest_GetTenantId_def
      ConsistencyMode_STRICT_def)

lemma DistributedAllocResponse_nil_safe [proto_getter]:
  "DistributedAllocResponse_GetSuccess None = DistributedAllocResponse_GetSuccess (Some (DistributedAllocResponse_Reset m))"
  "DistributedAllocResponse_GetAllocationId None = DistributedAllocResponse_GetAllocationId (Some (DistributedAllocResponse_Reset m))"
  "DistributedAllocResponse_GetHandles None = DistributedAllocResponse_GetHandles (Some (DistributedAllocResponse_Reset m))"
  "DistributedAllocResponse_GetError None = DistributedAllocResponse_GetError (Some (DistributedAllocResponse_Reset m))"
  by (simp_all add: DistributedAllocResponse_Reset_def DistributedAllocResponse_zero_def
      DistributedAllocResponse_GetSuccess_def
      DistributedAllocResponse_GetAllocationId_def
      DistributedAllocResponse_GetHandles_def
      DistributedAllocResponse_GetError_def)

lemma MigrateRegionRequest_nil_safe [proto_getter]:
  "MigrateRegionRequest_GetAllocationId None = MigrateRegionRequest_GetAllocationId (Some (MigrateRegionRequest_Reset m))"
  "MigrateRegionRequest_GetTargetNodeId None = MigrateRegionRequest_GetTargetNodeId (Some (MigrateRegionRequest_Reset m))"
  "MigrateRegionRequest_GetTargetTier None = MigrateRegionRequest_GetTargetTier (Some (MigrateRegionRequest_Reset m))"
  by (simp_all add: MigrateRegionRequest_Reset_def MigrateRegionRequest_zero_def
      MigrateRegionRequest_GetAllocationId_def
      MigrateRegionRequest_GetTargetNodeId_def
      MigrateRegionRequest_GetTargetTier_def)

lemma MigrateRegionResponse_nil_safe [proto_getter]:
  "MigrateRegionResponse_GetSuccess None = MigrateRegionResponse_GetSuccess (Some (MigrateRegionResponse_Reset m))"
  "MigrateRegionResponse_GetError None = MigrateRegionResponse_GetError (Some (MigrateRegionResponse_Reset m))"
  by (simp_all add: MigrateRegionResponse_Reset_def MigrateRegionResponse_zero_def
      MigrateRegionResponse_GetSuccess_def
      MigrateRegionResponse_GetError_def)

lemma GetRegionRequest_nil_safe [proto_getter]:
  "GetRegionRequest_GetAllocationId None = GetRegionRequest_GetAllocationId (Some (GetRegionRequest_Reset m))"
  by (simp_all add: GetRegionRequest_Reset_def GetRegionRequest_zero_def
      GetRegionRequest_GetAllocationId_def)

lemma GetRegionResponse_nil_safe [proto_getter]:
  "GetRegionResponse_GetAllocationId None = GetRegionResponse_GetAllocationId (Some (GetRegionResponse_Reset m))"
  "GetRegionResponse_GetSizeBytes None = GetRegionResponse_GetSizeBytes (Some (GetRegionResponse_Reset m))"
  "GetRegionResponse_GetConsistency None = GetRegionResponse_GetConsistency (Some (GetRegionResponse_Reset m))"
  "GetRegionResponse_GetHandles None = GetRegionResponse_GetHandles (Some (GetRegionResponse_Reset m))"
  "GetRegionResponse_GetAccessCount None = GetRegionResponse_GetAccessCount (Some (GetRegionResponse_Reset m))"
  "GetRegionResponse_GetCurrentTier None = GetRegionResponse_GetCurrentTier (Some (GetRegionResponse_Reset m))"
  by (simp_all add: GetRegionResponse_Reset_def GetRegionResponse_zero_def
      GetRegionResponse_GetAllocationId_def
      GetRegionResponse_GetSizeBytes_def
      GetRegionResponse_GetConsistency_def
      GetRegionResponse_GetHandles_def
      GetRegionResponse_GetAccessCount_def
      GetRegionResponse_GetCurrentTier_def
      ConsistencyMode_STRICT_def)

end
