(* ===== verification/Proto_Control.thy ===== *)
theory Proto_Control
  imports Prelude
begin

text \<open>
  The message types of \<^verbatim>\<open>gen/compute/v1/control.pb.go\<close>: one record per message with the fields of
  the Go struct (its protobuf bookkeeping fields \<open>state\<close>, \<open>unknownFields\<close> and \<open>sizeCache\<close> belong
  to the runtime and are left out), the zero message written by \<open>Reset\<close>, and the nil-safe getters.
  A pointer is an \<open>option\<close> (\<open>None\<close> is nil), a slice a list, a Go map an association list, an
  enum its 32-bit number.
\<close>

subsection \<open>Messages\<close>

datatype GetClusterStateRequest = GetClusterStateRequest_empty

definition GetClusterStateRequest_zero :: GetClusterStateRequest where
  "GetClusterStateRequest_zero =
    GetClusterStateRequest_empty"

definition GetClusterStateRequest_Reset :: "GetClusterStateRequest \<Rightarrow> GetClusterStateRequest" where
  "GetClusterStateRequest_Reset x = GetClusterStateRequest_zero"

record ClusterResourceSummary =
  ClusterResourceSummary_NodeCount :: "int32"
  ClusterResourceSummary_TotalCpuCores :: "int32"
  ClusterResourceSummary_TotalRamBytes :: "uint64"
  ClusterResourceSummary_TotalGpuCount :: "int32"
  ClusterResourceSummary_TotalVramBytes :: "uint64"
  ClusterResourceSummary_OnlineNodeCount :: "int32"

definition ClusterResourceSummary_zero :: ClusterResourceSummary where
  "ClusterResourceSummary_zero =
    \<lparr>ClusterResourceSummary_NodeCount = 0,
     ClusterResourceSummary_TotalCpuCores = 0,
     ClusterResourceSummary_TotalRamBytes = 0,
     ClusterResourceSummary_TotalGpuCount = 0,
     ClusterResourceSummary_TotalVramBytes = 0,
     ClusterResourceSummary_OnlineNodeCount = 0\<rparr>"

definition ClusterResourceSummary_Reset :: "ClusterResourceSummary \<Rightarrow> ClusterResourceSummary" where
  "ClusterResourceSummary_Reset x = ClusterResourceSummary_zero"

definition ClusterResourceSummary_GetNodeCount :: "ClusterResourceSummary option \<Rightarrow> int32" where
  "ClusterResourceSummary_GetNodeCount x = (case x of Some m \<Rightarrow> ClusterResourceSummary_NodeCount m | None \<Rightarrow> 0)"

definition ClusterResourceSummary_GetTotalCpuCores :: "ClusterResourceSummary option \<Rightarrow> int32" where
  "ClusterResourceSummary_GetTotalCpuCores x = (case x of Some m \<Rightarrow> ClusterResourceSummary_TotalCpuCores m | None \<Rightarrow> 0)"

definition ClusterResourceSummary_GetTotalRamBytes :: "ClusterResourceSummary option \<Rightarrow> uint64" where
  "ClusterResourceSummary_GetTotalRamBytes x = (case x of Some m \<Rightarrow> ClusterResourceSummary_TotalRamBytes m | None \<Rightarrow> 0)"

definition ClusterResourceSummary_GetTotalGpuCount :: "ClusterResourceSummary option \<Rightarrow> int32" where
  "ClusterResourceSummary_GetTotalGpuCount x = (case x of Some m \<Rightarrow> ClusterResourceSummary_TotalGpuCount m | None \<Rightarrow> 0)"

definition ClusterResourceSummary_GetTotalVramBytes :: "ClusterResourceSummary option \<Rightarrow> uint64" where
  "ClusterResourceSummary_GetTotalVramBytes x = (case x of Some m \<Rightarrow> ClusterResourceSummary_TotalVramBytes m | None \<Rightarrow> 0)"

definition ClusterResourceSummary_GetOnlineNodeCount :: "ClusterResourceSummary option \<Rightarrow> int32" where
  "ClusterResourceSummary_GetOnlineNodeCount x = (case x of Some m \<Rightarrow> ClusterResourceSummary_OnlineNodeCount m | None \<Rightarrow> 0)"

record GetClusterStateResponse =
  GetClusterStateResponse_LeaderId :: "string"
  GetClusterStateResponse_MemberIds :: "string list"
  GetClusterStateResponse_Resources :: "ClusterResourceSummary option"

definition GetClusterStateResponse_zero :: GetClusterStateResponse where
  "GetClusterStateResponse_zero =
    \<lparr>GetClusterStateResponse_LeaderId = '''',
     GetClusterStateResponse_MemberIds = [],
     GetClusterStateResponse_Resources = None\<rparr>"

definition GetClusterStateResponse_Reset :: "GetClusterStateResponse \<Rightarrow> GetClusterStateResponse" where
  "GetClusterStateResponse_Reset x = GetClusterStateResponse_zero"

definition GetClusterStateResponse_GetLeaderId :: "GetClusterStateResponse option \<Rightarrow> string" where
  "GetClusterStateResponse_GetLeaderId x = (case x of Some m \<Rightarrow> GetClusterStateResponse_LeaderId m | None \<Rightarrow> '''')"

definition GetClusterStateResponse_GetMemberIds :: "GetClusterStateResponse option \<Rightarrow> string list" where
  "GetClusterStateResponse_GetMemberIds x = (case x of Some m \<Rightarrow> GetClusterStateResponse_MemberIds m | None \<Rightarrow> [])"

definition GetClusterStateResponse_GetResources :: "GetClusterStateResponse option \<Rightarrow> ClusterResourceSummary option" where
  "GetClusterStateResponse_GetResources x = (case x of Some m \<Rightarrow> GetClusterStateResponse_Resources m | None \<Rightarrow> None)"

record JoinClusterRequest =
  JoinClusterRequest_NodeId :: "string"
  JoinClusterRequest_RaftAddress :: "string"

definition JoinClusterRequest_zero :: JoinClusterRequest where
  "JoinClusterRequest_zero =
    \<lparr>JoinClusterRequest_NodeId = '''',
     JoinClusterRequest_RaftAddress = ''''\<rparr>"

definition JoinClusterRequest_Reset :: "JoinClusterRequest \<Rightarrow> JoinClusterRequest" where
  "JoinClusterRequest_Reset x = JoinClusterRequest_zero"

definition JoinClusterRequest_GetNodeId :: "JoinClusterRequest option \<Rightarrow> string" where
  "JoinClusterRequest_GetNodeId x = (case x of Some m \<Rightarrow> JoinClusterRequest_NodeId m | None \<Rightarrow> '''')"

definition JoinClusterRequest_GetRaftAddress :: "JoinClusterRequest option \<Rightarrow> string" where
  "JoinClusterRequest_GetRaftAddress x = (case x of Some m \<Rightarrow> JoinClusterRequest_RaftAddress m | None \<Rightarrow> '''')"

record JoinClusterResponse =
  JoinClusterResponse_Accepted :: "bool"
  JoinClusterResponse_LeaderAddress :: "string"

definition JoinClusterResponse_zero :: JoinClusterResponse where
  "JoinClusterResponse_zero =
    \<lparr>JoinClusterResponse_Accepted = False,
     JoinClusterResponse_LeaderAddress = ''''\<rparr>"

definition JoinClusterResponse_Reset :: "JoinClusterResponse \<Rightarrow> JoinClusterResponse" where
  "JoinClusterResponse_Reset x = JoinClusterResponse_zero"

definition JoinClusterResponse_GetAccepted :: "JoinClusterResponse option \<Rightarrow> bool" where
  "JoinClusterResponse_GetAccepted x = (case x of Some m \<Rightarrow> JoinClusterResponse_Accepted m | None \<Rightarrow> False)"

definition JoinClusterResponse_GetLeaderAddress :: "JoinClusterResponse option \<Rightarrow> string" where
  "JoinClusterResponse_GetLeaderAddress x = (case x of Some m \<Rightarrow> JoinClusterResponse_LeaderAddress m | None \<Rightarrow> '''')"

subsection \<open>Enum tables and nil-safe getters\<close>

text \<open>Every getter answers on a nil message what it answers on a reset one.\<close>

lemma ClusterResourceSummary_nil_safe [proto_getter]:
  "ClusterResourceSummary_GetNodeCount None = ClusterResourceSummary_GetNodeCount (Some (ClusterResourceSummary_Reset m))"
  "ClusterResourceSummary_GetTotalCpuCores None = ClusterResourceSummary_GetTotalCpuCores (Some (ClusterResourceSummary_Reset m))"
  "ClusterResourceSummary_GetTotalRamBytes None = ClusterResourceSummary_GetTotalRamBytes (Some (ClusterResourceSummary_Reset m))"
  "ClusterResourceSummary_GetTotalGpuCount None = ClusterResourceSummary_GetTotalGpuCount (Some (ClusterResourceSummary_Reset m))"
  "ClusterResourceSummary_GetTotalVramBytes None = ClusterResourceSummary_GetTotalVramBytes (Some (ClusterResourceSummary_Reset m))"
  "ClusterResourceSummary_GetOnlineNodeCount None = ClusterResourceSummary_GetOnlineNodeCount (Some (ClusterResourceSummary_Reset m))"
  by (simp_all add: ClusterResourceSummary_Reset_def ClusterResourceSummary_zero_def
      ClusterResourceSummary_GetNodeCount_def
      ClusterResourceSummary_GetTotalCpuCores_def
      ClusterResourceSummary_GetTotalRamBytes_def
      ClusterResourceSummary_GetTotalGpuCount_def
      ClusterResourceSummary_GetTotalVramBytes_def
      ClusterResourceSummary_GetOnlineNodeCount_def)

lemma GetClusterStateResponse_nil_safe [proto_getter]:
  "GetClusterStateResponse_GetLeaderId None = GetClusterStateResponse_GetLeaderId (Some (GetClusterStateResponse_Reset m))"
  "GetClusterStateResponse_GetMemberIds None = GetClusterStateResponse_GetMemberIds (Some (GetClusterStateResponse_Reset m))"
  "GetClusterStateResponse_GetResources None = GetClusterStateResponse_GetResources (Some (GetClusterStateResponse_Reset m))"
  by (simp_all add: GetClusterStateResponse_Reset_def GetClusterStateResponse_zero_def
      GetClusterStateResponse_GetLeaderId_def
      GetClusterStateResponse_GetMemberIds_def
      GetClusterStateResponse_GetResources_def)

lemma JoinClusterRequest_nil_safe [proto_getter]:
  "JoinClusterRequest_GetNodeId None = JoinClusterRequest_GetNodeId (Some (JoinClusterRequest_Reset m))"
  "JoinClusterRequest_GetRaftAddress None = JoinClusterRequest_GetRaftAddress (Some (JoinClusterRequest_Reset m))"
  by (simp_all add: JoinClusterRequest_Reset_def JoinClusterRequest_zero_def
      JoinClusterRequest_GetNodeId_def
      JoinClusterRequest_GetRaftAddress_def)

lemma JoinClusterResponse_nil_safe [proto_getter]:
  "JoinClusterResponse_GetAccepted None = JoinClusterResponse_GetAccepted (Some (JoinClusterResponse_Reset m))"
  "JoinClusterResponse_GetLeaderAddress None = JoinClusterResponse_GetLeaderAddress (Some (JoinClusterResponse_Reset m))"
  by (simp_all add: JoinClusterResponse_Reset_def JoinClusterResponse_zero_def
      JoinClusterResponse_GetAccepted_def
      JoinClusterResponse_GetLeaderAddress_def)

end
