(* ===== verification/Grpc_Services.thy ===== *)
theory Grpc_Services
  imports Effects Proto_Agent Proto_Job Proto_Storage Proto_Memory Proto_Control
begin

text \<open>
  The generated service bindings \<^verbatim>\<open>gen/compute/v1/*_grpc.pb.go\<close>: for each of the five services its
  method names, client stubs, unimplemented server, server-side handlers and service descriptor. The
  gRPC library is a parameter: a client stub takes the connection's \<open>Invoke\<close> or \<open>NewStream\<close>, a handler
  takes the outcome of the decoder, the interceptor (\<open>None\<close> for nil), and the method of the service's
  implementation.
\<close>

subsection \<open>What the bindings share\<close>

record StreamDesc =
  StreamDesc_StreamName :: string
  StreamDesc_ServerStreams :: bool
  StreamDesc_ClientStreams :: bool

record ServiceDesc =
  ServiceDesc_ServiceName :: string
  ServiceDesc_Methods :: "string list"
  ServiceDesc_Streams :: "StreamDesc list"
  ServiceDesc_Metadata :: string

type_synonym ('s, 'ctx, 'req, 'resp) unary_method = "'ctx \<Rightarrow> 'req option \<Rightarrow> ('s, 'resp) call"

type_synonym ('s, 'ctx, 'req, 'resp) unary_interceptor =
  "'ctx \<Rightarrow> 'req option \<Rightarrow> string \<Rightarrow> ('s, 'ctx, 'req, 'resp) unary_method \<Rightarrow> ('s, 'resp) call"

text \<open>
  The body of a client stub: the connection fills a new message, which is returned unless the
  connection reports an error.
\<close>

definition client_unary ::
  "('ctx \<Rightarrow> string \<Rightarrow> 'i option \<Rightarrow> 'o \<Rightarrow> go_error \<times> 'o) \<Rightarrow> string \<Rightarrow> 'o \<Rightarrow> 'ctx \<Rightarrow> 'i option \<Rightarrow> error + 'o" where
  "client_unary Invoke full new ctx inp =
     (case Invoke ctx full inp new of (Some err, _) \<Rightarrow> Inl err | (None, out) \<Rightarrow> Inr out)"

text \<open>The body of a unary handler: decode, then call the method through the interceptor if there is one.\<close>

definition unary_handler ::
  "string \<Rightarrow> ('s, 'ctx, 'req, 'resp) unary_method \<Rightarrow> 'ctx \<Rightarrow> error + 'req
     \<Rightarrow> ('s, 'ctx, 'req, 'resp) unary_interceptor option \<Rightarrow> ('s, 'resp) call" where
  "unary_handler full srv_method ctx dec interceptor st =
     (case dec of
        Inl err \<Rightarrow> Inr (Inl err, st)
      | Inr inp \<Rightarrow>
          (case interceptor of
             None \<Rightarrow> srv_method ctx (Some inp) st
           | Some ic \<Rightarrow> ic ctx (Some inp) full (\<lambda>ctx req. srv_method ctx req) st))"

subsection \<open>AgentService\<close>

definition AgentService_Register_FullMethodName :: string where
  "AgentService_Register_FullMethodName = ''/compute.v1.AgentService/Register''"

definition AgentService_Heartbeat_FullMethodName :: string where
  "AgentService_Heartbeat_FullMethodName = ''/compute.v1.AgentService/Heartbeat''"

definition AgentService_ExecuteTask_FullMethodName :: string where
  "AgentService_ExecuteTask_FullMethodName = ''/compute.v1.AgentService/ExecuteTask''"

definition AgentService_AllocateMemory_FullMethodName :: string where
  "AgentService_AllocateMemory_FullMethodName = ''/compute.v1.AgentService/AllocateMemory''"

definition AgentService_AllocateGPUMemory_FullMethodName :: string where
  "AgentService_AllocateGPUMemory_FullMethodName = ''/compute.v1.AgentService/AllocateGPUMemory''"

definition AgentService_FreeMemory_FullMethodName :: string where
  "AgentService_FreeMemory_FullMethodName = ''/compute.v1.AgentService/FreeMemory''"

definition AgentService_FreeGPUMemory_FullMethodName :: string where
  "AgentService_FreeGPUMemory_FullMethodName = ''/compute.v1.AgentService/FreeGPUMemory''"

definition AgentService_ServiceDesc :: ServiceDesc where
  "AgentService_ServiceDesc =
     \<lparr>ServiceDesc_ServiceName = ''compute.v1.AgentService'',
      ServiceDesc_Methods = [''Register'', ''ExecuteTask'', ''AllocateMemory'', ''AllocateGPUMemory'', ''FreeMemory'', ''FreeGPUMemory''],
      ServiceDesc_Streams = [\<lparr>StreamDesc_StreamName = ''Heartbeat'', StreamDesc_ServerStreams = True,
         StreamDesc_ClientStreams = True\<rparr>],
      ServiceDesc_Metadata = ''compute/v1/agent.proto''\<rparr>"

definition agentServiceClient_Register ::
  "('ctx \<Rightarrow> string \<Rightarrow> RegisterRequest option \<Rightarrow> RegisterResponse \<Rightarrow> go_error \<times> RegisterResponse)
     \<Rightarrow> 'ctx \<Rightarrow> RegisterRequest option \<Rightarrow> error + RegisterResponse" where
  "agentServiceClient_Register Invoke ctx inp =
     client_unary Invoke AgentService_Register_FullMethodName RegisterResponse_zero ctx inp"

definition agentServiceClient_ExecuteTask ::
  "('ctx \<Rightarrow> string \<Rightarrow> TaskSpec option \<Rightarrow> TaskAck \<Rightarrow> go_error \<times> TaskAck)
     \<Rightarrow> 'ctx \<Rightarrow> TaskSpec option \<Rightarrow> error + TaskAck" where
  "agentServiceClient_ExecuteTask Invoke ctx inp =
     client_unary Invoke AgentService_ExecuteTask_FullMethodName TaskAck_zero ctx inp"

definition agentServiceClient_AllocateMemory ::
  "('ctx \<Rightarrow> string \<Rightarrow> MemoryAllocRequest option \<Rightarrow> MemoryAllocResponse \<Rightarrow> go_error \<times> MemoryAllocResponse)
     \<Rightarrow> 'ctx \<Rightarrow> MemoryAllocRequest option \<Rightarrow> error + MemoryAllocResponse" where
  "agentServiceClient_AllocateMemory Invoke ctx inp =
     client_unary Invoke AgentService_AllocateMemory_FullMethodName MemoryAllocResponse_zero ctx inp"

definition agentServiceClient_AllocateGPUMemory ::
  "('ctx \<Rightarrow> string \<Rightarrow> GPUMemoryAllocRequest option \<Rightarrow> GPUMemoryAllocResponse \<Rightarrow> go_error \<times> GPUMemoryAllocResponse)
     \<Rightarrow> 'ctx \<Rightarrow> GPUMemoryAllocRequest option \<Rightarrow> error + GPUMemoryAllocResponse" where
  "agentServiceClient_AllocateGPUMemory Invoke ctx inp =
     client_unary Invoke AgentService_AllocateGPUMemory_FullMethodName GPUMemoryAllocResponse_zero ctx inp"

definition agentServiceClient_FreeMemory ::
  "('ctx \<Rightarrow> string \<Rightarrow> FreeMemoryRequest option \<Rightarrow> FreeMemoryResponse \<Rightarrow> go_error \<times> FreeMemoryResponse)
     \<Rightarrow> 'ctx \<Rightarrow> FreeMemoryRequest option \<Rightarrow> error + FreeMemoryResponse" where
  "agentServiceClient_FreeMemory Invoke ctx inp =
     client_unary Invoke AgentService_FreeMemory_FullMethodName FreeMemoryResponse_zero ctx inp"

definition agentServiceClient_FreeGPUMemory ::
  "('ctx \<Rightarrow> string \<Rightarrow> FreeGPUMemoryRequest option \<Rightarrow> FreeGPUMemoryResponse \<Rightarrow> go_error \<times> FreeGPUMemoryResponse)
     \<Rightarrow> 'ctx \<Rightarrow> FreeGPUMemoryRequest option \<Rightarrow> error + FreeGPUMemoryResponse" where
  "agentServiceClient_FreeGPUMemory Invoke ctx inp =
     client_unary Invoke AgentService_FreeGPUMemory_FullMethodName FreeGPUMemoryResponse_zero ctx inp"

definition UnimplementedAgentServiceServer_Register :: "('s, 'ctx, RegisterRequest, RegisterResponse) unary_method" where
  "UnimplementedAgentServiceServer_Register ctx req st = Inr (Inl (Status Unimplemented ''method Register not implemented''), st)"

definition UnimplementedAgentServiceServer_Heartbeat :: go_error where
  "UnimplementedAgentServiceServer_Heartbeat = Some (Status Unimplemented ''method Heartbeat not implemented'')"

definition UnimplementedAgentServiceServer_ExecuteTask :: "('s, 'ctx, TaskSpec, TaskAck) unary_method" where
  "UnimplementedAgentServiceServer_ExecuteTask ctx req st = Inr (Inl (Status Unimplemented ''method ExecuteTask not implemented''), st)"

definition UnimplementedAgentServiceServer_AllocateMemory :: "('s, 'ctx, MemoryAllocRequest, MemoryAllocResponse) unary_method" where
  "UnimplementedAgentServiceServer_AllocateMemory ctx req st = Inr (Inl (Status Unimplemented ''method AllocateMemory not implemented''), st)"

definition UnimplementedAgentServiceServer_AllocateGPUMemory :: "('s, 'ctx, GPUMemoryAllocRequest, GPUMemoryAllocResponse) unary_method" where
  "UnimplementedAgentServiceServer_AllocateGPUMemory ctx req st = Inr (Inl (Status Unimplemented ''method AllocateGPUMemory not implemented''), st)"

definition UnimplementedAgentServiceServer_FreeMemory :: "('s, 'ctx, FreeMemoryRequest, FreeMemoryResponse) unary_method" where
  "UnimplementedAgentServiceServer_FreeMemory ctx req st = Inr (Inl (Status Unimplemented ''method FreeMemory not implemented''), st)"

definition UnimplementedAgentServiceServer_FreeGPUMemory :: "('s, 'ctx, FreeGPUMemoryRequest, FreeGPUMemoryResponse) unary_method" where
  "UnimplementedAgentServiceServer_FreeGPUMemory ctx req st = Inr (Inl (Status Unimplemented ''method FreeGPUMemory not implemented''), st)"

definition AgentService_Register_Handler ::
  "('s, 'ctx, RegisterRequest, RegisterResponse) unary_method \<Rightarrow> 'ctx \<Rightarrow> error + RegisterRequest
     \<Rightarrow> ('s, 'ctx, RegisterRequest, RegisterResponse) unary_interceptor option \<Rightarrow> ('s, RegisterResponse) call" where
  "AgentService_Register_Handler srv_Register = unary_handler AgentService_Register_FullMethodName srv_Register"

definition AgentService_ExecuteTask_Handler ::
  "('s, 'ctx, TaskSpec, TaskAck) unary_method \<Rightarrow> 'ctx \<Rightarrow> error + TaskSpec
     \<Rightarrow> ('s, 'ctx, TaskSpec, TaskAck) unary_interceptor option \<Rightarrow> ('s, TaskAck) call" where
  "AgentService_ExecuteTask_Handler srv_ExecuteTask = unary_handler AgentService_ExecuteTask_FullMethodName srv_ExecuteTask"

definition AgentService_AllocateMemory_Handler ::
  "('s, 'ctx, MemoryAllocRequest, MemoryAllocResponse) unary_method \<Rightarrow> 'ctx \<Rightarrow> error + MemoryAllocRequest
     \<Rightarrow> ('s, 'ctx, MemoryAllocRequest, MemoryAllocResponse) unary_interceptor option \<Rightarrow> ('s, MemoryAllocResponse) call" where
  "AgentService_AllocateMemory_Handler srv_AllocateMemory = unary_handler AgentService_AllocateMemory_FullMethodName srv_AllocateMemory"

definition AgentService_AllocateGPUMemory_Handler ::
  "('s, 'ctx, GPUMemoryAllocRequest, GPUMemoryAllocResponse) unary_method \<Rightarrow> 'ctx \<Rightarrow> error + GPUMemoryAllocRequest
     \<Rightarrow> ('s, 'ctx, GPUMemoryAllocRequest, GPUMemoryAllocResponse) unary_interceptor option \<Rightarrow> ('s, GPUMemoryAllocResponse) call" where
  "AgentService_AllocateGPUMemory_Handler srv_AllocateGPUMemory = unary_handler AgentService_AllocateGPUMemory_FullMethodName srv_AllocateGPUMemory"

definition AgentService_FreeMemory_Handler ::
  "('s, 'ctx, FreeMemoryRequest, FreeMemoryResponse) unary_method \<Rightarrow> 'ctx \<Rightarrow> error + FreeMemoryRequest
     \<Rightarrow> ('s, 'ctx, FreeMemoryRequest, FreeMemoryResponse) unary_interceptor option \<Rightarrow> ('s, FreeMemoryResponse) call" where
  "AgentService_FreeMemory_Handler srv_FreeMemory = unary_handler AgentService_FreeMemory_FullMethodName srv_FreeMemory"

definition AgentService_FreeGPUMemory_Handler ::
  "('s, 'ctx, FreeGPUMemoryRequest, FreeGPUMemoryResponse) unary_method \<Rightarrow> 'ctx \<Rightarrow> error + FreeGPUMemoryRequest
     \<Rightarrow> ('s, 'ctx, FreeGPUMemoryRequest, FreeGPUMemoryResponse) unary_interceptor option \<Rightarrow> ('s, FreeGPUMemoryResponse) call" where
  "AgentService_FreeGPUMemory_Handler srv_FreeGPUMemory = unary_handler AgentService_FreeGPUMemory_FullMethodName srv_FreeGPUMemory"

definition RegisterAgentServiceServer :: "ServiceDesc list \<Rightarrow> ServiceDesc list" where
  "RegisterAgentServiceServer services = services @ [AgentService_ServiceDesc]"

definition agentServiceClient_Heartbeat ::
  "('ctx \<Rightarrow> StreamDesc \<Rightarrow> string \<Rightarrow> error + 'stream) \<Rightarrow> 'ctx \<Rightarrow> error + 'stream" where
  "agentServiceClient_Heartbeat NewStream ctx =
     NewStream ctx (ServiceDesc_Streams AgentService_ServiceDesc ! 0) AgentService_Heartbeat_FullMethodName"

definition AgentService_Heartbeat_Handler :: "('stream \<Rightarrow> ('s, 'r) call) \<Rightarrow> 'stream \<Rightarrow> ('s, 'r) call" where
  "AgentService_Heartbeat_Handler srv_Heartbeat stream = srv_Heartbeat stream"

subsection \<open>JobService\<close>

definition JobService_SubmitJob_FullMethodName :: string where
  "JobService_SubmitJob_FullMethodName = ''/compute.v1.JobService/SubmitJob''"

definition JobService_GetJob_FullMethodName :: string where
  "JobService_GetJob_FullMethodName = ''/compute.v1.JobService/GetJob''"

definition JobService_ListJobs_FullMethodName :: string where
  "JobService_ListJobs_FullMethodName = ''/compute.v1.JobService/ListJobs''"

definition JobService_CancelJob_FullMethodName :: string where
  "JobService_CancelJob_FullMethodName = ''/compute.v1.JobService/CancelJob''"

definition JobService_StreamLogs_FullMethodName :: string where
  "JobService_StreamLogs_FullMethodName = ''/compute.v1.JobService/StreamLogs''"

definition JobService_GetJobMetrics_FullMethodName :: string where
  "JobService_GetJobMetrics_FullMethodName = ''/compute.v1.JobService/GetJobMetrics''"

definition JobService_ServiceDesc :: ServiceDesc where
  "JobService_ServiceDesc =
     \<lparr>ServiceDesc_ServiceName = ''compute.v1.JobService'',
      ServiceDesc_Methods = [''SubmitJob'', ''GetJob'', ''ListJobs'', ''CancelJob'', ''GetJobMetrics''],
      ServiceDesc_Streams = [\<lparr>StreamDesc_StreamName = ''StreamLogs'', StreamDesc_ServerStreams = True,
         StreamDesc_ClientStreams = False\<rparr>],
      ServiceDesc_Metadata = ''compute/v1/job.proto''\<rparr>"

definition jobServiceClient_SubmitJob ::
  "('ctx \<Rightarrow> string \<Rightarrow> SubmitJobRequest option \<Rightarrow> SubmitJobResponse \<Rightarrow> go_error \<times> SubmitJobResponse)
     \<Rightarrow> 'ctx \<Rightarrow> SubmitJobRequest option \<Rightarrow> error + SubmitJobResponse" where
  "jobServiceClient_SubmitJob Invoke ctx inp =
     client_unary Invoke JobService_SubmitJob_FullMethodName SubmitJobResponse_zero ctx inp"

definition jobServiceClient_GetJob ::
  "('ctx \<Rightarrow> string \<Rightarrow> GetJobRequest option \<Rightarrow> GetJobResponse \<Rightarrow> go_error \<times> GetJobResponse)
     \<Rightarrow> 'ctx \<Rightarrow> GetJobRequest option \<Rightarrow> error + GetJobResponse" where
  "jobServiceClient_GetJob Invoke ctx inp =
     client_unary Invoke JobService_GetJob_FullMethodName GetJobResponse_zero ctx inp"

definition jobServiceClient_ListJobs ::
  "('ctx \<Rightarrow> string \<Rightarrow> ListJobsRequest option \<Rightarrow> ListJobsResponse \<Rightarrow> go_error \<times> ListJobsResponse)
     \<Rightarrow> 'ctx \<Rightarrow> ListJobsRequest option \<Rightarrow> error + ListJobsResponse" where
  "jobServiceClient_ListJobs Invoke ctx inp =
     client_unary Invoke JobService_ListJobs_FullMethodName ListJobsResponse_zero ctx inp"

definition jobServiceClient_CancelJob ::
  "('ctx \<Rightarrow> string \<Rightarrow> CancelJobRequest option \<Rightarrow> CancelJobResponse \<Rightarrow> go_error \<times> CancelJobResponse)
     \<Rightarrow> 'ctx \<Rightarrow> CancelJobRequest option \<Rightarrow> error + CancelJobResponse" where
  "jobServiceClient_CancelJob Invoke ctx inp =
     client_unary Invoke JobService_CancelJob_FullMethodName CancelJobResponse_zero ctx inp"

definition jobServiceClient_GetJobMetrics ::
  "('ctx \<Rightarrow> string \<Rightarrow> GetJobMetricsRequest option \<Rightarrow> GetJobMetricsResponse \<Rightarrow> go_error \<times> GetJobMetricsResponse)
     \<Rightarrow> 'ctx \<Rightarrow> GetJobMetricsRequest option \<Rightarrow> error + GetJobMetricsResponse" where
  "jobServiceClient_GetJobMetrics Invoke ctx inp =
     client_unary Invoke JobService_GetJobMetrics_FullMethodName GetJobMetricsResponse_zero ctx inp"

definition UnimplementedJobServiceServer_SubmitJob :: "('s, 'ctx, SubmitJobRequest, SubmitJobResponse) unary_method" where
  "UnimplementedJobServiceServer_SubmitJob ctx req st = Inr (Inl (Status Unimplemented ''method SubmitJob not implemented''), st)"

definition UnimplementedJobServiceServer_GetJob :: "('s, 'ctx, GetJobRequest, GetJobResponse) unary_method" where
  "UnimplementedJobServiceServer_GetJob ctx req st = Inr (Inl (Status Unimplemented ''method GetJob not implemented''), st)"

definition UnimplementedJobServiceServer_ListJobs :: "('s, 'ctx, ListJobsRequest, ListJobsResponse) unary_method" where
  "UnimplementedJobServiceServer_ListJobs ctx req st = Inr (Inl (Status Unimplemented ''method ListJobs not implemented''), st)"

definition UnimplementedJobServiceServer_CancelJob :: "('s, 'ctx, CancelJobRequest, CancelJobResponse) unary_method" where
  "UnimplementedJobServiceServer_CancelJob ctx req st = Inr (Inl (Status Unimplemented ''method CancelJob not implemented''), st)"

definition UnimplementedJobServiceServer_StreamLogs :: go_error where
  "UnimplementedJobServiceServer_StreamLogs = Some (Status Unimplemented ''method StreamLogs not implemented'')"

definition UnimplementedJobServiceServer_GetJobMetrics :: "('s, 'ctx, GetJobMetricsRequest, GetJobMetricsResponse) unary_method" where
  "UnimplementedJobServiceServer_GetJobMetrics ctx req st = Inr (Inl (Status Unimplemented ''method GetJobMetrics not implemented''), st)"

definition JobService_SubmitJob_Handler ::
  "('s, 'ctx, SubmitJobRequest, SubmitJobResponse) unary_method \<Rightarrow> 'ctx \<Rightarrow> error + SubmitJobRequest
     \<Rightarrow> ('s, 'ctx, SubmitJobRequest, SubmitJobResponse) unary_interceptor option \<Rightarrow> ('s, SubmitJobResponse) call" where
  "JobService_SubmitJob_Handler srv_SubmitJob = unary_handler JobService_SubmitJob_FullMethodName srv_SubmitJob"

definition JobService_GetJob_Handler ::
  "('s, 'ctx, GetJobRequest, GetJobResponse) unary_method \<Rightarrow> 'ctx \<Rightarrow> error + GetJobRequest
     \<Rightarrow> ('s, 'ctx, GetJobRequest, GetJobResponse) unary_interceptor option \<Rightarrow> ('s, GetJobResponse) call" where
  "JobService_GetJob_Handler srv_GetJob = unary_handler JobService_GetJob_FullMethodName srv_GetJob"

definition JobService_ListJobs_Handler ::
  "('s, 'ctx, ListJobsRequest, ListJobsResponse) unary_method \<Rightarrow> 'ctx \<Rightarrow> error + ListJobsRequest
     \<Rightarrow> ('s, 'ctx, ListJobsRequest, ListJobsResponse) unary_interceptor option \<Rightarrow> ('s, ListJobsResponse) call" where
  "JobService_ListJobs_Handler srv_ListJobs = unary_handler JobService_ListJobs_FullMethodName srv_ListJobs"

definition JobService_CancelJob_Handler ::
  "('s, 'ctx, CancelJobRequest, CancelJobResponse) unary_method \<Rightarrow> 'ctx \<Rightarrow> error + CancelJobRequest
     \<Rightarrow> ('s, 'ctx, CancelJobRequest, CancelJobResponse) unary_interceptor option \<Rightarrow> ('s, CancelJobResponse) call" where
  "JobService_CancelJob_Handler srv_CancelJob = unary_handler JobService_CancelJob_FullMethodName srv_CancelJob"

definition JobService_GetJobMetrics_Handler ::
  "('s, 'ctx, GetJobMetricsRequest, GetJobMetricsResponse) unary_method \<Rightarrow> 'ctx \<Rightarrow> error + GetJobMetricsRequest
     \<Rightarrow> ('s, 'ctx, GetJobMetricsRequest, GetJobMetricsResponse) unary_interceptor option \<Rightarrow> ('s, GetJobMetricsResponse) call" where
  "JobService_GetJobMetrics_Handler srv_GetJobMetrics = unary_handler JobService_GetJobMetrics_FullMethodName srv_GetJobMetrics"

definition RegisterJobServiceServer :: "ServiceDesc list \<Rightarrow> ServiceDesc list" where
  "RegisterJobServiceServer services = services @ [JobService_ServiceDesc]"

definition jobServiceClient_StreamLogs ::
  "('ctx \<Rightarrow> StreamDesc \<Rightarrow> string \<Rightarrow> error + 'stream) \<Rightarrow> ('stream \<Rightarrow> StreamLogsRequest option \<Rightarrow> go_error)
     \<Rightarrow> ('stream \<Rightarrow> go_error) \<Rightarrow> 'ctx \<Rightarrow> StreamLogsRequest option \<Rightarrow> error + 'stream" where
  "jobServiceClient_StreamLogs NewStream SendMsg CloseSend ctx inp =
     (case NewStream ctx (ServiceDesc_Streams JobService_ServiceDesc ! 0) JobService_StreamLogs_FullMethodName of
        Inl err \<Rightarrow> Inl err
      | Inr x \<Rightarrow>
          (case SendMsg x inp of
             Some err \<Rightarrow> Inl err
           | None \<Rightarrow> (case CloseSend x of Some err \<Rightarrow> Inl err | None \<Rightarrow> Inr x)))"

definition JobService_StreamLogs_Handler ::
  "(StreamLogsRequest option \<Rightarrow> 'stream \<Rightarrow> ('s, 'r) call) \<Rightarrow> 'stream \<Rightarrow> error + StreamLogsRequest \<Rightarrow> ('s, 'r) call" where
  "JobService_StreamLogs_Handler srv_StreamLogs stream received st =
     (case received of
        Inl err \<Rightarrow> Inr (Inl err, st)
      | Inr m \<Rightarrow> srv_StreamLogs (Some m) stream st)"

subsection \<open>StorageService\<close>

definition StorageService_CreateDataset_FullMethodName :: string where
  "StorageService_CreateDataset_FullMethodName = ''/compute.v1.StorageService/CreateDataset''"

definition StorageService_ListDatasets_FullMethodName :: string where
  "StorageService_ListDatasets_FullMethodName = ''/compute.v1.StorageService/ListDatasets''"

definition StorageService_GetDatasetStatus_FullMethodName :: string where
  "StorageService_GetDatasetStatus_FullMethodName = ''/compute.v1.StorageService/GetDatasetStatus''"

definition StorageService_ServiceDesc :: ServiceDesc where
  "StorageService_ServiceDesc =
     \<lparr>ServiceDesc_ServiceName = ''compute.v1.StorageService'',
      ServiceDesc_Methods = [''CreateDataset'', ''ListDatasets'', ''GetDatasetStatus''],
      ServiceDesc_Streams = [],
      ServiceDesc_Metadata = ''compute/v1/storage.proto''\<rparr>"

definition storageServiceClient_CreateDataset ::
  "('ctx \<Rightarrow> string \<Rightarrow> CreateDatasetRequest option \<Rightarrow> CreateDatasetResponse \<Rightarrow> go_error \<times> CreateDatasetResponse)
     \<Rightarrow> 'ctx \<Rightarrow> CreateDatasetRequest option \<Rightarrow> error + CreateDatasetResponse" where
  "storageServiceClient_CreateDataset Invoke ctx inp =
     client_unary Invoke StorageService_CreateDataset_FullMethodName CreateDatasetResponse_zero ctx inp"

definition storageServiceClient_ListDatasets ::
  "('ctx \<Rightarrow> string \<Rightarrow> ListDatasetsRequest option \<Rightarrow> ListDatasetsResponse \<Rightarrow> go_error \<times> ListDatasetsResponse)
     \<Rightarrow> 'ctx \<Rightarrow> ListDatasetsRequest option \<Rightarrow> error + ListDatasetsResponse" where
  "storageServiceClient_ListDatasets Invoke ctx inp =
     client_unary Invoke StorageService_ListDatasets_FullMethodName ListDatasetsResponse_zero ctx inp"

definition storageServiceClient_GetDatasetStatus ::
  "('ctx \<Rightarrow> string \<Rightarrow> GetDatasetStatusRequest option \<Rightarrow> GetDatasetStatusResponse \<Rightarrow> go_error \<times> GetDatasetStatusResponse)
     \<Rightarrow> 'ctx \<Rightarrow> GetDatasetStatusRequest option \<Rightarrow> error + GetDatasetStatusResponse" where
  "storageServiceClient_GetDatasetStatus Invoke ctx inp =
     client_unary Invoke StorageService_GetDatasetStatus_FullMethodName GetDatasetStatusResponse_zero ctx inp"

definition UnimplementedStorageServiceServer_CreateDataset :: "('s, 'ctx, CreateDatasetRequest, CreateDatasetResponse) unary_method" where
  "UnimplementedStorageServiceServer_CreateDataset ctx req st = Inr (Inl (Status Unimplemented ''method CreateDataset not implemented''), st)"

definition UnimplementedStorageServiceServer_ListDatasets :: "('s, 'ctx, ListDatasetsRequest, ListDatasetsResponse) unary_method" where
  "UnimplementedStorageServiceServer_ListDatasets ctx req st = Inr (Inl (Status Unimplemented ''method ListDatasets not implemented''), st)"

definition UnimplementedStorageServiceServer_GetDatasetStatus :: "('s, 'ctx, GetDatasetStatusRequest, GetDatasetStatusResponse) unary_method" where
  "UnimplementedStorageServiceServer_GetDatasetStatus ctx req st = Inr (Inl (Status Unimplemented ''method GetDatasetStatus not implemented''), st)"

definition StorageService_CreateDataset_Handler ::
  "('s, 'ctx, CreateDatasetRequest, CreateDatasetResponse) unary_method \<Rightarrow> 'ctx \<Rightarrow> error + CreateDatasetRequest
     \<Rightarrow> ('s, 'ctx, CreateDatasetRequest, CreateDatasetResponse) unary_interceptor option \<Rightarrow> ('s, CreateDatasetResponse) call" where
  "StorageService_CreateDataset_Handler srv_CreateDataset = unary_handler StorageService_CreateDataset_FullMethodName srv_CreateDataset"

definition StorageService_ListDatasets_Handler ::
  "('s, 'ctx, ListDatasetsRequest, ListDatasetsResponse) unary_method \<Rightarrow> 'ctx \<Rightarrow> error + ListDatasetsRequest
     \<Rightarrow> ('s, 'ctx, ListDatasetsRequest, ListDatasetsResponse) unary_interceptor option \<Rightarrow> ('s, ListDatasetsResponse) call" where
  "StorageService_ListDatasets_Handler srv_ListDatasets = unary_handler StorageService_ListDatasets_FullMethodName srv_ListDatasets"

definition StorageService_GetDatasetStatus_Handler ::
  "('s, 'ctx, GetDatasetStatusRequest, GetDatasetStatusResponse) unary_method \<Rightarrow> 'ctx \<Rightarrow> error + GetDatasetStatusRequest
     \<Rightarrow> ('s, 'ctx, GetDatasetStatusRequest, GetDatasetStatusResponse) unary_interceptor option \<Rightarrow> ('s, GetDatasetStatusResponse) call" where
  "StorageService_GetDatasetStatus_Handler srv_GetDatasetStatus = unary_handler StorageService_GetDatasetStatus_FullMethodName srv_GetDatasetStatus"

definition RegisterStorageServiceServer :: "ServiceDesc list \<Rightarrow> ServiceDesc list" where
  "RegisterStorageServiceServer services = services @ [StorageService_ServiceDesc]"

subsection \<open>MemoryService\<close>

definition MemoryService_AllocateDistributed_FullMethodName :: string where
  "MemoryService_AllocateDistributed_FullMethodName = ''/compute.v1.MemoryService/AllocateDistributed''"

definition MemoryService_MigrateRegion_FullMethodName :: string where
  "MemoryService_MigrateRegion_FullMethodName = ''/compute.v1.MemoryService/MigrateRegion''"

definition MemoryService_GetRegion_FullMethodName :: string where
  "MemoryService_GetRegion_FullMethodName = ''/compute.v1.MemoryService/GetRegion''"

definition MemoryService_ServiceDesc :: ServiceDesc where
  "MemoryService_ServiceDesc =
     \<lparr>ServiceDesc_ServiceName = ''compute.v1.MemoryService'',
      ServiceDesc_Methods = [''AllocateDistributed'', ''MigrateRegion'', ''GetRegion''],
      ServiceDesc_Streams = [],
      ServiceDesc_Metadata = ''compute/v1/memory.proto''\<rparr>"

definition memoryServiceClient_AllocateDistributed ::
  "('ctx \<Rightarrow> string \<Rightarrow> DistributedAllocRequest option \<Rightarrow> DistributedAllocResponse \<Rightarrow> go_error \<times> DistributedAllocResponse)
     \<Rightarrow> 'ctx \<Rightarrow> DistributedAllocRequest option \<Rightarrow> error + DistributedAllocResponse" where
  "memoryServiceClient_AllocateDistributed Invoke ctx inp =
     client_unary Invoke MemoryService_AllocateDistributed_FullMethodName DistributedAllocResponse_zero ctx inp"

definition memoryServiceClient_MigrateRegion ::
  "('ctx \<Rightarrow> string \<Rightarrow> MigrateRegionRequest option \<Rightarrow> MigrateRegionResponse \<Rightarrow> go_error \<times> MigrateRegionResponse)
     \<Rightarrow> 'ctx \<Rightarrow> MigrateRegionRequest option \<Rightarrow> error + MigrateRegionResponse" where
  "memoryServiceClient_MigrateRegion Invoke ctx inp =
     client_unary Invoke MemoryService_MigrateRegion_FullMethodName MigrateRegionResponse_zero ctx inp"

definition memoryServiceClient_GetRegion ::
  "('ctx \<Rightarrow> string \<Rightarrow> GetRegionRequest option \<Rightarrow> GetRegionResponse \<Rightarrow> go_error \<times> GetRegionResponse)
     \<Rightarrow> 'ctx \<Rightarrow> GetRegionRequest option \<Rightarrow> error + GetRegionResponse" where
  "memoryServiceClient_GetRegion Invoke ctx inp =
     client_unary Invoke MemoryService_GetRegion_FullMethodName GetRegionResponse_zero ctx inp"

definition UnimplementedMemoryServiceServer_AllocateDistributed :: "('s, 'ctx, DistributedAllocRequest, DistributedAllocResponse) unary_method" where
  "UnimplementedMemoryServiceServer_AllocateDistributed ctx req st = Inr (Inl (Status Unimplemented ''method AllocateDistributed not implemented''), st)"

definition UnimplementedMemoryServiceServer_MigrateRegion :: "('s, 'ctx, MigrateRegionRequest, MigrateRegionResponse) unary_method" where
  "UnimplementedMemoryServiceServer_MigrateRegion ctx req st = Inr (Inl (Status Unimplemented ''method MigrateRegion not implemented''), st)"

definition UnimplementedMemoryServiceServer_GetRegion :: "('s, 'ctx, GetRegionRequest, GetRegionResponse) unary_method" where
  "UnimplementedMemoryServiceServer_GetRegion ctx req st = Inr (Inl (Status Unimplemented ''method GetRegion not implemented''), st)"

definition MemoryService_AllocateDistributed_Handler ::
  "('s, 'ctx, DistributedAllocRequest, DistributedAllocResponse) unary_method \<Rightarrow> 'ctx \<Rightarrow> error + DistributedAllocRequest
     \<Rightarrow> ('s, 'ctx, DistributedAllocRequest, DistributedAllocResponse) unary_interceptor option \<Rightarrow> ('s, DistributedAllocResponse) call" where
  "MemoryService_AllocateDistributed_Handler srv_AllocateDistributed = unary_handler MemoryService_AllocateDistributed_FullMethodName srv_AllocateDistributed"

definition MemoryService_MigrateRegion_Handler ::
  "('s, 'ctx, MigrateRegionRequest, MigrateRegionResponse) unary_method \<Rightarrow> 'ctx \<Rightarrow> error + MigrateRegionRequest
     \<Rightarrow> ('s, 'ctx, MigrateRegionRequest, MigrateRegionResponse) unary_interceptor option \<Rightarrow> ('s, MigrateRegionResponse) call" where
  "MemoryService_MigrateRegion_Handler srv_MigrateRegion = unary_handler MemoryService_MigrateRegion_FullMethodName srv_MigrateRegion"

definition MemoryService_GetRegion_Handler ::
  "('s, 'ctx, GetRegionRequest, GetRegionResponse) unary_method \<Rightarrow> 'ctx \<Rightarrow> error + GetRegionRequest
     \<Rightarrow> ('s, 'ctx, GetRegionRequest, GetRegionResponse) unary_interceptor option \<Rightarrow> ('s, GetRegionResponse) call" where
  "MemoryService_GetRegion_Handler srv_GetRegion = unary_handler MemoryService_GetRegion_FullMethodName srv_GetRegion"

definition RegisterMemoryServiceServer :: "ServiceDesc list \<Rightarrow> ServiceDesc list" where
  "RegisterMemoryServiceServer services = services @ [MemoryService_ServiceDesc]"

subsection \<open>ControlService\<close>

definition ControlService_GetClusterState_FullMethodName :: string where
  "ControlService_GetClusterState_FullMethodName = ''/compute.v1.ControlService/GetClusterState''"

definition ControlService_JoinCluster_FullMethodName :: string where
  "ControlService_JoinCluster_FullMethodName = ''/compute.v1.ControlService/JoinCluster''"

definition ControlService_ServiceDesc :: ServiceDesc where
  "ControlService_ServiceDesc =
     \<lparr>ServiceDesc_ServiceName = ''compute.v1.ControlService'',
      ServiceDesc_Methods = [''GetClusterState'', ''JoinCluster''],
      ServiceDesc_Streams = [],
      ServiceDesc_Metadata = ''compute/v1/control.proto''\<rparr>"

definition controlServiceClient_GetClusterState ::
  "('ctx \<Rightarrow> string \<Rightarrow> GetClusterStateRequest option \<Rightarrow> GetClusterStateResponse \<Rightarrow> go_error \<times> GetClusterStateResponse)
     \<Rightarrow> 'ctx \<Rightarrow> GetClusterStateRequest option \<Rightarrow> error + GetClusterStateResponse" where
  "controlServiceClient_GetClusterState Invoke ctx inp =
     client_unary Invoke ControlService_GetClusterState_FullMethodName GetClusterStateResponse_zero ctx inp"

definition controlServiceClient_JoinCluster ::
  "('ctx \<Rightarrow> string \<Rightarrow> JoinClusterRequest option \<Rightarrow> JoinClusterResponse \<Rightarrow> go_error \<times> JoinClusterResponse)
     \<Rightarrow> 'ctx \<Rightarrow> JoinClusterRequest option \<Rightarrow> error + JoinClusterResponse" where
  "controlServiceClient_JoinCluster Invoke ctx inp =
     client_unary Invoke ControlService_JoinCluster_FullMethodName JoinClusterResponse_zero ctx inp"

definition UnimplementedControlServiceServer_GetClusterState :: "('s, 'ctx, GetClusterStateRequest, GetClusterStateResponse) unary_method" where
  "UnimplementedControlServiceServer_GetClusterState ctx req st = Inr (Inl (Status Unimplemented ''method GetClusterState not implemented''), st)"

definition UnimplementedControlServiceServer_JoinCluster :: "('s, 'ctx, JoinClusterRequest, JoinClusterResponse) unary_method" where
  "UnimplementedControlServiceServer_JoinCluster ctx req st = Inr (Inl (Status Unimplemented ''method JoinCluster not implemented''), st)"

definition ControlService_GetClusterState_Handler ::
  "('s, 'ctx, GetClusterStateRequest, GetClusterStateResponse) unary_method \<Rightarrow> 'ctx \<Rightarrow> error + GetClusterStateRequest
     \<Rightarrow> ('s, 'ctx, GetClusterStateRequest, GetClusterStateResponse) unary_interceptor option \<Rightarrow> ('s, GetClusterStateResponse) call" where
  "ControlService_GetClusterState_Handler srv_GetClusterState = unary_handler ControlService_GetClusterState_FullMethodName srv_GetClusterState"

definition ControlService_JoinCluster_Handler ::
  "('s, 'ctx, JoinClusterRequest, JoinClusterResponse) unary_method \<Rightarrow> 'ctx \<Rightarrow> error + JoinClusterRequest
     \<Rightarrow> ('s, 'ctx, JoinClusterRequest, JoinClusterResponse) unary_interceptor option \<Rightarrow> ('s, JoinClusterResponse) call" where
  "ControlService_JoinCluster_Handler srv_JoinCluster = unary_handler ControlService_JoinCluster_FullMethodName srv_JoinCluster"

definition RegisterControlServiceServer :: "ServiceDesc list \<Rightarrow> ServiceDesc list" where
  "RegisterControlServiceServer services = services @ [ControlService_ServiceDesc]"

subsection \<open>All services together\<close>

lemmas full_method_names =
  AgentService_Register_FullMethodName_def
  AgentService_Heartbeat_FullMethodName_def
  AgentService_ExecuteTask_FullMethodName_def
  AgentService_AllocateMemory_FullMethodName_def
  AgentService_AllocateGPUMemory_FullMethodName_def
  AgentService_FreeMemory_FullMethodName_def
  AgentService_FreeGPUMemory_FullMethodName_def
  JobService_SubmitJob_FullMethodName_def
  JobService_GetJob_FullMethodName_def
  JobService_ListJobs_FullMethodName_def
  JobService_CancelJob_FullMethodName_def
  JobService_StreamLogs_FullMethodName_def
  JobService_GetJobMetrics_FullMethodName_def
  StorageService_CreateDataset_FullMethodName_def
  StorageService_ListDatasets_FullMethodName_def
  StorageService_GetDatasetStatus_FullMethodName_def
  MemoryService_AllocateDistributed_FullMethodName_def
  MemoryService_MigrateRegion_FullMethodName_def
  MemoryService_GetRegion_FullMethodName_def
  ControlService_GetClusterState_FullMethodName_def
  ControlService_JoinCluster_FullMethodName_def

lemmas service_descs =
  AgentService_ServiceDesc_def
  JobService_ServiceDesc_def
  StorageService_ServiceDesc_def
  MemoryService_ServiceDesc_def
  ControlService_ServiceDesc_def

definition all_services :: "ServiceDesc list" where
  "all_services = [AgentService_ServiceDesc, JobService_ServiceDesc, StorageService_ServiceDesc, MemoryService_ServiceDesc, ControlService_ServiceDesc]"

text \<open>The full method names a descriptor announces.\<close>

definition announced :: "ServiceDesc \<Rightarrow> string list" where
  "announced d = map (\<lambda>m. ''/'' @ ServiceDesc_ServiceName d @ ''/'' @ m)
     (ServiceDesc_Methods d @ map StreamDesc_StreamName (ServiceDesc_Streams d))"

definition full_names :: "string list" where
  "full_names = [AgentService_Register_FullMethodName,
     AgentService_Heartbeat_FullMethodName,
     AgentService_ExecuteTask_FullMethodName,
     AgentService_AllocateMemory_FullMethodName,
     AgentService_AllocateGPUMemory_FullMethodName,
     AgentService_FreeMemory_FullMethodName,
     AgentService_FreeGPUMemory_FullMethodName,
     JobService_SubmitJob_FullMethodName,
     JobService_GetJob_FullMethodName,
     JobService_ListJobs_FullMethodName,
     JobService_CancelJob_FullMethodName,
     JobService_StreamLogs_FullMethodName,
     JobService_GetJobMetrics_FullMethodName,
     StorageService_CreateDataset_FullMethodName,
     StorageService_ListDatasets_FullMethodName,
     StorageService_GetDatasetStatus_FullMethodName,
     MemoryService_AllocateDistributed_FullMethodName,
     MemoryService_MigrateRegion_FullMethodName,
     MemoryService_GetRegion_FullMethodName,
     ControlService_GetClusterState_FullMethodName,
     ControlService_JoinCluster_FullMethodName]"

text \<open>The bindings are consistent: the method names the client stubs and handlers use are, service by
  service, the names the descriptors announce, no name is announced twice, and so a name leads to one
  method of one service.
\<close>

theorem bindings_consistent:
  "set full_names = (\<Union>d\<in>set all_services. set (announced d)) \<and>
   distinct (concat (map announced all_services)) \<and>
   set (announced AgentService_ServiceDesc) =
     {AgentService_Register_FullMethodName,
      AgentService_Heartbeat_FullMethodName,
      AgentService_ExecuteTask_FullMethodName,
      AgentService_AllocateMemory_FullMethodName,
      AgentService_AllocateGPUMemory_FullMethodName,
      AgentService_FreeMemory_FullMethodName,
      AgentService_FreeGPUMemory_FullMethodName}"
proof -
  have announced: "concat (map announced all_services) = [AgentService_Register_FullMethodName,
     AgentService_ExecuteTask_FullMethodName,
     AgentService_AllocateMemory_FullMethodName,
     AgentService_AllocateGPUMemory_FullMethodName,
     AgentService_FreeMemory_FullMethodName,
     AgentService_FreeGPUMemory_FullMethodName,
     AgentService_Heartbeat_FullMethodName,
     JobService_SubmitJob_FullMethodName,
     JobService_GetJob_FullMethodName,
     JobService_ListJobs_FullMethodName,
     JobService_CancelJob_FullMethodName,
     JobService_GetJobMetrics_FullMethodName,
     JobService_StreamLogs_FullMethodName,
     StorageService_CreateDataset_FullMethodName,
     StorageService_ListDatasets_FullMethodName,
     StorageService_GetDatasetStatus_FullMethodName,
     MemoryService_AllocateDistributed_FullMethodName,
     MemoryService_MigrateRegion_FullMethodName,
     MemoryService_GetRegion_FullMethodName,
     ControlService_GetClusterState_FullMethodName,
     ControlService_JoinCluster_FullMethodName]"
    by (simp add: all_services_def announced_def service_descs full_method_names)
  have "(\<Union>d\<in>set all_services. set (announced d)) = set (concat (map announced all_services))" by simp
  also have "\<dots> = set full_names" unfolding announced full_names_def by auto
  finally have "set full_names = (\<Union>d\<in>set all_services. set (announced d))" by simp
  moreover have "distinct (concat (map announced all_services))"
    unfolding announced full_method_names by simp
  moreover have "set (announced AgentService_ServiceDesc) =
     {AgentService_Register_FullMethodName,
      AgentService_Heartbeat_FullMethodName,
      AgentService_ExecuteTask_FullMethodName,
      AgentService_AllocateMemory_FullMethodName,
      AgentService_AllocateGPUMemory_FullMethodName,
      AgentService_FreeMemory_FullMethodName,
      AgentService_FreeGPUMemory_FullMethodName}"
    by (simp add: announced_def service_descs full_method_names insert_commute)
  ultimately show ?thesis by blast
qed

end
