(* ===== verification/Go_Float.thy ===== *)
theory Go_Float
  imports Complex_Main Go_Strings "HOL-Library.Log_Nat"
begin

text \<open>
  Go's \<open>float64\<close> numbers as the API uses them: rounding a rational number to the nearest double, and the
  text \<^verbatim>\<open>strconv\<close> and \<^verbatim>\<open>encoding/json\<close> write for a double, the shortest decimal that reads back as the
  same double. A double is the rational number it stands for; infinities and NaN do not occur, and a
  number is assumed below the overflow threshold.
\<close>

subsection \<open>Rounding to the nearest double\<close>

definition round_even :: "rat \<Rightarrow> int" where
  "round_even r =
     (let n = \<lfloor>r\<rfloor>; d = r - of_int n
      in if 1 / 2 < d \<or> d = 1 / 2 \<and> odd n then n + 1 else n)"

text \<open>The exponent of the last place of a positive number: 53 significant bits, or \<open>2\<close> to the \<open>-1074\<close>.\<close>

definition last_place :: "rat \<Rightarrow> int" where
  "last_place q = max (int (floorlog 2 (nat \<lfloor>q * 2 ^ 1100\<rfloor>)) - 1101 - 52) (- 1074)"

definition float64_of_rat :: "rat \<Rightarrow> rat" where
  "float64_of_rat q =
     (let a = \<bar>q\<bar>; u = power_int 2 (last_place a)
      in sgn q * (of_int (round_even (a / u)) * u))"

lemma round_even_of_int [simp]: "round_even (of_int n) = n"
  by (simp add: round_even_def)

lemma last_place_le:
  assumes "0 < m" and "m < 2 ^ 53" and "- 1074 \<le> k"
  shows "last_place (of_nat m * power_int 2 k) \<le> k"
proof -
  define K :: nat where "K = 1100"
  have K: "0 \<le> k + int K" using assms(3) by (simp add: K_def)
  have "of_nat m * power_int 2 k * 2 ^ K = (of_nat m * power_int 2 (k + int K) :: rat)"
    by (simp add: power_int_add)
  also have "\<dots> = of_nat (m * 2 ^ nat (k + int K))"
    using K by (simp add: power_int_nonneg_exp)
  finally have "nat \<lfloor>of_nat m * power_int 2 k * 2 ^ K :: rat\<rfloor> = m * 2 ^ nat (k + int K)"
    by (simp only: floor_of_nat nat_int)
  moreover have "floorlog 2 (m * 2 ^ nat (k + int K)) \<le> 53 + nat (k + int K)"
    using assms(2) by (intro floorlog_leI) (simp_all add: power_add)
  ultimately have "int (floorlog 2 (nat \<lfloor>of_nat m * power_int 2 k * 2 ^ K :: rat\<rfloor>)) \<le> 53 + (k + int K)"
    using K by simp
  then show ?thesis
    using assms(3) unfolding last_place_def K_def by (intro max.boundedI) linarith+
qed

text \<open>A number with at most 53 significant bits is a double.\<close>

lemma float64_exact:
  assumes "m < 2 ^ 53" and "- 1074 \<le> k"
  shows "float64_of_rat (of_nat m * power_int 2 k) = of_nat m * power_int 2 k"
proof (cases "m = 0")
  case False
  define q :: rat where "q = of_nat m * power_int 2 k"
  define u where "u = last_place q"
  define n where "n = int m * 2 ^ nat (k - u)"
  have "u \<le> k" using last_place_le [of m k] assms False by (simp add: u_def q_def)
  then have "power_int 2 k = (2 ^ nat (k - u) * power_int 2 u :: rat)"
    using power_int_add [of "2 :: rat" "k - u" u] by (simp add: power_int_nonneg_exp)
  then have split: "q = of_int n * power_int 2 u" by (simp add: q_def n_def)
  then have "q / power_int 2 u = of_int n" by simp
  then have r: "round_even (q / power_int 2 u) = n" by simp
  have pos: "0 < q" using False by (simp add: q_def)
  have "float64_of_rat q = q"
    unfolding float64_of_rat_def Let_def abs_of_pos [OF pos] u_def [symmetric] r sgn_pos [OF pos]
    using split by simp
  then show ?thesis by (simp only: q_def)
qed (simp add: float64_of_rat_def)

subsection \<open>The shortest decimal\<close>

text \<open>The exponent of the leading decimal digit, for every positive number above \<open>10\<close> to the \<open>-330\<close>.\<close>

definition dec_exponent :: "rat \<Rightarrow> int" where
  "dec_exponent x = int (length (itoa (nat \<lfloor>x * 10 ^ 330\<rfloor>))) - 331"

text \<open>
  The \<open>p\<close>-digit decimals next to \<open>x\<close>, below and above, scaled to integers: the nearer of those that
  read back as \<open>x\<close>.
\<close>

definition dec_scale :: "rat \<Rightarrow> nat \<Rightarrow> rat" where
  "dec_scale x p = power_int 10 (int p - 1 - dec_exponent x)"

definition shortest_at :: "rat \<Rightarrow> nat \<Rightarrow> int option" where
  "shortest_at x p =
     (let s = dec_scale x p; y = x * s; lo = \<lfloor>y\<rfloor>;
          ok = (\<lambda>c. float64_of_rat (of_int c / s) = x)
      in if ok lo \<and> (\<not> ok (lo + 1) \<or> y - of_int lo \<le> of_int (lo + 1) - y) then Some lo
         else if ok (lo + 1) then Some (lo + 1) else None)"

text \<open>The first number of digits, from \<open>p\<close> on, that will do.\<close>

fun shortest_from :: "rat \<Rightarrow> nat \<Rightarrow> nat \<Rightarrow> (int \<times> nat) option" where
  "shortest_from x p 0 = None"
| "shortest_from x p (Suc n) =
     (case shortest_at x p of Some c \<Rightarrow> Some (c, p) | None \<Rightarrow> shortest_from x (Suc p) n)"

definition shortest :: "rat \<Rightarrow> (int \<times> nat) option" where
  "shortest x = shortest_from x 1 1500"

lemma shortest_from_reads_back:
  "shortest_from x p n = Some (c, q) \<Longrightarrow> float64_of_rat (of_int c / dec_scale x q) = x"
  by (induction x p n rule: shortest_from.induct)
     (auto simp: shortest_at_def Let_def split: option.splits if_splits)

lemma shortest_from_nonneg: "shortest_from x p n = Some (c, q) \<Longrightarrow> 0 \<le> x \<Longrightarrow> 0 \<le> c"
proof (induction x p n rule: shortest_from.induct)
  case (2 x p n)
  have "0 \<le> \<lfloor>x * dec_scale x p\<rfloor>" using 2 by (simp add: dec_scale_def)
  with 2 show ?case by (auto simp: shortest_at_def Let_def split: option.splits if_splits)
qed simp

lemma shortest_from_found:
  "shortest_at x q \<noteq> None \<Longrightarrow> p \<le> q \<Longrightarrow> q < p + n \<Longrightarrow> shortest_from x p n \<noteq> None"
proof (induction x p n rule: shortest_from.induct)
  case (2 x p n)
  then show ?case by (cases "p = q") (auto split: option.split)
qed simp

lemma shortest_at_exact:
  assumes "float64_of_rat x = x" and "x * dec_scale x p = of_int c"
  shows "shortest_at x p \<noteq> None"
proof -
  have "dec_scale x p \<noteq> 0" by (simp add: dec_scale_def)
  with assms(2) have "of_int c / dec_scale x p = x" by (metis nonzero_mult_div_cancel_right)
  with assms show ?thesis by (simp add: shortest_at_def Let_def)
qed

text \<open>The search ends: a double is a decimal fraction, so enough digits give it exactly.\<close>

lemma shortest_found:
  assumes "float64_of_rat x = x" and "x * 10 ^ k = of_int c" and "k + nat (dec_exponent x + 1) < 1500"
    and "- int k \<le> dec_exponent x"
  shows "shortest x \<noteq> None"
proof -
  define p where "p = nat (int k + 1 + dec_exponent x)"
  have p: "int p = int k + 1 + dec_exponent x" using assms(4) by (simp add: p_def)
  have "x * dec_scale x p = of_int c"
    using assms(2) p by (simp add: dec_scale_def power_int_nonneg_exp)
  from shortest_at_exact [OF assms(1) this] have "shortest_at x p \<noteq> None" .
  then show ?thesis
    unfolding shortest_def
    by (rule shortest_from_found) (use p assms(3,4) in linarith)+
qed

subsection \<open>The text of a number\<close>

definition digit :: "char \<Rightarrow> bool" where
  "digit c \<longleftrightarrow> 48 \<le> (of_char c :: nat) \<and> of_char c \<le> (57 :: nat)"

definition strip_zeros :: "string \<Rightarrow> string" where
  "strip_zeros ds = rev (dropWhile (\<lambda>c. c = CHR ''0'') (rev ds))"

text \<open>Digits \<open>ds\<close> with the point after the first and exponent \<open>e\<close>, written without or with the exponent.\<close>

definition fixed_text :: "string \<Rightarrow> int \<Rightarrow> string" where
  "fixed_text ds e =
     (if e < 0 then ''0.'' @ replicate (nat (- e - 1)) CHR ''0'' @ ds
      else let n = nat e + 1;
               ip = take n ds @ replicate (n - length ds) CHR ''0'';
               fr = drop n ds
           in if fr = [] then ip else ip @ CHR ''.'' # fr)"

definition exponent_text :: "string \<Rightarrow> int \<Rightarrow> string" where
  "exponent_text ds e =
     take 1 ds @ (if drop 1 ds = [] then [] else CHR ''.'' # drop 1 ds) @
     CHR ''e'' # (if e < 0 then CHR ''-'' else CHR ''+'') # itoa (nat \<bar>e\<bar>)"

text \<open>
  The float encoder of \<^verbatim>\<open>encoding/json\<close> for a number that is not negative: exponent notation below
  \<open>10\<close> to the \<open>-6\<close> and from \<open>10\<close> to the \<open>21\<close>, without a leading zero in the exponent.
\<close>

definition float_text :: "rat \<Rightarrow> string" where
  "float_text x =
     (if x = 0 then ''0''
      else case shortest x of
             None \<Rightarrow> ''''
           | Some (c, p) \<Rightarrow>
               let ds = itoa (nat c);
                   e = dec_exponent x + int (length ds) - int p
               in if x < 1 / 10 ^ 6 \<or> 10 ^ 21 \<le> x then exponent_text (strip_zeros ds) e
                  else fixed_text (strip_zeros ds) e)"

text \<open>The value of a JSON number.\<close>

definition digits_value :: "string \<Rightarrow> nat" where
  "digits_value ds = foldl (\<lambda>n c. 10 * n + (of_char c - 48)) 0 ds"

fun exponent_value :: "string \<Rightarrow> int" where
  "exponent_value (x # sg # ds) =
     (if x = CHR ''e'' then if sg = CHR ''-'' then - int (digits_value ds) else int (digits_value ds) else 0)"
| "exponent_value _ = 0"

definition number_value :: "string \<Rightarrow> rat" where
  "number_value s =
     (let ip = takeWhile digit s; s1 = dropWhile digit s;
          fr = (if take 1 s1 = ''.'' then takeWhile digit (drop 1 s1) else []);
          s2 = (if take 1 s1 = ''.'' then dropWhile digit (drop 1 s1) else s1)
      in of_nat (digits_value (ip @ fr)) * power_int 10 (exponent_value s2 - int (length fr)))"

subsection \<open>Digits\<close>

lemma digits_value_snoc: "digits_value (ds @ [c]) = 10 * digits_value ds + (of_char c - 48)"
  by (simp add: digits_value_def)

lemma digits_value_Nil [simp]: "digits_value [] = 0"
  by (simp add: digits_value_def)

lemma digit_char_of [simp]: "n < 10 \<Longrightarrow> digit (char_of (48 + n :: nat))"
  by (simp add: digit_def of_char_of)

lemma itoa_digits: "list_all digit (itoa n)"
proof (induction n rule: itoa.induct)
  case (1 n)
  then show ?case by (subst itoa.simps) auto
qed

lemma itoa_nonempty [simp]: "itoa n \<noteq> []"
  by (subst itoa.simps) simp

lemma digits_value_itoa [simp]: "digits_value (itoa n) = n"
proof (induction n rule: itoa.induct)
  case (1 n)
  show ?case
  proof (cases "n < 10")
    case True
    then show ?thesis by (simp add: itoa.simps digits_value_def of_char_of)
  next
    case False
    then show ?thesis
      by (subst itoa.simps) (simp add: digits_value_snoc "1.IH" of_char_of)
  qed
qed

lemma length_itoa_le: "n < 10 ^ Suc k \<Longrightarrow> length (itoa n) \<le> Suc k"
proof (induction k arbitrary: n)
  case 0
  then show ?case by (subst itoa.simps) simp
next
  case (Suc k)
  then have "n div 10 < 10 ^ Suc k" by (simp add: less_mult_imp_div_less mult.commute)
  with Suc.IH show ?case by (subst itoa.simps) auto
qed

lemma length_itoa_gt: "10 ^ k \<le> n \<Longrightarrow> k < length (itoa n)"
proof (induction k arbitrary: n)
  case (Suc k)
  then have "10 * 10 ^ k \<le> n" by simp
  then have "10 ^ k \<le> n div 10" by (simp add: less_eq_div_iff_mult_less_eq mult.commute)
  moreover have "(1 :: nat) \<le> 10 ^ k" by simp
  with \<open>10 * 10 ^ k \<le> n\<close> have "\<not> n < 10" by linarith
  ultimately show ?case using Suc.IH by (subst itoa.simps) simp
qed simp

lemma digits_value_zeros: "digits_value (ds @ replicate k CHR ''0'') = digits_value ds * 10 ^ k"
proof (induction k)
  case (Suc k)
  have "ds @ replicate (Suc k) CHR ''0'' = (ds @ replicate k CHR ''0'') @ [CHR ''0'']"
    by (simp add: replicate_append_same)
  then show ?case by (simp only: digits_value_snoc Suc.IH) simp
qed simp

lemma digits_value_leading: "digits_value (replicate k CHR ''0'' @ ds) = digits_value ds"
  by (induction k) (simp_all add: digits_value_def)

lemma strip_zeros_eq: "\<exists>z. ds = strip_zeros ds @ replicate z CHR ''0''"
proof -
  define zs where "zs = takeWhile (\<lambda>c. c = CHR ''0'') (rev ds)"
  have "rev ds = zs @ dropWhile (\<lambda>c. c = CHR ''0'') (rev ds)" by (simp add: zs_def)
  then have "ds = strip_zeros ds @ rev zs"
    unfolding strip_zeros_def by (metis rev_append rev_rev_ident)
  moreover have "zs = replicate (length zs) CHR ''0''"
    by (intro replicate_eqI) (auto simp: zs_def dest: set_takeWhileD)
  then obtain z where "rev zs = replicate z CHR ''0''" by (metis rev_replicate)
  ultimately have "ds = strip_zeros ds @ replicate z CHR ''0''" by (simp only:)
  then show ?thesis ..
qed

subsection \<open>Reading a number back\<close>

lemma span_all:
  assumes "list_all P xs" and "ys = [] \<or> \<not> P (hd ys)"
  shows "takeWhile P (xs @ ys) = xs" and "dropWhile P (xs @ ys) = ys"
  using assms by (induction xs) (cases ys; simp)+

lemma number_value_parts:
  assumes "list_all digit ip" and "list_all digit fr" and "tail = [] \<or> hd tail = CHR ''e''"
  shows "number_value (ip @ (if fr = [] then [] else CHR ''.'' # fr) @ tail) =
    of_nat (digits_value (ip @ fr)) * power_int 10 (exponent_value tail - int (length fr))"
proof -
  have tail: "tail = [] \<or> \<not> digit (hd tail)" using assms(3) by (auto simp: digit_def)
  show ?thesis
  proof (cases "fr = []")
    case True
    have "take 1 tail \<noteq> ''.''" using assms(3) by (cases tail) auto
    with True span_all [OF assms(1) tail] show ?thesis
      by (simp add: number_value_def Let_def)
  next
    case False
    have "CHR ''.'' # fr @ tail = [] \<or> \<not> digit (hd (CHR ''.'' # fr @ tail))"
      by (simp add: digit_def)
    with False span_all [OF assms(1) this] span_all [OF assms(2) tail] show ?thesis
      by (simp add: number_value_def Let_def)
  qed
qed

lemma fixed_text_value:
  assumes "list_all digit ds"
  shows "number_value (fixed_text ds e) =
    of_nat (digits_value ds) * power_int 10 (e + 1 - int (length ds))"
proof (cases "e < 0")
  case True
  define fr where "fr = replicate (nat (- e - 1)) CHR ''0'' @ ds"
  show ?thesis
  proof (cases "fr = []")
    case True
    with \<open>e < 0\<close> show ?thesis by (simp add: fr_def fixed_text_def number_value_def digit_def digits_value_def)
  next
    case False
    have "list_all digit fr" using assms by (auto simp: fr_def list_all_iff digit_def)
    have shape: "fixed_text ds e = ''0'' @ (if fr = [] then [] else CHR ''.'' # fr) @ []"
      using \<open>e < 0\<close> False by (simp add: fixed_text_def fr_def)
    have "number_value (fixed_text ds e) =
        of_nat (digits_value (replicate 1 CHR ''0'' @ fr)) * power_int 10 (- int (length fr))"
      unfolding shape using number_value_parts [of "''0''" fr "[]", OF _ \<open>list_all digit fr\<close>]
      by (simp add: digit_def)
    also have "\<dots> = of_nat (digits_value ds) * power_int 10 (- int (length fr))"
      unfolding digits_value_leading fr_def by simp
    finally show ?thesis using \<open>e < 0\<close> by (simp add: fr_def algebra_simps)
  qed
next
  case False
  define n where "n = nat e + 1"
  define ip where "ip = take n ds @ replicate (n - length ds) CHR ''0''"
  have n: "e + 1 = int n" using False by (simp add: n_def)
  have parts: "list_all digit ip" "list_all digit (drop n ds)"
    using assms by (auto simp: ip_def list_all_iff digit_def dest: in_set_takeD in_set_dropD)
  have "fixed_text ds e = ip @ (if drop n ds = [] then [] else CHR ''.'' # drop n ds) @ []"
    using False by (simp add: fixed_text_def Let_def ip_def n_def)
  then have v: "number_value (fixed_text ds e) =
      of_nat (digits_value (ip @ drop n ds)) * power_int 10 (- int (length (drop n ds)))"
    using number_value_parts [OF parts, of "[]"] by simp
  show ?thesis
  proof (cases "length ds \<le> n")
    case True
    then have "ip @ drop n ds = ds @ replicate (n - length ds) CHR ''0''" by (simp add: ip_def)
    with v True show ?thesis
      by (simp add: digits_value_zeros n power_int_def of_nat_diff nat_diff_distrib)
  next
    case False
    then have "ip @ drop n ds = ds" by (simp add: ip_def)
    with v False show ?thesis by (simp add: n of_nat_diff)
  qed
qed

lemma exponent_text_value:
  assumes "list_all digit ds" and "ds \<noteq> []"
  shows "number_value (exponent_text ds e) =
    of_nat (digits_value ds) * power_int 10 (e + 1 - int (length ds))"
proof -
  define tail where "tail = CHR ''e'' # (if e < 0 then CHR ''-'' else CHR ''+'') # itoa (nat \<bar>e\<bar>)"
  have ev: "exponent_value tail = e" by (simp add: tail_def)
  have parts: "list_all digit (take 1 ds)" "list_all digit (drop 1 ds)"
    using assms(1) by (auto simp: list_all_iff dest: in_set_takeD in_set_dropD)
  have len: "int (length (drop 1 ds)) = int (length ds) - 1" using assms(2) by (cases ds) simp_all
  have split1: "take 1 ds @ drop 1 ds = ds" by simp
  have "number_value (exponent_text ds e) =
      number_value (take 1 ds @ (if drop 1 ds = [] then [] else CHR ''.'' # drop 1 ds) @ tail)"
    by (simp only: exponent_text_def tail_def)
  also have "\<dots> = of_nat (digits_value ds) * power_int 10 (exponent_value tail - int (length (drop 1 ds)))"
    using number_value_parts [OF parts, of tail] unfolding split1 by (simp add: tail_def)
  also have "\<dots> = of_nat (digits_value ds) * power_int 10 (e + 1 - int (length ds))"
    unfolding ev len by (simp add: algebra_simps)
  finally show ?thesis .
qed

text \<open>
  Reading back the text of a positive double gives a decimal that rounds to that double. The side
  conditions hold for every decimal fraction below \<open>10\<close> to the \<open>300\<close> with at most 300 places.
\<close>

lemma float_text_shortest:
  assumes "shortest x = Some (c, p)" and "0 < x"
  shows "number_value (float_text x) = of_int c / dec_scale x p"
    and "float64_of_rat (number_value (float_text x)) = x"
proof -
  have reads: "float64_of_rat (of_int c / dec_scale x p) = x"
    using assms(1) unfolding shortest_def by (rule shortest_from_reads_back)
  have "0 \<le> c"
    using shortest_from_nonneg [OF assms(1) [unfolded shortest_def]] assms(2) by simp
  obtain z where z: "itoa (nat c) = strip_zeros (itoa (nat c)) @ replicate z CHR ''0''"
    using strip_zeros_eq by blast
  define ds where "ds = strip_zeros (itoa (nat c))"
  have len: "length (itoa (nat c)) = length ds + z" using z by (metis ds_def length_append length_replicate)
  have "digits_value (itoa (nat c)) = digits_value ds * 10 ^ z"
    using z digits_value_zeros [of ds z] by (simp only: ds_def [symmetric])
  then have "nat c = digits_value ds * 10 ^ z" by simp
  with \<open>0 \<le> c\<close> have c: "c = int (digits_value ds) * 10 ^ z" by (metis int_nat_eq of_nat_mult of_nat_power of_nat_numeral)
  have "c \<noteq> 0"
    using reads assms(2) by (auto simp: float64_of_rat_def)
  with c have ne: "ds \<noteq> []" by auto
  have dig: "list_all digit ds"
    using itoa_digits [of "nat c"] z unfolding ds_def by (metis list_all_append)
  define e where "e = dec_exponent x + int (length ds + z) - int p"
  have "number_value (float_text x) = of_nat (digits_value ds) * power_int 10 (e + 1 - int (length ds))"
    using assms fixed_text_value [OF dig] exponent_text_value [OF dig ne]
    by (simp add: float_text_def Let_def len e_def ds_def [symmetric])
  also have "\<dots> = of_nat (digits_value ds) * power_int 10 (int z - (int p - 1 - dec_exponent x))"
    by (simp add: e_def algebra_simps)
  also have "\<dots> = of_int c / dec_scale x p"
    unfolding c dec_scale_def by (simp add: power_int_diff)
  finally show v: "number_value (float_text x) = of_int c / dec_scale x p" .
  then show "float64_of_rat (number_value (float_text x)) = x" using reads by simp
qed

lemma length_itoa_floor:
  fixes y :: rat
  assumes "10 ^ a \<le> y" and "y < 10 ^ Suc b"
  shows "a < length (itoa (nat \<lfloor>y\<rfloor>))" and "length (itoa (nat \<lfloor>y\<rfloor>)) \<le> Suc b"
proof -
  have "of_int (10 ^ a) \<le> y" using assms(1) by simp
  then have "10 ^ a \<le> \<lfloor>y\<rfloor>" by (simp only: le_floor_iff)
  then have "nat (10 ^ a) \<le> nat \<lfloor>y\<rfloor>" by (rule nat_mono)
  then show "a < length (itoa (nat \<lfloor>y\<rfloor>))" by (simp add: nat_power_eq length_itoa_gt)
  have "y < of_int (10 ^ Suc b)" using assms(2) by simp
  then have "\<lfloor>y\<rfloor> < 10 ^ Suc b" by (simp only: floor_less_iff)
  then have "nat \<lfloor>y\<rfloor> < nat (10 ^ Suc b)" by (subst nat_mono_iff) simp_all
  also have "nat (10 ^ Suc b) = 10 ^ Suc b" by (subst nat_power_eq) simp_all
  finally show "length (itoa (nat \<lfloor>y\<rfloor>)) \<le> Suc b" by (rule length_itoa_le)
qed

lemma dec_exponent_bounds:
  assumes "1 \<le> x * 10 ^ m" and "x < 10 ^ m" and "0 < m" and "m \<le> 300"
  shows "- int m \<le> dec_exponent x" and "dec_exponent x < int m"
proof -
  define K :: nat where "K = 330"
  have exp: "dec_exponent x = int (length (itoa (nat \<lfloor>x * 10 ^ K\<rfloor>))) - int K - 1"
    by (simp only: dec_exponent_def K_def)
  have K: "K = m + (K - m)" using assms(4) by (simp add: K_def)
  have "x * 10 ^ K = x * 10 ^ m * 10 ^ (K - m)" by (subst K) (simp only: power_add mult.assoc)
  with mult_right_mono [OF assms(1), of "10 ^ (K - m)"] have lo: "10 ^ (K - m) \<le> x * 10 ^ K"
    by (simp only: mult_1_left zero_le_power zero_le_numeral)
  have suc: "Suc (K + m - 1) = K + m" using assms(3) by simp
  have "x * 10 ^ K < 10 ^ m * 10 ^ K" by (rule mult_strict_right_mono [OF assms(2)]) simp
  then have "x * 10 ^ K < 10 ^ Suc (K + m - 1)" unfolding suc by (simp add: power_add mult.commute)
  note len = length_itoa_floor [OF lo this]
  show "- int m \<le> dec_exponent x" using len(1) K unfolding exp by linarith
  show "dec_exponent x < int m" using len(2) assms(3) unfolding exp by linarith
qed

lemma shortest_exists:
  assumes "float64_of_rat x = x" and "0 < x" and "x < 10 ^ m" and "x * 10 ^ m = of_int c"
    and "0 < m" and "m \<le> 300"
  obtains c p where "shortest x = Some (c, p)"
proof -
  have "0 < x * 10 ^ m" using assms(2) by simp
  then have "1 \<le> c" unfolding assms(4) by simp
  then have "1 \<le> x * 10 ^ m" unfolding assms(4) by simp
  note bounds = dec_exponent_bounds [OF this assms(3,5,6)]
  have "shortest x \<noteq> None"
    by (rule shortest_found [OF assms(1,4)]) (use bounds assms(6) in linarith)+
  with that show thesis by auto
qed

lemma float_text_reads_back:
  assumes "float64_of_rat x = x" and "0 \<le> x" and "x < 10 ^ m" and "x * 10 ^ m = of_int c"
    and "0 < m" and "m \<le> 300"
  shows "float64_of_rat (number_value (float_text x)) = x" and "float_text x \<noteq> []"
proof -
  have "float64_of_rat (number_value (float_text x)) = x \<and> float_text x \<noteq> []"
  proof (cases "x = 0")
    case True
    then show ?thesis by (simp add: float_text_def number_value_def float64_of_rat_def digits_value_def digit_def)
  next
    case False
    with assms(2) have pos: "0 < x" by simp
    obtain c p where s: "shortest x = Some (c, p)"
      using shortest_exists [OF assms(1) pos assms(3-6)] .
    have "fixed_text ds e \<noteq> []" "exponent_text ds e \<noteq> []" for ds e
      by (auto simp: fixed_text_def exponent_text_def Let_def)
    with s False have "float_text x \<noteq> []" by (simp add: float_text_def Let_def)
    with float_text_shortest(2) [OF s pos] show ?thesis by simp
  qed
  then show "float64_of_rat (number_value (float_text x)) = x" "float_text x \<noteq> []" by simp_all
qed

text \<open>The text of a number has only the characters of a JSON number.\<close>

definition number_char :: "char \<Rightarrow> bool" where
  "number_char c \<longleftrightarrow> digit c \<or> c \<in> set ''+-.e''"

lemma digits_number_chars: "list_all digit ds \<Longrightarrow> list_all number_char ds"
  by (auto simp: list_all_iff number_char_def)

lemma strip_zeros_chars: "list_all P ds \<Longrightarrow> list_all P (strip_zeros ds)"
  by (metis list_all_append strip_zeros_eq)

lemma float_text_chars: "list_all number_char (float_text x)"
proof -
  have zero: "number_char CHR ''0''" by (simp add: number_char_def digit_def)
  have "list_all number_char (fixed_text ds e)" "list_all number_char (exponent_text ds e)"
    if "list_all number_char ds" for ds e
    using that zero digits_number_chars [OF itoa_digits]
    by (auto simp: fixed_text_def exponent_text_def Let_def list_all_iff number_char_def
        dest: in_set_takeD in_set_dropD)
  then show ?thesis
    using zero strip_zeros_chars [OF digits_number_chars [OF itoa_digits]]
    by (auto simp: float_text_def Let_def split: option.split prod.split)
qed

end
