(* ===== verification/Go_Json.thy ===== *)
theory Go_Json
  imports Go_Float Go_Regexp
begin

text \<open>
  Go's \<^verbatim>\<open>encoding/json\<close>, as far as the API uses it: the text an \<open>Encoder\<close> writes for strings, integers,
  floating-point numbers, arrays and objects, with its escaping of quotes, control characters and HTML
  metacharacters; and, to say what a client makes of that text, a reader of JSON over the runes of the
  UTF-8 text. The reader covers the values the API writes: no literals and no white space except after
  the value. Reading what was written gives the value back, with every invalid byte of a string
  replaced by the rune \<open>0xFFFD\<close>.
\<close>

subsection \<open>Writing\<close>

datatype json = JString string | JInt int | JFloat rat | JArray "json list" | JObject "(string \<times> json) list"

definition hex_digit :: "nat \<Rightarrow> char" where
  "hex_digit n = char_of (if n < 10 then 48 + n else 87 + n)"

text \<open>A byte below \<open>0x80\<close>; the bytes \<open>0x22\<close>, \<open>0x5C\<close>, \<open>0x26\<close>, \<open>0x3C\<close>, \<open>0x3E\<close> are quote, backslash, \<open>&\<close>, \<open><\<close>, \<open>>\<close>.\<close>

definition escape_byte :: "nat \<Rightarrow> string" where
  "escape_byte b =
     (if b = 0x22 \<or> b = 0x5C then [CHR 0x5C, char_of b]
      else if b = 0x08 then [CHR 0x5C, CHR ''b'']
      else if b = 0x0C then [CHR 0x5C, CHR ''f'']
      else if b = 0x0A then [CHR 0x5C, CHR ''n'']
      else if b = 0x0D then [CHR 0x5C, CHR ''r'']
      else if b = 0x09 then [CHR 0x5C, CHR ''t'']
      else if b < 0x20 \<or> b = 0x26 \<or> b = 0x3C \<or> b = 0x3E
      then CHR 0x5C # ''u00'' @ [hex_digit (b div 16), hex_digit (b mod 16)]
      else [char_of b])"

function escape :: "string \<Rightarrow> string" where
  "escape s =
     (if s = [] then []
      else let (r, w) = decode_rune (map of_char s)
           in (if r < 0x80 then escape_byte r
               else if r = RuneError \<and> w = 1 then CHR 0x5C # ''ufffd''
               else if r = 0x2028 \<or> r = 0x2029 then CHR 0x5C # ''u202'' @ [hex_digit (r mod 16)]
               else take w s) @ escape (drop (max 1 w) s))"
  by pat_completeness auto
termination by (relation "measure length") (auto simp del: decode_rune.simps)

declare escape.simps [simp del]

definition quote :: "string \<Rightarrow> string" where
  "quote s = CHR 0x22 # escape s @ [CHR 0x22]"

definition int_text :: "int \<Rightarrow> string" where
  "int_text i = (if i < 0 then CHR ''-'' # itoa (nat (- i)) else itoa (nat i))"

fun commas :: "string list \<Rightarrow> string" where
  "commas [] = []"
| "commas [x] = x"
| "commas (x # xs) = x @ CHR '','' # commas xs"

primrec json_text :: "json \<Rightarrow> string" where
  "json_text (JString s) = quote s"
| "json_text (JInt i) = int_text i"
| "json_text (JFloat x) = float_text x"
| "json_text (JArray vs) = CHR ''['' # commas (map json_text vs) @ '']''"
| "json_text (JObject kvs) =
     CHR ''{'' # commas (map (\<lambda>(k, t). quote k @ CHR '':'' # t) (map (map_prod id json_text) kvs)) @ ''}''"

text \<open>\<open>Encoder.Encode\<close> ends the value with a newline.\<close>

definition json_line :: "json \<Rightarrow> string" where
  "json_line v = json_text v @ [CHR 0x0A]"

subsection \<open>Reading\<close>

datatype jvalue = VString "nat list" | VNumber string | VArray "jvalue list" | VObject "(nat list \<times> jvalue) list"

definition hex_value :: "nat \<Rightarrow> nat option" where
  "hex_value c =
     (if 48 \<le> c \<and> c \<le> 57 then Some (c - 48)
      else if 97 \<le> c \<and> c \<le> 102 then Some (c - 87)
      else if 65 \<le> c \<and> c \<le> 70 then Some (c - 55) else None)"

definition hex4 :: "nat \<Rightarrow> nat \<Rightarrow> nat \<Rightarrow> nat \<Rightarrow> nat option" where
  "hex4 a b c d =
     (case (hex_value a, hex_value b, hex_value c, hex_value d) of
        (Some p, Some q, Some r, Some s) \<Rightarrow> Some (p * 4096 + q * 256 + r * 16 + s)
      | _ \<Rightarrow> None)"

definition simple_escape :: "nat \<Rightarrow> nat option" where
  "simple_escape c =
     map_of [(0x22, 0x22), (0x5C, 0x5C), (0x2F, 0x2F), (98, 0x08), (102, 0x0C), (110, 0x0A), (114, 0x0D), (116, 0x09)] c"

text \<open>The characters of a string up to its closing quote. Escaped surrogates are not accepted.\<close>

fun read_chars :: "nat list \<Rightarrow> (nat list \<times> nat list) option" where
  "read_chars [] = None"
| "read_chars (c # cs) =
     (if c = 0x22 then Some ([], cs)
      else if c = 0x5C then
        (case cs of
           [] \<Rightarrow> None
         | x # xs \<Rightarrow>
             if x = 117 then
               (case xs of
                  a # b # d # e # rest \<Rightarrow>
                    (case hex4 a b d e of
                       None \<Rightarrow> None
                     | Some n \<Rightarrow>
                         if 0xD800 \<le> n \<and> n < 0xE000 then None
                         else map_option (map_prod ((#) n) id) (read_chars rest))
                | _ \<Rightarrow> None)
             else (case simple_escape x of
                     None \<Rightarrow> None
                   | Some n \<Rightarrow> map_option (map_prod ((#) n) id) (read_chars xs)))
      else if c < 0x20 then None
      else map_option (map_prod ((#) c) id) (read_chars cs))"

definition number_rune :: "nat \<Rightarrow> bool" where
  "number_rune c \<longleftrightarrow> c < 128 \<and> number_char (char_of c)"

text \<open>The reader proper, with a bound on its depth.\<close>

fun read_value :: "nat \<Rightarrow> nat list \<Rightarrow> (jvalue \<times> nat list) option"
  and read_elements :: "nat \<Rightarrow> nat list \<Rightarrow> (jvalue list \<times> nat list) option"
  and read_members :: "nat \<Rightarrow> nat list \<Rightarrow> ((nat list \<times> jvalue) list \<times> nat list) option"
  where
  "read_value (Suc n) (c # cs) =
     (if c = 0x22 then map_option (map_prod VString id) (read_chars cs)
      else if c = 0x5B then
        (if take 1 cs = [0x5D] then Some (VArray [], drop 1 cs)
         else map_option (map_prod VArray id) (read_elements n cs))
      else if c = 0x7B then
        (if take 1 cs = [0x7D] then Some (VObject [], drop 1 cs)
         else map_option (map_prod VObject id) (read_members n cs))
      else if number_rune c
      then Some (VNumber (map char_of (takeWhile number_rune (c # cs))), dropWhile number_rune (c # cs))
      else None)"
| "read_value _ _ = None"
| "read_elements (Suc n) cs =
     (case read_value n cs of
        Some (v, c # rest) \<Rightarrow>
          if c = 0x2C then map_option (map_prod ((#) v) id) (read_elements n rest)
          else if c = 0x5D then Some ([v], rest) else None
      | _ \<Rightarrow> None)"
| "read_elements 0 cs = None"
| "read_members (Suc n) cs =
     (if take 1 cs = [0x22] then
        (case read_chars (drop 1 cs) of
           Some (k, c # rest) \<Rightarrow>
             if c = 0x3A then
               (case read_value n rest of
                  Some (v, d # rest') \<Rightarrow>
                    if d = 0x2C then map_option (map_prod ((#) (k, v)) id) (read_members n rest')
                    else if d = 0x7D then Some ([(k, v)], rest') else None
                | _ \<Rightarrow> None)
             else None
         | _ \<Rightarrow> None)
      else None)"
| "read_members 0 cs = None"

definition read_json :: "string \<Rightarrow> jvalue option" where
  "read_json s =
     (case read_value (length s) (runes s) of
        Some (v, rest) \<Rightarrow> if set rest \<subseteq> {0x20, 0x0A, 0x0D, 0x09} then Some v else None
      | None \<Rightarrow> None)"

text \<open>What a value is to its reader.\<close>

primrec value_of :: "json \<Rightarrow> jvalue" where
  "value_of (JString s) = VString (runes s)"
| "value_of (JInt i) = VNumber (int_text i)"
| "value_of (JFloat x) = VNumber (float_text x)"
| "value_of (JArray vs) = VArray (map value_of vs)"
| "value_of (JObject kvs) = VObject (map (map_prod runes id) (map (map_prod id value_of) kvs))"

subsection \<open>Runes of a text\<close>

lemma decode_rune_cases:
  assumes "bs \<noteq> []"
  obtains (ascii) "decode_rune bs = (hd bs, 1)" "hd bs < 0x80"
    | (invalid) "decode_rune bs = (RuneError, 1)" "0x80 \<le> hd bs"
    | (wide) r w where "decode_rune bs = (r, w)" "0x80 \<le> r" "2 \<le> w" "w \<le> length bs"
        "\<And>cs. decode_rune (take w bs @ cs) = (r, w)" "\<forall>b\<in>set (take w bs). 0x80 \<le> b"
proof -
  obtain b0 us where bs: "bs = b0 # us" using assms by (cases bs) auto
  consider "b0 < 0x80" | "\<not> b0 < 0x80" "snd (decode_rune bs) = 1"
    | "\<not> b0 < 0x80" "snd (decode_rune bs) \<noteq> 1" by blast
  then show thesis
  proof cases
    case 1
    with bs ascii show ?thesis by (simp add: decode_rune.simps)
  next
    case 2
    with bs have "decode_rune bs = (RuneError, 1)"
      by (auto simp: decode_rune.simps split: if_splits list.splits)
    with 2 bs invalid show ?thesis by simp
  next
    case 3
    then consider (two) "0xC2 \<le> b0 \<and> b0 \<le> 0xDF" | (three) "0xE0 \<le> b0 \<and> b0 \<le> 0xEF"
      | (four) "0xF0 \<le> b0 \<and> b0 \<le> 0xF4"
      unfolding bs by (auto simp: decode_rune.simps split: if_splits)
    then show ?thesis
    proof cases
      case two
      with 3 obtain b1 vs where us: "us = b1 # vs" "cont_byte b1"
        unfolding bs by (cases us) (auto simp: decode_rune.simps split: if_splits)
      have "0x80 \<le> (b0 - 0xC0) * 64 + (b1 - 0x80)" using two us(2) by linarith
      then show ?thesis
        by (intro wide [of "(b0 - 0xC0) * 64 + (b1 - 0x80)" 2])
           (use two us in \<open>simp_all add: bs decode_rune.simps cont_byte_def\<close>)
    next
      case three
      with 3 obtain b1 b2 vs where us: "us = b1 # b2 # vs" "accept_second b0 b1 \<and> cont_byte b2"
        unfolding bs by (auto simp: decode_rune.simps split: if_splits list.splits)
      have "0x80 \<le> (b0 - 0xE0) * 4096 + (b1 - 0x80) * 64 + (b2 - 0x80)"
        using three us(2) by (auto simp: accept_second_def split: if_splits)
      moreover have bytes: "0x80 \<le> b1" "0x80 \<le> b2"
        using us(2) by (auto simp: accept_second_def cont_byte_def split: if_splits)
      ultimately show ?thesis
        by (intro wide [of "(b0 - 0xE0) * 4096 + (b1 - 0x80) * 64 + (b2 - 0x80)" 3])
           (use three us bytes in \<open>simp_all add: bs decode_rune.simps\<close>)
    next
      case four
      with 3 obtain b1 b2 b3 vs where us: "us = b1 # b2 # b3 # vs"
          "accept_second b0 b1 \<and> cont_byte b2 \<and> cont_byte b3"
        unfolding bs by (auto simp: decode_rune.simps split: if_splits list.splits)
      have "0x80 \<le> (b0 - 0xF0) * 262144 + (b1 - 0x80) * 4096 + (b2 - 0x80) * 64 + (b3 - 0x80)"
        using four us(2) by (auto simp: accept_second_def split: if_splits)
      moreover have bytes: "0x80 \<le> b1" "0x80 \<le> b2" "0x80 \<le> b3"
        using us(2) by (auto simp: accept_second_def cont_byte_def split: if_splits)
      ultimately show ?thesis
        by (intro wide [of "(b0 - 0xF0) * 262144 + (b1 - 0x80) * 4096 + (b2 - 0x80) * 64 + (b3 - 0x80)" 4])
           (use four us bytes in \<open>simp_all add: bs decode_rune.simps\<close>)
    qed
  qed
qed

lemma runes_Nil [simp]: "runes [] = []"
  by (simp add: runes_def decode_runes.simps)

lemma runes_step:
  "s \<noteq> [] \<Longrightarrow> decode_rune (map of_char s) = (r, w) \<Longrightarrow> runes s = r # runes (drop (max 1 w) s)"
  unfolding runes_def by (subst decode_runes.simps) (simp add: drop_map)

lemma runes_ascii_Cons: "of_char c < (0x80 :: nat) \<Longrightarrow> runes (c # s) = of_char c # runes s"
  using runes_step [of "c # s" "of_char c" 1] by (simp add: decode_rune.simps)

lemma runes_ascii_text:
  "list_all (\<lambda>c. of_char c < (0x80 :: nat)) a \<Longrightarrow> runes (a @ s) = map of_char a @ runes s"
  by (induction a) (simp_all add: runes_ascii_Cons)

subsection \<open>Strings read back\<close>

lemma of_char_char_of: "n < 256 \<Longrightarrow> of_char (char_of n :: char) = (n :: nat)"
  by (simp add: of_char_of)

lemma hex_value_digit: "n < 16 \<Longrightarrow> hex_value (of_char (hex_digit n)) = Some n"
  by (auto simp: hex_value_def hex_digit_def of_char_char_of)

lemma hex_digit_ascii: "n < 16 \<Longrightarrow> of_char (hex_digit n) < (0x80 :: nat)"
  by (simp add: hex_digit_def of_char_char_of)

lemma escape_byte_ascii: "b < 0x80 \<Longrightarrow> list_all (\<lambda>c. of_char c < (0x80 :: nat)) (escape_byte b)"
  by (simp add: escape_byte_def hex_digit_ascii of_char_char_of)

lemma read_escape_byte:
  assumes "b < 0x80"
  shows "read_chars (map of_char (escape_byte b) @ us) = map_option (map_prod ((#) b) id) (read_chars us)"
proof -
  have "hex4 48 48 (of_char (hex_digit (b div 16))) (of_char (hex_digit (b mod 16))) = Some b"
    using assms hex_value_digit [of "b div 16"] hex_value_digit [of "b mod 16"]
    by (simp add: hex4_def hex_value_def [of 48])
  with assms show ?thesis
    by (auto simp: escape_byte_def simple_escape_def of_char_char_of)
qed

lemma read_escape: "read_chars (runes (escape s @ CHR 0x22 # t)) = Some (runes s, runes t)"
proof (induction s rule: escape.induct)
  case (1 s)
  show ?case
  proof (cases "s = []")
    case True
    then show ?thesis by (simp add: escape.simps runes_ascii_Cons)
  next
    case False
    then have ne: "map of_char s \<noteq> ([] :: nat list)" by simp
    obtain r w where d: "decode_rune (map of_char s) = (r, w)" by fastforce
    define rest where "rest = escape (drop (max 1 w) s) @ CHR 0x22 # t"
    have IH: "read_chars (runes rest) = Some (runes (drop (max 1 w) s), runes t)"
      unfolding rest_def using False d by (intro "1.IH") auto
    note runes_s = runes_step [OF False d]
    show ?thesis
    proof (cases rule: decode_rune_cases [OF ne])
      case 1
      with d have r: "r < 0x80" by simp
      then have "escape s @ CHR 0x22 # t = escape_byte r @ rest"
        using False d by (subst escape.simps) (simp add: rest_def)
      with r IH runes_s show ?thesis
        by (simp add: runes_ascii_text escape_byte_ascii read_escape_byte)
    next
      case 2
      with d have "r = RuneError" "w = 1" by simp_all
      then have "escape s @ CHR 0x22 # t = (CHR 0x5C # ''ufffd'') @ rest"
        using False d by (subst escape.simps) (simp add: rest_def RuneError_def)
      then have "runes (escape s @ CHR 0x22 # t) = [0x5C, 117, 102, 102, 102, 100] @ runes rest"
        using runes_ascii_text [of "CHR 0x5C # ''ufffd''" rest] by simp
      with IH runes_s \<open>r = RuneError\<close> show ?thesis
        by (simp add: hex4_def hex_value_def RuneError_def)
    next
      case (3 r' w')
      with d have r: "0x80 \<le> r" "2 \<le> w" "\<And>cs. decode_rune (take w (map of_char s) @ cs) = (r, w)"
        "w \<le> length s" by simp_all
      show ?thesis
      proof (cases "r = 0x2028 \<or> r = 0x2029")
        case True
        with r have "escape s @ CHR 0x22 # t = (CHR 0x5C # ''u202'' @ [hex_digit (r mod 16)]) @ rest"
          using False d by (subst escape.simps) (auto simp: rest_def RuneError_def)
        then have "runes (escape s @ CHR 0x22 # t) =
            [0x5C, 117, 50, 48, 50, of_char (hex_digit (r mod 16))] @ runes rest"
          using runes_ascii_text [of "CHR 0x5C # ''u202'' @ [hex_digit (r mod 16)]" rest]
          by (simp add: hex_digit_ascii)
        moreover have "hex4 50 48 50 (of_char (hex_digit (r mod 16))) = Some r"
          using True by (auto simp: hex4_def hex_value_def [of 48] hex_value_def [of 50] hex_value_digit)
        ultimately show ?thesis using IH runes_s True by auto
      next
        case wide: False
        then have "escape s @ CHR 0x22 # t = take w s @ rest"
          using False d r by (subst escape.simps) (auto simp: rest_def)
        moreover have "runes (take w s @ rest) = r # runes rest"
        proof -
          have "take w s @ rest \<noteq> []" using False r(2) by simp
          moreover have "decode_rune (map of_char (take w s @ rest)) = (r, w)"
            using r(3) [of "map of_char rest"] by (simp add: take_map)
          moreover have "drop (max 1 w) (take w s @ rest) = rest" using r(2,4) by simp
          ultimately show ?thesis using runes_step by metis
        qed
        ultimately show ?thesis using IH runes_s r(1) by simp
      qed
    qed
  qed
qed

lemma read_quote: "runes (quote s @ t) = 0x22 # runes (escape s @ CHR 0x22 # t)"
  by (simp add: quote_def runes_ascii_Cons)

subsection \<open>Numbers read back\<close>

lemma number_char_ascii: "number_char c \<Longrightarrow> of_char c < (0x80 :: nat)"
  by (auto simp: number_char_def digit_def)

lemma number_rune_of_char: "number_char c \<Longrightarrow> number_rune (of_char c)"
  by (simp add: number_rune_def number_char_ascii)

lemma itoa_number_chars: "list_all number_char (itoa n)"
  by (rule digits_number_chars [OF itoa_digits])

lemma int_text_chars: "list_all number_char (int_text i)"
  by (simp add: int_text_def itoa_number_chars number_char_def [of "CHR ''-''"])

text \<open>What may follow a value: nothing, or a character that does not continue a number.\<close>

definition ends_value :: "nat list \<Rightarrow> bool" where
  "ends_value us \<longleftrightarrow> us = [] \<or> \<not> number_rune (hd us)"

lemma read_number:
  assumes "list_all number_char a" and "a \<noteq> []" and "ends_value (runes t)"
  shows "read_value (Suc n) (runes (a @ t)) = Some (VNumber a, runes t)"
proof -
  obtain c cs where a: "a = c # cs" using assms(2) by (cases a) auto
  have all: "list_all number_rune (map of_char a)"
    using assms(1) by (auto simp: list_all_iff number_rune_of_char)
  have asc: "list_all (\<lambda>c. of_char c < (0x80 :: nat)) a"
    using assms(1) by (auto simp: list_all_iff number_char_ascii)
  have fst: "of_char c \<noteq> (0x22 :: nat)" "of_char c \<noteq> (0x5B :: nat)" "of_char c \<noteq> (0x7B :: nat)"
      "number_rune (of_char c)"
    using assms(1) a by (auto simp: number_char_def digit_def number_rune_of_char)
  define us where "us = map of_char cs @ runes t"
  have us: "of_char c # us = map of_char a @ runes t" by (simp add: us_def a)
  have "takeWhile number_rune (of_char c # us) = map of_char a"
      "dropWhile number_rune (of_char c # us) = runes t"
    unfolding us using span_all [OF all assms(3) [unfolded ends_value_def]] .
  moreover have "read_value (Suc n) (of_char c # us) =
      Some (VNumber (map char_of (takeWhile number_rune (of_char c # us))), dropWhile number_rune (of_char c # us))"
    using fst by (simp del: takeWhile.simps dropWhile.simps)
  moreover have "map char_of (map of_char a :: nat list) = a" by (simp add: comp_def)
  moreover have "runes (a @ t) = of_char c # us" unfolding us by (rule runes_ascii_text [OF asc])
  ultimately show ?thesis by (simp only:)
qed

subsection \<open>Values read back\<close>

text \<open>How deep the reader has to go, at most, and that a text is at least that long.\<close>

primrec depth :: "json \<Rightarrow> nat" where
  "depth (JString s) = 1"
| "depth (JInt i) = 1"
| "depth (JFloat x) = 1"
| "depth (JArray vs) = Suc (sum_list (map Suc (map depth vs)))"
| "depth (JObject kvs) = Suc (sum_list (map (Suc \<circ> snd) (map (map_prod id depth) kvs)))"

text \<open>The floats of a value are ones the encoder can write.\<close>

primrec printable :: "json \<Rightarrow> bool" where
  "printable (JString s) = True"
| "printable (JInt i) = True"
| "printable (JFloat x) = (float_text x \<noteq> [])"
| "printable (JArray vs) = list_all id (map printable vs)"
| "printable (JObject kvs) = list_all snd (map (map_prod id printable) kvs)"

text \<open>The equations for objects, by entry.\<close>

lemma json_object:
  "json_text (JObject kvs) =
     CHR ''{'' # commas (map (\<lambda>(k, v). quote k @ CHR '':'' # json_text v) kvs) @ ''}''"
  "value_of (JObject kvs) = VObject (map (\<lambda>(k, v). (runes k, value_of v)) kvs)"
  "depth (JObject kvs) = Suc (sum_list (map (\<lambda>(k, v). Suc (depth v)) kvs))"
  "printable (JObject kvs) = list_all (\<lambda>(k, v). printable v) kvs"
  by (auto simp: list_all_iff intro!: arg_cong [of _ _ commas] arg_cong [of _ _ sum_list])

lemma int_text_nonempty [simp]: "int_text i \<noteq> []"
  by (simp add: int_text_def)

lemma length_commas: "xs \<noteq> [] \<Longrightarrow> length (commas xs) + 1 = sum_list (map (Suc \<circ> length) xs)"
  by (induction xs rule: commas.induct) simp_all

lemma sum_list_le:
  "(\<And>x. x \<in> set xs \<Longrightarrow> f x \<le> (g x :: nat)) \<Longrightarrow> sum_list (map f xs) \<le> sum_list (map g xs)"
  by (rule sum_list_mono)

lemma depth_le_length: "printable v \<Longrightarrow> depth v \<le> length (json_text v)"
proof (induction v)
  case (JInt i)
  then show ?case by (simp add: Suc_le_eq)
next
  case (JFloat x)
  then show ?case by (simp add: Suc_le_eq)
next
  case (JArray vs)
  show ?case
  proof (cases "vs = []")
    case False
    have "sum_list (map (Suc \<circ> depth) vs) \<le> sum_list (map (Suc \<circ> length \<circ> json_text) vs)"
      using JArray by (intro sum_list_le) (auto simp: list_all_iff)
    with False show ?thesis using length_commas [of "map json_text vs"] by (simp add: comp_assoc)
  qed simp
next
  case (JObject kvs)
  show ?case
  proof (cases "kvs = []")
    case False
    let ?m = "\<lambda>(k, v). quote k @ CHR '':'' # json_text v"
    have le: "sum_list (map (\<lambda>(k, v). Suc (depth v)) kvs) \<le> sum_list (map (Suc \<circ> length \<circ> ?m) kvs)"
    proof (rule sum_list_le)
      fix e assume e: "e \<in> set kvs"
      obtain k v where kv: "e = (k, v)" by (cases e)
      have "printable v" using JObject.prems e kv by (auto simp: list_all_iff)
      with JObject.IH [OF e, of v] kv have "depth v \<le> length (json_text v)" by simp
      then show "(case e of (k, v) \<Rightarrow> Suc (depth v)) \<le> (Suc \<circ> length \<circ> ?m) e" by (simp add: kv)
    qed
    have "length (commas (map ?m kvs)) + 1 = sum_list (map (Suc \<circ> length \<circ> ?m) kvs)"
      using length_commas [of "map ?m kvs"] False by (simp add: comp_assoc)
    with le show ?thesis unfolding json_object by simp
  qed simp
qed (simp add: quote_def)

text \<open>No value starts with a closing bracket.\<close>

lemma json_text_head:
  assumes "printable v"
  shows "take 1 (runes (json_text v @ t)) \<noteq> [0x5D]" and "take 1 (runes (json_text v @ t)) \<noteq> [0x7D]"
proof -
  have num: "take 1 (runes (a @ t)) \<notin> {[0x5D], [0x7D]}" if "list_all number_char a" "a \<noteq> []" for a
  proof -
    obtain c cs where "a = c # cs" using \<open>a \<noteq> []\<close> by (cases a) auto
    with \<open>list_all number_char a\<close> show ?thesis
      by (auto simp: runes_ascii_Cons number_char_ascii number_char_def digit_def)
  qed
  have "take 1 (runes (json_text v @ t)) \<notin> {[0x5D], [0x7D]}"
  proof (cases v)
    case (JString s)
    then show ?thesis by (simp add: read_quote)
  next
    case (JInt i)
    then show ?thesis using num [OF int_text_chars int_text_nonempty] by simp
  next
    case (JFloat x)
    then show ?thesis using num [OF float_text_chars] assms by simp
  qed (simp_all add: runes_ascii_Cons)
  then show "take 1 (runes (json_text v @ t)) \<noteq> [0x5D]" "take 1 (runes (json_text v @ t)) \<noteq> [0x7D]"
    by simp_all
qed

lemma ends_value_sep: "of_char c < (0x80 :: nat) \<Longrightarrow> \<not> number_char c \<Longrightarrow> ends_value (runes (c # t))"
  by (simp add: ends_value_def runes_ascii_Cons number_rune_def)

text \<open>One value after another, by the text of the whole list.\<close>

lemma read_elements_text:
  assumes "\<And>v n t. v \<in> set vs \<Longrightarrow> depth v \<le> n \<Longrightarrow> ends_value (runes t) \<Longrightarrow>
      read_value n (runes (json_text v @ t)) = Some (value_of v, runes t)"
    and "vs \<noteq> []" and "sum_list (map (\<lambda>v. Suc (depth v)) vs) \<le> n"
  shows "read_elements n (runes (commas (map json_text vs) @ CHR '']'' # t)) = Some (map value_of vs, runes t)"
  using assms
proof (induction vs arbitrary: n)
  case (Cons v vs)
  from Cons.prems(3) obtain m where m: "n = Suc m" "depth v \<le> m" "sum_list (map (\<lambda>v. Suc (depth v)) vs) \<le> m"
    by (cases n) (auto simp: comp_def)
  show ?case
  proof (cases vs)
    case Nil
    have "read_value m (runes (json_text v @ CHR '']'' # t)) = Some (value_of v, runes (CHR '']'' # t))"
      by (rule Cons.prems(1)) (simp_all add: m ends_value_sep number_char_def digit_def)
    with Nil m show ?thesis by (simp add: runes_ascii_Cons)
  next
    case (Cons v' vs')
    define rest where "rest = commas (map json_text vs) @ CHR '']'' # t"
    have "read_value m (runes (json_text v @ CHR '','' # rest)) = Some (value_of v, runes (CHR '','' # rest))"
      by (rule Cons.prems(1)) (simp_all add: m ends_value_sep number_char_def digit_def)
    moreover have "read_elements m (runes rest) = Some (map value_of vs, runes t)"
      unfolding rest_def using Cons.prems(1) m(3) Cons by (intro Cons.IH) auto
    moreover have "commas (map json_text (v # vs)) @ CHR '']'' # t = json_text v @ CHR '','' # rest"
      by (simp add: rest_def Cons)
    ultimately show ?thesis by (simp add: m(1) runes_ascii_Cons)
  qed
qed simp

lemma read_members_text:
  assumes "\<And>k v n t. (k, v) \<in> set kvs \<Longrightarrow> depth v \<le> n \<Longrightarrow> ends_value (runes t) \<Longrightarrow>
      read_value n (runes (json_text v @ t)) = Some (value_of v, runes t)"
    and "kvs \<noteq> []" and "sum_list (map (\<lambda>(k, v). Suc (depth v)) kvs) \<le> n"
  shows "read_members n (runes (commas (map (\<lambda>(k, v). quote k @ CHR '':'' # json_text v) kvs) @ CHR ''}'' # t))
    = Some (map (\<lambda>(k, v). (runes k, value_of v)) kvs, runes t)"
  using assms
proof (induction kvs arbitrary: n)
  case (Cons e kvs)
  obtain k v where e: "e = (k, v)" by (cases e)
  from Cons.prems(3) obtain m where m: "n = Suc m" "depth v \<le> m"
      "sum_list (map (\<lambda>(k, v). Suc (depth v)) kvs) \<le> m"
    by (cases n) (auto simp: e)
  note key = read_quote [of k] read_escape [of k]
  show ?case
  proof (cases kvs)
    case Nil
    have "read_value m (runes (json_text v @ CHR ''}'' # t)) = Some (value_of v, runes (CHR ''}'' # t))"
      by (rule Cons.prems(1) [of k]) (simp_all add: e m ends_value_sep number_char_def digit_def)
    with Nil m show ?thesis by (simp add: e key runes_ascii_Cons)
  next
    case (Cons e' kvs')
    define rest where "rest = commas (map (\<lambda>(k, v). quote k @ CHR '':'' # json_text v) kvs) @ CHR ''}'' # t"
    have "read_value m (runes (json_text v @ CHR '','' # rest)) = Some (value_of v, runes (CHR '','' # rest))"
      by (rule Cons.prems(1) [of k]) (simp_all add: e m ends_value_sep number_char_def digit_def)
    moreover have "read_members m (runes rest) = Some (map (\<lambda>(k, v). (runes k, value_of v)) kvs, runes t)"
      unfolding rest_def using Cons.prems(1) m(3) Cons by (intro Cons.IH) auto
    moreover have "commas (map (\<lambda>(k, v). quote k @ CHR '':'' # json_text v) (e # kvs)) @ CHR ''}'' # t
        = quote k @ CHR '':'' # json_text v @ CHR '','' # rest"
      by (simp add: rest_def Cons e)
    ultimately show ?thesis by (simp add: m(1) e key runes_ascii_Cons)
  qed
qed simp

lemma read_json_text:
  "printable v \<Longrightarrow> depth v \<le> n \<Longrightarrow> ends_value (runes t) \<Longrightarrow>
     read_value n (runes (json_text v @ t)) = Some (value_of v, runes t)"
proof (induction v arbitrary: n t)
  case (JString s)
  then obtain m where "n = Suc m" by (cases n) auto
  then show ?case by (simp add: read_quote read_escape)
next
  case (JInt i)
  then obtain m where "n = Suc m" by (cases n) auto
  with read_number [OF int_text_chars int_text_nonempty JInt.prems(3)] show ?case by simp
next
  case (JFloat x)
  then obtain m where "n = Suc m" by (cases n) auto
  with read_number [OF float_text_chars _ JFloat.prems(3)] JFloat.prems(1) show ?case by simp
next
  case (JArray vs)
  then obtain m where n: "n = Suc m" "sum_list (map (\<lambda>v. Suc (depth v)) vs) \<le> m"
    by (cases n) (auto simp: comp_def)
  show ?case
  proof (cases "vs = []")
    case True
    then show ?thesis by (simp add: n runes_ascii_Cons)
  next
    case False
    then obtain v vs' where vs: "vs = v # vs'" by (cases vs) auto
    have "\<exists>u. commas (map json_text vs) @ CHR '']'' # t = json_text v @ u" by (cases vs') (simp_all add: vs)
    moreover have "printable v" using JArray.prems(1) by (simp add: vs)
    ultimately have "take 1 (runes (commas (map json_text vs) @ CHR '']'' # t)) \<noteq> [0x5D]"
      using json_text_head(1) by metis
    moreover have "read_elements m (runes (commas (map json_text vs) @ CHR '']'' # t)) = Some (map value_of vs, runes t)"
      using JArray False n(2) by (intro read_elements_text) (auto simp: list_all_iff)
    ultimately show ?thesis by (simp add: n(1) runes_ascii_Cons)
  qed
next
  case (JObject kvs)
  then obtain m where n: "n = Suc m" "sum_list (map (\<lambda>(k, v). Suc (depth v)) kvs) \<le> m"
    unfolding json_object by (cases n) auto
  show ?case
  proof (cases "kvs = []")
    case True
    then show ?thesis by (simp add: n runes_ascii_Cons)
  next
    case False
    let ?txt = "commas (map (\<lambda>(k, v). quote k @ CHR '':'' # json_text v) kvs) @ CHR ''}'' # t"
    obtain k v kvs' where kvs: "kvs = (k, v) # kvs'" using False by (cases kvs) auto
    have "\<exists>u. ?txt = quote k @ u" by (cases kvs') (simp_all add: kvs)
    then have "take 1 (runes ?txt) \<noteq> [0x7D]" by (auto simp: read_quote)
    moreover have "read_members m (runes ?txt) = Some (map (\<lambda>(k, v). (runes k, value_of v)) kvs, runes t)"
      using JObject False n(2) by (intro read_members_text) (auto simp: list_all_iff)
    ultimately show ?thesis unfolding json_object by (simp add: n(1) runes_ascii_Cons)
  qed
qed

text \<open>Reading what \<open>Encode\<close> wrote.\<close>

lemma read_json_line: "printable v \<Longrightarrow> read_json (json_line v) = Some (value_of v)"
proof -
  assume p: "printable v"
  have "ends_value (runes [CHR 0x0A])"
    by (rule ends_value_sep) (simp_all add: number_char_def digit_def)
  moreover have "depth v \<le> length (json_line v)"
    using depth_le_length [OF p] by (simp add: json_line_def)
  ultimately have "read_value (length (json_line v)) (runes (json_line v)) = Some (value_of v, runes [CHR 0x0A])"
    using read_json_text [OF p] by (simp add: json_line_def)
  then show ?thesis by (simp add: read_json_def runes_ascii_Cons)
qed

subsection \<open>No HTML metacharacters\<close>

text \<open>\<open><\<close>, \<open>>\<close> and \<open>&\<close>, which could start a tag or an entity in a page.\<close>

definition html_char :: "char \<Rightarrow> bool" where
  "html_char c \<longleftrightarrow> of_char c \<in> {0x26, 0x3C, 0x3E :: nat}"

definition html_safe :: "string \<Rightarrow> bool" where
  "html_safe s \<longleftrightarrow> list_all (\<lambda>c. \<not> html_char c) s"

lemma html_safe_simps [simp]:
  "html_safe []"
  "html_safe (c # s) \<longleftrightarrow> \<not> html_char c \<and> html_safe s"
  "html_safe (a @ b) \<longleftrightarrow> html_safe a \<and> html_safe b"
  by (simp_all add: html_safe_def)

lemma html_safe_high:
  "\<forall>c\<in>set s. 0x80 \<le> (of_char c :: nat) \<Longrightarrow> html_safe s"
  by (auto simp: html_safe_def list_all_iff html_char_def)

lemma char_of_safe: "(n :: nat) < 256 \<Longrightarrow> n \<notin> {0x26, 0x3C, 0x3E} \<Longrightarrow> \<not> html_char (char_of n)"
  by (simp add: html_char_def of_char_char_of)

lemma hex_digit_safe: "n < 16 \<Longrightarrow> \<not> html_char (hex_digit n)"
  unfolding hex_digit_def by (rule char_of_safe) (simp_all split: if_split)

lemma escape_byte_safe: "b < 0x80 \<Longrightarrow> html_safe (escape_byte b)"
  using hex_digit_safe char_of_safe [of b]
  by (auto simp: escape_byte_def) (simp_all add: html_char_def)

lemma escape_safe: "html_safe (escape s)"
proof (induction s rule: escape.induct)
  case (1 s)
  show ?case
  proof (cases "s = []")
    case False
    then have ne: "map of_char s \<noteq> ([] :: nat list)" by simp
    obtain r w where d: "decode_rune (map of_char s) = (r, w)" by fastforce
    have IH: "html_safe (escape (drop (max 1 w) s))" using "1.IH" [OF False d [symmetric] refl] .
    have out: "escape s = (if r < 0x80 then escape_byte r
        else if r = RuneError \<and> w = 1 then CHR 0x5C # ''ufffd''
        else if r = 0x2028 \<or> r = 0x2029 then CHR 0x5C # ''u202'' @ [hex_digit (r mod 16)]
        else take w s) @ escape (drop (max 1 w) s)"
      using False d by (subst escape.simps) simp
    have "html_safe (take w s)" if "0x80 \<le> r" "\<not> (r = RuneError \<and> w = 1)"
    proof (cases rule: decode_rune_cases [OF ne])
      case (3 r' w')
      with d have "\<forall>b\<in>set (take w (map of_char s)). 0x80 \<le> (b :: nat)" by simp
      then show ?thesis by (intro html_safe_high) (auto simp: take_map)
    qed (use d that in simp_all)
    then show ?thesis unfolding out using IH escape_byte_safe hex_digit_safe [of "r mod 16"]
      by (auto simp: html_char_def)
  qed (simp add: escape.simps)
qed

lemma number_safe: "list_all number_char a \<Longrightarrow> html_safe a"
  by (auto simp: html_safe_def html_char_def list_all_iff number_char_def digit_def)

lemma commas_safe: "(\<And>x. x \<in> set xs \<Longrightarrow> html_safe x) \<Longrightarrow> html_safe (commas xs)"
  by (induction xs rule: commas.induct) (auto simp: html_char_def)

lemma quote_safe: "html_safe (quote s)"
  by (simp add: quote_def escape_safe html_char_def)

lemma json_text_safe: "html_safe (json_text v)"
proof (induction v)
  case (JArray vs)
  then show ?case by (auto simp: html_char_def intro!: commas_safe)
next
  case (JObject kvs)
  have "html_safe (quote k @ CHR '':'' # json_text v)" if "(k, v) \<in> set kvs" for k v
    using JObject [OF that, of v] by (simp add: quote_safe html_char_def)
  then show ?case unfolding json_object by (auto simp: html_char_def intro!: commas_safe)
qed (simp_all add: quote_safe number_safe int_text_chars float_text_chars)

end
