(* ===== verification/Go_Time.thy ===== *)
theory Go_Time
  imports Effects Go_Float
begin

text \<open>
  Go's \<open>Time.Format(time.RFC3339)\<close>: the calendar date and clock of an instant in a time zone, to the
  second. The zone database belongs to the machine: the offset from UTC, in seconds, that it gives for
  an instant is an argument. The reader at the end says what instant a text stands for.
\<close>

subsection \<open>The calendar\<close>

definition leap :: "nat \<Rightarrow> bool" where
  "leap y \<longleftrightarrow> 4 dvd y \<and> (\<not> 100 dvd y \<or> 400 dvd y)"

definition month_lengths :: "nat \<Rightarrow> nat list" where
  "month_lengths y = [31, if leap y then 29 else 28, 31, 30, 31, 30, 31, 31, 30, 31, 30, 31]"

definition year_length :: "nat \<Rightarrow> nat" where
  "year_length y = (if leap y then 366 else 365)"

text \<open>From year \<open>y\<close> and a number of days after its start, the year and the day within it.\<close>

function year_and_day :: "nat \<Rightarrow> nat \<Rightarrow> nat \<times> nat" where
  "year_and_day y d = (if d < year_length y then (y, d) else year_and_day (y + 1) (d - year_length y))"
  by pat_completeness auto
termination by (relation "measure snd") (auto simp: year_length_def split: if_splits)

declare year_and_day.simps [simp del]

fun month_and_day :: "nat list \<Rightarrow> nat \<Rightarrow> nat \<Rightarrow> nat \<times> nat" where
  "month_and_day [] m d = (m, d)"
| "month_and_day (l # ls) m d = (if d < l then (m, d) else month_and_day ls (m + 1) (d - l))"

text \<open>
  The date of a day, counted from the Unix epoch, by cycles of 400 years: day 719528 before the epoch
  starts year 0. The month and the day of the month count from 1.
\<close>

definition civil_date :: "int \<Rightarrow> int \<times> nat \<times> nat" where
  "civil_date days =
     (let n = days + 719528;
          (y, d) = year_and_day 0 (nat (n mod 146097));
          (m, k) = month_and_day (month_lengths y) 0 d
      in (400 * (n div 146097) + int y, m + 1, k + 1))"

subsection \<open>Formatting\<close>

definition pad :: "nat \<Rightarrow> nat \<Rightarrow> string" where
  "pad w n = replicate (w - length (itoa n)) CHR ''0'' @ itoa n"

definition append_int :: "int \<Rightarrow> nat \<Rightarrow> string" where
  "append_int x w = (if x < 0 then CHR ''-'' # pad w (nat (- x)) else pad w (nat x))"

definition zone_text :: "int \<Rightarrow> string" where
  "zone_text offset =
     (if offset = 0 then ''Z''
      else let zone = sgn offset * (\<bar>offset\<bar> div 60)
           in (if zone < 0 then ''-'' else ''+'') @ pad 2 (nat (\<bar>zone\<bar> div 60)) @ '':'' @ pad 2 (nat (\<bar>zone\<bar> mod 60)))"

definition RFC3339 :: "(time \<Rightarrow> int) \<Rightarrow> time \<Rightarrow> string" where
  "RFC3339 zone t =
     (let secs = t div time_Second + zone t;
          (year, month, day) = civil_date (secs div 86400);
          s = nat (secs mod 86400)
      in append_int year 4 @ ''-'' @ pad 2 month @ ''-'' @ pad 2 day @ ''T'' @
         pad 2 (s div 3600) @ '':'' @ pad 2 (s mod 3600 div 60) @ '':'' @ pad 2 (s mod 60) @
         zone_text (zone t))"

subsection \<open>Reading\<close>

primrec days_before :: "nat \<Rightarrow> nat" where
  "days_before 0 = 0"
| "days_before (Suc y) = days_before y + year_length y"

definition day_of_date :: "int \<Rightarrow> nat \<Rightarrow> nat \<Rightarrow> int" where
  "day_of_date year month day =
     146097 * (year div 400) + int (days_before (nat (year mod 400))) +
     int (sum_list (take (month - 1) (month_lengths (nat (year mod 400))))) + int day - 719529"

definition columns :: "nat \<Rightarrow> nat \<Rightarrow> string \<Rightarrow> nat" where
  "columns i n s = digits_value (take n (drop i s))"

definition read_zone :: "string \<Rightarrow> int" where
  "read_zone z =
     (if take 1 z = ''Z'' then 0
      else (if take 1 z = ''-'' then -1 else 1) * (int (columns 1 2 z) * 3600 + int (columns 4 2 z) * 60))"

text \<open>The Unix second of a text with a four-digit year.\<close>

definition read_RFC3339 :: "string \<Rightarrow> int" where
  "read_RFC3339 s =
     day_of_date (int (columns 0 4 s)) (columns 5 2 s) (columns 8 2 s) * 86400 +
     int (columns 11 2 s) * 3600 + int (columns 14 2 s) * 60 + int (columns 17 2 s) - read_zone (drop 19 s)"

subsection \<open>Dates\<close>

lemma year_and_day_days:
  "year_and_day y d = (y', d') \<Longrightarrow> days_before y + d = days_before y' + d' \<and> d' < year_length y'"
proof (induction y d rule: year_and_day.induct)
  case (1 y d)
  show ?case
  proof (cases "d < year_length y")
    case True
    with "1.prems" show ?thesis by (simp add: year_and_day.simps)
  next
    case False
    with "1.prems" have "year_and_day (y + 1) (d - year_length y) = (y', d')"
      by (simp add: year_and_day.simps [of y d])
    from "1.IH" [OF False this] False show ?thesis by simp
  qed
qed

lemma days_before_mono: "x \<le> y \<Longrightarrow> days_before x \<le> days_before y"
  by (induction y) (auto simp: le_Suc_eq)

text \<open>The rule of leap years, counted out.\<close>

lemma leap_count_step:
  "(Suc y + j) div Suc j = (y + j) div Suc j + (if Suc j dvd y then 1 else 0)"
proof -
  have "Suc (y + j) mod Suc j = y mod Suc j"
    by (metis add_Suc_right mod_add_self2)
  then show ?thesis by (simp add: div_Suc dvd_eq_mod_eq_0)
qed

lemma days_before_closed:
  "days_before y + (y + 99) div 100 = 365 * y + (y + 3) div 4 + (y + 399) div 400"
proof (induction y)
  case (Suc y)
  have add: "D + A = 365 * y + B + C \<Longrightarrow> L + p = 365 + q + r \<Longrightarrow>
      D + L + (A + p) = 365 * Suc y + (B + q) + (C + r)" for A B C D L p q r :: nat by simp
  have "(100 :: nat) dvd y" if "400 dvd y" using that by (rule dvd_trans [rotated]) simp
  moreover have "(4 :: nat) dvd y" if "100 dvd y" using that by (rule dvd_trans [rotated]) simp
  ultimately have yl: "year_length y + (if 100 dvd y then 1 else 0) =
      365 + (if 4 dvd y then 1 else 0) + (if 400 dvd y then 1 else 0)"
    by (auto simp: year_length_def leap_def)
  have s: "(Suc y + 3) div 4 = (y + 3) div 4 + (if 4 dvd y then 1 else 0)"
    "(Suc y + 99) div 100 = (y + 99) div 100 + (if 100 dvd y then 1 else 0)"
    "(Suc y + 399) div 400 = (y + 399) div 400 + (if 400 dvd y then 1 else 0)"
    using leap_count_step [of y 3] leap_count_step [of y 99] leap_count_step [of y 399] by simp_all
  show ?case unfolding days_before.simps s by (rule add [OF Suc.IH yl])
qed simp

lemma days_before_400: "days_before 400 = 146097"
  using days_before_closed [of 400] by simp

lemma month_and_day_days:
  "month_and_day ls m d = (m', d') \<Longrightarrow> d < sum_list ls \<Longrightarrow>
     m \<le> m' \<and> m' < m + length ls \<and> d = sum_list (take (m' - m) ls) + d' \<and> d' < ls ! (m' - m)"
proof (induction ls m d rule: month_and_day.induct)
  case (2 l ls m d)
  show ?case
  proof (cases "d < l")
    case True
    with 2 show ?thesis by simp
  next
    case False
    with 2 have "m + 1 \<le> m' \<and> m' < m + 1 + length ls \<and> d - l = sum_list (take (m' - (m + 1)) ls) + d' \<and>
        d' < ls ! (m' - (m + 1))" by simp
    moreover from this have "m' - m = Suc (m' - (m + 1))" by linarith
    ultimately show ?thesis using False by auto
  qed
qed simp

lemma sum_month_lengths: "sum_list (month_lengths y) = year_length y"
  by (simp add: month_lengths_def year_length_def)

lemma month_length_le: "i < 12 \<Longrightarrow> month_lengths y ! i \<le> 31"
proof -
  assume "i < 12"
  then have "month_lengths y ! i \<in> set (month_lengths y)" by (simp add: month_lengths_def del: set_simps)
  then show ?thesis by (auto simp: month_lengths_def split: if_splits)
qed

text \<open>The date of a day leads back to the day.\<close>

lemma civil_date_day:
  assumes "civil_date days = (year, month, day)"
  shows "day_of_date year month day = days" and "month \<in> {1..12}" and "day \<in> {1..31}"
    and "year div 400 = (days + 719528) div 146097"
proof -
  define n where "n = days + 719528"
  obtain y d where yd: "year_and_day 0 (nat (n mod 146097)) = (y, d)" by fastforce
  obtain m k where mk: "month_and_day (month_lengths y) 0 d = (m, k)" by fastforce
  have date: "year = 400 * (n div 146097) + int y" "month = m + 1" "day = k + 1"
    using assms by (simp_all add: civil_date_def n_def [symmetric] yd mk)
  from year_and_day_days [OF yd] have d: "nat (n mod 146097) = days_before y + d" "d < year_length y"
    by simp_all
  have "nat (n mod 146097) < 146097" by (simp add: nat_less_iff)
  with d(1) days_before_400 have "days_before y < days_before 400" by linarith
  then have "y < 400" using days_before_mono [of 400 y] by linarith
  then have cycle: "year div 400 = n div 146097" "nat (year mod 400) = y"
    unfolding date by simp_all
  from month_and_day_days [OF mk] d(2) have m: "m < 12" "d = sum_list (take m (month_lengths y)) + k"
      "k < month_lengths y ! m"
    by (simp_all add: sum_month_lengths) (simp add: month_lengths_def)
  have "n mod 146097 = int (days_before y) + int d"
    using d(1) by (simp add: nat_eq_iff)
  then have "day_of_date year month day = 146097 * (n div 146097) + n mod 146097 - 719528"
    by (simp add: day_of_date_def cycle) (simp add: date m(2))
  then show "day_of_date year month day = days" by (simp add: n_def)
  show "year div 400 = (days + 719528) div 146097" using cycle(1) by (simp add: n_def)
  show "month \<in> {1..12}" "day \<in> {1..31}" using m month_length_le [OF m(1), of y] by (simp_all add: date)
qed

lemma civil_date_year:
  "400 * ((days + 719528) div 146097) \<le> fst (civil_date days) \<and>
   fst (civil_date days) < 400 * ((days + 719528) div 146097) + 400"
proof -
  obtain year month day where date: "civil_date days = (year, month, day)" by (metis prod_cases3)
  from civil_date_day(4) [OF this] show ?thesis unfolding date by (simp only: fst_conv) presburger
qed

subsection \<open>Texts read back\<close>

lemma length_pad: "n < 10 ^ Suc k \<Longrightarrow> length (pad (Suc k) n) = Suc k"
  using length_itoa_le [of n k] by (simp add: pad_def)

lemma length_pad2 [simp]: "n < 100 \<Longrightarrow> length (pad 2 n) = 2"
  using length_pad [of n 1] by (simp add: numeral_2_eq_2)

lemma length_pad4 [simp]: "n < 10000 \<Longrightarrow> length (pad 4 n) = 4"
  using length_pad [of n 3] by simp

lemma digits_value_pad [simp]: "digits_value (pad w n) = n"
  by (simp add: pad_def digits_value_leading)

lemma columns_here: "length a = n \<Longrightarrow> columns 0 n (a @ s) = digits_value a"
  by (simp add: columns_def)

lemma columns_later: "length a \<le> i \<Longrightarrow> columns i n (a @ s) = columns (i - length a) n s"
  by (simp add: columns_def)

lemma read_zone_text:
  assumes "60 dvd offset" and "\<bar>offset\<bar> < 360000"
  shows "read_zone (zone_text offset) = offset"
proof (cases "offset = 0")
  case True
  then show ?thesis by (simp add: zone_text_def read_zone_def)
next
  case False
  obtain q where q: "offset = 60 * q" using assms(1) by (elim dvdE)
  define h where "h = nat (\<bar>q\<bar> div 60)"
  define m where "m = nat (\<bar>q\<bar> mod 60)"
  have quot: "\<bar>offset\<bar> div 60 = \<bar>q\<bar>" by (simp add: q abs_mult)
  have "0 \<le> \<bar>q\<bar> div 60" by (simp add: pos_imp_zdiv_nonneg_iff)
  then have "int h * 60 + int m = \<bar>q\<bar>" using div_mult_mod_eq [of "\<bar>q\<bar>" 60] by (simp add: h_def m_def)
  then have abs: "\<bar>offset\<bar> = int h * 3600 + int m * 60" by (simp add: q abs_mult)
  have hm: "h < 100" "m < 100" using assms(2) by (simp_all add: h_def m_def nat_less_iff q abs_mult)
  define sg where "sg = (if offset < 0 then ''-'' else ''+'')"
  have "zone_text offset = sg @ pad 2 h @ '':'' @ pad 2 m"
    using False unfolding zone_text_def quot
    by (auto simp: Let_def sg_def h_def m_def abs_mult sgn_if q)
  then have "columns 1 2 (zone_text offset) = h" "columns 4 2 (zone_text offset) = m"
      "take 1 (zone_text offset) = sg"
    using hm by (auto simp: columns_def sg_def)
  then show ?thesis using abs by (auto simp: read_zone_def sg_def)
qed

lemma read_RFC3339_text:
  assumes "60 dvd zone t" and "\<bar>zone t\<bar> < 360000"
    and "fst (civil_date ((t div time_Second + zone t) div 86400)) \<in> {0..9999}"
  shows "read_RFC3339 (RFC3339 zone t) = t div time_Second"
proof -
  define secs where "secs = t div time_Second + zone t"
  obtain year month day where date: "civil_date (secs div 86400) = (year, month, day)" by (metis prod_cases3)
  note day_of_date = civil_date_day [OF date]
  define s where "s = nat (secs mod 86400)"
  have s: "s < 86400" "int s = secs mod 86400" by (simp_all add: s_def nat_less_iff)
  have clock: "s div 3600 < 100" "s mod 3600 div 60 < 100" "s mod 60 < 100" using s(1) by simp_all
  have parts: "nat year < 10000" "0 \<le> year" "month < 100" "day < 100"
    using assms(3) day_of_date by (auto simp: secs_def [symmetric] date)
  define out where "out = RFC3339 zone t"
  have out: "out = pad 4 (nat year) @ ''-'' @ pad 2 month @ ''-'' @ pad 2 day @ ''T'' @
      pad 2 (s div 3600) @ '':'' @ pad 2 (s mod 3600 div 60) @ '':'' @ pad 2 (s mod 60) @ zone_text (zone t)"
    using parts(2) by (simp add: out_def RFC3339_def Let_def secs_def [symmetric] date s_def append_int_def)
  have "columns 0 4 out = nat year" "columns 5 2 out = month" "columns 8 2 out = day"
      "columns 11 2 out = s div 3600" "columns 14 2 out = s mod 3600 div 60" "columns 17 2 out = s mod 60"
      "drop 19 out = zone_text (zone t)"
    unfolding out columns_def using parts clock by simp_all
  then have "read_RFC3339 out = secs div 86400 * 86400 +
      (int (s div 3600) * 3600 + int (s mod 3600 div 60) * 60 + int (s mod 60)) - zone t"
    using parts(2) day_of_date(1) read_zone_text [OF assms(1,2)] by (simp add: read_RFC3339_def)
  also have "int (s div 3600) * 3600 + int (s mod 3600 div 60) * 60 + int (s mod 60) = int s"
  proof -
    have "s mod 3600 mod 60 = s mod 60" by (simp add: mod_mod_cancel)
    then have "s div 3600 * 3600 + (s mod 3600 div 60 * 60 + s mod 60) = s"
      using div_mult_mod_eq [of s 3600] div_mult_mod_eq [of "s mod 3600" 60] by (simp only:)
    then have "int (s div 3600 * 3600 + (s mod 3600 div 60 * 60 + s mod 60)) = int s" by (simp only:)
    then show ?thesis by (simp only: of_nat_add of_nat_mult of_nat_numeral add.assoc)
  qed
  finally show ?thesis
    using s(2) by (simp add: out_def) (simp add: secs_def)
qed

subsection \<open>The text is ASCII\<close>

lemma pad_ascii: "list_all (\<lambda>c. of_char c < (0x80 :: nat)) (pad w n)"
  using itoa_digits [of n] by (auto simp: pad_def list_all_iff digit_def)

lemma RFC3339_ascii: "list_all (\<lambda>c. of_char c < (0x80 :: nat)) (RFC3339 zone t)"
  by (simp add: RFC3339_def Let_def append_int_def zone_text_def pad_ascii split: prod.split)

end
