(* ===== verification/RestApi.thy ===== *)
theory RestApi
  imports Registry Go_Json Go_Time
begin

text \<open>
  The package \<^verbatim>\<open>internal/restapi\<close>: the response shapes, the mapping of registry summaries to them,
  the API-key middleware and the two handlers, over \<open>Go_Json\<close>, \<open>Go_Float\<close> and \<open>Go_Time\<close>. A response is
  its header fields, its status and its body. The offset of the machine's time zone at an instant is
  the parameter \<open>zone\<close> of the node handler.
\<close>

subsection \<open>Conversion to floating point\<close>

text \<open>
  \<open>float64(n)\<close> for an unsigned number: round to 53 significant bits, to the nearest, ties to even.
  The result is an integer again, so it is given as one; dividing it by a power of two is exact.
\<close>

definition float64_of_nat :: "nat \<Rightarrow> nat" where
  "float64_of_nat n =
     (let e = floorlog 2 n - 53;
          q = n div 2 ^ e;
          r = n mod 2 ^ e
      in (if 2 ^ e < 2 * r \<or> 2 * r = 2 ^ e \<and> odd q then q + 1 else q) * 2 ^ e)"

definition gib_of_bytes :: "uint64 \<Rightarrow> rat" where
  "gib_of_bytes n = of_nat (float64_of_nat (unat n)) / (1024 * 1024 * 1024)"

subsection \<open>Response shapes\<close>

record CPUSummary =
  CPUSummary_PhysicalCores :: int
  CPUSummary_LogicalCores :: int
  CPUSummary_Architecture :: string
  CPUSummary_Model :: string

record MemorySummary =
  MemorySummary_TotalGB :: rat

record GPUSummary =
  GPUSummary_Index :: int
  GPUSummary_Vendor :: string
  GPUSummary_Model :: string
  GPUSummary_VRamGB :: rat

record NodeResponse =
  NodeResponse_NodeID :: string
  NodeResponse_Hostname :: string
  NodeResponse_Address :: string
  NodeResponse_CPU :: CPUSummary
  NodeResponse_Memory :: MemorySummary
  NodeResponse_GPUs :: "GPUSummary list"
  NodeResponse_LastBeat :: string

definition cpuSummary :: "CpuResources option \<Rightarrow> CPUSummary" where
  "cpuSummary c =
     (case c of
        None \<Rightarrow> \<lparr>CPUSummary_PhysicalCores = 0, CPUSummary_LogicalCores = 0,
                 CPUSummary_Architecture = '''', CPUSummary_Model = ''''\<rparr>
      | Some c \<Rightarrow> \<lparr>CPUSummary_PhysicalCores = sint (CpuResources_PhysicalCores c),
                   CPUSummary_LogicalCores = sint (CpuResources_LogicalCores c),
                   CPUSummary_Architecture = CpuResources_Architecture c,
                   CPUSummary_Model = CpuResources_ModelName c\<rparr>)"

definition memorySummary :: "MemoryResources option \<Rightarrow> MemorySummary" where
  "memorySummary m =
     (case m of
        None \<Rightarrow> \<lparr>MemorySummary_TotalGB = 0\<rparr>
      | Some m \<Rightarrow> \<lparr>MemorySummary_TotalGB = gib_of_bytes (MemoryResources_TotalBytes m)\<rparr>)"

text \<open>The loop of \<open>gpuSummary\<close>; \<open>g.Index\<close> panics on a nil element.\<close>

fun gpuSummary :: "GpuResources option list \<Rightarrow> panic + GPUSummary list" where
  "gpuSummary [] = Inr []"
| "gpuSummary (None # gs) = Inl NilDeref"
| "gpuSummary (Some g # gs) =
     (case gpuSummary gs of
        Inl p \<Rightarrow> Inl p
      | Inr rest \<Rightarrow>
          Inr (\<lparr>GPUSummary_Index = sint (GpuResources_Index g),
                GPUSummary_Vendor = GpuResources_Vendor g,
                GPUSummary_Model = GpuResources_Model g,
                GPUSummary_VRamGB = gib_of_bytes (GpuResources_VramBytes g)\<rparr> # rest))"

subsection \<open>JSON values\<close>

definition json_cpu :: "CPUSummary \<Rightarrow> json" where
  "json_cpu c = JObject
     [(''physical_cores'', JInt (CPUSummary_PhysicalCores c)),
      (''logical_cores'', JInt (CPUSummary_LogicalCores c)),
      (''architecture'', JString (CPUSummary_Architecture c)),
      (''model'', JString (CPUSummary_Model c))]"

definition json_memory :: "MemorySummary \<Rightarrow> json" where
  "json_memory m = JObject [(''total_gb'', JFloat (MemorySummary_TotalGB m))]"

definition json_gpu :: "GPUSummary \<Rightarrow> json" where
  "json_gpu g = JObject
     [(''index'', JInt (GPUSummary_Index g)),
      (''vendor'', JString (GPUSummary_Vendor g)),
      (''model'', JString (GPUSummary_Model g)),
      (''vram_gb'', JFloat (GPUSummary_VRamGB g))]"

definition json_node :: "NodeResponse \<Rightarrow> json" where
  "json_node n = JObject
     [(''node_id'', JString (NodeResponse_NodeID n)),
      (''hostname'', JString (NodeResponse_Hostname n)),
      (''address'', JString (NodeResponse_Address n)),
      (''cpu'', json_cpu (NodeResponse_CPU n)),
      (''memory'', json_memory (NodeResponse_Memory n)),
      (''gpus'', JArray (map json_gpu (NodeResponse_GPUs n))),
      (''last_beat'', JString (NodeResponse_LastBeat n))]"

subsection \<open>Requests and responses\<close>

text \<open>
  A request as the handlers see it: header fields under canonical names, and the parsed query. A
  response under construction: its header fields, the status once written, the body so far.
\<close>

record http_request =
  req_path :: string
  req_header :: "(string \<times> string list) list"
  req_query :: "(string \<times> string list) list"

record http_response =
  resp_header :: "(string \<times> string) list"
  resp_status :: "nat option"
  resp_body :: string

type_synonym http_handler = "http_request \<Rightarrow> http_response \<Rightarrow> panic + http_response"

text \<open>\<open>textproto.CanonicalMIMEHeaderKey\<close> on a valid field name.\<close>

fun canonical_from :: "bool \<Rightarrow> string \<Rightarrow> string" where
  "canonical_from up [] = []"
| "canonical_from up (c # cs) =
     (let n = of_char c :: nat;
          c' = (if up \<and> 97 \<le> n \<and> n \<le> 122 then char_of (n - 32)
                else if \<not> up \<and> 65 \<le> n \<and> n \<le> 90 then char_of (n + 32) else c)
      in c' # canonical_from (c = CHR ''-'') cs)"

text \<open>\<open>Header.Get\<close> and \<open>Values.Get\<close>: the first value of a key, or the empty string.\<close>

definition values_Get :: "(string \<times> string list) list \<Rightarrow> string \<Rightarrow> string" where
  "values_Get vs key = (case map_of vs key of Some (v # _) \<Rightarrow> v | _ \<Rightarrow> '''')"

definition header_Get :: "http_request \<Rightarrow> string \<Rightarrow> string" where
  "header_Get r key = values_Get (req_header r) (canonical_from True key)"

definition header_Set :: "string \<Rightarrow> string \<Rightarrow> http_response \<Rightarrow> http_response" where
  "header_Set k v w = w\<lparr>resp_header := AList.update (canonical_from True k) v (resp_header w)\<rparr>"

text \<open>The first status written counts, and writing a body writes status 200 if there is none.\<close>

definition WriteHeader :: "nat \<Rightarrow> http_response \<Rightarrow> http_response" where
  "WriteHeader code w = (if resp_status w = None then w\<lparr>resp_status := Some code\<rparr> else w)"

definition json_Encode :: "json \<Rightarrow> http_response \<Rightarrow> http_response" where
  "json_Encode v w = (WriteHeader 200 w)\<lparr>resp_body := resp_body w @ json_line v\<rparr>"

definition fresh_response :: http_response where
  "fresh_response = \<lparr>resp_header = [], resp_status = None, resp_body = []\<rparr>"

subsection \<open>The API server\<close>

record APIServer =
  APIServer_apiKey :: string
  APIServer_tlsEnabled :: bool

definition NewAPIServer :: "string \<Rightarrow> bool \<Rightarrow> APIServer" where
  "NewAPIServer apiKey tlsEnabled = \<lparr>APIServer_apiKey = apiKey, APIServer_tlsEnabled = tlsEnabled\<rparr>"

definition setSecurityHeaders :: "bool \<Rightarrow> http_response \<Rightarrow> http_response" where
  "setSecurityHeaders tlsEnabled w =
     (let w1 = header_Set ''X-Content-Type-Options'' ''nosniff'' w;
          w2 = header_Set ''X-Frame-Options'' ''DENY'' w1;
          w3 = header_Set ''Referrer-Policy'' ''strict-origin-when-cross-origin'' w2
      in if tlsEnabled
         then header_Set ''Strict-Transport-Security'' ''max-age=31536000; includeSubDomains'' w3
         else w3)"

definition RequireAPIKey :: "APIServer \<Rightarrow> http_handler \<Rightarrow> http_handler" where
  "RequireAPIKey a nxt r w =
     (let key = header_Get r ''X-API-Key'';
          key = (if key = '''' then values_Get (req_query r) ''api_key'' else key)
      in if APIServer_apiKey a \<noteq> '''' \<and> ConstantTimeCompare key (APIServer_apiKey a) \<noteq> 1
         then Inr (json_Encode (JObject [(''error'', JString ''unauthorized'')])
                (WriteHeader 401 (header_Set ''Content-Type'' ''application/json''
                  (setSecurityHeaders (APIServer_tlsEnabled a) w))))
         else nxt r w)"

definition HealthHandler :: "APIServer \<Rightarrow> http_handler" where
  "HealthHandler a r w =
     Inr (json_Encode (JObject [(''status'', JString ''ok'')])
       (header_Set ''Content-Type'' ''application/json''
         (setSecurityHeaders (APIServer_tlsEnabled a) w)))"

fun node_responses :: "(time \<Rightarrow> int) \<Rightarrow> NodeSummary list \<Rightarrow> panic + NodeResponse list" where
  "node_responses zone [] = Inr []"
| "node_responses zone (n # ns) =
     (case gpuSummary (NodeSummary_GPUs n) of
        Inl p \<Rightarrow> Inl p
      | Inr gpus \<Rightarrow>
          (case node_responses zone ns of
             Inl p \<Rightarrow> Inl p
           | Inr rest \<Rightarrow>
               Inr (\<lparr>NodeResponse_NodeID = NodeSummary_NodeID n,
                     NodeResponse_Hostname = NodeSummary_Hostname n,
                     NodeResponse_Address = NodeSummary_Address n,
                     NodeResponse_CPU = cpuSummary (NodeSummary_CPU n),
                     NodeResponse_Memory = memorySummary (NodeSummary_Memory n),
                     NodeResponse_GPUs = gpus,
                     NodeResponse_LastBeat = RFC3339 zone (NodeSummary_LastBeat n)\<rparr> # rest)))"

definition NodesHandler ::
  "(NodeResources \<Rightarrow> NodeResources) \<Rightarrow> (time \<Rightarrow> int) \<Rightarrow> APIServer \<Rightarrow> NodeRegistry \<Rightarrow> http_handler" where
  "NodesHandler CloneOf zone a reg r w =
     (let w1 = header_Set ''Content-Type'' ''application/json''
                 (setSecurityHeaders (APIServer_tlsEnabled a) w)
      in case node_responses zone (NodeRegistry_GetAll CloneOf reg) of
           Inl p \<Rightarrow> Inl p
         | Inr out \<Rightarrow> Inr (json_Encode (JArray (map json_node out)) w1))"

subsection \<open>Header fields\<close>

declare canonical_from.simps [simp del]

lemma canonical_names [simp]:
  "canonical_from True ''X-API-Key'' = ''X-Api-Key''"
  "canonical_from True ''X-Content-Type-Options'' = ''X-Content-Type-Options''"
  "canonical_from True ''X-Frame-Options'' = ''X-Frame-Options''"
  "canonical_from True ''Referrer-Policy'' = ''Referrer-Policy''"
  "canonical_from True ''Strict-Transport-Security'' = ''Strict-Transport-Security''"
  "canonical_from True ''Content-Type'' = ''Content-Type''"
  by code_simp+

definition security_headers :: "bool \<Rightarrow> (string \<times> string) list" where
  "security_headers tls =
     [(''X-Content-Type-Options'', ''nosniff''), (''X-Frame-Options'', ''DENY''),
      (''Referrer-Policy'', ''strict-origin-when-cross-origin'')] @
     (if tls then [(''Strict-Transport-Security'', ''max-age=31536000; includeSubDomains'')] else [])"

lemma setSecurityHeaders_fresh:
  "setSecurityHeaders tls fresh_response = fresh_response\<lparr>resp_header := security_headers tls\<rparr>"
  by (simp add: setSecurityHeaders_def header_Set_def fresh_response_def security_headers_def Let_def)

lemma json_headers_fresh:
  "header_Set ''Content-Type'' ''application/json'' (setSecurityHeaders tls fresh_response) =
     fresh_response\<lparr>resp_header := security_headers tls @ [(''Content-Type'', ''application/json'')]\<rparr>"
  by (simp add: setSecurityHeaders_fresh header_Set_def security_headers_def)

lemma json_reply:
  "json_Encode v (header_Set ''Content-Type'' ''application/json'' (setSecurityHeaders tls fresh_response)) =
     \<lparr>resp_header = security_headers tls @ [(''Content-Type'', ''application/json'')],
      resp_status = Some 200, resp_body = json_line v\<rparr>"
  "json_Encode v (WriteHeader code
      (header_Set ''Content-Type'' ''application/json'' (setSecurityHeaders tls fresh_response))) =
     \<lparr>resp_header = security_headers tls @ [(''Content-Type'', ''application/json'')],
      resp_status = Some code, resp_body = json_line v\<rparr>"
  unfolding json_headers_fresh by (simp_all add: json_Encode_def WriteHeader_def fresh_response_def)

subsection \<open>Listings\<close>

definition gpu_view :: "GpuResources \<Rightarrow> GPUSummary" where
  "gpu_view g = \<lparr>GPUSummary_Index = sint (GpuResources_Index g), GPUSummary_Vendor = GpuResources_Vendor g,
     GPUSummary_Model = GpuResources_Model g, GPUSummary_VRamGB = gib_of_bytes (GpuResources_VramBytes g)\<rparr>"

lemma gpuSummary_eq:
  "gpuSummary gs = (if None \<in> set gs then Inl NilDeref else Inr (map (gpu_view \<circ> the) gs))"
  by (induction gs rule: gpuSummary.induct) (auto simp: gpu_view_def)

definition node_view :: "(time \<Rightarrow> int) \<Rightarrow> string \<Rightarrow> NodeInfo \<Rightarrow> NodeResources \<Rightarrow> NodeResponse" where
  "node_view zone nid info res =
     \<lparr>NodeResponse_NodeID = nid, NodeResponse_Hostname = NodeResources_Hostname res,
      NodeResponse_Address = NodeInfo_Address info, NodeResponse_CPU = cpuSummary (NodeResources_Cpu res),
      NodeResponse_Memory = memorySummary (NodeResources_Memory res),
      NodeResponse_GPUs = map (gpu_view \<circ> the) (NodeResources_Gpus res),
      NodeResponse_LastBeat = RFC3339 zone (NodeInfo_LastBeat info)\<rparr>"

definition has_nil_gpu :: "NodeInfo \<Rightarrow> bool" where
  "has_nil_gpu info = (case NodeInfo_Resources info of Some res \<Rightarrow> None \<in> set (NodeResources_Gpus res) | None \<Rightarrow> False)"

lemma node_responses_eq:
  assumes "list_all (\<lambda>(k, n). node_ok k n) ns" and "\<And>x. CloneOf x = x"
  shows "node_responses zone (map (\<lambda>(_, v). node_summary CloneOf v) ns) =
     (if \<exists>e\<in>set ns. has_nil_gpu (snd e) then Inl NilDeref
      else Inr (map (\<lambda>(k, info). node_view zone k info (the (NodeInfo_Resources info))) ns))"
  using assms(1)
proof (induction ns)
  case (Cons e ns)
  obtain k info where e: "e = (k, info)" by (cases e)
  with Cons.prems obtain res where "NodeInfo_Resources info = Some res" "NodeInfo_NodeID info = k"
    by (auto simp: node_ok_def)
  with e Cons show ?case
    by (auto simp: node_summary_def Let_def gpuSummary_eq has_nil_gpu_def node_view_def assms(2))
qed simp

subsection \<open>Properties\<close>

text \<open>The API-key policy. A protected handler runs exactly when no key is configured or the presented
  key is the configured one, to the byte; the presented key is the header's, or the query parameter's
  when the header is absent or empty. Otherwise the response is 401 with a JSON error and the security
  headers, and the handler is not run.
\<close>

theorem api_key_policy:
  "RequireAPIKey a nxt r fresh_response =
     (if APIServer_apiKey a = '''' \<or>
         APIServer_apiKey a = (if values_Get (req_header r) ''X-Api-Key'' \<noteq> ''''
                               then values_Get (req_header r) ''X-Api-Key''
                               else values_Get (req_query r) ''api_key'')
      then nxt r fresh_response
      else Inr \<lparr>resp_header = security_headers (APIServer_tlsEnabled a) @ [(''Content-Type'', ''application/json'')],
                resp_status = Some 401,
                resp_body = json_line (JObject [(''error'', JString ''unauthorized'')])\<rparr>)"
  by (auto simp: RequireAPIKey_def header_Get_def ConstantTimeCompare_eq_1_iff json_reply
      Let_def)

lemma nodes_body:
  assumes "reg_ok reg" and "\<And>x. CloneOf x = x"
  shows "NodesHandler CloneOf zone a reg r fresh_response =
    (if \<exists>e\<in>set (nodes reg). has_nil_gpu (snd e) then Inl NilDeref
     else Inr \<lparr>resp_header = security_headers (APIServer_tlsEnabled a) @ [(''Content-Type'', ''application/json'')],
            resp_status = Some 200,
            resp_body = json_line (JArray (map (\<lambda>(k, info).
              json_node (node_view zone k info (the (NodeInfo_Resources info)))) (nodes reg)))\<rparr>)"
proof -
  from assms(1) have ok: "list_all (\<lambda>(k, n). node_ok k n) (nodes reg)"
    by (simp add: reg_ok_def)
  have "map json_node (map (\<lambda>(k, info). node_view zone k info (the (NodeInfo_Resources info))) (nodes reg)) =
      map (\<lambda>(k, info). json_node (node_view zone k info (the (NodeInfo_Resources info)))) (nodes reg)"
    by auto
  with node_responses_eq [OF ok assms(2), of zone] show ?thesis
    by (simp add: NodesHandler_def NodeRegistry_GetAll_def json_reply Let_def del: map_map)
qed



lemma float64_of_nat_exact: "n < 2 ^ 53 \<Longrightarrow> float64_of_nat n = n"
proof -
  assume "n < 2 ^ 53"
  then have "floorlog 2 n \<le> 53" by (intro floorlog_leI) simp_all
  then show ?thesis by (simp add: float64_of_nat_def Let_def)
qed

lemma float64_of_nat_error: "2 ^ 53 * \<bar>int (float64_of_nat n) - int n\<bar> \<le> int n"
proof (cases "n < 2 ^ 53")
  case True
  then show ?thesis by (simp add: float64_of_nat_exact)
next
  case False
  define e where "e = floorlog 2 n - 53"
  define q where "q = n div 2 ^ e"
  define r where "r = n mod 2 ^ e"
  have "53 \<le> floorlog 2 n"
    using False floorlog_leD [of 2 n 52] by (cases "53 \<le> floorlog 2 n") simp_all
  then have "floorlog 2 n - 1 = e + 52" by (simp add: e_def)
  then have big: "2 ^ (e + 52) \<le> n"
    using floorlog_bounds [of n 2] False by (metis gr_zeroI one_less_numeral_iff semiring_norm(76)
        zero_less_numeral zero_less_power)
  have "n = q * 2 ^ e + r" unfolding q_def r_def by (rule div_mult_mod_eq [symmetric])
  then have n: "int n = int q * 2 ^ e + int r" by simp
  have "r < 2 ^ e" by (simp add: r_def)
  then have "int r < int (2 ^ e)" by (simp only: of_nat_less_iff)
  then have r: "int r < 2 ^ e" by simp
  have f: "int (float64_of_nat n) =
      (if 2 ^ e < 2 * r \<or> 2 * r = 2 ^ e \<and> odd q then int q + 1 else int q) * 2 ^ e"
    unfolding float64_of_nat_def e_def q_def r_def Let_def by simp
  have "2 * \<bar>int (float64_of_nat n) - int n\<bar> \<le> 2 ^ e"
  proof (cases "2 ^ e < 2 * r \<or> 2 * r = 2 ^ e \<and> odd q")
    case True
    then have "int (2 ^ e) \<le> int (2 * r)" unfolding of_nat_le_iff by linarith
    then have "2 ^ e \<le> 2 * int r" by simp
    with True r show ?thesis unfolding f n by (simp add: distrib_right)
  next
    case False
    then have "int (2 * r) \<le> int (2 ^ e)" unfolding of_nat_le_iff by linarith
    then have "2 * int r \<le> 2 ^ e" by simp
    then show ?thesis unfolding f n if_not_P [OF False] by simp
  qed
  then have "2 ^ 53 * \<bar>int (float64_of_nat n) - int n\<bar> \<le> 2 ^ 52 * 2 ^ e" by simp
  also have "\<dots> \<le> int n"
  proof -
    from big have "int (2 ^ (e + 52)) \<le> int n" by (simp only: of_nat_le_iff)
    then show ?thesis by (simp add: power_add mult.commute)
  qed
  finally show ?thesis .
qed

text \<open>\<^bold>\<open>C39\<close>
  The sizes shown in GiB. Below \<open>2\<close> to the \<open>53\<close> bytes the value is exact; above, it is off by at most
  one part in \<open>2\<close> to the \<open>53\<close>. The same holds for the memory of a node and for the memory of a GPU.
\<close>

theorem gib_accuracy:
  "(unat n < 2 ^ 53 \<longrightarrow> gib_of_bytes n * 2 ^ 30 = of_nat (unat n)) \<and>
   \<bar>gib_of_bytes n * 2 ^ 30 - of_nat (unat n)\<bar> * 2 ^ 53 \<le> of_nat (unat n) \<and>
   MemorySummary_TotalGB (memorySummary (Some (MemoryResources_zero\<lparr>MemoryResources_TotalBytes := n\<rparr>)))
     = gib_of_bytes n"
proof (intro conjI impI)
  have g: "gib_of_bytes n * 2 ^ 30 = of_int (int (float64_of_nat (unat n)))"
    by (simp add: gib_of_bytes_def)
  show "gib_of_bytes n * 2 ^ 30 = of_nat (unat n)" if "unat n < 2 ^ 53"
    unfolding g float64_of_nat_exact [OF that] by (simp only: of_int_of_nat_eq)
  have "\<bar>gib_of_bytes n * 2 ^ 30 - of_nat (unat n)\<bar> * 2 ^ 53 =
      of_int (2 ^ 53 * \<bar>int (float64_of_nat (unat n)) - int (unat n)\<bar>)"
    unfolding g by (simp add: mult.commute)
  also have "\<dots> \<le> of_int (int (unat n))"
    using float64_of_nat_error [of "unat n"] by (simp only: of_int_le_iff)
  finally show "\<bar>gib_of_bytes n * 2 ^ 30 - of_nat (unat n)\<bar> * 2 ^ 53 \<le> (of_nat (unat n) :: rat)" by simp
qed (simp add: memorySummary_def)

theorem gib_accuracy_witness:
  "gib_of_bytes 17179869184 = 16"
proof -
  have "unat (17179869184 :: uint64) = 17179869184" by simp
  with gib_accuracy [of 17179869184] have "gib_of_bytes 17179869184 * 2 ^ 30 = 17179869184" by simp
  then show ?thesis by simp
qed

subsection \<open>What a client reads\<close>

lemma float64_of_nat_shape: "\<exists>m k. float64_of_nat n = m * 2 ^ k \<and> m < 2 ^ 53"
proof -
  define e where "e = floorlog 2 n - 53"
  define q where "q = n div 2 ^ e"
  have "floorlog 2 n \<le> e + 53" by (simp add: e_def)
  then have "(2 :: nat) ^ floorlog 2 n \<le> 2 ^ (e + 53)" by (rule power_increasing) simp
  moreover have "n < 2 ^ floorlog 2 n" using floorlog_bounds [of n 2] by (cases "n = 0") simp_all
  ultimately have "n < 2 ^ (e + 53)" by (rule order.strict_trans2 [rotated])
  then have q: "q < 2 ^ 53" by (simp add: q_def less_mult_imp_div_less power_add mult.commute)
  have "float64_of_nat n = q * 2 ^ e \<or> float64_of_nat n = (q + 1) * 2 ^ e"
    by (simp add: float64_of_nat_def e_def q_def Let_def)
  moreover have "(q + 1) * 2 ^ e = 1 * 2 ^ (53 + e)" if "q + 1 = 2 ^ 53"
    unfolding that by (simp add: power_add)
  moreover have "q + 1 < 2 ^ 53" if "q + 1 \<noteq> 2 ^ 53" using q that by simp
  ultimately show ?thesis using q by (metis one_less_numeral_iff one_less_power semiring_norm(76) zero_less_numeral)
qed

text \<open>Dividing by \<open>2\<close> to the \<open>30\<close> is exact, so the size shown is a double, and its text reads back as it.\<close>

lemma gib_double: "float64_of_rat (gib_of_bytes n) = gib_of_bytes n"
proof -
  obtain m k where mk: "float64_of_nat (unat n) = m * 2 ^ k" "m < 2 ^ 53" using float64_of_nat_shape by blast
  have "gib_of_bytes n = of_nat m * power_int 2 (int k - 30)"
    by (simp add: gib_of_bytes_def mk(1) power_int_diff)
  with float64_exact [OF mk(2), of "int k - 30"] show ?thesis by simp
qed

lemma gib_bounds: "0 \<le> gib_of_bytes n" "gib_of_bytes n < 10 ^ 30"
proof -
  show "0 \<le> gib_of_bytes n" by (simp add: gib_of_bytes_def)
  have bound: "F < 36893488147419103232"
    if "N < 18446744073709551616" and "9007199254740992 * a \<le> N" and "F - N \<le> a" and "0 \<le> a" for F N a :: int
    using that by linarith
  have "int (unat n) < 18446744073709551616" using uint_lt2p [of n] by simp
  moreover have "9007199254740992 * \<bar>int (float64_of_nat (unat n)) - int (unat n)\<bar> \<le> int (unat n)"
    using float64_of_nat_error [of "unat n"] by simp
  ultimately have "int (float64_of_nat (unat n)) < 36893488147419103232"
    using bound abs_ge_self abs_ge_zero by blast
  then have "int (float64_of_nat (unat n)) < 2 ^ 65" by simp
  then have "of_int (int (float64_of_nat (unat n))) < (of_int (2 ^ 65) :: rat)" by (simp only: of_int_less_iff)
  then show "gib_of_bytes n < 10 ^ 30" by (simp add: gib_of_bytes_def)
qed

lemma gib_text:
  "float64_of_rat (number_value (float_text (gib_of_bytes n))) = gib_of_bytes n"
  "float_text (gib_of_bytes n) \<noteq> []"
proof -
  have "gib_of_bytes n * 10 ^ 30 = of_int (int (float64_of_nat (unat n)) * 5 ^ 30)"
    by (simp add: gib_of_bytes_def)
  from float_text_reads_back [OF gib_double gib_bounds this]
  show "float64_of_rat (number_value (float_text (gib_of_bytes n))) = gib_of_bytes n"
    "float_text (gib_of_bytes n) \<noteq> []" by simp_all
qed

lemma printable_node:
  assumes "\<not> has_nil_gpu info" and "NodeInfo_Resources info = Some res"
  shows "printable (json_node (node_view zone nid info res))"
proof -
  have "float_text 0 \<noteq> []" by (simp add: float_text_def)
  then show ?thesis
    by (auto simp: json_node_def json_cpu_def json_memory_def json_gpu_def node_view_def gpu_view_def
        memorySummary_def gib_text list_all_iff split: option.split)
qed

text \<open>The member of an object.\<close>

fun member :: "string \<Rightarrow> jvalue \<Rightarrow> jvalue option" where
  "member k (VObject kvs) = map_of kvs (runes k)"
| "member k _ = None"

lemma member_fields:
  "member ''node_id'' (value_of (json_node n)) = Some (VString (runes (NodeResponse_NodeID n)))"
  "member ''hostname'' (value_of (json_node n)) = Some (VString (runes (NodeResponse_Hostname n)))"
  "member ''address'' (value_of (json_node n)) = Some (VString (runes (NodeResponse_Address n)))"
  "member ''memory'' (value_of (json_node n)) = Some (value_of (json_memory (NodeResponse_Memory n)))"
  "member ''last_beat'' (value_of (json_node n)) = Some (VString (runes (NodeResponse_LastBeat n)))"
  "member ''total_gb'' (value_of (json_memory m)) = Some (VNumber (float_text (MemorySummary_TotalGB m)))"
  by (simp_all add: json_node_def json_memory_def runes_ascii_Cons)

text \<open>The object of a node in the listing, and the body as a reader of JSON takes it.\<close>

definition node_object :: "(time \<Rightarrow> int) \<Rightarrow> string \<times> NodeInfo \<Rightarrow> jvalue" where
  "node_object zone = (\<lambda>(k, info). value_of (json_node (node_view zone k info (the (NodeInfo_Resources info)))))"

lemma listing_read:
  assumes "reg_ok reg" and "\<And>x. CloneOf x = x" and "\<forall>e\<in>set (nodes reg). \<not> has_nil_gpu (snd e)"
  obtains resp where "NodesHandler CloneOf zone a reg r fresh_response = Inr resp"
    and "resp_status resp = Some 200" and "html_safe (resp_body resp)"
    and "read_json (resp_body resp) = Some (VArray (map (node_object zone) (nodes reg)))"
proof -
  define obj where "obj = (\<lambda>(k, info). json_node (node_view zone k info (the (NodeInfo_Resources info))))"
  define body where "body = JArray (map obj (nodes reg))"
  obtain resp where resp: "NodesHandler CloneOf zone a reg r fresh_response = Inr resp" "resp_status resp = Some 200"
    "resp_body resp = json_line body"
    using nodes_body [OF assms(1,2), of zone a r] assms(3) by (auto simp: body_def obj_def)
  have "NodeInfo_Resources (snd e) \<noteq> None" if "e \<in> set (nodes reg)" for e
    using assms(1) that by (auto simp: reg_ok_def node_ok_def list_all_iff)
  with assms(3) have "printable body"
    by (auto simp: body_def obj_def list_all_iff split: prod.split intro!: printable_node)
  moreover have "value_of \<circ> obj = node_object zone" by (auto simp: obj_def node_object_def)
  ultimately have "read_json (resp_body resp) = Some (VArray (map (node_object zone) (nodes reg)))"
    by (simp add: resp(3) read_json_line) (simp add: body_def)
  moreover have "html_safe (resp_body resp)"
    by (simp add: resp(3) json_line_def json_text_safe html_char_def)
  ultimately show ?thesis using that resp by blast
qed

text \<open>\<^bold>\<open>C38\<close>
  What a client of the node listing reads. The body contains no HTML metacharacter and is one JSON
  array with an object per node, whatever strings the agents sent: no hostname, address or device name
  can end its string. A node's object gives back its id, hostname and address, rune by rune, its last
  beat to the second, and its memory as the double the size in GiB was rounded to.
\<close>

theorem listing_read_back:
  assumes "reg_reach reg tr" and "\<And>x. CloneOf x = x"
    and "\<forall>e\<in>set (nodes reg). \<not> has_nil_gpu (snd e)"
    and "map_of (nodes reg) nid = Some info" and "NodeInfo_Resources info = Some res"
    and "NodeResources_Memory res = Some mem"
    and "beat = NodeInfo_LastBeat info" and "60 dvd zone beat" and "\<bar>zone beat\<bar> < 360000"
    and "fst (civil_date ((beat div time_Second + zone beat) div 86400)) \<in> {0..9999}"
  shows "\<exists>resp es e z m x.
    NodesHandler CloneOf zone a reg r fresh_response = Inr resp \<and> html_safe (resp_body resp) \<and>
    read_json (resp_body resp) = Some (VArray es) \<and> length es = length (nodes reg) \<and> e \<in> set es \<and>
    member ''node_id'' e = Some (VString (runes nid)) \<and>
    member ''hostname'' e = Some (VString (runes (NodeResources_Hostname res))) \<and>
    member ''address'' e = Some (VString (runes (NodeInfo_Address info))) \<and>
    member ''last_beat'' e = Some (VString z) \<and> read_RFC3339 (map char_of z) = beat div time_Second \<and>
    member ''memory'' e = Some m \<and> member ''total_gb'' m = Some (VNumber x) \<and>
    float64_of_rat (number_value x) = gib_of_bytes (MemoryResources_TotalBytes mem)"
proof -
  obtain resp where resp: "NodesHandler CloneOf zone a reg r fresh_response = Inr resp"
    and safe: "html_safe (resp_body resp)"
    and read: "read_json (resp_body resp) = Some (VArray (map (node_object zone) (nodes reg)))"
    using listing_read [OF reg_reach_ok [OF assms(1)] assms(2,3)] by blast
  define n where "n = node_view zone nid info res"
  have mem: "value_of (json_node n) \<in> set (map (node_object zone) (nodes reg))"
    using map_of_SomeD [OF assms(4)] assms(5) by (force simp: node_object_def n_def)
  have "map char_of (runes (RFC3339 zone beat)) = RFC3339 zone beat"
    using runes_ascii_text [OF RFC3339_ascii, of zone beat "[]"] by (simp add: comp_def)
  then have beat: "read_RFC3339 (map char_of (runes (NodeResponse_LastBeat n))) = beat div time_Second"
    using read_RFC3339_text [of zone beat, OF assms(8-10)] by (simp add: n_def node_view_def assms(7) [symmetric])
  have view: "NodeResponse_NodeID n = nid" "NodeResponse_Hostname n = NodeResources_Hostname res"
    "NodeResponse_Address n = NodeInfo_Address info"
    "MemorySummary_TotalGB (NodeResponse_Memory n) = gib_of_bytes (MemoryResources_TotalBytes mem)"
    by (simp_all add: n_def node_view_def memorySummary_def assms(6))
  show ?thesis
    using resp safe read mem beat view gib_text(1)
    by (intro exI [of _ resp] exI [of _ "map (node_object zone) (nodes reg)"] exI [of _ "value_of (json_node n)"]
        exI [of _ "runes (NodeResponse_LastBeat n)"] exI [of _ "value_of (json_memory (NodeResponse_Memory n))"]
        exI [of _ "float_text (MemorySummary_TotalGB (NodeResponse_Memory n))"])
       (simp add: member_fields)
qed

definition sample_listed :: NodeResources where
  "sample_listed = NodeResources_zero\<lparr>NodeResources_Hostname := ''</script>'',
     NodeResources_Memory := Some (MemoryResources_zero\<lparr>MemoryResources_TotalBytes := 17179869184\<rparr>)\<rparr>"

theorem listing_read_back_witness:
  "\<exists>reg resp es e. reg_next (RegRegister 3 ''n1'' ''a'' (Some sample_listed)) NewNodeRegistry = Some reg \<and>
     NodesHandler (\<lambda>x. x) (\<lambda>t. 3600) (NewAPIServer '''' False) reg
       \<lparr>req_path = ''/api/v1/nodes'', req_header = [], req_query = []\<rparr> fresh_response = Inr resp \<and>
     html_safe (resp_body resp) \<and> read_json (resp_body resp) = Some (VArray es) \<and> e \<in> set es \<and>
     member ''hostname'' e = Some (VString (map of_char ''</script>''))"
proof -
  define info where "info = \<lparr>NodeInfo_NodeID = ''n1'', NodeInfo_Address = ''a'',
    NodeInfo_Resources = Some sample_listed, NodeInfo_LastBeat = 3, NodeInfo_Tasks = [], NodeInfo_ConnectionID = 1\<rparr>"
  define reg where "reg = \<lparr>nodes = [(''n1'', info)]\<rparr>"
  have reach: "reg_reach reg ([] @ [RegistrationsTotal_Inc, RegisteredNodes_Set 1])"
    by (rule reach_op [OF reach_new, of "RegRegister 3 ''n1'' ''a'' (Some sample_listed)"])
       (simp add: NodeRegistry_Register_def NewNodeRegistry_def Let_def reg_def info_def)
  have year: "fst (civil_date ((3 div time_Second + 3600) div 86400)) \<in> {0..9999}"
    using civil_date_year [of "(3 div time_Second + 3600) div 86400"] by (auto simp: time_Second_def)
  have nogpu: "\<forall>e\<in>set (nodes reg). \<not> has_nil_gpu (snd e)"
    by (simp add: reg_def info_def has_nil_gpu_def sample_listed_def NodeResources_zero_def)
  have next_reg: "reg_next (RegRegister 3 ''n1'' ''a'' (Some sample_listed)) NewNodeRegistry = Some reg"
    by (simp add: NodeRegistry_Register_def NewNodeRegistry_def Let_def reg_def info_def)
  have host: "runes (NodeResources_Hostname sample_listed) = map of_char ''</script>''"
    by (simp add: sample_listed_def runes_ascii_Cons)
  have node: "map_of (nodes reg) ''n1'' = Some info" "NodeInfo_Resources info = Some sample_listed"
    "\<exists>mem. NodeResources_Memory sample_listed = Some mem" "3 = NodeInfo_LastBeat info"
    by (simp_all add: reg_def info_def sample_listed_def)
  then obtain mem where mem: "NodeResources_Memory sample_listed = Some mem" by blast
  have zone: "60 dvd (3600 :: int)" "\<bar>3600\<bar> < (360000 :: int)" by simp_all
  from listing_read_back [where zone = "\<lambda>_. 3600", OF reach refl nogpu node(1,2) mem node(4) zone year]
  show ?thesis using next_reg unfolding host by blast
qed

end
