(* ===== verification/TlsReload.thy ===== *)
theory TlsReload
  imports Effects
begin

text \<open>
  The package \<^verbatim>\<open>internal/tlsreload\<close>: loading the server certificate from disk, polling for changes,
  and the two callbacks that hand it to a handshake. Certificates and certificate pools belong to
  Go's \<^verbatim>\<open>crypto\<close> packages and stay abstract, as the type parameters \<open>'cert\<close> and \<open>'pool\<close>. What one
  load finds on disk is the record \<open>disk\<close>: the outcome of each call to the operating system and to
  the parsers, any of which may fail, in any combination, since the files can change between calls.
\<close>

subsection \<open>State\<close>

text \<open>The zero \<open>time.Time\<close>: midnight of January 1 of year 1, before the Unix epoch.\<close>

definition zero_time :: time where
  "zero_time = - 62135596800 * time_Second"

record ('cert, 'pool) CertReloader =
  cert :: "'cert option"
  clientCAPool :: "'pool option"
  hasCA :: bool
  certPath :: string
  keyPath :: string
  caCertPath :: string
  certMod :: time
  keyMod :: time
  caMod :: time

text \<open>
  The modification times reported by \<open>os.Stat\<close>, the key pair read by \<open>tls.LoadX509KeyPair\<close>, the
  bytes of the CA file, and the pool that \<open>AppendCertsFromPEM\<close> makes of bytes (\<open>None\<close> when it finds no
  certificate). A failure carries the text of its error.
\<close>

record ('cert, 'pool) disk =
  stat_cert :: "string + time"
  stat_key :: "string + time"
  stat_ca :: "string + time"
  LoadX509KeyPair :: "string + 'cert"
  ReadFile_ca :: "string + string"
  AppendCertsFromPEM :: "string \<Rightarrow> 'pool option"

definition errorf :: "string \<Rightarrow> string \<Rightarrow> error" where
  "errorf what text = OtherError (what @ '': '' @ text)"

subsection \<open>Loading\<close>

text \<open>The optional CA pool of a load, with \<open>hasCA\<close>.\<close>

definition load_ca ::
  "('cert, 'pool) disk \<Rightarrow> ('cert, 'pool) CertReloader \<Rightarrow> error + 'pool option \<times> bool" where
  "load_ca d r =
     (if caCertPath r \<noteq> '''' then
        (case ReadFile_ca d of
           Inl e \<Rightarrow> Inl (errorf (''read CA cert '' @ caCertPath r) e)
         | Inr caPEM \<Rightarrow>
             (case AppendCertsFromPEM d caPEM of
                None \<Rightarrow> Inl (errorf (''parse CA certificate '' @ caCertPath r) ''no valid PEM found'')
              | Some pool \<Rightarrow> Inr (Some pool, True)))
      else Inr (None, False))"

definition load ::
  "('cert, 'pool) disk \<Rightarrow> ('cert, 'pool) CertReloader
     \<Rightarrow> go_error \<times> ('cert, 'pool) CertReloader \<times> metric_op list" where
  "load d r =
     (case stat_cert d of
        Inl e \<Rightarrow> (Some (errorf (''stat cert file '' @ certPath r) e), r, [])
      | Inr certStat \<Rightarrow>
     (case stat_key d of
        Inl e \<Rightarrow> (Some (errorf (''stat key file '' @ keyPath r) e), r, [])
      | Inr keyStat \<Rightarrow>
     (case (if caCertPath r \<noteq> '''' then stat_ca d else Inr (caMod r)) of
        Inl e \<Rightarrow> (Some (errorf (''stat CA cert file '' @ caCertPath r) e), r, [])
      | Inr caStat \<Rightarrow>
          let certChanged = (certStat \<noteq> certMod r);
              keyChanged = (keyStat \<noteq> keyMod r);
              caChanged = (caCertPath r \<noteq> '''' \<and> caStat \<noteq> caMod r)
          in if \<not> certChanged \<and> \<not> keyChanged \<and> \<not> caChanged then (None, r, [])
             else case LoadX509KeyPair d of
                    Inl e \<Rightarrow> (Some (errorf ''load X509 key pair'' e), r, [])
                  | Inr c \<Rightarrow>
                      (case load_ca d r of
                         Inl err \<Rightarrow> (Some err, r, [])
                       | Inr (caPool, has) \<Rightarrow>
                           (None,
                            r\<lparr>cert := Some c, clientCAPool := caPool, hasCA := has,
                              certMod := certStat, keyMod := keyStat,
                              caMod := (if caCertPath r \<noteq> '''' then caStat else caMod r)\<rparr>,
                            [TLSCertLoadTotal_Inc ''success''])))))"

definition New ::
  "('cert, 'pool) disk \<Rightarrow> string \<Rightarrow> string \<Rightarrow> string
     \<Rightarrow> (error + ('cert, 'pool) CertReloader) \<times> metric_op list" where
  "New d cp kp cap =
     (case load d \<lparr>cert = None, clientCAPool = None, hasCA = False, certPath = cp, keyPath = kp,
                    caCertPath = cap, certMod = zero_time, keyMod = zero_time, caMod = zero_time\<rparr> of
        (Some err, r, ops) \<Rightarrow> (Inl err, ops)
      | (None, r, ops) \<Rightarrow> (Inr r, ops))"

definition Reload ::
  "('cert, 'pool) disk \<Rightarrow> ('cert, 'pool) CertReloader \<Rightarrow> ('cert, 'pool) CertReloader \<times> metric_op list" where
  "Reload d r =
     (case load d r of
        (Some err, r', ops) \<Rightarrow> (r', ops @ [TLSCertLoadTotal_Inc ''failure''])
      | (None, r', ops) \<Rightarrow> (r', ops))"

text \<open>The polling loop: at each tick a load, until the context is done.\<close>

datatype ('cert, 'pool) watch_event = WatchDone | WatchTick "('cert, 'pool) disk"

fun Watch ::
  "('cert, 'pool) watch_event list \<Rightarrow> ('cert, 'pool) CertReloader
     \<Rightarrow> ('cert, 'pool) CertReloader \<times> metric_op list" where
  "Watch [] r = (r, [])"
| "Watch (WatchDone # evs) r = (r, [])"
| "Watch (WatchTick d # evs) r =
     (let (err, r1, ops) = load d r;
          ops1 = (if err \<noteq> None then ops @ [TLSCertLoadTotal_Inc ''failure''] else ops);
          (r2, ops2) = Watch evs r1
      in (r2, ops1 @ ops2))"

subsection \<open>Handshake callbacks\<close>

datatype client_auth = NoClientCert | RequireAndVerifyClientCert

datatype tls_version = VersionTLS13

record ('cert, 'pool) tls_Config =
  Certificates :: "'cert list"
  MinVersion :: tls_version
  ClientAuth :: client_auth
  ClientCAs :: "'pool option"

definition GetCertificate :: "('cert, 'pool) CertReloader \<Rightarrow> 'cert option" where
  "GetCertificate r = cert r"

definition GetConfigForClient :: "('cert, 'pool) CertReloader \<Rightarrow> panic + ('cert, 'pool) tls_Config" where
  "GetConfigForClient r =
     (case cert r of
        None \<Rightarrow> Inl NilDeref
      | Some c \<Rightarrow>
          let cfg = \<lparr>Certificates = [c], MinVersion = VersionTLS13, ClientAuth = NoClientCert,
                     ClientCAs = None\<rparr>
          in Inr (if hasCA r then cfg\<lparr>ClientAuth := RequireAndVerifyClientCert,
                                     ClientCAs := clientCAPool r\<rparr>
                  else cfg))"

subsection \<open>What a load does\<close>

text \<open>A load that finds all files, valid and with at least one new modification time.\<close>

definition fresh_load ::
  "('cert, 'pool) disk \<Rightarrow> ('cert, 'pool) CertReloader \<Rightarrow> ('cert \<times> 'pool option) option" where
  "fresh_load d r =
     (case (stat_cert d, stat_key d, LoadX509KeyPair d) of
        (Inr tc, Inr tk, Inr c) \<Rightarrow>
          if caCertPath r = '''' then
            if tc \<noteq> certMod r \<or> tk \<noteq> keyMod r then Some (c, None) else None
          else
            (case (stat_ca d, ReadFile_ca d) of
               (Inr ta, Inr pem) \<Rightarrow>
                 if tc \<noteq> certMod r \<or> tk \<noteq> keyMod r \<or> ta \<noteq> caMod r
                 then map_option (\<lambda>p. (c, Some p)) (AppendCertsFromPEM d pem) else None
             | _ \<Rightarrow> None)
      | _ \<Rightarrow> None)"

text \<open>A load that finds every modification time as it was.\<close>

definition unchanged :: "('cert, 'pool) disk \<Rightarrow> ('cert, 'pool) CertReloader \<Rightarrow> bool" where
  "unchanged d r \<longleftrightarrow>
     stat_cert d = Inr (certMod r) \<and> stat_key d = Inr (keyMod r) \<and>
     (caCertPath r = '''' \<or> stat_ca d = Inr (caMod r))"

text \<open>The state after a successful load of a certificate and a pool.\<close>

definition swapped ::
  "('cert, 'pool) disk \<Rightarrow> 'cert \<times> 'pool option \<Rightarrow> ('cert, 'pool) CertReloader
     \<Rightarrow> ('cert, 'pool) CertReloader" where
  "swapped d cp r =
     r\<lparr>cert := Some (fst cp), clientCAPool := snd cp, hasCA := (snd cp \<noteq> None),
       certMod := projr (stat_cert d), keyMod := projr (stat_key d),
       caMod := (if caCertPath r = '''' then caMod r else projr (stat_ca d))\<rparr>"

lemma load_kept: "fresh_load d r = None \<Longrightarrow> \<exists>err. load d r = (err, r, []) \<and> (err = None \<longleftrightarrow> unchanged d r)"
  by (auto simp: load_def fresh_load_def load_ca_def Let_def unchanged_def
      split: sum.splits option.splits if_splits)

lemma load_swapped:
  "fresh_load d r = Some cp \<Longrightarrow>
     load d r = (None, swapped d cp r, [TLSCertLoadTotal_Inc ''success'']) \<and> \<not> unchanged d r \<and>
     (snd cp = None \<longleftrightarrow> caCertPath r = '''')"
  by (auto simp: load_def fresh_load_def load_ca_def Let_def unchanged_def swapped_def
      split: sum.splits option.splits if_splits)

text \<open>What the files hold, whatever their modification times: a key pair, and a pool when one is asked for.\<close>

definition contents :: "string \<Rightarrow> ('cert, 'pool) disk \<Rightarrow> ('cert \<times> 'pool option) option" where
  "contents cap d =
     (case LoadX509KeyPair d of
        Inl _ \<Rightarrow> None
      | Inr c \<Rightarrow>
          if cap = '''' then Some (c, None)
          else (case ReadFile_ca d of
                  Inl _ \<Rightarrow> None
                | Inr pem \<Rightarrow> map_option (\<lambda>p. (c, Some p)) (AppendCertsFromPEM d pem)))"

lemma fresh_load_contents: "fresh_load d r = Some cp \<Longrightarrow> contents (caCertPath r) d = Some cp"
  by (auto simp: fresh_load_def contents_def split: sum.splits option.splits if_splits)

text \<open>Loads one after the other, by polling or by signal.\<close>

fun reload_all :: "('cert, 'pool) disk list \<Rightarrow> ('cert, 'pool) CertReloader \<Rightarrow> ('cert, 'pool) CertReloader" where
  "reload_all [] r = r"
| "reload_all (d # ds) r = reload_all ds (fst (Reload d r))"

lemma Reload_state: "fst (Reload d r) = (case fresh_load d r of None \<Rightarrow> r | Some cp \<Rightarrow> swapped d cp r)"
proof (cases "fresh_load d r")
  case None
  with load_kept [OF None] show ?thesis by (auto simp: Reload_def split: option.split)
next
  case (Some cp)
  with load_swapped [OF Some] show ?thesis by (simp add: Reload_def)
qed

lemma Watch_reload_all: "fst (Watch (map WatchTick ds) r) = reload_all ds r"
  by (induction ds arbitrary: r)
     (simp_all add: Reload_def Let_def case_prod_beta split: prod.split option.split)

text \<open>The reloader serves the contents of one of the given states of the disk.\<close>

definition serves :: "('cert, 'pool) disk set \<Rightarrow> ('cert, 'pool) CertReloader \<Rightarrow> bool" where
  "serves D r \<longleftrightarrow>
     (\<exists>d\<in>D. \<exists>c p. contents (caCertPath r) d = Some (c, p) \<and> cert r = Some c \<and> clientCAPool r = p \<and>
        hasCA r = (caCertPath r \<noteq> '''') \<and> (p = None \<longleftrightarrow> caCertPath r = ''''))"

lemma serves_swapped:
  assumes "fresh_load d r = Some cp" and "d \<in> D"
  shows "serves D (swapped d cp r)"
proof -
  from fresh_load_contents [OF assms(1)] load_swapped [OF assms(1)]
  have "contents (caCertPath r) d = Some (fst cp, snd cp)" "snd cp = None \<longleftrightarrow> caCertPath r = ''''"
    by simp_all
  with assms(2) show ?thesis by (auto simp: serves_def swapped_def intro!: bexI [of _ d])
qed

lemma serves_Reload:
  assumes "serves D r"
  shows "serves (insert d D) (fst (Reload d r))"
proof (cases "fresh_load d r")
  case None
  with assms show ?thesis by (auto simp: Reload_state serves_def)
next
  case (Some cp)
  with serves_swapped [OF Some, of "insert d D"] show ?thesis by (simp add: Reload_state)
qed

lemma serves_reload_all: "serves D r \<Longrightarrow> serves (set ds \<union> D) (reload_all ds r)"
proof (induction ds arbitrary: r D)
  case (Cons d ds)
  from Cons.IH [OF serves_Reload [OF Cons.prems, of d]] show ?case by simp
qed simp

lemma caCertPath_reload_all: "caCertPath (reload_all ds r) = caCertPath r"
  by (induction ds arbitrary: r) (auto simp: Reload_state swapped_def split: option.split)

lemma serves_config:
  assumes "serves D r"
  obtains d c p where "d \<in> D" "contents (caCertPath r) d = Some (c, p)" "GetCertificate r = Some c"
    "GetConfigForClient r = Inr \<lparr>Certificates = [c], MinVersion = VersionTLS13,
       ClientAuth = (if caCertPath r = '''' then NoClientCert else RequireAndVerifyClientCert),
       ClientCAs = p\<rparr>"
  using assms unfolding serves_def
proof (elim bexE exE conjE)
  fix d c p
  assume "d \<in> D" "contents (caCertPath r) d = Some (c, p)" "cert r = Some c" "clientCAPool r = p"
    "hasCA r = (caCertPath r \<noteq> [])" "p = None \<longleftrightarrow> caCertPath r = []"
  then show thesis
    by (intro that [of d c p]) (auto simp: GetCertificate_def GetConfigForClient_def Let_def)
qed

abbreviation blank_reloader :: "string \<Rightarrow> string \<Rightarrow> string \<Rightarrow> ('cert, 'pool) CertReloader" where
  "blank_reloader cp kp cap \<equiv>
     \<lparr>cert = None, clientCAPool = None, hasCA = False, certPath = cp, keyPath = kp,
      caCertPath = cap, certMod = zero_time, keyMod = zero_time, caMod = zero_time\<rparr>"

lemma New_state:
  "fst (New d cp kp cap) = Inr r \<Longrightarrow>
     (case fresh_load d (blank_reloader cp kp cap) of
        Some x \<Rightarrow> r = swapped d x (blank_reloader cp kp cap)
      | None \<Rightarrow> r = blank_reloader cp kp cap \<and> unchanged d (blank_reloader cp kp cap))"
proof (cases "fresh_load d (blank_reloader cp kp cap)")
  case None
  assume "fst (New d cp kp cap) = Inr r"
  with None load_kept [OF None] show ?thesis by (auto simp: New_def split: option.splits)
next
  case (Some x)
  assume "fst (New d cp kp cap) = Inr r"
  with Some load_swapped [OF Some] show ?thesis by (simp add: New_def)
qed

lemma New_serves:
  assumes "fst (New d cp kp cap) = Inr r" and "stat_cert d \<noteq> Inr zero_time"
  shows "serves {d} r \<and> caCertPath r = cap"
proof -
  let ?r0 = "blank_reloader cp kp cap :: ('a, 'b) CertReloader"
  obtain x where x: "fresh_load d ?r0 = Some x" "r = swapped d x ?r0"
    using New_state [OF assms(1)] assms(2) by (auto simp: unchanged_def split: option.splits)
  from x(2) have "caCertPath r = cap" by (simp add: swapped_def)
  moreover from x have "serves {d} r" by (simp add: serves_swapped)
  ultimately show ?thesis by blast
qed

subsection \<open>Properties\<close>

text \<open>\<^bold>\<open>C16\<close>
  Reloading never interrupts service and never mixes. Once \<open>New\<close> has loaded a certificate (its file's
  modification time is a real one, not the zero time), then after any number of loads, each finding
  anything on disk, failing anywhere, the certificate handed to a handshake is that of one complete,
  valid state of the disk, and the client pool is the pool of that same state. With a CA file
  configured every gRPC handshake requires a verified client certificate; a reload cannot turn that
  off.
\<close>

theorem reload_keeps_serving:
  assumes "fst (New d cp kp cap) = Inr r" and "stat_cert d \<noteq> Inr zero_time"
  shows "\<exists>d'\<in>set (d # ds). \<exists>c p. contents cap d' = Some (c, p) \<and>
    GetCertificate (reload_all ds r) = Some c \<and>
    GetConfigForClient (reload_all ds r) = Inr \<lparr>Certificates = [c], MinVersion = VersionTLS13,
       ClientAuth = (if cap = '''' then NoClientCert else RequireAndVerifyClientCert),
       ClientCAs = p\<rparr>"
proof -
  from New_serves [OF assms] have "caCertPath r = cap" and "serves {d} r" by simp_all
  from serves_config [OF serves_reload_all [OF this(2), of ds]] obtain d' c p where
    "d' \<in> set ds \<union> {d}" "contents (caCertPath (reload_all ds r)) d' = Some (c, p)"
    "GetCertificate (reload_all ds r) = Some c"
    "GetConfigForClient (reload_all ds r) = Inr \<lparr>Certificates = [c], MinVersion = VersionTLS13,
       ClientAuth = (if caCertPath (reload_all ds r) = '''' then NoClientCert
                     else RequireAndVerifyClientCert), ClientCAs = p\<rparr>" .
  with \<open>caCertPath r = cap\<close> show ?thesis by (auto simp: caCertPath_reload_all)
qed

definition sample_disk :: "int \<Rightarrow> (string, string) disk" where
  "sample_disk n =
     \<lparr>stat_cert = Inr n, stat_key = Inr n, stat_ca = Inr n, LoadX509KeyPair = Inr ''cert'',
      ReadFile_ca = Inr ''pem'', AppendCertsFromPEM = Some\<rparr>"

theorem reload_keeps_serving_witness:
  "\<exists>r c p. fst (New (sample_disk 5) ''c.pem'' ''k.pem'' ''ca.pem'') = Inr r \<and>
     GetConfigForClient (reload_all [sample_disk 9, (sample_disk 11)\<lparr>ReadFile_ca := Inl ''EIO''\<rparr>] r) =
       Inr \<lparr>Certificates = [c], MinVersion = VersionTLS13, ClientAuth = RequireAndVerifyClientCert,
            ClientCAs = p\<rparr>"
proof -
  have "zero_time \<noteq> 5" by (simp add: zero_time_def time_Second_def)
  moreover from this obtain r where
    r: "fst (New (sample_disk 5) ''c.pem'' ''k.pem'' ''ca.pem'') = Inr r"
    by (simp add: New_def load_def load_ca_def sample_disk_def Let_def zero_time_def)
  ultimately show ?thesis
    using reload_keeps_serving [OF r, of "[sample_disk 9, (sample_disk 11)\<lparr>ReadFile_ca := Inl ''EIO''\<rparr>]"] r
    by (auto simp: sample_disk_def)
qed

text \<open>\<^bold>\<open>C32\<close>
  The outcome and the accounting of a reload. It swaps in the new contents exactly when all files
  could be read and some modification time is new, and counts one success; it does nothing and counts
  nothing when every modification time is the old one; in every other case it counts one failure and
  leaves the reloader as it was. A poll of \<open>Watch\<close> does the same. The initial load of \<open>New\<close> counts its
  success, but not its failure.
\<close>

theorem reload_accounting:
  "Reload d r =
     (case fresh_load d r of
        Some x \<Rightarrow> (swapped d x r, [TLSCertLoadTotal_Inc ''success''])
      | None \<Rightarrow> (r, if unchanged d r then [] else [TLSCertLoadTotal_Inc ''failure''])) \<and>
   Watch (map WatchTick ds @ [WatchDone] @ rest) r =
     (reload_all ds r, concat (map (\<lambda>i. snd (Reload (ds ! i) (reload_all (take i ds) r))) [0..<length ds])) \<and>
   (case New d cp kp cap of
      (Inl err, ops) \<Rightarrow> ops = []
    | (Inr r0, ops) \<Rightarrow> ops = (if cert r0 = None then [] else [TLSCertLoadTotal_Inc ''success'']))"
proof (intro conjI)
  show "Reload d r =
     (case fresh_load d r of
        Some x \<Rightarrow> (swapped d x r, [TLSCertLoadTotal_Inc ''success''])
      | None \<Rightarrow> (r, if unchanged d r then [] else [TLSCertLoadTotal_Inc ''failure'']))"
    using load_kept [of d r] load_swapped [of d r]
    by (cases "fresh_load d r") (auto simp: Reload_def split: option.split)
next
  have step: "Watch (WatchTick d # evs) r =
      (fst (Watch evs (fst (Reload d r))), snd (Reload d r) @ snd (Watch evs (fst (Reload d r))))"
    for d evs and r :: "('a, 'b) CertReloader"
    by (simp add: Reload_def Let_def case_prod_beta split: prod.split option.split)
  show "Watch (map WatchTick ds @ [WatchDone] @ rest) r =
     (reload_all ds r, concat (map (\<lambda>i. snd (Reload (ds ! i) (reload_all (take i ds) r))) [0..<length ds]))"
  proof (induction ds arbitrary: r)
    case (Cons d ds)
    have "[0..<length (d # ds)] = 0 # map Suc [0..<length ds]"
      by (simp add: upt_conv_Cons map_Suc_upt del: upt_Suc)
    with Cons.IH [of "fst (Reload d r)"] show ?case
      by (simp add: step comp_def del: Watch.simps(3) upt_Suc)
  qed simp
next
  show "case New d cp kp cap of
      (Inl err, ops) \<Rightarrow> ops = []
    | (Inr r0, ops) \<Rightarrow> ops = (if cert r0 = None then [] else [TLSCertLoadTotal_Inc ''success''])"
    using load_kept [of d "blank_reloader cp kp cap"] load_swapped [of d "blank_reloader cp kp cap"]
    by (cases "fresh_load d (blank_reloader cp kp cap)")
       (auto simp: New_def swapped_def split: option.split)
qed

text \<open>\<open>Reload\<close> does not force a reload: when the modification times are the recorded ones, it does not
  read the files, whatever they hold now. A replacement that keeps the modification times is never
  picked up, by a signal no more than by polling.
\<close>

theorem Reload_not_forced:
  assumes "stat_cert d = Inr (certMod r)" and "stat_key d = Inr (keyMod r)"
    and "caCertPath r = '''' \<or> stat_ca d = Inr (caMod r)"
  shows "Reload (d\<lparr>LoadX509KeyPair := Inr newcert\<rparr>) r = (r, []) \<and>
    Watch (replicate n (WatchTick (d\<lparr>LoadX509KeyPair := Inr newcert\<rparr>))) r = (r, [])"
proof -
  have "load (d\<lparr>LoadX509KeyPair := Inr newcert\<rparr>) r = (None, r, [])"
    using assms by (auto simp: load_def Let_def split: sum.split)
  then show ?thesis by (induction n) (auto simp: Reload_def)
qed

theorem Reload_not_forced_witness:
  "Reload ((sample_disk 5)\<lparr>LoadX509KeyPair := Inr ''rotated''\<rparr>)
     (blank_reloader ''c'' ''k'' ''''\<lparr>cert := Some ''old'', certMod := 5, keyMod := 5\<rparr>)
   = (blank_reloader ''c'' ''k'' ''''\<lparr>cert := Some ''old'', certMod := 5, keyMod := 5\<rparr>, [])"
  using Reload_not_forced [of "sample_disk 5"
      "blank_reloader ''c'' ''k'' ''''\<lparr>cert := Some ''old'', certMod := 5, keyMod := 5\<rparr>" "''rotated''"]
  by (simp add: sample_disk_def)

end
