(* ===== verification/Metric_Families.thy ===== *)
theory Metric_Families
  imports Metrics
begin

text \<open>
  The metrics the package \<^verbatim>\<open>internal/metrics\<close> declares, with their names, help texts and label names,
  the order in which \<open>init\<close> registers them, and what each recorded call of the program asks of which
  metric. The Prometheus library documents that \<open>MustRegister\<close> panics on a name already registered, that
  \<open>WithLabelValues\<close> panics on a wrong number of label values, and that a counter only goes up: the
  property says that none of this can happen. Histogram buckets are the library's default ones.
\<close>

subsection \<open>Declarations\<close>

datatype metric_kind = Counter | Gauge | Histogram

record collector =
  metric_kind :: metric_kind
  metric_Name :: string
  metric_Help :: string
  metric_labels :: "string list"

definition grpcServerRequests :: collector where
  "grpcServerRequests = \<lparr>metric_kind = Counter, metric_Name = ''nmonit_grpc_server_requests_total'',
     metric_Help = ''Total gRPC requests handled by the server, grouped by method and status code.'',
     metric_labels = [''grpc_method'', ''grpc_type'', ''grpc_code'']\<rparr>"

definition grpcServerLatency :: collector where
  "grpcServerLatency = \<lparr>metric_kind = Histogram, metric_Name = ''nmonit_grpc_server_latency_seconds'',
     metric_Help = ''Server-side gRPC request latency in seconds.'',
     metric_labels = [''grpc_method'', ''grpc_type'']\<rparr>"

definition grpcActiveStreams :: collector where
  "grpcActiveStreams = \<lparr>metric_kind = Gauge, metric_Name = ''nmonit_grpc_server_streams_active'',
     metric_Help = ''Number of currently open gRPC streams.'',
     metric_labels = [''grpc_method'']\<rparr>"

definition RegisteredNodes :: collector where
  "RegisteredNodes = \<lparr>metric_kind = Gauge, metric_Name = ''nmonit_nodes_registered_total'',
     metric_Help = ''Current number of agent nodes registered with the control plane.'',
     metric_labels = []\<rparr>"

definition RegistrationsTotal :: collector where
  "RegistrationsTotal = \<lparr>metric_kind = Counter, metric_Name = ''nmonit_registrations_total'',
     metric_Help = ''Total number of successful agent registrations (including re-registrations).'',
     metric_labels = []\<rparr>"

definition HeartbeatsTotal :: collector where
  "HeartbeatsTotal = \<lparr>metric_kind = Counter, metric_Name = ''nmonit_heartbeats_total'',
     metric_Help = ''Total number of heartbeats received from all agents.'',
     metric_labels = []\<rparr>"

definition StaleNodesRemoved :: collector where
  "StaleNodesRemoved = \<lparr>metric_kind = Counter, metric_Name = ''nmonit_nodes_stale_removed_total'',
     metric_Help = ''Total number of nodes removed due to missed heartbeats (stale cleanup).'',
     metric_labels = []\<rparr>"

definition TasksRunning :: collector where
  "TasksRunning = \<lparr>metric_kind = Gauge, metric_Name = ''nmonit_tasks_running_total'',
     metric_Help = ''Current number of running tasks across all agent nodes.'',
     metric_labels = []\<rparr>"

definition TLSCertLoadTotal :: collector where
  "TLSCertLoadTotal = \<lparr>metric_kind = Counter, metric_Name = ''nmonit_tls_cert_load_total'',
     metric_Help = ''Total TLS certificate load attempts (initial and reload), labeled by result (success or failure).'',
     metric_labels = [''result'']\<rparr>"

text \<open>The collectors \<open>init\<close> passes to \<open>MustRegister\<close>, in order.\<close>

definition registered_collectors :: "collector list" where
  "registered_collectors =
     [grpcServerRequests, grpcServerLatency, grpcActiveStreams, RegisteredNodes, RegistrationsTotal,
      HeartbeatsTotal, StaleNodesRemoved, TasksRunning, TLSCertLoadTotal]"

subsection \<open>Calls\<close>

datatype metric_call = Inc | Dec | SetTo nat | Add nat | Observe duration

text \<open>A recorded call: the collector, the label values, and the method.\<close>

fun call_of :: "metric_op \<Rightarrow> collector \<times> string list \<times> metric_call" where
  "call_of (RegisteredNodes_Set n) = (RegisteredNodes, [], SetTo n)"
| "call_of RegistrationsTotal_Inc = (RegistrationsTotal, [], Inc)"
| "call_of HeartbeatsTotal_Inc = (HeartbeatsTotal, [], Inc)"
| "call_of (StaleNodesRemoved_Add n) = (StaleNodesRemoved, [], Add n)"
| "call_of (TasksRunning_Set n) = (TasksRunning, [], SetTo n)"
| "call_of (TLSCertLoadTotal_Inc result) = (TLSCertLoadTotal, [result], Inc)"
| "call_of (GrpcServerRequests_Inc meth typ code) = (grpcServerRequests, [meth, typ, code], Inc)"
| "call_of (GrpcServerLatency_Observe meth typ d) = (grpcServerLatency, [meth, typ], Observe d)"
| "call_of (GrpcActiveStreams_Inc meth) = (grpcActiveStreams, [meth], Inc)"
| "call_of (GrpcActiveStreams_Dec meth) = (grpcActiveStreams, [meth], Dec)"

fun provides :: "metric_kind \<Rightarrow> metric_call \<Rightarrow> bool" where
  "provides Counter Inc = True"
| "provides Counter (Add n) = True"
| "provides Counter _ = False"
| "provides Gauge (Observe d) = False"
| "provides Gauge _ = True"
| "provides Histogram (Observe d) = True"
| "provides Histogram _ = False"

lemmas collector_defs = grpcServerRequests_def grpcServerLatency_def grpcActiveStreams_def
  RegisteredNodes_def RegistrationsTotal_def HeartbeatsTotal_def StaleNodesRemoved_def
  TasksRunning_def TLSCertLoadTotal_def

subsection \<open>Properties\<close>

text \<open>The metrics are used as declared. No two collectors share a name, so start-up registers them all;
  and every call the program can record is on a registered collector, gives one value for each of its
  labels, and is one its kind has, so a counter is never set or lowered.
\<close>

theorem metric_calls_well_formed:
  "distinct (map metric_Name registered_collectors) \<and>
   (case call_of op of (c, labels, call) \<Rightarrow>
      c \<in> set registered_collectors \<and> length labels = length (metric_labels c) \<and>
      provides (metric_kind c) call)"
  by (cases op) (simp_all add: registered_collectors_def collector_defs)

end
