(* ===== verification/Main_Program.thy ===== *)
theory Main_Program
  imports Heartbeat Grpc_Services RestApi TlsReload Metric_Families
begin

text \<open>
  The program \<^verbatim>\<open>cmd/control-plane/main.go\<close>: its flags, the start-up decisions with their fatal exits,
  the chain of interceptors, the TLS configuration of both servers, the HTTP routes and the signal
  loop. What the environment supplies (the host name, the random part of a cluster id, the outcome of
  listening, the state of the disk) are arguments.
\<close>

subsection \<open>Flags and start-up\<close>

record flags =
  grpcAddr :: string
  httpAddr :: string
  nodeID :: string
  logLevel :: string
  bootstrap :: bool
  agentToken :: string
  apiKey :: string
  tlsCert :: string
  tlsKey :: string
  tlsCACert :: string
  requireTLS :: bool
  tlsReloadInterval :: duration

definition default_flags :: flags where
  "default_flags =
     \<lparr>grpcAddr = '':9000'', httpAddr = '':8080'', nodeID = '''', logLevel = ''info'',
      bootstrap = False, agentToken = '''', apiKey = '''', tlsCert = '''', tlsKey = '''',
      tlsCACert = '''', requireTLS = False, tlsReloadInterval = 60 * time_Second\<rparr>"

definition node_id :: "flags \<Rightarrow> string \<Rightarrow> string" where
  "node_id fl hostname = (if nodeID fl = '''' then hostname else nodeID fl)"

definition cluster_id :: "flags \<Rightarrow> string \<Rightarrow> string" where
  "cluster_id fl uuid = (if bootstrap fl then ''cluster-'' @ uuid else ''cluster-001'')"

definition leader_addr :: "flags \<Rightarrow> string" where
  "leader_addr fl =
     (if grpcAddr fl = '':9000'' \<or> grpcAddr fl = '''' then ''localhost:9000'' else grpcAddr fl)"

text \<open>The switch on the TLS flags; \<open>Inl\<close> is a fatal exit with its message.\<close>

definition tls_switch :: "flags \<Rightarrow> string + bool" where
  "tls_switch fl =
     (if tlsCert fl = '''' \<and> tlsKey fl = '''' then
        if requireTLS fl
        then Inl ''--require-tls is set but no TLS credentials were provided; refusing to start with plaintext''
        else Inr False
      else if tlsCert fl = '''' \<or> tlsKey fl = ''''
      then Inl ''both --tls-cert and --tls-key must be provided together''
      else Inr True)"

definition stale_threshold :: duration where
  "stale_threshold = 30 * time_Second"

text \<open>
  What \<open>main\<close> hands to the two servers: the limits on connections of the gRPC server, and the address
  and time limits of the HTTP server, whose handler is \<open>main_mux\<close> and whose TLS configuration is that of
  \<open>https_handshake\<close>. Enforcing them is the libraries' part.
\<close>

record keepalive_ServerParameters =
  MaxConnectionIdle :: duration
  MaxConnectionAge :: duration
  MaxConnectionAgeGrace :: duration
  keepalive_Time :: duration
  keepalive_Timeout :: duration

definition keepalive_params :: keepalive_ServerParameters where
  "keepalive_params =
     \<lparr>MaxConnectionIdle = 5 * (60 * time_Second), MaxConnectionAge = 30 * (60 * time_Second),
      MaxConnectionAgeGrace = 10 * time_Second, keepalive_Time = 10 * time_Second,
      keepalive_Timeout = 5 * time_Second\<rparr>"

record http_Server =
  http_Addr :: string
  ReadHeaderTimeout :: duration
  ReadTimeout :: duration
  WriteTimeout :: duration
  IdleTimeout :: duration

definition http_server :: "flags \<Rightarrow> http_Server" where
  "http_server fl =
     \<lparr>http_Addr = httpAddr fl, ReadHeaderTimeout = 5 * time_Second, ReadTimeout = 10 * time_Second,
      WriteTimeout = 10 * time_Second, IdleTimeout = 120 * time_Second\<rparr>"

record ('cert, 'pool) control_plane =
  cp_nodeID :: string
  cp_registry :: NodeRegistry
  cp_tlsEnabled :: bool
  cp_reloader :: "('cert, 'pool) CertReloader option"
  cp_watch :: "duration option"
  cp_keepalive :: keepalive_ServerParameters
  cp_agentServer :: AgentServer
  cp_services :: "ServiceDesc list"
  cp_api :: APIServer
  cp_httpServer :: http_Server

definition main_start ::
  "flags \<Rightarrow> string \<Rightarrow> string \<Rightarrow> go_error \<Rightarrow> ('cert, 'pool) disk
     \<Rightarrow> string + ('cert, 'pool) control_plane \<times> metric_op list" where
  "main_start fl hostname uuid listen d =
     (if listen \<noteq> None then Inl ''failed to listen gRPC''
      else case tls_switch fl of
             Inl fatal \<Rightarrow> Inl fatal
           | Inr tlsEnabled \<Rightarrow>
               (case (if tlsEnabled then map_prod (map_sum id Some) id (New d (tlsCert fl) (tlsKey fl) (tlsCACert fl))
                      else (Inr None, [])) of
                  (Inl err, ops) \<Rightarrow> Inl ''failed to load TLS credentials''
                | (Inr reloader, ops) \<Rightarrow>
                    Inr (\<lparr>cp_nodeID = node_id fl hostname,
                          cp_registry = NewNodeRegistry,
                          cp_tlsEnabled = tlsEnabled,
                          cp_reloader = reloader,
                          cp_watch = (if tlsEnabled \<and> 0 < tlsReloadInterval fl
                                      then Some (tlsReloadInterval fl) else None),
                          cp_keepalive = keepalive_params,
                          cp_agentServer = NewAgentServer (cluster_id fl uuid) (leader_addr fl) (agentToken fl),
                          cp_services = RegisterAgentServiceServer [],
                          cp_api = NewAPIServer (apiKey fl) tlsEnabled,
                          cp_httpServer = http_server fl\<rparr>, ops)))"

subsection \<open>Interceptors\<close>

text \<open>
  \<open>grpc.ChainUnaryInterceptor\<close> with the metrics interceptor outermost, then authentication. The clock
  is read before and after the call.
\<close>

definition unary_chain ::
  "(go_error \<Rightarrow> string) \<Rightarrow> ('ctx, 'md) grpc_lib \<Rightarrow> string \<Rightarrow> time \<Rightarrow> time
     \<Rightarrow> ('s metrics_state_scheme, 'ctx, 'req, 'resp) unary_interceptor" where
  "unary_chain codeString lib token start stop ctx req full handler =
     UnaryServerInterceptor codeString start stop ctx req full
       (\<lambda>ctx req. AuthUnaryInterceptorFor lib token ctx req handler)"

subsection \<open>TLS of the two servers\<close>

text \<open>
  The gRPC server's configuration delegates to the reloader for every client. The HTTPS server's
  takes only the certificate from it: the configuration a handshake runs under has that certificate
  and nothing else set.
\<close>

definition grpc_handshake :: "('cert, 'pool) control_plane \<Rightarrow> (panic + ('cert, 'pool) tls_Config) option" where
  "grpc_handshake cp = (if cp_tlsEnabled cp then map_option GetConfigForClient (cp_reloader cp) else None)"

definition https_handshake :: "('cert, 'pool) control_plane \<Rightarrow> ('cert, 'pool) tls_Config option" where
  "https_handshake cp =
     (if cp_tlsEnabled cp
      then case cp_reloader cp of
             None \<Rightarrow> None
           | Some r \<Rightarrow> map_option (\<lambda>c. \<lparr>Certificates = [c], MinVersion = VersionTLS13,
                                      ClientAuth = NoClientCert, ClientCAs = None\<rparr>) (GetCertificate r)
      else None)"

subsection \<open>HTTP routes\<close>

text \<open>
  The routes of the mux. The exporter of the metrics library and the mux's own answers to other paths
  are parameters.
\<close>

definition main_mux ::
  "(NodeResources \<Rightarrow> NodeResources) \<Rightarrow> (time \<Rightarrow> int) \<Rightarrow> http_handler \<Rightarrow> http_handler
     \<Rightarrow> APIServer \<Rightarrow> NodeRegistry \<Rightarrow> http_handler" where
  "main_mux CloneOf zone metrics_Handler not_found api reg r =
     (if req_path r = ''/health'' then HealthHandler api r
      else if req_path r = ''/api/v1/nodes'' then RequireAPIKey api (NodesHandler CloneOf zone api reg) r
      else if req_path r = ''/metrics'' then RequireAPIKey api metrics_Handler r
      else not_found r)"

subsection \<open>Signals\<close>

datatype signal = SIGHUP | SIGINT | SIGTERM

text \<open>
  The loop over received signals, each with the disk a reload would find. The last component says
  whether the loop has been left for shutdown.
\<close>

fun signal_loop ::
  "(signal \<times> ('cert, 'pool) disk) list \<Rightarrow> ('cert, 'pool) CertReloader option
     \<Rightarrow> ('cert, 'pool) CertReloader option \<times> metric_op list \<times> bool" where
  "signal_loop [] reloader = (reloader, [], False)"
| "signal_loop ((sig, d) # sigs) reloader =
     (if sig = SIGHUP then
        (case reloader of
           None \<Rightarrow> signal_loop sigs None
         | Some r \<Rightarrow>
             let (r1, ops) = Reload d r;
                 (r2, ops2, stop) = signal_loop sigs (Some r1)
             in (r2, ops @ ops2, stop))
      else (reloader, [], True))"

subsection \<open>Properties\<close>

text \<open>\<^bold>\<open>C10\<close>
  The order of the chain matters and is the documented one: a unary call that fails authentication is
  answered with that error, without running the handler and without touching the registry or the log,
  and it is still counted, with its status code and its latency, under the method's label. A call that
  passes is answered by the handler and counted the same way.
\<close>

theorem rejected_calls_are_metered:
  fixes handler :: "'ctx \<Rightarrow> 'req option \<Rightarrow> (server, 'resp) call"
  assumes "cache_ok (knownMethods st)"
  shows "(\<forall>err. validateBearerToken lib ctx token = Some err \<longrightarrow>
      (\<exists>known. cache_ok known \<and>
        unary_chain codeString lib token start stop ctx req full handler st =
          Inr (Inl err, st\<lparr>knownMethods := known, metric_trace := metric_trace st @
            [GrpcServerRequests_Inc (label_of full) ''unary'' (codeString (Some err)),
             GrpcServerLatency_Observe (label_of full) ''unary'' (time_Sub stop start)]\<rparr>))) \<and>
    (validateBearerToken lib ctx token = None \<and> handler ctx req st = Inr (res, st1) \<and>
       knownMethods st1 = knownMethods st \<longrightarrow>
      (\<exists>known. cache_ok known \<and>
        unary_chain codeString lib token start stop ctx req full handler st =
          Inr (res, st1\<lparr>knownMethods := known, metric_trace := metric_trace st1 @
            [GrpcServerRequests_Inc (label_of full) ''unary'' (codeString (error_of res)),
             GrpcServerLatency_Observe (label_of full) ''unary'' (time_Sub stop start)]\<rparr>)))"
  using sanitizeMethod_cached [OF assms, of full]
  by (auto simp: unary_chain_def UnaryServerInterceptor_def AuthUnaryInterceptorFor_cases Let_def
      split: prod.split)

theorem rejected_calls_are_metered_witness:
  "\<exists>known. cache_ok known \<and>
     unary_chain (\<lambda>_. ''PermissionDenied'') sample_lib ''s3cret'' 3 10 [''Bearer wrong''] None
       ''/compute.v1.AgentService/Register'' (AgentServer_Register sample_lib (NewAgentServer '''' '''' ''s3cret'') 5)
       idle_server =
     Inr (Inl (Status PermissionDenied ''invalid token''), idle_server\<lparr>knownMethods := known, metric_trace :=
       [GrpcServerRequests_Inc (label_of ''/compute.v1.AgentService/Register'') ''unary'' ''PermissionDenied'',
        GrpcServerLatency_Observe (label_of ''/compute.v1.AgentService/Register'') ''unary'' 7]\<rparr>)"
proof -
  have "validateBearerToken sample_lib [''Bearer wrong''] ''s3cret''
      = Some (Status PermissionDenied ''invalid token'')"
    by code_simp
  with rejected_calls_are_metered [where st = idle_server and lib = sample_lib and ctx = "[''Bearer wrong'']"
      and token = "''s3cret''" and codeString = "\<lambda>_. ''PermissionDenied''" and start = 3 and stop = 10
      and req = None and full = "''/compute.v1.AgentService/Register''"
      and handler = "AgentServer_Register sample_lib (NewAgentServer '''' '''' ''s3cret'') 5"]
  show ?thesis
    by (simp add: idle_server_def cache_ok_init time_Sub_def minDuration_def maxDuration_def)
qed

text \<open>\<^bold>\<open>C29\<close>
  Start-up and TLS. The start is fatal exactly when the address cannot be listened on, when one of
  certificate and key is given without the other, when neither is given under \<^verbatim>\<open>--require-tls\<close>, or when
  both are given and cannot be loaded; half a pair and a refused plaintext start are told by their own
  messages. A control plane that starts has TLS exactly when certificate and key were given. With TLS
  it holds the reloader loaded from them, and polls when the interval is positive; without, it holds
  none. It serves the agent service, under the configured token, and the API under the configured key.
\<close>

theorem start_tls_policy:
  "(isl (main_start fl hostname uuid listen d) \<longleftrightarrow>
      listen \<noteq> None \<or> (tlsCert fl = '''') \<noteq> (tlsKey fl = '''') \<or>
      requireTLS fl \<and> tlsCert fl = '''' \<and> tlsKey fl = '''' \<or>
      tlsCert fl \<noteq> '''' \<and> tlsKey fl \<noteq> '''' \<and> isl (fst (New d (tlsCert fl) (tlsKey fl) (tlsCACert fl)))) \<and>
   (listen = None \<and> (tlsCert fl = '''') \<noteq> (tlsKey fl = '''') \<longrightarrow>
      main_start fl hostname uuid listen d = Inl ''both --tls-cert and --tls-key must be provided together'') \<and>
   (listen = None \<and> requireTLS fl \<and> tlsCert fl = '''' \<and> tlsKey fl = '''' \<longrightarrow>
      main_start fl hostname uuid listen d =
        Inl ''--require-tls is set but no TLS credentials were provided; refusing to start with plaintext'') \<and>
   (main_start fl hostname uuid listen d = Inr (cp, ops) \<longrightarrow>
      (cp_tlsEnabled cp \<longleftrightarrow> tlsCert fl \<noteq> '''' \<and> tlsKey fl \<noteq> '''') \<and>
      (if cp_tlsEnabled cp
       then map_prod (map_sum id Some) id (New d (tlsCert fl) (tlsKey fl) (tlsCACert fl)) = (Inr (cp_reloader cp), ops)
       else cp_reloader cp = None \<and> ops = []) \<and>
      cp_watch cp = (if cp_tlsEnabled cp \<and> 0 < tlsReloadInterval fl then Some (tlsReloadInterval fl) else None) \<and>
      cp_services cp = [AgentService_ServiceDesc] \<and>
      AgentServer_agentToken (cp_agentServer cp) = agentToken fl \<and>
      cp_api cp = NewAPIServer (apiKey fl) (cp_tlsEnabled cp))"
proof -
  obtain res ops1 where new: "New d (tlsCert fl) (tlsKey fl) (tlsCACert fl) = (res, ops1)" by fastforce
  show ?thesis
    by (cases res)
       (auto simp: main_start_def tls_switch_def new RegisterAgentServiceServer_def NewAgentServer_def)
qed

theorem start_tls_policy_witness:
  "(\<exists>cp ops. main_start (default_flags\<lparr>requireTLS := True, tlsCert := ''c'', tlsKey := ''k''\<rparr>) ''h'' ''u'' None
      (sample_disk 5) = Inr (cp, ops) \<and> cp_tlsEnabled cp) \<and>
   main_start (default_flags\<lparr>tlsCert := ''c''\<rparr>) ''h'' ''u'' None (sample_disk 5) =
     Inl ''both --tls-cert and --tls-key must be provided together''"
proof
  let ?fl = "default_flags\<lparr>requireTLS := True, tlsCert := ''c'', tlsKey := ''k''\<rparr>"
  have "New (sample_disk 5) ''c'' ''k'' '''' = (Inr (swapped (sample_disk 5) (''cert'', None) (blank_reloader ''c'' ''k'' '''')),
      [TLSCertLoadTotal_Inc ''success''])"
    by (simp add: New_def load_def load_ca_def sample_disk_def swapped_def zero_time_def time_Second_def)
  then have "\<not> isl (main_start ?fl ''h'' ''u'' None (sample_disk 5))"
    using start_tls_policy [where fl = ?fl and listen = None and d = "sample_disk 5"]
    by (simp add: default_flags_def)
  then obtain cp ops where start: "main_start ?fl ''h'' ''u'' None (sample_disk 5) = Inr (cp, ops)"
    by (cases "main_start ?fl ''h'' ''u'' None (sample_disk 5)") auto
  with start_tls_policy [where fl = ?fl and listen = None and d = "sample_disk 5"]
  have "cp_tlsEnabled cp" by (simp add: default_flags_def)
  with start show "\<exists>cp ops. main_start ?fl ''h'' ''u'' None (sample_disk 5) = Inr (cp, ops) \<and> cp_tlsEnabled cp" by blast
  show "main_start (default_flags\<lparr>tlsCert := ''c''\<rparr>) ''h'' ''u'' None (sample_disk 5) =
      Inl ''both --tls-cert and --tls-key must be provided together''"
    using start_tls_policy [where fl = "default_flags\<lparr>tlsCert := ''c''\<rparr>" and listen = None and d = "sample_disk 5"]
    by (simp add: default_flags_def)
qed

text \<open>\<^bold>\<open>C36\<close>
  What a CA certificate enforces. With TLS and a CA file, every gRPC handshake requires and verifies a
  client certificate, after any number of reloads; the HTTPS server, which serves the same
  certificate, never asks for one.
\<close>

theorem ca_enforced_on_grpc_only:
  assumes "main_start fl hostname uuid None d = Inr (cp, ops)" and "cp_reloader cp = Some r"
    and "tlsCACert fl \<noteq> ''''" and "stat_cert d \<noteq> Inr zero_time"
  shows "\<exists>c p. grpc_handshake (cp\<lparr>cp_reloader := Some (reload_all ds r)\<rparr>) =
      Some (Inr \<lparr>Certificates = [c], MinVersion = VersionTLS13,
                 ClientAuth = RequireAndVerifyClientCert, ClientCAs = p\<rparr>) \<and>
    https_handshake (cp\<lparr>cp_reloader := Some (reload_all ds r)\<rparr>) =
      Some \<lparr>Certificates = [c], MinVersion = VersionTLS13, ClientAuth = NoClientCert, ClientCAs = None\<rparr>"
proof -
  obtain res ops1 where res: "New d (tlsCert fl) (tlsKey fl) (tlsCACert fl) = (res, ops1)" by fastforce
  with assms(1,2) have tls: "cp_tlsEnabled cp" and
    new: "fst (New d (tlsCert fl) (tlsKey fl) (tlsCACert fl)) = Inr r"
    by (cases res; auto simp: main_start_def split: sum.splits if_splits)+
  from New_serves [OF new assms(4)] have "serves {d} r" and "caCertPath r = tlsCACert fl" by simp_all
  from serves_config [OF serves_reload_all [OF this(1), of ds]] this(2) assms(3) tls
  show ?thesis
    by (fastforce simp: grpc_handshake_def https_handshake_def caCertPath_reload_all)
qed

definition sample_flags :: flags where
  "sample_flags = default_flags\<lparr>tlsCert := ''c'', tlsKey := ''k'', tlsCACert := ''ca''\<rparr>"

theorem ca_enforced_on_grpc_only_witness:
  "\<exists>cp r c p. cp_reloader cp = Some r \<and>
     grpc_handshake (cp\<lparr>cp_reloader := Some (reload_all [sample_disk 9] r)\<rparr>) =
       Some (Inr \<lparr>Certificates = [c], MinVersion = VersionTLS13,
                  ClientAuth = RequireAndVerifyClientCert, ClientCAs = p\<rparr>) \<and>
     https_handshake (cp\<lparr>cp_reloader := Some (reload_all [sample_disk 9] r)\<rparr>) =
       Some \<lparr>Certificates = [c], MinVersion = VersionTLS13, ClientAuth = NoClientCert,
             ClientCAs = None :: string option\<rparr>"
proof -
  have "New (sample_disk 5) ''c'' ''k'' ''ca'' =
      (Inr (swapped (sample_disk 5) (''cert'', Some ''pem'') (blank_reloader ''c'' ''k'' ''ca'')),
       [TLSCertLoadTotal_Inc ''success''])"
    by (simp add: New_def load_def load_ca_def sample_disk_def swapped_def zero_time_def time_Second_def)
  then obtain cp ops r where "main_start sample_flags ''h'' ''u'' None (sample_disk 5) = Inr (cp, ops)"
    and "cp_reloader cp = Some r"
    by (simp add: main_start_def tls_switch_def sample_flags_def default_flags_def)
  moreover have "tlsCACert sample_flags \<noteq> ''''" by (simp add: sample_flags_def)
  moreover have "stat_cert (sample_disk 5) \<noteq> Inr zero_time"
    by (simp add: sample_disk_def zero_time_def time_Second_def)
  ultimately show ?thesis using ca_enforced_on_grpc_only [of sample_flags _ _ "sample_disk 5"] by blast
qed

text \<open>The refusal of a protected route, and when a request is let through.\<close>

definition denied :: "APIServer \<Rightarrow> http_response" where
  "denied api =
     \<lparr>resp_header = security_headers (APIServer_tlsEnabled api) @ [(''Content-Type'', ''application/json'')],
      resp_status = Some 401, resp_body = json_line (JObject [(''error'', JString ''unauthorized'')])\<rparr>"

definition authorized :: "APIServer \<Rightarrow> http_request \<Rightarrow> bool" where
  "authorized api r \<longleftrightarrow>
     APIServer_apiKey api = '''' \<or>
     APIServer_apiKey api = (if values_Get (req_header r) ''X-Api-Key'' \<noteq> ''''
                             then values_Get (req_header r) ''X-Api-Key''
                             else values_Get (req_query r) ''api_key'')"

lemma NodesHandler_headers:
  "case NodesHandler CloneOf zone api reg r fresh_response of
     Inl p \<Rightarrow> p = NilDeref
   | Inr resp \<Rightarrow> resp_header resp = security_headers (APIServer_tlsEnabled api) @ [(''Content-Type'', ''application/json'')] \<and>
       resp_status resp = Some 200"
proof -
  have "node_responses zone ns = Inl p \<Longrightarrow> p = NilDeref" for ns p
    by (induction ns) (auto simp: gpuSummary_eq split: sum.splits if_splits)
  then show ?thesis by (auto simp: NodesHandler_def json_reply Let_def split: sum.split)
qed

text \<open>\<^bold>\<open>C27\<close>
  The routes. Without the configured key, the node list and the metrics are answered 401 and neither
  handler runs; the health probe is always answered 200. The health probe, every answer of the node
  list and the refusals carry the security headers and declare JSON, the node list with status 200 when
  it is served; the one way the node list has no answer is a nil GPU. The metrics page is exactly what
  the exporter made of the untouched response, so it carries none of the headers.
\<close>

theorem http_routes:
  "main_mux CloneOf zone exporter not_found api reg (r\<lparr>req_path := ''/health''\<rparr>) fresh_response =
      Inr \<lparr>resp_header = security_headers (APIServer_tlsEnabled api) @ [(''Content-Type'', ''application/json'')],
           resp_status = Some 200, resp_body = json_line (JObject [(''status'', JString ''ok'')])\<rparr> \<and>
    main_mux CloneOf zone exporter not_found api reg (r\<lparr>req_path := ''/api/v1/nodes''\<rparr>) fresh_response =
      (if authorized api r then NodesHandler CloneOf zone api reg (r\<lparr>req_path := ''/api/v1/nodes''\<rparr>) fresh_response
       else Inr (denied api)) \<and>
    (case main_mux CloneOf zone exporter not_found api reg (r\<lparr>req_path := ''/api/v1/nodes''\<rparr>) fresh_response of
       Inl p \<Rightarrow> authorized api r \<and> p = NilDeref
     | Inr resp \<Rightarrow>
         resp_header resp = security_headers (APIServer_tlsEnabled api) @ [(''Content-Type'', ''application/json'')] \<and>
         resp_status resp = Some (if authorized api r then 200 else 401)) \<and>
    main_mux CloneOf zone exporter not_found api reg (r\<lparr>req_path := ''/metrics''\<rparr>) fresh_response =
      (if authorized api r then exporter (r\<lparr>req_path := ''/metrics''\<rparr>) fresh_response else Inr (denied api))"
proof -
  have nodes: "main_mux CloneOf zone exporter not_found api reg (r\<lparr>req_path := ''/api/v1/nodes''\<rparr>) fresh_response =
      (if authorized api r then NodesHandler CloneOf zone api reg (r\<lparr>req_path := ''/api/v1/nodes''\<rparr>) fresh_response
       else Inr (denied api))"
    by (simp add: denied_def authorized_def main_mux_def json_reply RequireAPIKey_def
        header_Get_def ConstantTimeCompare_eq_1_iff Let_def)
  show ?thesis
    using NodesHandler_headers [where CloneOf = CloneOf and zone = zone and api = api and reg = reg and
        r = "r\<lparr>req_path := ''/api/v1/nodes''\<rparr>"] unfolding nodes
    by (auto simp: denied_def authorized_def main_mux_def HealthHandler_def json_reply RequireAPIKey_def
        header_Get_def ConstantTimeCompare_eq_1_iff Let_def split: sum.splits)
qed

lemma signal_loop_reload:
  "signal_loop (map (\<lambda>d. (SIGHUP, d)) ds @ sigs) (Some r) =
     (let (r', ops, stop) = signal_loop sigs (Some (reload_all ds r))
      in (r', concat (map (\<lambda>i. snd (Reload (ds ! i) (reload_all (take i ds) r))) [0..<length ds]) @ ops, stop))"
proof (induction ds arbitrary: r)
  case (Cons d ds)
  have "[0..<length (d # ds)] = 0 # map Suc [0..<length ds]"
    by (simp add: upt_conv_Cons map_Suc_upt del: upt_Suc)
  with Cons.IH [of "fst (Reload d r)"] show ?case
    by (simp add: Let_def case_prod_beta comp_def del: upt_Suc)
qed (simp add: Let_def case_prod_beta)

text \<open>Signals. A run of \<^verbatim>\<open>SIGHUP\<close>s keeps the program running and reloads the certificate once for each;
  without TLS they do nothing. The first other signal ends the loop, and nothing after it is read.
\<close>

theorem signals:
  assumes "sig \<noteq> SIGHUP"
  shows "signal_loop (map (\<lambda>d. (SIGHUP, d)) ds) (Some r) =
      (Some (reload_all ds r),
       concat (map (\<lambda>i. snd (Reload (ds ! i) (reload_all (take i ds) r))) [0..<length ds]), False) \<and>
    signal_loop (map (\<lambda>d. (SIGHUP, d)) ds @ (sig, d') # sigs) (Some r) =
      (Some (reload_all ds r),
       concat (map (\<lambda>i. snd (Reload (ds ! i) (reload_all (take i ds) r))) [0..<length ds]), True) \<and>
    signal_loop (map (\<lambda>d. (SIGHUP, d)) ds @ (sig, d') # sigs) None = (None, [], True)"
proof (intro conjI)
  show "signal_loop (map (\<lambda>d. (SIGHUP, d)) ds @ (sig, d') # sigs) None = (None, [], True)"
    using assms by (induction ds) simp_all
qed (use assms signal_loop_reload [of ds "[]" r] signal_loop_reload [of ds "(sig, d') # sigs" r] in simp_all)

theorem signals_witness:
  "signal_loop [(SIGHUP, sample_disk 5), (SIGTERM, sample_disk 5), (SIGHUP, sample_disk 9)] None
     = (None, [], True)"
  using signals [of SIGTERM "[sample_disk 5]" "blank_reloader '''' '''' ''''" "sample_disk 5"
      "[(SIGHUP, sample_disk 9)]"] by simp

text \<open>Labels of the service methods. Every method of the three services in the metrics table is recorded
  under its own dotted name; every method of the job and storage services is recorded as
  \<open>unknown_method\<close>. Of all these, the program registers only the agent service.
\<close>

theorem service_labels:
  "map label_of (announced AgentService_ServiceDesc @ announced MemoryService_ServiceDesc
       @ announced ControlService_ServiceDesc)
     = map (\<lambda>m. strings_ReplaceAll (tl m) CHR ''/'' ''.'')
         (announced AgentService_ServiceDesc @ announced MemoryService_ServiceDesc
            @ announced ControlService_ServiceDesc) \<and>
   set (map label_of (announced JobService_ServiceDesc @ announced StorageService_ServiceDesc))
     = {''unknown_method''} \<and>
   RegisterAgentServiceServer [] = [AgentService_ServiceDesc]"
  by code_simp

end
