(* ===== verification/Registry_Spec.thy ===== *)
theory Registry_Spec
  imports Registry
begin

text \<open>
  What the node registry promises, without how it stores it: a table is a function from node ids to
  the state of a node, and each operation updates that function. A panic is \<open>None\<close>. The locale
  \<open>op_simulation\<close> lifts a step-by-step agreement of two operation tables to runs; the registry of
  \<^verbatim>\<open>internal/registry\<close> is an instance of it.
\<close>

subsection \<open>Agreement of two operation tables\<close>

locale op_simulation =
  fixes app :: "'op \<Rightarrow> 'r \<Rightarrow> 'r option"
    and spec :: "'op \<Rightarrow> 's \<Rightarrow> 's option"
    and invar :: "'r \<Rightarrow> bool"
    and view :: "'r \<Rightarrow> 's"
  assumes invar_app: "invar r \<Longrightarrow> app op r = Some r' \<Longrightarrow> invar r'"
    and view_app: "invar r \<Longrightarrow> map_option view (app op r) = spec op (view r)"
begin

lemma invar_run: "invar r \<Longrightarrow> run_ops app ops r = Some r' \<Longrightarrow> invar r'"
  by (induction ops arbitrary: r) (auto split: option.splits dest: invar_app)

lemma view_run: "invar r \<Longrightarrow> map_option view (run_ops app ops r) = run_ops spec ops (view r)"
proof (induction ops arbitrary: r)
  case (Cons op ops)
  show ?case
  proof (cases "app op r")
    case None
    with view_app [OF Cons.prems, of op] show ?thesis by simp
  next
    case (Some r1)
    with view_app [OF Cons.prems, of op] have "spec op (view r) = Some (view r1)" by simp
    with Some Cons.IH [OF invar_app [OF Cons.prems Some]] show ?thesis by simp
  qed
qed simp

end

subsection \<open>The abstract table\<close>

record spec_node =
  sn_address :: string
  sn_resources :: NodeResources
  sn_beat :: time
  sn_tasks :: "string \<Rightarrow> TaskStatus option"
  sn_conn :: uint64

type_synonym node_table = "string \<Rightarrow> spec_node option"

text \<open>The tasks a heartbeat reports, by id, a later report of an id replacing an earlier one.\<close>

definition reported :: "TaskStatus option list \<Rightarrow> string \<Rightarrow> TaskStatus option" where
  "reported ts = map_of (rev (map (\<lambda>t. (TaskStatus_TaskId (the t), the t)) ts))"

fun spec_next :: "reg_op \<Rightarrow> node_table \<Rightarrow> node_table option" where
  "spec_next (RegRegister now n addr None) S = None"
| "spec_next (RegRegister now n addr (Some res)) S =
     Some (S(n \<mapsto> \<lparr>sn_address = addr, sn_resources = res, sn_beat = now, sn_tasks = Map.empty,
                    sn_conn = (case S n of Some x \<Rightarrow> sn_conn x + 1 | None \<Rightarrow> 1)\<rparr>))"
| "spec_next (RegHeartbeat now n util ts) S =
     (case S n of
        None \<Rightarrow> Some S
      | Some x \<Rightarrow> if None \<in> set ts then None
                  else Some (S(n \<mapsto> x\<lparr>sn_beat := now, sn_tasks := reported ts\<rparr>)))"
| "spec_next (RegRemove n) S = Some (S(n := None))"
| "spec_next (RegRemoveIf n c) S =
     Some (if map_option sn_conn (S n) = Some c then S(n := None) else S)"
| "spec_next (RegSweep threshold now) S =
     Some (\<lambda>n. case S n of
                 None \<Rightarrow> None
               | Some x \<Rightarrow> if threshold < time_Sub now (sn_beat x) then None else Some x)"

definition view_node :: "NodeInfo \<Rightarrow> spec_node" where
  "view_node info =
     \<lparr>sn_address = NodeInfo_Address info, sn_resources = the (NodeInfo_Resources info),
      sn_beat = NodeInfo_LastBeat info, sn_tasks = map_of (NodeInfo_Tasks info),
      sn_conn = NodeInfo_ConnectionID info\<rparr>"

definition table_of :: "NodeRegistry \<Rightarrow> node_table" where
  "table_of r = (\<lambda>n. map_option view_node (map_of (nodes r) n))"

subsection \<open>The registry implements the table\<close>

lemma table_of_nodes [simp]:
  "table_of (r\<lparr>nodes := AList.update n info (nodes r)\<rparr>) = (table_of r)(n \<mapsto> view_node info)"
  "table_of (r\<lparr>nodes := AList.delete n (nodes r)\<rparr>) = (table_of r)(n := None)"
  by (auto simp: table_of_def fun_eq_iff map_of_alist_update map_of_alist_delete)

lemma map_of_filter_snd:
  assumes "distinct (map fst al)"
  shows "map_of (filter (\<lambda>e. P (snd e)) al) k =
    (case map_of al k of None \<Rightarrow> None | Some v \<Rightarrow> if P v then Some v else None)"
  using assms
  by (induction al) (auto split: option.split simp: map_of_eq_None_iff image_iff)

lemma reported_Some:
  "reported (map Some ts) = map_of (rev (map (\<lambda>t. (TaskStatus_TaskId t, t)) ts))"
  by (simp add: reported_def comp_def)

lemma no_nil_task: "None \<notin> set ts \<Longrightarrow> \<exists>us. ts = map Some us"
  by (metis (no_types, lifting) ex_map_conv option.exhaust)

lemma table_Register:
  "map_option table_of (reg_next (RegRegister now n addr res) r) =
     spec_next (RegRegister now n addr res) (table_of r)"
proof (cases res)
  case (Some x)
  then show ?thesis
    by (auto simp: NodeRegistry_Register_def Let_def view_node_def table_of_def [of r] fun_eq_iff
        split: option.split)
qed (simp add: NodeRegistry_Register_def)

lemma table_UpdateHeartbeat:
  "map_option table_of (reg_next (RegHeartbeat now n util ts) r) =
     spec_next (RegHeartbeat now n util ts) (table_of r)"
proof (cases "map_of (nodes r) n")
  case None
  then show ?thesis by (simp add: NodeRegistry_UpdateHeartbeat_def table_of_def)
next
  case (Some info)
  then have look: "table_of r n = Some (view_node info)" by (simp add: table_of_def)
  show ?thesis
  proof (cases "None \<in> set ts")
    case True
    with file_tasks_nil [of ts "[]"] obtain p where "file_tasks ts [] = Inl p" by blast
    with True Some look show ?thesis by (simp add: NodeRegistry_UpdateHeartbeat_def)
  next
    case False
    with no_nil_task obtain us where ts: "ts = map Some us" by blast
    with file_tasks_Some [of us "[]"] obtain m
      where "file_tasks ts [] = Inr m" "map_of m = reported ts"
      by (auto simp: reported_Some)
    with False Some look show ?thesis
      by (simp add: NodeRegistry_UpdateHeartbeat_def Let_def view_node_def)
  qed
qed

lemma table_RemoveIf:
  "map_option table_of (reg_next (RegRemoveIf n c) r) = spec_next (RegRemoveIf n c) (table_of r)"
  by (auto simp: NodeRegistry_RemoveIfConnectionMatches_def Let_def table_of_def [of r] view_node_def
      split: option.split)

lemma table_sweep:
  assumes "distinct (map fst (nodes r))"
  shows "map_option table_of (reg_next (RegSweep threshold now) r) =
    spec_next (RegSweep threshold now) (table_of r)"
proof -
  have "reg_next (RegSweep threshold now) r = Some (fst (StaleNodeCleanup_tick threshold now r))"
    by (simp add: case_prod_beta)
  then show ?thesis
    using map_of_filter_snd [OF assms, of "\<lambda>i. \<not> stale now threshold i"]
    by (auto simp: StaleNodeCleanup_tick_nodes [OF assms] table_of_def fun_eq_iff stale_def
        view_node_def split: option.split)
qed

interpretation reg_table: op_simulation reg_next spec_next reg_ok table_of
proof
  fix op r r'
  show "reg_ok r \<Longrightarrow> reg_next op r = Some r' \<Longrightarrow> reg_ok r'"
    unfolding reg_next_Some by (blast intro: reg_ok_apply)
  assume ok: "reg_ok r"
  show "map_option table_of (reg_next op r) = spec_next op (table_of r)"
  proof (cases op)
    case (RegSweep threshold now)
    with ok table_sweep show ?thesis by (simp only: reg_ok_def)
  qed (simp_all only: table_Register table_UpdateHeartbeat table_RemoveIf,
       simp add: NodeRegistry_Remove_def Let_def)
qed

lemma table_of_new: "table_of NewNodeRegistry = Map.empty"
  by (simp add: table_of_def NewNodeRegistry_def)

subsection \<open>Keeping in touch\<close>

text \<open>The time a node was last heard of, and whether no sweep ever found that too long ago.\<close>

fun hears :: "reg_op \<Rightarrow> string \<Rightarrow> time option" where
  "hears (RegRegister now m addr res) n = (if m = n then Some now else None)"
| "hears (RegHeartbeat now m util ts) n = (if m = n then Some now else None)"
| "hears _ n = None"

fun removes :: "reg_op \<Rightarrow> string \<Rightarrow> bool" where
  "removes (RegRemove m) n = (m = n)"
| "removes (RegRemoveIf m c) n = (m = n)"
| "removes _ n = False"

fun in_touch :: "string \<Rightarrow> time \<Rightarrow> reg_op list \<Rightarrow> bool" where
  "in_touch n t [] = True"
| "in_touch n t (RegSweep threshold now # ops) = (time_Sub now t \<le> threshold \<and> in_touch n t ops)"
| "in_touch n t (op # ops) =
     (\<not> removes op n \<and> in_touch n (case hears op n of Some t' \<Rightarrow> t' | None \<Rightarrow> t) ops)"

lemma in_touch_Cons:
  "in_touch n t (op # ops) \<longleftrightarrow>
     \<not> removes op n \<and>
     (\<forall>threshold now. op = RegSweep threshold now \<longrightarrow> time_Sub now t \<le> threshold) \<and>
     in_touch n (case hears op n of Some t' \<Rightarrow> t' | None \<Rightarrow> t) ops"
  by (cases op) auto

lemma spec_next_heard:
  assumes "spec_next op S = Some S'" and "S n = Some x" and "\<not> removes op n"
    and "\<And>threshold now. op = RegSweep threshold now \<Longrightarrow> time_Sub now (sn_beat x) \<le> threshold"
  shows "\<exists>x'. S' n = Some x' \<and> sn_beat x' = (case hears op n of Some t \<Rightarrow> t | None \<Rightarrow> sn_beat x)"
proof (cases op)
  case (RegRegister now m addr res)
  with assms show ?thesis by (cases res) auto
qed (use assms in \<open>auto split: option.splits if_splits\<close>)

lemma in_touch_listed:
  assumes "run_ops spec_next ops S = Some S'" and "S n = Some x" and "in_touch n (sn_beat x) ops"
  shows "S' n \<noteq> None"
  using assms
proof (induction ops arbitrary: S x)
  case (Cons op ops)
  then obtain S1 where S1: "spec_next op S = Some S1" "run_ops spec_next ops S1 = Some S'"
    by (auto split: option.splits)
  from Cons.prems(3) spec_next_heard [OF S1(1) Cons.prems(2)] obtain x1
    where "S1 n = Some x1" "sn_beat x1 = (case hears op n of Some t \<Rightarrow> t | None \<Rightarrow> sn_beat x)"
    unfolding in_touch_Cons by blast
  with Cons.IH [OF S1(2)] Cons.prems(3) show ?case unfolding in_touch_Cons by auto
qed simp

lemma spec_next_unheard:
  assumes "spec_next op S = Some S'" and "hears op n = None"
  shows "S' n = None \<or> S' n = S n"
proof (cases op)
  case (RegRegister now m addr res)
  with assms show ?thesis by (cases res) auto
qed (use assms in \<open>auto split: option.splits if_splits\<close>)

lemma unheard_run:
  assumes "run_ops spec_next ops S = Some S'" and "\<forall>op\<in>set ops. hears op n = None"
  shows "S' n = None \<or> S' n = S n"
  using assms
proof (induction ops arbitrary: S)
  case (Cons op ops)
  then obtain S1 where S1: "spec_next op S = Some S1" "run_ops spec_next ops S1 = Some S'"
    by (auto split: option.splits)
  from Cons.IH [OF S1(2)] Cons.prems(2) spec_next_unheard [OF S1(1), of n] show ?case by auto
qed simp

lemma silent_gone:
  assumes "run_ops spec_next (pre @ RegSweep threshold now # post) S = Some S'"
    and "S n = Some x" and "threshold < time_Sub now (sn_beat x)"
    and "\<forall>op\<in>set (pre @ post). hears op n = None"
  shows "S' n = None"
proof -
  from assms(1) obtain S1 S2 where S: "run_ops spec_next pre S = Some S1"
      "spec_next (RegSweep threshold now) S1 = Some S2" "run_ops spec_next post S2 = Some S'"
    by (auto simp: run_ops_append split: option.splits)
  from unheard_run [OF S(1), of n] assms(2-4) S(2) have "S2 n = None" by (auto split: option.splits)
  with unheard_run [OF S(3), of n] assms(4) show ?thesis by auto
qed

subsection \<open>Properties\<close>

text \<open>\<^bold>\<open>C7\<close>
  The registry implements its specification: whatever operations are performed from the start, in
  whatever order, the registry panics exactly when the abstract table does, and otherwise holds, for
  every node, the address, resources, last beat, tasks and connection number the table holds.
\<close>

theorem registry_implements_table:
  "map_option table_of (run_ops reg_next ops NewNodeRegistry) = run_ops spec_next ops (\<lambda>n. None)"
  using reg_table.view_run [OF reg_ok_new, of ops] by (simp only: table_of_new)

end
