(* ===== verification/System.thy ===== *)
theory System
  imports Main_Program Registry_Spec
begin

text \<open>
  The running control plane: unary calls through the generated handlers and the interceptor chain, any
  number of heartbeat streams in any interleaving, and the cleanup of stale nodes, over one server
  state. An action names who moves next and what the outside world supplies; \<open>sys_next\<close> is the effect
  of an action, \<open>None\<close> when it is not possible, and a panic ends the process. A unary call is one
  action: it performs at most one operation on the registry.
\<close>

subsection \<open>Unary calls\<close>

text \<open>A unary call with the outcome of decoding its request.\<close>

datatype rpc =
    RpcRegister "error + RegisterRequest"
  | RpcExecuteTask "error + TaskSpec"
  | RpcAllocateMemory "error + MemoryAllocRequest"
  | RpcAllocateGPUMemory "error + GPUMemoryAllocRequest"
  | RpcFreeMemory "error + FreeMemoryRequest"
  | RpcFreeGPUMemory "error + FreeGPUMemoryRequest"

record ('ctx, 'md) config =
  cfg_lib :: "('ctx, 'md) grpc_lib"
  cfg_codeString :: "go_error \<Rightarrow> string"
  cfg_server :: AgentServer

text \<open>The clock readings of a unary call: when it starts, in the handler, and when it ends.\<close>

record clock =
  clk_start :: time
  clk_now :: time
  clk_stop :: time

definition reply :: "panic + (error + 'a) \<times> server \<Rightarrow> panic + go_error \<times> server" where
  "reply = map_sum id (map_prod error_of id)"

definition chain ::
  "('ctx, 'md) config \<Rightarrow> clock \<Rightarrow> (server, 'ctx, 'req, 'resp) unary_interceptor option" where
  "chain cfg clk = Some (unary_chain (cfg_codeString cfg) (cfg_lib cfg)
     (AgentServer_agentToken (cfg_server cfg)) (clk_start clk) (clk_stop clk))"

fun serve_rpc ::
  "('ctx, 'md) config \<Rightarrow> clock \<Rightarrow> 'ctx \<Rightarrow> rpc \<Rightarrow> server \<Rightarrow> panic + go_error \<times> server" where
  "serve_rpc cfg clk ctx (RpcRegister dec) st =
     reply (AgentService_Register_Handler (AgentServer_Register (cfg_lib cfg) (cfg_server cfg) (clk_now clk))
       ctx dec (chain cfg clk) st)"
| "serve_rpc cfg clk ctx (RpcExecuteTask dec) st =
     reply (AgentService_ExecuteTask_Handler (AgentServer_ExecuteTask (cfg_lib cfg) (cfg_server cfg))
       ctx dec (chain cfg clk) st)"
| "serve_rpc cfg clk ctx (RpcAllocateMemory dec) st =
     reply (AgentService_AllocateMemory_Handler (AgentServer_AllocateMemory (cfg_lib cfg) (cfg_server cfg))
       ctx dec (chain cfg clk) st)"
| "serve_rpc cfg clk ctx (RpcAllocateGPUMemory dec) st =
     reply (AgentService_AllocateGPUMemory_Handler
       (AgentServer_AllocateGPUMemory (cfg_lib cfg) (cfg_server cfg)) ctx dec (chain cfg clk) st)"
| "serve_rpc cfg clk ctx (RpcFreeMemory dec) st =
     reply (AgentService_FreeMemory_Handler (AgentServer_FreeMemory (cfg_lib cfg) (cfg_server cfg))
       ctx dec (chain cfg clk) st)"
| "serve_rpc cfg clk ctx (RpcFreeGPUMemory dec) st =
     reply (AgentService_FreeGPUMemory_Handler (AgentServer_FreeGPUMemory (cfg_lib cfg) (cfg_server cfg))
       ctx dec (chain cfg clk) st)"

subsection \<open>Streams under the metrics interceptor\<close>

text \<open>The stream interceptor, cut where the handler runs.\<close>

definition stream_begin :: "string \<Rightarrow> server \<Rightarrow> string \<times> server" where
  "stream_begin full st =
     (let (meth, known) = sanitizeMethod (knownMethods st) full
      in (meth, st\<lparr>knownMethods := known,
                   metric_trace := metric_trace st @ [GrpcActiveStreams_Inc meth]\<rparr>))"

definition stream_end :: "(go_error \<Rightarrow> string) \<Rightarrow> time \<Rightarrow> time \<Rightarrow> string \<Rightarrow> go_error \<Rightarrow> server \<Rightarrow> server" where
  "stream_end codeString start stop meth err st =
     st\<lparr>metric_trace := metric_trace st @
        [GrpcServerRequests_Inc meth ''stream'' (codeString err),
         GrpcServerLatency_Observe meth ''stream'' (time_Sub stop start),
         GrpcActiveStreams_Dec meth]\<rparr>"

lemma StreamServerInterceptor_split:
  "StreamServerInterceptor codeString start stop full handler st =
     (let (meth, st1) = stream_begin full st
      in case handler st1 of
           Inl p \<Rightarrow> Inl p
         | Inr (res, st2) \<Rightarrow> Inr (res, stream_end codeString start stop meth (error_of res) st2))"
  by (simp add: StreamServerInterceptor_def stream_begin_def stream_end_def Let_def
      split: prod.split sum.split)

record 'ctx stream_rec =
  sr_ctx :: 'ctx
  sr_start :: time
  sr_label :: string
  sr_hb :: hb_stream
  sr_open :: bool

subsection \<open>The system\<close>

record 'ctx sys =
  sys_server :: server
  sys_streams :: "(nat \<times> 'ctx stream_rec) list"

definition sys_init :: "'ctx sys" where
  "sys_init = \<lparr>sys_server = idle_server, sys_streams = []\<rparr>"

datatype 'ctx action =
    ActUnary 'ctx clock rpc
  | ActOpen nat 'ctx time
  | ActStream nat hb_event
  | ActFinish nat time
  | ActSweep time

fun sys_next :: "('ctx, 'md) config \<Rightarrow> 'ctx action \<Rightarrow> 'ctx sys \<Rightarrow> (panic + 'ctx sys) option" where
  "sys_next cfg (ActUnary ctx clk call) y =
     Some (case serve_rpc cfg clk ctx call (sys_server y) of
             Inl p \<Rightarrow> Inl p
           | Inr (err, st) \<Rightarrow> Inr (y\<lparr>sys_server := st\<rparr>))"
| "sys_next cfg (ActOpen i ctx start) y =
     (case map_of (sys_streams y) i of
        Some _ \<Rightarrow> None
      | None \<Rightarrow>
          let (meth, st) = stream_begin AgentService_Heartbeat_FullMethodName (sys_server y)
          in Some (Inr (y\<lparr>sys_server := st,
               sys_streams := (i, \<lparr>sr_ctx = ctx, sr_start = start, sr_label = meth, sr_hb = hb_open,
                                   sr_open = True\<rparr>) # sys_streams y\<rparr>)))"
| "sys_next cfg (ActStream i ev) y =
     (case map_of (sys_streams y) i of
        None \<Rightarrow> None
      | Some sr \<Rightarrow>
          (case AgentServer_Heartbeat (cfg_lib cfg) (cfg_server cfg) (sr_ctx sr) ev (sr_hb sr) (sys_server y) of
             None \<Rightarrow> None
           | Some (Inl p) \<Rightarrow> Some (Inl p)
           | Some (Inr (h, st)) \<Rightarrow>
               Some (Inr (y\<lparr>sys_server := st,
                            sys_streams := AList.update i (sr\<lparr>sr_hb := h\<rparr>) (sys_streams y)\<rparr>))))"
| "sys_next cfg (ActFinish i stop) y =
     (case map_of (sys_streams y) i of
        None \<Rightarrow> None
      | Some sr \<Rightarrow>
          (case hb_pc (sr_hb sr) of
             HbReturned err \<Rightarrow>
               if sr_open sr
               then Some (Inr (y\<lparr>sys_server := stream_end (cfg_codeString cfg) (sr_start sr) stop
                                  (sr_label sr) err (sys_server y),
                                sys_streams := AList.update i (sr\<lparr>sr_open := False\<rparr>) (sys_streams y)\<rparr>))
               else None
           | _ \<Rightarrow> None))"
| "sys_next cfg (ActSweep now) y =
     (let (r, ops, logged) = StaleNodeCleanup_tick stale_threshold now (srv_registry (sys_server y));
          st = sys_server y
      in Some (Inr (y\<lparr>sys_server := st\<lparr>srv_registry := r, metric_trace := metric_trace st @ ops\<rparr>\<rparr>)))"

text \<open>The operation an action performs on the registry, if it performs one.\<close>

fun reg_op_of :: "('ctx, 'md) config \<Rightarrow> 'ctx action \<Rightarrow> 'ctx sys \<Rightarrow> reg_op option" where
  "reg_op_of cfg (ActUnary ctx clk (RpcRegister (Inr m))) y =
     (if validateBearerToken (cfg_lib cfg) ctx (AgentServer_agentToken (cfg_server cfg)) = None \<and>
         first_failure 0 Register_rules m = None
      then Some (RegRegister (clk_now clk) (RegisterRequest_NodeId m) (RegisterRequest_Address m)
                   (RegisterRequest_Resources m))
      else None)"
| "reg_op_of cfg (ActStream i ev) y =
     (case map_of (sys_streams y) i of None \<Rightarrow> None | Some sr \<Rightarrow> hb_reg_op (hb_pc (sr_hb sr)) ev)"
| "reg_op_of cfg (ActSweep now) y = Some (RegSweep stale_threshold now)"
| "reg_op_of cfg _ y = None"

subsection \<open>What an action does to the server\<close>

text \<open>Metrics calls that concern neither the registry nor the streams.\<close>

fun quiet_op :: "metric_op \<Rightarrow> bool" where
  "quiet_op (GrpcServerRequests_Inc l k c) = True"
| "quiet_op (GrpcServerLatency_Observe l k d) = True"
| "quiet_op _ = False"

lemma quiet_ops:
  "list_all quiet_op ops \<Longrightarrow> last_RegisteredNodes v ops = v \<and> active_streams l ops = 0 \<and> last_TasksRunning w ops = w"
proof (induction ops)
  case (Cons op ops)
  then show ?case by (cases op) auto
qed simp

text \<open>
  A server performs an optional registry operation: the registry and the metrics trace change by that
  operation alone, up to quiet metrics calls.
\<close>

definition performs :: "reg_op option \<Rightarrow> server \<Rightarrow> server \<Rightarrow> bool" where
  "performs opt st st' \<longleftrightarrow>
     cache_ok (knownMethods st') \<and>
     (\<exists>ops quiet. metric_trace st' = metric_trace st @ ops @ quiet \<and> list_all quiet_op quiet \<and>
        (case opt of
           None \<Rightarrow> srv_registry st' = srv_registry st \<and> ops = []
         | Some op \<Rightarrow> reg_apply op (srv_registry st) = Inr (srv_registry st', ops)))"

lemma performs_quiet:
  assumes "performs opt st st1" and "cache_ok known" and "list_all quiet_op quiet"
  shows "performs opt st (st1\<lparr>knownMethods := known, metric_trace := metric_trace st1 @ quiet\<rparr>)"
proof -
  from assms(1) obtain ops q where "metric_trace st1 = metric_trace st @ ops @ q" "list_all quiet_op q"
    and "case opt of
           None \<Rightarrow> srv_registry st1 = srv_registry st \<and> ops = []
         | Some op \<Rightarrow> reg_apply op (srv_registry st) = Inr (srv_registry st1, ops)"
    unfolding performs_def by blast
  with assms(2,3) show ?thesis
    unfolding performs_def by (intro conjI, simp) (rule exI [of _ ops], rule exI [of _ "q @ quiet"],
      auto split: option.splits)
qed

lemma performs_refl: "cache_ok (knownMethods st) \<Longrightarrow> performs None st st"
  by (simp add: performs_def)

lemma performs_log: "cache_ok (knownMethods st) \<Longrightarrow> performs None st (log_event e st)"
  by (simp add: performs_def)

text \<open>
  A unary call through the chain, for any method whose effect is known: it performs what the method
  performs when the caller is authenticated, and nothing otherwise.
\<close>

definition authenticated :: "('ctx, 'md) config \<Rightarrow> 'ctx \<Rightarrow> bool" where
  "authenticated cfg ctx \<longleftrightarrow>
     validateBearerToken (cfg_lib cfg) ctx (AgentServer_agentToken (cfg_server cfg)) = None"

lemma chained_call_performs:
  assumes "cache_ok (knownMethods st)"
    and "unary_handler full meth ctx (Inr m) (chain cfg clk) st = Inr (res, st')"
    and "\<And>res st1. meth ctx (Some m) st = Inr (res, st1) \<Longrightarrow> performs opt st st1"
  shows "performs (if authenticated cfg ctx then opt else None) st st'"
proof -
  let ?q = "\<lambda>res. [GrpcServerRequests_Inc (label_of full) ''unary'' (cfg_codeString cfg (error_of res)),
      GrpcServerLatency_Observe (label_of full) ''unary'' (time_Sub (clk_stop clk) (clk_start clk))]"
  have metered: "\<exists>known. cache_ok known \<and> st' = st1\<lparr>knownMethods := known, metric_trace := metric_trace st1 @ ?q res\<rparr>"
    if "AuthUnaryInterceptorFor (cfg_lib cfg) (AgentServer_agentToken (cfg_server cfg)) ctx (Some m)
          meth st = Inr (res, st1)" and "cache_ok (knownMethods st1)" for st1
    using assms(2) that sanitizeMethod_cached [OF that(2), of full]
    by (auto simp: unary_handler_def chain_def unary_chain_def UnaryServerInterceptor_def Let_def
        split: prod.splits)
  obtain st1 where st1: "AuthUnaryInterceptorFor (cfg_lib cfg) (AgentServer_agentToken (cfg_server cfg))
      ctx (Some m) meth st = Inr (res, st1)"
    using assms(2)
    by (auto simp: unary_handler_def chain_def unary_chain_def UnaryServerInterceptor_def Let_def
        split: prod.splits sum.splits)
  then have p: "performs (if authenticated cfg ctx then opt else None) st st1"
    using assms(1,3) by (auto simp: AuthUnaryInterceptorFor_cases authenticated_def performs_refl split: if_splits)
  then have "cache_ok (knownMethods st1)" by (simp add: performs_def)
  from metered [OF st1 this] performs_quiet [OF p] show ?thesis by fastforce
qed

lemma logging_call_performs:
  assumes "cache_ok (knownMethods st)"
    and "unary_handler full meth ctx dec (chain cfg clk) st = Inr (res, st')"
    and "\<And>m. \<exists>res e. meth ctx (Some m) st = Inr (res, log_event e st)"
  shows "performs None st st'"
proof (cases dec)
  case (Inl e)
  with assms(1,2) show ?thesis by (simp add: unary_handler_def performs_refl)
next
  case (Inr m)
  have "performs None st st1" if "meth ctx (Some m) st = Inr (r, st1)" for r st1
    using that assms(3) [of m] performs_log [OF assms(1)] by auto
  from chained_call_performs [OF assms(1) assms(2) [unfolded Inr] this] show ?thesis by (simp split: if_splits)
qed

lemma Register_performs:
  assumes "cache_ok (knownMethods st)" and "AgentServer_Register lib s now ctx (Some m) st = Inr (res, st1)"
  shows "performs (if first_failure 0 Register_rules m = None
     then Some (RegRegister now (RegisterRequest_NodeId m) (RegisterRequest_Address m) (RegisterRequest_Resources m))
     else None) st st1"
proof (cases "first_failure 0 Register_rules m")
  case None
  from register_rpc.valid_request [OF None, of lib s now ctx st] assms None show ?thesis
    by (auto simp: Register_body_def performs_def split: sum.splits prod.splits)
next
  case (Some f)
  from register_rpc.invalid_request [OF Some, of lib s now ctx st] assms Some show ?thesis
    by (auto simp: performs_log)
qed

lemma reply_Inr: "reply c = Inr (err, st) \<longleftrightarrow> (\<exists>res. c = Inr (res, st) \<and> err = error_of res)"
  by (cases c) (auto simp: reply_def)

lemma serve_rpc_performs:
  assumes "cache_ok (knownMethods st)" and "serve_rpc cfg clk ctx call st = Inr (err, st')"
  shows "performs (reg_op_of cfg (ActUnary ctx clk call) y) st st'"
proof (cases call)
  case (RpcRegister dec)
  show ?thesis
  proof (cases dec)
    case (Inl e)
    with assms RpcRegister show ?thesis
      by (auto simp: AgentService_Register_Handler_def reply_Inr unary_handler_def performs_refl)
  next
    case (Inr m)
    with assms RpcRegister obtain res where
      "unary_handler AgentService_Register_FullMethodName
         (AgentServer_Register (cfg_lib cfg) (cfg_server cfg) (clk_now clk)) ctx (Inr m) (chain cfg clk) st
       = Inr (res, st')"
      by (auto simp: AgentService_Register_Handler_def reply_Inr)
    then have "performs (if authenticated cfg ctx then
        (if first_failure 0 Register_rules m = None
         then Some (RegRegister (clk_now clk) (RegisterRequest_NodeId m) (RegisterRequest_Address m)
           (RegisterRequest_Resources m)) else None) else None) st st'"
      by (rule chained_call_performs [OF assms(1)]) (rule Register_performs [OF assms(1)])
    with RpcRegister Inr show ?thesis by (auto simp: authenticated_def split: if_splits)
  qed
qed (use assms in \<open>auto simp: AgentService_ExecuteTask_Handler_def AgentService_AllocateMemory_Handler_def
      AgentService_AllocateGPUMemory_Handler_def AgentService_FreeMemory_Handler_def
      AgentService_FreeGPUMemory_Handler_def reply_Inr execute_rpc.only_logs alloc_rpc.only_logs
      gpu_alloc_rpc.only_logs free_rpc.only_logs gpu_free_rpc.only_logs
      elim!: logging_call_performs\<close>)

lemma stream_step_performs:
  assumes "cache_ok (knownMethods st)"
    and "AgentServer_Heartbeat lib s ctx ev h st = Some (Inr (h', st'))"
  shows "performs (hb_reg_op (hb_pc h) ev) st st'"
  using assms(2)
proof (cases rule: AgentServer_Heartbeat_cases)
  case (main pc')
  have "knownMethods st' = knownMethods st"
    using main(1)
    by (cases "(lib, s, ctx, hb_pc h, ev, st)" rule: Heartbeat_main.cases)
       (auto simp: hb_update_def Let_def with_registry_Inr elim!: hb_validated_cases
          split: if_splits sum.splits)
  with Heartbeat_main_registry [OF main(1)] assms(1) show ?thesis
    by (auto simp: performs_def split: option.splits)
qed (use assms(1) in \<open>auto simp: ack_tick_def ack_done_def performs_refl performs_log
      split: if_splits option.splits\<close>)

lemma sweep_performs:
  assumes "cache_ok (knownMethods st)"
    and "StaleNodeCleanup_tick threshold now (srv_registry st) = (r, ops, logged)"
  shows "performs (Some (RegSweep threshold now)) st (st\<lparr>srv_registry := r, metric_trace := metric_trace st @ ops\<rparr>)"
  using assms by (auto simp: performs_def)

text \<open>Every action performs the operation \<open>reg_op_of\<close> names for it, or touches only the gauge of streams.\<close>

lemma sys_next_effect:
  assumes "cache_ok (knownMethods (sys_server y))" and "sys_next cfg a y = Some (Inr y')"
  shows "performs (reg_op_of cfg a y) (sys_server y) (sys_server y') \<or>
    reg_op_of cfg a y = None \<and> srv_registry (sys_server y') = srv_registry (sys_server y) \<and>
      (\<forall>v. last_TasksRunning v (metric_trace (sys_server y')) = last_TasksRunning v (metric_trace (sys_server y)))"
proof (cases a)
  case (ActUnary ctx clk call)
  with assms show ?thesis
    by (intro disjI1) (auto split: sum.splits prod.splits intro: serve_rpc_performs)
next
  case (ActStream i ev)
  with assms show ?thesis
    by (intro disjI1) (auto split: option.splits sum.splits prod.splits intro: stream_step_performs)
next
  case (ActSweep now)
  with assms show ?thesis
    by (intro disjI1) (auto simp: Let_def split: prod.splits intro: sweep_performs)
qed (use assms in \<open>auto simp: stream_begin_def stream_end_def Let_def
       split: option.splits prod.splits hb_pc.splits if_splits\<close>)

lemma sys_next_registry:
  assumes "cache_ok (knownMethods (sys_server y))" and "sys_next cfg a y = Some (Inr y')"
  shows "case reg_op_of cfg a y of
      None \<Rightarrow> srv_registry (sys_server y') = srv_registry (sys_server y)
    | Some op \<Rightarrow> reg_next op (srv_registry (sys_server y)) = Some (srv_registry (sys_server y'))"
  using sys_next_effect [OF assms] by (auto simp: performs_def reg_next_Some split: option.splits)

lemma sys_next_tasks:
  assumes "cache_ok (knownMethods (sys_server y))" and "sys_next cfg a y = Some (Inr y')"
  shows "\<exists>ops. last_TasksRunning v (metric_trace (sys_server y')) =
      last_TasksRunning (last_TasksRunning v (metric_trace (sys_server y))) ops \<and>
    (case reg_op_of cfg a y of
       None \<Rightarrow> srv_registry (sys_server y') = srv_registry (sys_server y) \<and> ops = []
     | Some op \<Rightarrow> reg_apply op (srv_registry (sys_server y)) = Inr (srv_registry (sys_server y'), ops))"
  using sys_next_effect [OF assms]
proof
  assume "performs (reg_op_of cfg a y) (sys_server y) (sys_server y')"
  with quiet_ops show ?thesis by (fastforce simp: performs_def)
qed (intro exI [of _ "[]"], simp)

subsection \<open>Invariant of the running system\<close>

abbreviation hb_label :: string where
  "hb_label \<equiv> label_of AgentService_Heartbeat_FullMethodName"

definition open_streams :: "(nat \<times> 'ctx stream_rec) list \<Rightarrow> nat" where
  "open_streams streams = length (filter (\<lambda>e. sr_open (snd e)) streams)"

lemma open_streams_update:
  assumes "map_of streams i = Some sr"
  shows "open_streams (AList.update i sr' streams) + (if sr_open sr then 1 else 0) =
    open_streams streams + (if sr_open sr' then 1 else 0)"
  using assms by (induction streams) (auto simp: open_streams_def)

definition stream_ok :: "'ctx stream_rec \<Rightarrow> bool" where
  "stream_ok sr \<longleftrightarrow> sr_label sr = hb_label \<and> hb_pc_ok (hb_pc (sr_hb sr))"

definition sys_inv :: "'ctx sys \<Rightarrow> bool" where
  "sys_inv y \<longleftrightarrow>
     (let st = sys_server y
      in reg_ok (srv_registry st) \<and> cache_ok (knownMethods st) \<and>
         last_RegisteredNodes 0 (metric_trace st) = length (nodes (srv_registry st)) \<and>
         list_all (\<lambda>e. stream_ok (snd e)) (sys_streams y) \<and>
         (\<forall>l. active_streams l (metric_trace st) = (if l = hb_label then int (open_streams (sys_streams y)) else 0)))"

lemma reg_apply_no_streams:
  assumes "reg_apply op r = Inr (r', ops)"
  shows "active_streams l ops = 0"
  using assms
  by (cases op) (auto simp: NodeRegistry_Register_def NodeRegistry_UpdateHeartbeat_def
      NodeRegistry_Remove_def NodeRegistry_RemoveIfConnectionMatches_def StaleNodeCleanup_tick_def
      Let_def split: if_splits option.splits sum.splits prod.splits)

lemma performs_inv:
  assumes "performs opt st st'" and "reg_ok (srv_registry st)"
    and "last_RegisteredNodes 0 (metric_trace st) = length (nodes (srv_registry st))"
  shows "reg_ok (srv_registry st') \<and> cache_ok (knownMethods st') \<and>
    last_RegisteredNodes 0 (metric_trace st') = length (nodes (srv_registry st')) \<and>
    active_streams l (metric_trace st') = active_streams l (metric_trace st)"
proof -
  from assms(1) obtain ops q where q: "metric_trace st' = metric_trace st @ ops @ q" "list_all quiet_op q"
    and op: "case opt of
           None \<Rightarrow> srv_registry st' = srv_registry st \<and> ops = []
         | Some op \<Rightarrow> reg_apply op (srv_registry st) = Inr (srv_registry st', ops)"
    and cache: "cache_ok (knownMethods st')"
    unfolding performs_def by blast
  show ?thesis
  proof (cases opt)
    case None
    with q op cache assms(2,3) quiet_ops [OF q(2)] show ?thesis by simp
  next
    case (Some op')
    with op have app: "reg_apply op' (srv_registry st) = Inr (srv_registry st', ops)" by simp
    from assms(2) have "distinct (map fst (nodes (srv_registry st)))" by (simp add: reg_ok_def)
    from registered_gauge_step [OF app this] reg_ok_apply [OF assms(2) app] reg_apply_no_streams [OF app]
      q(1) cache assms(3) quiet_ops [OF q(2)]
    show ?thesis by simp
  qed
qed

text \<open>The states a run of the system reaches, with the registry operations performed on the way.\<close>

inductive sys_path :: "('ctx, 'md) config \<Rightarrow> 'ctx sys \<Rightarrow> reg_op list \<Rightarrow> 'ctx sys \<Rightarrow> bool" for cfg where
  path_start: "sys_path cfg y [] y"
| path_step: "sys_path cfg y ops y1 \<Longrightarrow> sys_next cfg a y1 = Some (Inr y2) \<Longrightarrow>
    sys_path cfg y (ops @ (case reg_op_of cfg a y1 of None \<Rightarrow> [] | Some op \<Rightarrow> [op])) y2"

lemma list_all_update:
  "list_all P al \<Longrightarrow> P (i, v) \<Longrightarrow> list_all P (AList.update i v al)"
  by (induction al) auto

lemma list_all_lookup: "list_all (\<lambda>e. P (snd e)) al \<Longrightarrow> map_of al i = Some v \<Longrightarrow> P v"
  by (force simp: list_all_iff dest: map_of_SomeD)

lemma hb_step_pc_ok:
  assumes "AgentServer_Heartbeat lib s ctx ev h st = Some (Inr (h', st'))" and "hb_pc_ok (hb_pc h)"
  shows "hb_pc_ok (hb_pc h')"
  using assms(1)
proof (cases rule: AgentServer_Heartbeat_cases)
  case (main pc')
  with Heartbeat_main_pc_ok [OF main(1) assms(2)] show ?thesis by simp
qed (use assms(2) in \<open>auto simp: ack_tick_def ack_done_def split: if_splits option.splits\<close>)

lemma sys_inv_performs:
  assumes "sys_inv y" and "performs opt (sys_server y) st'"
    and "list_all (\<lambda>e. stream_ok (snd e)) streams" and "open_streams streams = open_streams (sys_streams y)"
  shows "sys_inv (y\<lparr>sys_server := st', sys_streams := streams\<rparr>)"
  using assms performs_inv [OF assms(2)] by (simp add: sys_inv_def Let_def)

lemma sys_inv_next:
  assumes inv: "sys_inv y" and nxt: "sys_next cfg a y = Some (Inr y')"
  shows "sys_inv y'"
proof -
  from inv have cache: "cache_ok (knownMethods (sys_server y))"
    and streams: "list_all (\<lambda>e. stream_ok (snd e)) (sys_streams y)"
    by (simp_all add: sys_inv_def Let_def)
  show ?thesis
  proof (cases a)
    case (ActUnary ctx clk call)
    with nxt obtain err st where "serve_rpc cfg clk ctx call (sys_server y) = Inr (err, st)"
      and y': "y' = y\<lparr>sys_server := st\<rparr>" by (auto split: sum.splits)
    from sys_inv_performs [OF inv serve_rpc_performs [OF cache this(1)] streams refl] y'
    show ?thesis by simp
  next
    case (ActOpen i ctx start)
    with nxt sanitizeMethod_cached [OF cache, of AgentService_Heartbeat_FullMethodName] inv show ?thesis
      by (auto simp: stream_begin_def Let_def sys_inv_def open_streams_def stream_ok_def hb_open_def
          split: option.splits prod.splits)
  next
    case (ActStream i ev)
    with nxt obtain sr h st where sr: "map_of (sys_streams y) i = Some sr"
      and step: "AgentServer_Heartbeat (cfg_lib cfg) (cfg_server cfg) (sr_ctx sr) ev (sr_hb sr) (sys_server y)
        = Some (Inr (h, st))"
      and y': "y' = y\<lparr>sys_server := st,
          sys_streams := AList.update i (sr\<lparr>sr_hb := h\<rparr>) (sys_streams y)\<rparr>"
      by (auto split: option.splits sum.splits)
    from list_all_lookup [OF streams sr] hb_step_pc_ok [OF step]
    have "stream_ok (sr\<lparr>sr_hb := h\<rparr>)" by (simp add: stream_ok_def)
    with streams have "list_all (\<lambda>e. stream_ok (snd e)) (AList.update i (sr\<lparr>sr_hb := h\<rparr>) (sys_streams y))"
      by (simp add: list_all_update)
    moreover have "open_streams (AList.update i (sr\<lparr>sr_hb := h\<rparr>) (sys_streams y)) = open_streams (sys_streams y)"
      using open_streams_update [OF sr, of "sr\<lparr>sr_hb := h\<rparr>"] by simp
    ultimately show ?thesis
      using sys_inv_performs [OF inv stream_step_performs [OF cache step]] y' by simp
  next
    case (ActFinish i stop)
    with nxt obtain sr err where sr: "map_of (sys_streams y) i = Some sr" "sr_open sr"
      and y': "y' = y\<lparr>sys_server := stream_end (cfg_codeString cfg) (sr_start sr) stop (sr_label sr) err (sys_server y),
          sys_streams := AList.update i (sr\<lparr>sr_open := False\<rparr>) (sys_streams y)\<rparr>"
      by (auto split: option.splits hb_pc.splits if_splits)
    from list_all_lookup [OF streams sr(1)] have ok: "stream_ok (sr\<lparr>sr_open := False\<rparr>)" "sr_label sr = hb_label"
      by (simp_all add: stream_ok_def)
    have "Suc (open_streams (AList.update i (sr\<lparr>sr_open := False\<rparr>) (sys_streams y))) = open_streams (sys_streams y)"
      using open_streams_update [OF sr(1), of "sr\<lparr>sr_open := False\<rparr>"] sr(2) by simp
    with inv ok streams y' show ?thesis
      by (auto simp: sys_inv_def Let_def stream_end_def list_all_update simp flip: of_nat_Suc)
  next
    case (ActSweep now)
    obtain r ops logged where t: "StaleNodeCleanup_tick stale_threshold now (srv_registry (sys_server y))
        = (r, ops, logged)" by (metis prod_cases3)
    with ActSweep nxt have "y' = y\<lparr>sys_server := (sys_server y)\<lparr>srv_registry := r,
        metric_trace := metric_trace (sys_server y) @ ops\<rparr>\<rparr>" by (simp add: Let_def)
    with sys_inv_performs [OF inv sweep_performs [OF cache t] streams refl] show ?thesis by simp
  qed
qed

lemma sys_inv_init: "sys_inv sys_init"
  using reg_ok_new
  by (simp add: sys_inv_def sys_init_def idle_server_def cache_ok_init open_streams_def Let_def
      NewNodeRegistry_def)

lemma sys_inv_path: "sys_path cfg y ops y' \<Longrightarrow> sys_inv y \<Longrightarrow> sys_inv y'"
  by (induction rule: sys_path.induct) (auto intro: sys_inv_next)

text \<open>A run of the system is a run of registry operations.\<close>

lemma sys_path_run_ops:
  assumes "sys_path cfg y ops y'" and "sys_inv y"
  shows "run_ops reg_next ops (srv_registry (sys_server y)) = Some (srv_registry (sys_server y'))"
  using assms
proof (induction rule: sys_path.induct)
  case (path_step y ops y1 a y2)
  from sys_inv_path [OF path_step.hyps(1) path_step.prems]
  have "cache_ok (knownMethods (sys_server y1))" by (simp add: sys_inv_def Let_def)
  from sys_next_registry [OF this path_step.hyps(2)] path_step.IH [OF path_step.prems] show ?case
    by (auto simp: run_ops_append split: option.splits)
qed simp

text \<open>Executable runs.\<close>

fun run_sys :: "('ctx, 'md) config \<Rightarrow> 'ctx action list \<Rightarrow> 'ctx sys \<Rightarrow> (reg_op list \<times> 'ctx sys) option" where
  "run_sys cfg [] y = Some ([], y)"
| "run_sys cfg (a # as) y =
     (case sys_next cfg a y of
        Some (Inr y1) \<Rightarrow>
          (case run_sys cfg as y1 of
             Some (ops, y2) \<Rightarrow> Some ((case reg_op_of cfg a y of None \<Rightarrow> [] | Some op \<Rightarrow> [op]) @ ops, y2)
           | None \<Rightarrow> None)
      | _ \<Rightarrow> None)"

lemma sys_path_trans: "sys_path cfg y1 ops2 y2 \<Longrightarrow> sys_path cfg y ops1 y1 \<Longrightarrow> sys_path cfg y (ops1 @ ops2) y2"
  by (induction rule: sys_path.induct) (auto simp flip: append_assoc intro: path_step)

lemma run_sys_path: "run_sys cfg as y = Some (ops, y') \<Longrightarrow> sys_path cfg y ops y'"
proof (induction as arbitrary: y ops)
  case (Cons a as)
  then obtain y1 ops1 where y1: "sys_next cfg a y = Some (Inr y1)" "run_sys cfg as y1 = Some (ops1, y')"
    and ops: "ops = (case reg_op_of cfg a y of None \<Rightarrow> [] | Some op \<Rightarrow> [op]) @ ops1"
    by (auto split: option.splits sum.splits prod.splits)
  from sys_path_trans [OF Cons.IH [OF y1(2)] path_step [OF path_start y1(1)]] ops show ?case by simp
qed (simp add: path_start)

subsection \<open>Panics\<close>

lemma chained_call_panics:
  assumes "unary_handler full meth ctx dec (chain cfg clk) st = Inl p"
  obtains m where "dec = Inr m" and "meth ctx (Some m) st = Inl p"
  using assms
  by (auto simp: unary_handler_def chain_def unary_chain_def UnaryServerInterceptor_def
      AuthUnaryInterceptorFor_cases Let_def split: sum.splits if_splits prod.splits)

lemma Register_panics_iff:
  "AgentServer_Register lib s now ctx (Some m) st = Inl p \<longleftrightarrow>
     first_failure 0 Register_rules m = None \<and> RegisterRequest_Resources m = None \<and>
     p = NilNodeResources (RegisterRequest_NodeId m)"
proof (cases "first_failure 0 Register_rules m")
  case None
  from register_rpc.valid_request [OF None, of lib s now ctx st] None show ?thesis
    by (auto simp: Register_body_def NodeRegistry_Register_def with_registry_Inl Let_def split: sum.splits prod.splits if_splits)
next
  case (Some f)
  from register_rpc.invalid_request [OF Some, of lib s now ctx st] Some show ?thesis by auto
qed

lemma chained_call_panics_iff:
  "unary_handler full meth ctx (Inr m) (chain cfg clk) st = Inl p \<longleftrightarrow>
     authenticated cfg ctx \<and> meth ctx (Some m) st = Inl p"
  by (auto simp: unary_handler_def chain_def unary_chain_def UnaryServerInterceptor_def authenticated_def
      AuthUnaryInterceptorFor_cases Let_def split: sum.splits if_splits prod.splits)

lemma reply_Inl: "reply c = Inl p \<longleftrightarrow> c = Inl p"
  by (cases c) (auto simp: reply_def)

lemma Register_rules_pass:
  "first_failure 0 Register_rules m = None \<longleftrightarrow> ValidateNodeID (RegisterRequest_NodeId m) = None \<and>
     ValidateAddress (RegisterRequest_Address m) = None \<and> ValidateVersion (RegisterRequest_AgentVersion m) = None"
  unfolding first_failure_None by (auto simp: Register_rules_def)

lemma serve_rpc_panics_iff:
  "serve_rpc cfg clk ctx call st = Inl p \<longleftrightarrow>
     (\<exists>m. call = RpcRegister (Inr m) \<and>
        validateBearerToken (cfg_lib cfg) ctx (AgentServer_agentToken (cfg_server cfg)) = None \<and>
        ValidateNodeID (RegisterRequest_NodeId m) = None \<and> ValidateAddress (RegisterRequest_Address m) = None \<and>
        ValidateVersion (RegisterRequest_AgentVersion m) = None \<and> RegisterRequest_Resources m = None \<and>
        p = NilNodeResources (RegisterRequest_NodeId m))"
proof (cases call)
  case (RpcRegister dec)
  show ?thesis
  proof (cases dec)
    case (Inl e)
    with RpcRegister show ?thesis by (simp add: reply_Inl AgentService_Register_Handler_def unary_handler_def)
  next
    case (Inr m)
    with RpcRegister show ?thesis
      by (auto simp: reply_Inl AgentService_Register_Handler_def chained_call_panics_iff Register_panics_iff
          Register_rules_pass authenticated_def)
  qed
qed (auto simp: reply_Inl AgentService_ExecuteTask_Handler_def
        AgentService_AllocateMemory_Handler_def AgentService_AllocateGPUMemory_Handler_def
        AgentService_FreeMemory_Handler_def AgentService_FreeGPUMemory_Handler_def
        execute_rpc.only_logs alloc_rpc.only_logs gpu_alloc_rpc.only_logs free_rpc.only_logs
        gpu_free_rpc.only_logs elim!: chained_call_panics)

text \<open>The message a control state is about to file.\<close>

fun hb_message :: "hb_pc \<Rightarrow> HeartbeatRequest option" where
  "hb_message (HbUpdateFirst m c) = Some m"
| "hb_message (HbUpdate n c m) = Some m"
| "hb_message _ = None"

lemma hb_update_panics_iff:
  "hb_update now m st = Inl p \<longleftrightarrow> None \<in> set (HeartbeatRequest_Tasks m) \<and>
     map_of (nodes (srv_registry st)) (HeartbeatRequest_NodeId m) \<noteq> None \<and> p = NilDeref"
proof -
  have "hb_update now m st = Inl p \<longleftrightarrow> NodeRegistry_UpdateHeartbeat (srv_registry st) now (HeartbeatRequest_NodeId m)
      (HeartbeatRequest_Utilization m) (HeartbeatRequest_Tasks m) = Inl p"
    by (simp add: hb_update_def with_registry_Inl)
  also have "\<dots> \<longleftrightarrow> map_of (nodes (srv_registry st)) (HeartbeatRequest_NodeId m) \<noteq> None \<and>
      file_tasks (HeartbeatRequest_Tasks m) [] = Inl p"
    by (auto simp: NodeRegistry_UpdateHeartbeat_def Let_def split: option.splits sum.splits)
  also have "file_tasks (HeartbeatRequest_Tasks m) [] = Inl p \<longleftrightarrow> None \<in> set (HeartbeatRequest_Tasks m) \<and> p = NilDeref"
    using file_tasks_nil file_tasks_NilDeref by metis
  finally show ?thesis by blast
qed

lemma hb_update_Inr:
  "hb_update now m st = Inr st' \<Longrightarrow> None \<in> set (HeartbeatRequest_Tasks m) \<Longrightarrow>
     map_of (nodes (srv_registry st)) (HeartbeatRequest_NodeId m) = None"
  using hb_update_panics_iff [of now m st NilDeref] by auto

lemma hb_validated_no_panic: "hb_validated lib ctx l1 l2 m ok st \<noteq> Inl p"
  using hb_validated_ok [of m lib ctx l1 l2 ok st] hb_validated_reject [of m lib ctx l1 l2 ok st]
  by (cases "hb_valid m") auto

lemma stream_step_panics_iff:
  "AgentServer_Heartbeat lib s ctx ev h st = Some (Inl p) \<longleftrightarrow>
     (\<exists>now m. ev = HbGo now \<and> hb_message (hb_pc h) = Some m \<and> None \<in> set (HeartbeatRequest_Tasks m) \<and>
        map_of (nodes (srv_registry st)) (HeartbeatRequest_NodeId m) \<noteq> None \<and> p = NilDeref)"
proof -
  have "AgentServer_Heartbeat lib s ctx ev h st = Some (Inl p) \<longleftrightarrow> Heartbeat_main lib s ctx (hb_pc h) ev st = Some (Inl p)"
    by (cases ev; cases "hb_pc h"; simp add: AgentServer_Heartbeat_def split: option.split sum.split prod.split)
  also have "\<dots> \<longleftrightarrow> (\<exists>now m. ev = HbGo now \<and> hb_message (hb_pc h) = Some m \<and> None \<in> set (HeartbeatRequest_Tasks m) \<and>
        map_of (nodes (srv_registry st)) (HeartbeatRequest_NodeId m) \<noteq> None \<and> p = NilDeref)"
    by (cases "(lib, s, ctx, hb_pc h, ev, st)" rule: Heartbeat_main.cases)
       (auto simp: hb_validated_no_panic with_registry_Inl hb_update_panics_iff Let_def split: sum.split
          dest: hb_update_Inr)
  finally show ?thesis .
qed

subsection \<open>A small run\<close>

text \<open>A configuration and the actions of a small run, for the examples below.\<close>

definition demo_config :: "(string list, string list) config" where
  "demo_config = \<lparr>cfg_lib = sample_lib, cfg_codeString = (\<lambda>e. if e = None then ''OK'' else ''Unknown''),
     cfg_server = NewAgentServer ''cluster-001'' ''localhost:9000'' ''''\<rparr>"

definition demo_clock :: "time \<Rightarrow> clock" where
  "demo_clock t = \<lparr>clk_start = t, clk_now = t, clk_stop = t\<rparr>"

definition demo_register :: "NodeResources option \<Rightarrow> time \<Rightarrow> string list action" where
  "demo_register res t = ActUnary [] (demo_clock t) (RpcRegister (Inr
     \<lparr>RegisterRequest_NodeId = ''n'', RegisterRequest_Address = ''a:1'', RegisterRequest_Resources = res,
      RegisterRequest_AgentVersion = ''1.0''\<rparr>))"

definition demo_beat :: HeartbeatRequest where
  "demo_beat = HeartbeatRequest_zero\<lparr>HeartbeatRequest_NodeId := ''n''\<rparr>"

definition demo_opening :: "string list action list" where
  "demo_opening = [demo_register (Some NodeResources_zero) 1, ActOpen 0 [] 2, ActStream 0 (HbGo 2),
     ActStream 0 (HbReceived (Inr demo_beat)), ActStream 0 (HbGo 2), ActStream 0 (HbGo 2),
     ActStream 0 (HbSentFirst None)]"

definition demo_reconnect :: "string list action list" where
  "demo_reconnect = [demo_register (Some NodeResources_zero) 3, ActStream 0 (HbReceived (Inl EOF))]"

text \<open>What the run does to the registry, and the state it leaves; the same for the reconnection.\<close>

definition demo_ops0 :: "reg_op list" where
  "demo_ops0 = [RegRegister 1 ''n'' ''a:1'' (Some NodeResources_zero), RegHeartbeat 2 ''n'' None []]"

definition demo_node :: "time \<Rightarrow> uint64 \<Rightarrow> NodeInfo" where
  "demo_node beat conn =
     \<lparr>NodeInfo_NodeID = ''n'', NodeInfo_Address = ''a:1'', NodeInfo_Resources = Some NodeResources_zero,
      NodeInfo_LastBeat = beat, NodeInfo_Tasks = [], NodeInfo_ConnectionID = conn\<rparr>"

definition demo_stream :: "hb_pc \<Rightarrow> string list stream_rec" where
  "demo_stream pc =
     \<lparr>sr_ctx = [], sr_start = 2, sr_label = ''compute.v1.AgentService.Heartbeat'',
      sr_hb = \<lparr>hb_pc = pc, hb_ack = AckRunning, hb_sent = [first_ack demo_beat]\<rparr>, sr_open = True\<rparr>"

definition demo_trace :: "metric_op list" where
  "demo_trace =
     [RegistrationsTotal_Inc, RegisteredNodes_Set 1,
      GrpcServerRequests_Inc ''compute.v1.AgentService.Register'' ''unary'' ''OK'',
      GrpcServerLatency_Observe ''compute.v1.AgentService.Register'' ''unary'' 0]"

definition demo_y0 :: "string list sys" where
  "demo_y0 =
     \<lparr>sys_server =
        \<lparr>knownMethods = ''compute.v1.AgentService.Heartbeat'' # ''compute.v1.AgentService.Register'' # init_knownMethods,
         metric_trace = demo_trace @
           [GrpcActiveStreams_Inc ''compute.v1.AgentService.Heartbeat'', HeartbeatsTotal_Inc, TasksRunning_Set 0],
         srv_registry = \<lparr>nodes = [(''n'', demo_node 2 1)]\<rparr>,
         srv_log = [NodeRegistering ''n'' ''a:1'' ''1.0'', HeartbeatStreamOpened ''n'' 1]\<rparr>,
      sys_streams = [(0, demo_stream (HbRecv ''n'' 1))]\<rparr>"

definition demo_ops1 :: "reg_op list" where
  "demo_ops1 = [RegRegister 3 ''n'' ''a:1'' (Some NodeResources_zero)]"

definition demo_y1 :: "string list sys" where
  "demo_y1 =
     \<lparr>sys_server = (sys_server demo_y0)
        \<lparr>metric_trace := metric_trace (sys_server demo_y0) @ demo_trace,
         srv_registry := \<lparr>nodes = [(''n'', demo_node 3 2)]\<rparr>,
         srv_log := srv_log (sys_server demo_y0) @
           [NodeRegistering ''n'' ''a:1'' ''1.0'', HeartbeatStreamClosed ''n'']\<rparr>,
      sys_streams = [(0, demo_stream (HbRemove ''n'' 1 None))]\<rparr>"

lemma demo_opening_run: "run_sys demo_config demo_opening sys_init = Some (demo_ops0, demo_y0)"
  by code_simp

lemma demo_reconnect_run: "run_sys demo_config demo_reconnect demo_y0 = Some (demo_ops1, demo_y1)"
  by code_simp

end
