(* ===== verification/Lifecycle.thy ===== *)
theory Lifecycle
  imports System
begin

text \<open>
  The process of \<^verbatim>\<open>cmd/control-plane/main.go\<close> from start to exit: the control plane that \<open>main_start\<close>
  built, the running system of \<open>System\<close>, the calls the gRPC server has accepted and not run yet, and the
  phase \<open>main\<close> is in. The two serving goroutines, the signal loop, the certificate poller and the steps
  of the shutdown are one definition each; \<open>proc_next\<close> says which of them may move. What the libraries do
  is an event: that the gRPC server accepted a call or ran one, that a server returned, that
  \<open>GracefulStop\<close> returned, which it does once no call is pending, and what \<open>Shutdown\<close> returned.
\<close>

subsection \<open>The process\<close>

text \<open>
  The signal loop; between the loop and the call of \<open>GracefulStop\<close>; inside \<open>GracefulStop\<close>; inside
  \<open>Shutdown\<close>; and the ends.
\<close>

datatype phase = Serving | LoopLeft | GrpcStopping | HttpStopping | Exited nat | Crashed panic

definition accepting :: "phase \<Rightarrow> bool" where
  "accepting ph \<longleftrightarrow> ph \<in> {Serving, LoopLeft}"

definition grpc_up :: "phase \<Rightarrow> bool" where
  "grpc_up ph \<longleftrightarrow> ph \<in> {Serving, LoopLeft, GrpcStopping}"

definition live :: "phase \<Rightarrow> bool" where
  "live ph \<longleftrightarrow> ph \<in> {Serving, LoopLeft, GrpcStopping, HttpStopping}"

text \<open>A call the gRPC server has accepted and whose handler has not run yet.\<close>

datatype 'ctx pending = PendingUnary 'ctx rpc | PendingStream 'ctx

text \<open>
  The reloader's metrics calls are kept apart from the server's: they are on a collector the server
  never calls. The log holds the messages of \<open>main\<close>.
\<close>

record ('ctx, 'cert, 'pool) process =
  pr_cp :: "('cert, 'pool) control_plane"
  pr_sys :: "'ctx sys"
  pr_pending :: "(nat \<times> 'ctx pending) list"
  pr_phase :: phase
  pr_metrics :: "metric_op list"
  pr_log :: "string list"

text \<open>The fields of the first log entry.\<close>

record startup_entry =
  se_node_id :: string
  se_grpc_addr :: string
  se_http_addr :: string
  se_bootstrap :: bool
  se_auth_enabled :: bool
  se_cluster_id :: string

definition startup_log :: "flags \<Rightarrow> string \<Rightarrow> string \<Rightarrow> startup_entry" where
  "startup_log fl hostname uuid =
     \<lparr>se_node_id = node_id fl hostname, se_grpc_addr = grpcAddr fl, se_http_addr = httpAddr fl,
      se_bootstrap = bootstrap fl, se_auth_enabled = (agentToken fl \<noteq> '''' \<or> apiKey fl \<noteq> ''''),
      se_cluster_id = cluster_id fl uuid\<rparr>"

definition boot :: "('cert, 'pool) control_plane \<Rightarrow> metric_op list \<Rightarrow> ('ctx, 'cert, 'pool) process" where
  "boot cp ops =
     \<lparr>pr_cp = cp,
      pr_sys = sys_init\<lparr>sys_server := idle_server\<lparr>srv_registry := cp_registry cp\<rparr>\<rparr>,
      pr_pending = [], pr_phase = Serving, pr_metrics = ops,
      pr_log = [''compute-control-plane initialized and ready'']\<rparr>"

definition config_of ::
  "('ctx, 'md) grpc_lib \<Rightarrow> (go_error \<Rightarrow> string) \<Rightarrow> ('cert, 'pool) control_plane \<Rightarrow> ('ctx, 'md) config" where
  "config_of lib codeString cp =
     \<lparr>cfg_lib = lib, cfg_codeString = codeString, cfg_server = cp_agentServer cp\<rparr>"

subsection \<open>Its parts\<close>

text \<open>\<open>log.Fatal\<close>: the message, and the process exits with status 1.\<close>

definition log_Fatal :: "string \<Rightarrow> ('ctx, 'cert, 'pool) process \<Rightarrow> ('ctx, 'cert, 'pool) process" where
  "log_Fatal msg p = p\<lparr>pr_phase := Exited 1, pr_log := pr_log p @ [msg]\<rparr>"

definition grpc_serve_returned ::
  "go_error \<Rightarrow> ('ctx, 'cert, 'pool) process \<Rightarrow> ('ctx, 'cert, 'pool) process" where
  "grpc_serve_returned err p = (if err \<noteq> None then log_Fatal ''gRPC server failed'' p else p)"

datatype serve_error = ErrServerClosed | ServeFailed string

definition http_serve_returned ::
  "serve_error option \<Rightarrow> ('ctx, 'cert, 'pool) process \<Rightarrow> ('ctx, 'cert, 'pool) process" where
  "http_serve_returned err p =
     (if err \<noteq> None \<and> err \<noteq> Some ErrServerClosed
      then if cp_tlsEnabled (pr_cp p) then log_Fatal ''HTTPS server failed'' p
           else log_Fatal ''HTTP server failed'' p
      else p)"

text \<open>One signal, taken by the loop.\<close>

definition signal_received ::
  "signal \<Rightarrow> ('cert, 'pool) disk \<Rightarrow> ('ctx, 'cert, 'pool) process \<Rightarrow> ('ctx, 'cert, 'pool) process" where
  "signal_received sig d p =
     (let (r, ops, stop) = signal_loop [(sig, d)] (cp_reloader (pr_cp p));
          msgs = (if stop then [''shutting down'']
                  else if cp_reloader (pr_cp p) \<noteq> None
                  then [''SIGHUP received, reloading TLS certificates''] else [])
      in p\<lparr>pr_cp := (pr_cp p)\<lparr>cp_reloader := r\<rparr>, pr_metrics := pr_metrics p @ ops,
           pr_log := pr_log p @ msgs, pr_phase := (if stop then LoopLeft else Serving)\<rparr>)"

text \<open>A tick of the poller, which is given a context that is never cancelled.\<close>

definition watch_tick ::
  "('cert, 'pool) disk \<Rightarrow> ('ctx, 'cert, 'pool) process \<Rightarrow> ('ctx, 'cert, 'pool) process option" where
  "watch_tick d p =
     (case (cp_watch (pr_cp p), cp_reloader (pr_cp p)) of
        (Some interval, Some r) \<Rightarrow>
          let (r1, ops) = Watch [WatchTick d] r
          in Some (p\<lparr>pr_cp := (pr_cp p)\<lparr>cp_reloader := Some r1\<rparr>, pr_metrics := pr_metrics p @ ops\<rparr>)
      | _ \<Rightarrow> None)"

text \<open>\<open>GracefulStop\<close>: called once the loop is left, and over when no call is pending or running.\<close>

definition graceful_stop_called ::
  "('ctx, 'cert, 'pool) process \<Rightarrow> ('ctx, 'cert, 'pool) process option" where
  "graceful_stop_called p = (if pr_phase p = LoopLeft then Some (p\<lparr>pr_phase := GrpcStopping\<rparr>) else None)"

definition graceful_stop_returned ::
  "('ctx, 'cert, 'pool) process \<Rightarrow> ('ctx, 'cert, 'pool) process option" where
  "graceful_stop_returned p =
     (if pr_phase p = GrpcStopping \<and> pr_pending p = [] \<and> open_streams (sys_streams (pr_sys p)) = 0
      then Some (p\<lparr>pr_phase := HttpStopping\<rparr>) else None)"

definition http_shutdown_returned ::
  "go_error \<Rightarrow> ('ctx, 'cert, 'pool) process \<Rightarrow> ('ctx, 'cert, 'pool) process option" where
  "http_shutdown_returned err p =
     (if pr_phase p = HttpStopping
      then Some (p\<lparr>pr_phase := Exited 0,
             pr_log := pr_log p @ (if err \<noteq> None then [''HTTP server forced to shutdown''] else [])
                         @ [''shutdown complete'']\<rparr>)
      else None)"

subsection \<open>Who may move\<close>

text \<open>An action of the system; a panic in it ends the process.\<close>

definition take_action ::
  "('ctx, 'md) grpc_lib \<Rightarrow> (go_error \<Rightarrow> string) \<Rightarrow> 'ctx action
     \<Rightarrow> ('ctx, 'cert, 'pool) process \<Rightarrow> ('ctx, 'cert, 'pool) process option" where
  "take_action lib codeString a p =
     (case sys_next (config_of lib codeString (pr_cp p)) a (pr_sys p) of
        None \<Rightarrow> None
      | Some (Inl pn) \<Rightarrow> Some (p\<lparr>pr_phase := Crashed pn\<rparr>)
      | Some (Inr y) \<Rightarrow> Some (p\<lparr>pr_sys := y\<rparr>))"

text \<open>
  The gRPC server accepts calls, each under a number of its own, until \<open>GracefulStop\<close> is called. It runs
  the handler of a call it accepted at any later moment, also while \<open>GracefulStop\<close> waits, which waits for
  it: a unary call in one action, and a stream in many, of which this is the first.
\<close>

definition grpc_accept ::
  "nat \<Rightarrow> 'ctx pending \<Rightarrow> ('ctx, 'cert, 'pool) process \<Rightarrow> ('ctx, 'cert, 'pool) process option" where
  "grpc_accept i c p =
     (if accepting (pr_phase p) \<and> i \<notin> fst ` set (pr_pending p) \<and> map_of (sys_streams (pr_sys p)) i = None
      then Some (p\<lparr>pr_pending := (i, c) # pr_pending p\<rparr>) else None)"

fun action_of :: "nat \<Rightarrow> clock \<Rightarrow> 'ctx pending \<Rightarrow> 'ctx action" where
  "action_of i clk (PendingUnary ctx call) = ActUnary ctx clk call"
| "action_of i clk (PendingStream ctx) = ActOpen i ctx (clk_start clk)"

definition grpc_dispatch ::
  "('ctx, 'md) grpc_lib \<Rightarrow> (go_error \<Rightarrow> string) \<Rightarrow> nat \<Rightarrow> clock
     \<Rightarrow> ('ctx, 'cert, 'pool) process \<Rightarrow> ('ctx, 'cert, 'pool) process option" where
  "grpc_dispatch lib codeString i clk p =
     (case map_of (pr_pending p) i of
        None \<Rightarrow> None
      | Some c \<Rightarrow>
          if grpc_up (pr_phase p)
          then take_action lib codeString (action_of i clk c) (p\<lparr>pr_pending := AList.delete i (pr_pending p)\<rparr>)
          else None)"

text \<open>The events of a stream's handler, as opposed to those of its acknowledging goroutine.\<close>

fun of_handler :: "hb_event \<Rightarrow> bool" where
  "of_handler (HbTick r) = False"
| "of_handler HbDone = False"
| "of_handler _ = True"

text \<open>
  Who else may act on the system in a phase. Handlers run until the gRPC server has stopped, which waits
  for them; an acknowledging goroutine may be left a little longer; the cleanup runs until \<open>main\<close> returns,
  which cancels it.
\<close>

fun may_act :: "phase \<Rightarrow> 'ctx action \<Rightarrow> bool" where
  "may_act ph (ActStream i ev) = (grpc_up ph \<or> ph = HttpStopping \<and> \<not> of_handler ev)"
| "may_act ph (ActFinish i t) = grpc_up ph"
| "may_act ph (ActSweep t) = live ph"
| "may_act ph _ = False"

datatype ('ctx, 'cert, 'pool) proc_event =
    PrAccept nat "'ctx pending"
  | PrDispatch nat clock
  | PrAction "'ctx action"
  | PrSignal signal "('cert, 'pool) disk"
  | PrStop
  | PrWatch "('cert, 'pool) disk"
  | PrGrpcServe go_error
  | PrHttpServe "serve_error option"
  | PrGracefulStop
  | PrHttpShutdown go_error

text \<open>
  A signal is read while \<open>main\<close> is in its loop. Afterwards nobody reads the channel, and since the
  signals are caught they no longer end the process by themselves.
\<close>

fun proc_next ::
  "('ctx, 'md) grpc_lib \<Rightarrow> (go_error \<Rightarrow> string) \<Rightarrow> ('ctx, 'cert, 'pool) proc_event
     \<Rightarrow> ('ctx, 'cert, 'pool) process \<Rightarrow> ('ctx, 'cert, 'pool) process option" where
  "proc_next lib codeString (PrAccept i c) p = grpc_accept i c p"
| "proc_next lib codeString (PrDispatch i clk) p = grpc_dispatch lib codeString i clk p"
| "proc_next lib codeString (PrAction a) p =
     (if may_act (pr_phase p) a then take_action lib codeString a p else None)"
| "proc_next lib codeString (PrSignal sig d) p =
     (if live (pr_phase p) then Some (if pr_phase p = Serving then signal_received sig d p else p) else None)"
| "proc_next lib codeString PrStop p = graceful_stop_called p"
| "proc_next lib codeString (PrWatch d) p = (if live (pr_phase p) then watch_tick d p else None)"
| "proc_next lib codeString (PrGrpcServe err) p =
     (if live (pr_phase p) then Some (grpc_serve_returned err p) else None)"
| "proc_next lib codeString (PrHttpServe err) p =
     (if live (pr_phase p) then Some (http_serve_returned err p) else None)"
| "proc_next lib codeString PrGracefulStop p = graceful_stop_returned p"
| "proc_next lib codeString (PrHttpShutdown err) p = http_shutdown_returned err p"

text \<open>The HTTP server answers until it is shut down, which comes after the gRPC server has stopped.\<close>

definition http_answer ::
  "(NodeResources \<Rightarrow> NodeResources) \<Rightarrow> (time \<Rightarrow> int) \<Rightarrow> http_handler \<Rightarrow> http_handler
     \<Rightarrow> ('ctx, 'cert, 'pool) process \<Rightarrow> http_request \<Rightarrow> (panic + http_response) option" where
  "http_answer CloneOf zone exporter not_found p r =
     (if grpc_up (pr_phase p)
      then Some (main_mux CloneOf zone exporter not_found (cp_api (pr_cp p))
                   (srv_registry (sys_server (pr_sys p))) r fresh_response)
      else None)"


subsection \<open>What a step keeps\<close>

lemmas phase_sets = accepting_def grpc_up_def live_def

lemmas main_steps = watch_tick_def grpc_serve_returned_def http_serve_returned_def log_Fatal_def
  graceful_stop_called_def graceful_stop_returned_def http_shutdown_returned_def

lemma take_action_cases:
  assumes "take_action lib codeString a p = Some p'"
  obtains y where "sys_next (config_of lib codeString (pr_cp p)) a (pr_sys p) = Some (Inr y)"
    and "p' = p\<lparr>pr_sys := y\<rparr>"
  | pn where "p' = p\<lparr>pr_phase := Crashed pn\<rparr>"
  using assms by (auto simp: take_action_def simp del: sys_next.simps split: option.splits sum.splits)

lemma signal_received_cp:
  "pr_cp (signal_received sig d p) =
     (if sig = SIGHUP
      then (pr_cp p)\<lparr>cp_reloader := map_option (\<lambda>r. fst (Reload d r)) (cp_reloader (pr_cp p))\<rparr>
      else pr_cp p)"
  by (cases "cp_reloader (pr_cp p)"; cases "pr_cp p")
     (auto simp: signal_received_def Let_def case_prod_beta)

lemma signal_received_sys [simp]:
  "pr_sys (signal_received sig d p) = pr_sys p" "pr_pending (signal_received sig d p) = pr_pending p"
  by (simp_all add: signal_received_def Let_def case_prod_beta)

text \<open>
  A step leaves the system and the pending calls alone, accepts a call, takes an action of the system,
  runs a pending call, or panics.
\<close>

lemma proc_next_cases:
  assumes "proc_next lib codeString ev p = Some p'"
  obtains (main) "pr_sys p' = pr_sys p" and "pr_pending p' = pr_pending p"
      and "\<forall>i c. ev \<noteq> PrAccept i c" and "\<forall>i clk. ev \<noteq> PrDispatch i clk" and "\<forall>a. ev \<noteq> PrAction a"
  | (accept) i c where "ev = PrAccept i c" and "accepting (pr_phase p)" and "i \<notin> fst ` set (pr_pending p)"
      and "map_of (sys_streams (pr_sys p)) i = None" and "p' = p\<lparr>pr_pending := (i, c) # pr_pending p\<rparr>"
  | (act) a y where "ev = PrAction a" and "may_act (pr_phase p) a"
      and "sys_next (config_of lib codeString (pr_cp p)) a (pr_sys p) = Some (Inr y)" and "p' = p\<lparr>pr_sys := y\<rparr>"
  | (dispatch) i clk c y where "ev = PrDispatch i clk" and "map_of (pr_pending p) i = Some c"
      and "grpc_up (pr_phase p)"
      and "sys_next (config_of lib codeString (pr_cp p)) (action_of i clk c) (pr_sys p) = Some (Inr y)"
      and "p' = p\<lparr>pr_pending := AList.delete i (pr_pending p), pr_sys := y\<rparr>"
  | (panic) pn where "pr_phase p' = Crashed pn" and "pr_sys p' = pr_sys p" and "pr_cp p' = pr_cp p"
      and "pr_pending p' = pr_pending p \<or> (\<exists>i. pr_pending p' = AList.delete i (pr_pending p))"
proof (cases ev)
  case (PrAccept i c)
  with assms that(2) [of i c] show ?thesis by (auto simp: grpc_accept_def split: if_splits)
next
  case (PrDispatch i clk)
  with assms obtain c where c: "map_of (pr_pending p) i = Some c" "grpc_up (pr_phase p)"
    and "take_action lib codeString (action_of i clk c) (p\<lparr>pr_pending := AList.delete i (pr_pending p)\<rparr>) = Some p'"
    by (auto simp: grpc_dispatch_def split: option.splits if_splits)
  from this(3) show ?thesis
  proof (cases rule: take_action_cases)
    case (1 y)
    with PrDispatch c that(4) [of i clk c y] show ?thesis by simp
  next
    case (2 pn)
    with that(5) [of pn] show ?thesis by auto
  qed
next
  case (PrAction a)
  with assms have may: "may_act (pr_phase p) a" and "take_action lib codeString a p = Some p'"
    by (simp_all del: may_act.simps split: if_splits)
  from this(2) show ?thesis
  proof (cases rule: take_action_cases)
    case (1 y)
    with PrAction may that(3) [of a y] show ?thesis by simp
  next
    case (2 pn)
    with that(5) [of pn] show ?thesis by auto
  qed
qed (rule that(1); use assms in \<open>auto simp: main_steps Let_def case_prod_beta
       simp del: Watch.simps split: if_splits option.splits\<close>)+

fun event_disks :: "('ctx, 'cert, 'pool) proc_event \<Rightarrow> ('cert, 'pool) disk list" where
  "event_disks (PrSignal sig d) = [d]"
| "event_disks (PrWatch d) = [d]"
| "event_disks _ = []"

text \<open>A step changes the control plane by loads from the disks it meets, and nothing else of it.\<close>

lemma proc_next_cp:
  assumes "proc_next lib codeString ev p = Some p'"
  shows "\<exists>ds. set ds \<subseteq> set (event_disks ev) \<and>
    pr_cp p' = (pr_cp p)\<lparr>cp_reloader := map_option (reload_all ds) (cp_reloader (pr_cp p))\<rparr>"
proof -
  have none: ?thesis if "pr_cp p' = pr_cp p"
    using that by (intro exI [of _ "[]"]) (cases "cp_reloader (pr_cp p)"; cases "pr_cp p"; simp)
  have one: ?thesis if "d \<in> set (event_disks ev)"
    and "pr_cp p' = (pr_cp p)\<lparr>cp_reloader := map_option (\<lambda>r. fst (Reload d r)) (cp_reloader (pr_cp p))\<rparr>" for d
    using that by (intro exI [of _ "[d]"]) (cases "cp_reloader (pr_cp p)"; simp)
  show ?thesis
    using assms
  proof (cases rule: proc_next_cases)
    case main
    show ?thesis
    proof (cases ev)
      case (PrSignal sig d)
      with assms none one [of d] show ?thesis
        by (cases "sig = SIGHUP") (auto simp: signal_received_cp split: if_splits)
    next
      case (PrWatch d)
      with assms one [of d] Watch_reload_all [of "[d]"] show ?thesis
        by (auto simp: watch_tick_def Let_def case_prod_beta simp del: Watch.simps split: option.splits if_splits)
    qed (use assms none main in \<open>auto simp: main_steps split: if_splits\<close>)
  qed (use none in auto)
qed

lemma live_next: "proc_next lib codeString ev p = Some p' \<Longrightarrow> live (pr_phase p)"
  by (cases ev; cases "pr_phase p")
     (auto simp: phase_sets main_steps grpc_accept_def grpc_dispatch_def split: option.splits if_splits
        elim: may_act.elims)

text \<open>Phases only move on: once no call is accepted, none is any more.\<close>

lemma phase_moves_on:
  assumes "proc_next lib codeString ev p = Some p'" and "\<not> accepting (pr_phase p)"
  shows "\<not> accepting (pr_phase p')"
  using assms(1)
proof (cases rule: proc_next_cases)
  case main
  with assms show ?thesis
    by (cases ev) (auto simp: phase_sets main_steps Let_def case_prod_beta simp del: Watch.simps
        split: if_splits option.splits)
qed (use assms(2) in \<open>auto simp: accepting_def\<close>)

text \<open>A call that will ask for a node to be registered, and those that are pending.\<close>

fun names_node :: "string \<Rightarrow> 'ctx pending \<Rightarrow> bool" where
  "names_node n (PendingUnary ctx (RpcRegister (Inr m))) = (RegisterRequest_NodeId m = n)"
| "names_node n _ = False"

definition registration_pending :: "string \<Rightarrow> ('ctx, 'cert, 'pool) process \<Rightarrow> bool" where
  "registration_pending n p \<longleftrightarrow> (\<exists>c\<in>snd ` set (pr_pending p). names_node n c)"

lemma pending_shrinks:
  assumes "proc_next lib codeString ev p = Some p'" and "\<not> accepting (pr_phase p)"
  shows "set (pr_pending p') \<subseteq> set (pr_pending p)"
  using assms(1)
proof (cases rule: proc_next_cases)
  case (panic pn)
  then show ?thesis by (auto simp: set_alist_delete)
qed (use assms(2) in \<open>auto simp: set_alist_delete\<close>)

text \<open>
  It moves the system by the operation of one action. A registration among those operations is one a
  pending call asked for.
\<close>

lemma action_registers:
  assumes "reg_op_of cfg a y = Some op" and "registers op n"
  obtains ctx clk m where "a = ActUnary ctx clk (RpcRegister (Inr m))" and "RegisterRequest_NodeId m = n"
  using assms
  by (cases "(cfg, a, y)" rule: reg_op_of.cases) (auto split: option.splits if_splits elim: hb_reg_op.elims)

lemma proc_next_sys:
  assumes "proc_next lib codeString ev p = Some p'"
  shows "\<exists>ops. sys_path (config_of lib codeString (pr_cp p)) (pr_sys p) ops (pr_sys p') \<and>
    (\<not> registration_pending n p \<longrightarrow> list_all (\<lambda>op. \<not> registers op n) ops)"
proof -
  let ?cfg = "config_of lib codeString (pr_cp p)"
  have one: ?thesis if "sys_next ?cfg a (pr_sys p) = Some (Inr (pr_sys p'))"
    and "\<And>ctx clk m. a = ActUnary ctx clk (RpcRegister (Inr m)) \<Longrightarrow> RegisterRequest_NodeId m = n \<Longrightarrow>
      registration_pending n p" for a
    using path_step [OF path_start that(1)] that(2)
    by (intro exI conjI) (assumption, auto split: option.splits elim: action_registers)
  show ?thesis
    using assms
  proof (cases rule: proc_next_cases)
    case (act a y)
    with one [of a] show ?thesis by (cases a) (simp_all del: sys_next.simps)
  next
    case (dispatch i clk c y)
    have "registration_pending n p"
      if "action_of i clk c = ActUnary ctx clk' (RpcRegister (Inr m))" and "RegisterRequest_NodeId m = n" for ctx clk' m
      using that map_of_SomeD [OF dispatch(2)]
      by (cases c) (force simp: registration_pending_def)+
    with one [of "action_of i clk c"] dispatch show ?thesis by simp
  qed (use path_start in \<open>auto intro!: exI [of _ "[]"]\<close>)
qed

lemma reload_all_append: "reload_all (ds @ ds') r = reload_all ds' (reload_all ds r)"
  by (induction ds arbitrary: r) simp_all

abbreviation proc_run where
  "proc_run lib codeString \<equiv> run_ops (proc_next lib codeString)"

lemma proc_run_cp:
  assumes "proc_run lib codeString evs p = Some q"
  shows "\<exists>ds. set ds \<subseteq> set (concat (map event_disks evs)) \<and>
    pr_cp q = (pr_cp p)\<lparr>cp_reloader := map_option (reload_all ds) (cp_reloader (pr_cp p))\<rparr>"
  using assms
proof (induction evs arbitrary: p)
  case Nil
  then show ?case by (intro exI [of _ "[]"]) (cases "cp_reloader (pr_cp p)"; cases "pr_cp p"; simp)
next
  case (Cons ev evs)
  then obtain p1 where p1: "proc_next lib codeString ev p = Some p1" "proc_run lib codeString evs p1 = Some q"
    by (auto split: option.splits)
  from proc_next_cp [OF p1(1)] obtain ds1 where ds1: "set ds1 \<subseteq> set (event_disks ev)"
    "pr_cp p1 = (pr_cp p)\<lparr>cp_reloader := map_option (reload_all ds1) (cp_reloader (pr_cp p))\<rparr>" by blast
  from Cons.IH [OF p1(2)] obtain ds2 where ds2: "set ds2 \<subseteq> set (concat (map event_disks evs))"
    "pr_cp q = (pr_cp p1)\<lparr>cp_reloader := map_option (reload_all ds2) (cp_reloader (pr_cp p1))\<rparr>" by blast
  from ds1 ds2 show ?case
    by (intro exI [of _ "ds1 @ ds2"]) (auto simp: option.map_comp comp_def reload_all_append)
qed

lemma config_of_reloader [simp]:
  "config_of lib codeString (cp\<lparr>cp_reloader := r\<rparr>) = config_of lib codeString cp"
  by (simp add: config_of_def)

lemma config_of_next:
  "proc_next lib codeString ev p = Some p' \<Longrightarrow>
     config_of lib codeString (pr_cp p') = config_of lib codeString (pr_cp p)"
  by (drule proc_next_cp) auto

lemma proc_run_sys:
  assumes "proc_run lib codeString evs p = Some q"
  shows "\<exists>ops. sys_path (config_of lib codeString (pr_cp p)) (pr_sys p) ops (pr_sys q) \<and>
    (\<not> accepting (pr_phase p) \<and> \<not> registration_pending n p \<longrightarrow> list_all (\<lambda>op. \<not> registers op n) ops)"
  using assms
proof (induction evs arbitrary: p)
  case Nil
  with path_start show ?case by (intro exI [of _ "[]"]) simp
next
  case (Cons ev evs)
  then obtain p1 where p1: "proc_next lib codeString ev p = Some p1" "proc_run lib codeString evs p1 = Some q"
    by (auto split: option.splits)
  note cfg = config_of_next [OF p1(1)]
  from proc_next_sys [OF p1(1), of n] obtain ops1 where
    ops1: "sys_path (config_of lib codeString (pr_cp p)) (pr_sys p) ops1 (pr_sys p1)"
    "\<not> registration_pending n p \<longrightarrow> list_all (\<lambda>op. \<not> registers op n) ops1" by blast
  from Cons.IH [OF p1(2)] obtain ops2 where
    ops2: "sys_path (config_of lib codeString (pr_cp p)) (pr_sys p1) ops2 (pr_sys q)"
    "\<not> accepting (pr_phase p1) \<and> \<not> registration_pending n p1 \<longrightarrow> list_all (\<lambda>op. \<not> registers op n) ops2"
    unfolding cfg by blast
  have "\<not> registration_pending n p1" if "\<not> accepting (pr_phase p)" "\<not> registration_pending n p"
    using pending_shrinks [OF p1(1) that(1)] that(2) by (auto simp: registration_pending_def)
  with sys_path_trans [OF ops2(1) ops1(1)] ops1(2) ops2(2) phase_moves_on [OF p1(1)] show ?case
    by (intro exI [of _ "ops1 @ ops2"]) auto
qed

lemma pending_shrinks_run:
  "proc_run lib codeString evs p = Some q \<Longrightarrow> \<not> accepting (pr_phase p) \<Longrightarrow> set (pr_pending q) \<subseteq> set (pr_pending p)"
proof (induction evs arbitrary: p)
  case (Cons ev evs)
  then obtain p1 where p1: "proc_next lib codeString ev p = Some p1" "proc_run lib codeString evs p1 = Some q"
    by (auto split: option.splits)
  from Cons.IH [OF p1(2)] phase_moves_on [OF p1(1)] pending_shrinks [OF p1(1)] Cons.prems(2) show ?case by blast
qed simp


subsection \<open>Shutting down\<close>

text \<open>Streams are opened by running a pending call, and by nothing else.\<close>

lemma streams_not_opened:
  assumes "sys_next cfg a y = Some (Inr y')" and "\<And>j ctx t. a \<noteq> ActOpen j ctx t"
  shows "open_streams (sys_streams y') \<le> open_streams (sys_streams y) \<and>
    (map_of (sys_streams y') i = None \<longleftrightarrow> map_of (sys_streams y) i = None)"
proof (cases a)
  case (ActStream j ev)
  with assms(1) obtain sr h where sr: "map_of (sys_streams y) j = Some sr"
    and y': "sys_streams y' = AList.update j (sr\<lparr>sr_hb := h\<rparr>) (sys_streams y)"
    by (auto split: option.splits sum.splits)
  from open_streams_update [OF sr, of "sr\<lparr>sr_hb := h\<rparr>"] sr show ?thesis
    by (auto simp: y' map_of_alist_update split: if_splits)
next
  case (ActFinish j stop)
  with assms(1) obtain sr where sr: "map_of (sys_streams y) j = Some sr" "sr_open sr"
    and y': "sys_streams y' = AList.update j (sr\<lparr>sr_open := False\<rparr>) (sys_streams y)"
    by (auto split: option.splits hb_pc.splits if_splits)
  from open_streams_update [OF sr(1), of "sr\<lparr>sr_open := False\<rparr>"] sr show ?thesis
    by (auto simp: y' map_of_alist_update split: if_splits)
qed (use assms in \<open>auto simp: Let_def case_prod_beta split: sum.splits prod.splits\<close>)

lemma may_act_not_open: "may_act ph a \<Longrightarrow> a \<noteq> ActOpen j ctx t"
  by auto

text \<open>
  \<open>main\<close> gets past \<open>GracefulStop\<close> only when no call is pending and no stream is open, and none is
  opened afterwards.
\<close>

definition quiet :: "('ctx, 'cert, 'pool) process \<Rightarrow> bool" where
  "quiet p \<longleftrightarrow> pr_pending p = [] \<and> open_streams (sys_streams (pr_sys p)) = 0"

definition drained :: "('ctx, 'cert, 'pool) process \<Rightarrow> bool" where
  "drained p \<longleftrightarrow> (pr_phase p \<in> {HttpStopping, Exited 0} \<longrightarrow> quiet p)"

lemma drained_next:
  assumes "proc_next lib codeString ev p = Some p'" and "drained p"
  shows "drained p'"
  using assms(1)
proof (cases rule: proc_next_cases)
  case main
  with assms show ?thesis
    by (cases ev) (auto simp: drained_def quiet_def live_def signal_received_def main_steps Let_def case_prod_beta
        simp del: Watch.simps signal_loop.simps split: if_splits option.splits)
next
  case (act a y)
  with assms(2) streams_not_opened [OF act(3) may_act_not_open [OF act(2)]] show ?thesis
    by (auto simp: drained_def quiet_def)
qed (use assms(2) in \<open>auto simp: drained_def phase_sets\<close>)

lemma drained_run: "proc_run lib codeString evs p = Some q \<Longrightarrow> drained p \<Longrightarrow> drained q"
  by (induction evs arbitrary: p) (auto dest: drained_next split: option.splits)

text \<open>
  While something the shutdown waits for lasts, \<open>main\<close> stays in the first step of it, unless a server
  fails or a handler panics.
\<close>

definition stuck :: "(('ctx, 'cert, 'pool) process \<Rightarrow> bool) \<Rightarrow> ('ctx, 'cert, 'pool) process \<Rightarrow> bool" where
  "stuck B p \<longleftrightarrow> pr_phase p = Exited 1 \<or> (\<exists>pn. pr_phase p = Crashed pn) \<or> pr_phase p = GrpcStopping \<and> B p"

lemma stuck_next:
  assumes "proc_next lib codeString ev p = Some p'" and "stuck B p" and "B p \<Longrightarrow> \<not> quiet p"
    and "B p \<Longrightarrow> (\<And>pn. pr_phase p' \<noteq> Crashed pn) \<Longrightarrow> B p'"
  shows "stuck B p'"
proof -
  from live_next [OF assms(1)] assms(2) have p: "pr_phase p = GrpcStopping" "B p"
    by (auto simp: live_def stuck_def)
  from assms(1) show ?thesis
  proof (cases rule: proc_next_cases)
    case main
    have "pr_phase p' = GrpcStopping \<or> pr_phase p' = Exited 1"
      using main(3-5) assms(1) p(1) assms(3) [OF p(2)]
      by (cases ev) (auto simp: quiet_def phase_sets main_steps Let_def case_prod_beta
          simp del: Watch.simps split: if_splits option.splits)
    with assms(4) [OF p(2)] show ?thesis by (auto simp: stuck_def)
  qed (use p assms(4) in \<open>auto simp: stuck_def accepting_def\<close>)
qed

lemma stuck_run:
  assumes "proc_run lib codeString evs p = Some q" and "stuck B p" and "\<And>p. B p \<Longrightarrow> \<not> quiet p"
    and "\<And>ev p p'. ev \<in> set evs \<Longrightarrow> proc_next lib codeString ev p = Some p' \<Longrightarrow> B p \<Longrightarrow>
      (\<And>pn. pr_phase p' \<noteq> Crashed pn) \<Longrightarrow> B p'"
  shows "stuck B q"
  using assms(1,2,4)
proof (induction evs arbitrary: p)
  case (Cons ev evs)
  then obtain p1 where p1: "proc_next lib codeString ev p = Some p1" "proc_run lib codeString evs p1 = Some q"
    by (auto split: option.splits)
  have "stuck B p1" by (rule stuck_next [OF p1(1) Cons.prems(2) assms(3)]) (use Cons.prems(3) p1(1) in auto)
  with Cons.IH [OF p1(2)] Cons.prems(3) show ?case by auto
qed simp

text \<open>A stream stays open until it ends, and a call stays pending until it is run.\<close>

definition stream_open :: "nat \<Rightarrow> 'ctx sys \<Rightarrow> bool" where
  "stream_open i y \<longleftrightarrow> (\<exists>sr. map_of (sys_streams y) i = Some sr \<and> sr_open sr)"

lemma stream_open_counted: "stream_open i y \<Longrightarrow> open_streams (sys_streams y) \<noteq> 0"
  by (force simp: stream_open_def open_streams_def filter_empty_conv dest: map_of_SomeD)

lemma stream_open_next:
  assumes "sys_next cfg a y = Some (Inr y')" and "stream_open i y" and "a \<notin> range (ActFinish i)"
  shows "stream_open i y'"
  using assms
  by (cases a) (auto simp: stream_open_def map_of_alist_update Let_def case_prod_beta
      split: option.splits sum.splits hb_pc.splits if_splits)

lemma open_stream_blocks:
  assumes "proc_run lib codeString evs p = Some q" and "pr_phase p = GrpcStopping"
    and "stream_open i (pr_sys p)" and "\<And>t. PrAction (ActFinish i t) \<notin> set evs"
  shows "stuck (\<lambda>p. stream_open i (pr_sys p)) q"
proof (rule stuck_run [OF assms(1)])
  fix ev and p p' :: "('a, 'b, 'c) process"
  assume ev: "ev \<in> set evs" "proc_next lib codeString ev p = Some p'" "stream_open i (pr_sys p)"
  from ev(2) show "stream_open i (pr_sys p')"
  proof (cases rule: proc_next_cases)
    case (act a y)
    with ev(1) assms(4) have "a \<notin> range (ActFinish i)" by auto
    with stream_open_next [OF act(3) ev(3)] act(4) show ?thesis by simp
  next
    case (dispatch j clk c y)
    have "action_of j clk c \<notin> range (ActFinish i)" by (cases c) auto
    with stream_open_next [OF dispatch(4) ev(3)] dispatch(5) show ?thesis by simp
  qed (use ev(3) in auto)
qed (use assms(2,3) stream_open_counted in \<open>auto simp: stuck_def quiet_def\<close>)

lemma pending_call_blocks:
  assumes "proc_run lib codeString evs p = Some q" and "pr_phase p = GrpcStopping"
    and "i \<in> fst ` set (pr_pending p)" and "\<And>clk. PrDispatch i clk \<notin> set evs"
  shows "stuck (\<lambda>p. i \<in> fst ` set (pr_pending p)) q"
proof (rule stuck_run [OF assms(1)])
  fix ev and p p' :: "('a, 'b, 'c) process"
  assume ev: "ev \<in> set evs" "proc_next lib codeString ev p = Some p'" "i \<in> fst ` set (pr_pending p)"
    and no_panic: "\<And>pn. pr_phase p' \<noteq> Crashed pn"
  from ev(2) show "i \<in> fst ` set (pr_pending p')"
  proof (cases rule: proc_next_cases)
    case (dispatch j clk c y)
    with ev(1) assms(4) have "j \<noteq> i" by auto
    with dispatch(5) ev(3) show ?thesis by (auto simp: set_alist_delete)
  qed (use ev(3) no_panic in auto)
qed (use assms(2,3) in \<open>auto simp: stuck_def quiet_def\<close>)

text \<open>A pending registration of an authenticated agent, with valid arguments, still reaches the registry.\<close>

lemma pending_registration_lands:
  assumes "sys_inv (pr_sys p)" and "grpc_up (pr_phase p)"
    and "map_of (pr_pending p) i = Some (PendingUnary ctx (RpcRegister (Inr m)))"
    and "validateBearerToken lib ctx (AgentServer_agentToken (cp_agentServer (pr_cp p))) = None"
    and "ValidateNodeID (RegisterRequest_NodeId m) = None" and "ValidateAddress (RegisterRequest_Address m) = None"
    and "ValidateVersion (RegisterRequest_AgentVersion m) = None" and "RegisterRequest_Resources m \<noteq> None"
  shows "\<exists>p'. proc_next lib codeString (PrDispatch i clk) p = Some p' \<and> pr_phase p' = pr_phase p \<and>
    conn_of (srv_registry (sys_server (pr_sys p'))) (RegisterRequest_NodeId m) = Some
      (case conn_of (srv_registry (sys_server (pr_sys p))) (RegisterRequest_NodeId m) of Some c \<Rightarrow> c + 1 | None \<Rightarrow> 1)"
proof -
  let ?cfg = "config_of lib codeString (pr_cp p)" and ?a = "ActUnary ctx clk (RpcRegister (Inr m))"
  have lib: "cfg_lib ?cfg = lib" "cfg_server ?cfg = cp_agentServer (pr_cp p)" by (simp_all add: config_of_def)
  obtain err st where "serve_rpc ?cfg clk ctx (RpcRegister (Inr m)) (sys_server (pr_sys p)) = Inr (err, st)"
    using serve_rpc_panics_iff [of ?cfg clk ctx "RpcRegister (Inr m)" "sys_server (pr_sys p)"] assms(8)
    by (cases "serve_rpc ?cfg clk ctx (RpcRegister (Inr m)) (sys_server (pr_sys p))") (auto simp del: serve_rpc.simps)
  then have next_sys: "sys_next ?cfg ?a (pr_sys p) = Some (Inr ((pr_sys p)\<lparr>sys_server := st\<rparr>))"
    by (simp del: serve_rpc.simps)
  have "cache_ok (knownMethods (sys_server (pr_sys p)))" using assms(1) by (simp add: sys_inv_def Let_def)
  from sys_next_registry [OF this next_sys] assms(4-8) obtain ops where
    "NodeRegistry_Register (srv_registry (sys_server (pr_sys p))) (clk_now clk) (RegisterRequest_NodeId m)
       (RegisterRequest_Address m) (RegisterRequest_Resources m) = Inr (srv_registry st, ops)"
    by (auto simp: lib Register_rules_pass reg_next_Some split: sum.splits)
  from conn_of_Register [OF this] next_sys assms(2,3) show ?thesis
    by (simp add: grpc_dispatch_def take_action_def config_of_def del: sys_next.simps)
qed


subsection \<open>Properties\<close>

lemma boot_start:
  assumes "main_start fl hostname uuid listen d = Inr (cp, ops)"
  shows "pr_sys (boot cp ops) = sys_init" and "cp_agentServer cp =
    NewAgentServer (cluster_id fl uuid) (leader_addr fl) (agentToken fl)"
proof -
  have "cp_registry cp = NewNodeRegistry \<and> cp_agentServer cp =
      NewAgentServer (cluster_id fl uuid) (leader_addr fl) (agentToken fl)"
    using assms by (auto simp: main_start_def split: if_splits sum.splits prod.splits)
  then show "pr_sys (boot cp ops) = sys_init" and "cp_agentServer cp =
      NewAgentServer (cluster_id fl uuid) (leader_addr fl) (agentToken fl)"
    by (simp_all add: boot_def sys_init_def idle_server_def)
qed

text \<open>\<^bold>\<open>C3\<close>
  The process refines the system. Whatever flags it was started with and whatever happens to it, through
  signals, polls, failing servers and the shutdown, up to its end: its server state is one the system of
  calls, streams and sweeps reaches from the empty registry under the configured token, so that every
  invariant of that system holds in every phase; and its control plane is the one it started with, its
  certificate reloaded from some of the disks it met.
\<close>

theorem process_refines_system:
  assumes "main_start fl hostname uuid listen d = Inr (cp, ops0)"
    and "proc_run lib codeString evs (boot cp ops0) = Some p"
  shows "(\<exists>ops. sys_path \<lparr>cfg_lib = lib, cfg_codeString = codeString, cfg_server =
        NewAgentServer (cluster_id fl uuid) (leader_addr fl) (agentToken fl)\<rparr> sys_init ops (pr_sys p)) \<and>
    sys_inv (pr_sys p) \<and>
    (\<exists>ds. set ds \<subseteq> set (concat (map event_disks evs)) \<and>
       pr_cp p = cp\<lparr>cp_reloader := map_option (reload_all ds) (cp_reloader cp)\<rparr>)"
proof -
  have cp: "pr_cp (boot cp ops0) = cp" by (simp add: boot_def)
  from proc_run_sys [OF assms(2)] obtain ops where
    "sys_path (config_of lib codeString cp) sys_init ops (pr_sys p)"
    unfolding boot_start(1) [OF assms(1)] cp by blast
  with sys_inv_path [OF this sys_inv_init] proc_run_cp [OF assms(2), unfolded cp]
  show ?thesis unfolding config_of_def boot_start(2) [OF assms(1)] by blast
qed

lemma boot_run:
  assumes "main_start fl hostname uuid listen d = Inr (cp, ops0)"
    and "proc_run lib codeString evs (boot cp ops0) = Some p"
  shows "sys_inv (pr_sys p)" and "drained p" and "cp_agentServer (pr_cp p) =
    NewAgentServer (cluster_id fl uuid) (leader_addr fl) (agentToken fl)"
proof -
  have cp: "pr_cp (boot cp ops0) = cp" by (simp add: boot_def)
  from proc_run_sys [OF assms(2)] obtain ops where "sys_path (config_of lib codeString cp) sys_init ops (pr_sys p)"
    unfolding boot_start(1) [OF assms(1)] cp by blast
  then show "sys_inv (pr_sys p)" by (rule sys_inv_path [OF _ sys_inv_init])
  show "drained p" by (rule drained_run [OF assms(2)]) (simp add: drained_def boot_def)
  from proc_run_cp [OF assms(2)] boot_start(2) [OF assms(1)] show "cp_agentServer (pr_cp p) =
    NewAgentServer (cluster_id fl uuid) (leader_addr fl) (agentToken fl)" unfolding cp by auto
qed

text \<open>\<^bold>\<open>C14\<close>
  The shutdown, from the moment \<open>main\<close> asks the gRPC server to stop. No further call is accepted, and no
  further signal has an effect; all the while the health probe answers 200. A call that was accepted
  before may still run: a pending registration of an authenticated agent with valid arguments still
  reaches the registry and gives its node the next connection number. A node that no pending call
  registers keeps its connection number or is removed. While a pending call is not run, or a heartbeat
  stream stays open, \<open>main\<close> does not get past stopping the gRPC server: no bound of the program ends the
  wait, and the process ends only by a failing server or a panic. It exits with status 0 only when no
  call is pending and no stream is open, and as soon as that is so, it does.
\<close>

theorem shutdown:
  assumes "main_start fl hostname uuid listen d = Inr (cp, ops0)"
    and "proc_run lib codeString evs0 (boot cp ops0) = Some p" and "pr_phase p = GrpcStopping"
    and "proc_run lib codeString evs p = Some q"
  shows "set (pr_pending q) \<subseteq> set (pr_pending p) \<and>
    proc_next lib codeString (PrSignal sig d') p = Some p \<and>
    (\<exists>resp. http_answer CloneOf zone exporter not_found p (r\<lparr>req_path := ''/health''\<rparr>) = Some (Inr resp) \<and>
       resp_status resp = Some 200) \<and>
    (map_of (pr_pending p) i = Some (PendingUnary ctx (RpcRegister (Inr m))) \<and>
       validateBearerToken lib ctx (agentToken fl) = None \<and> ValidateNodeID (RegisterRequest_NodeId m) = None \<and>
       ValidateAddress (RegisterRequest_Address m) = None \<and> ValidateVersion (RegisterRequest_AgentVersion m) = None \<and>
       RegisterRequest_Resources m \<noteq> None \<longrightarrow>
       (\<exists>p'. proc_next lib codeString (PrDispatch i clk) p = Some p' \<and> pr_phase p' = GrpcStopping \<and>
          conn_of (srv_registry (sys_server (pr_sys p'))) (RegisterRequest_NodeId m) = Some
            (case conn_of (srv_registry (sys_server (pr_sys p))) (RegisterRequest_NodeId m) of
               Some c \<Rightarrow> c + 1 | None \<Rightarrow> 1))) \<and>
    (\<not> registration_pending n p \<longrightarrow>
       conn_of (srv_registry (sys_server (pr_sys q))) n = conn_of (srv_registry (sys_server (pr_sys p))) n \<or>
       conn_of (srv_registry (sys_server (pr_sys q))) n = None) \<and>
    (stream_open i (pr_sys p) \<and> (\<forall>t. PrAction (ActFinish i t) \<notin> set evs) \<or>
       i \<in> fst ` set (pr_pending p) \<and> (\<forall>clk. PrDispatch i clk \<notin> set evs) \<longrightarrow>
       pr_phase q = GrpcStopping \<or> pr_phase q = Exited 1 \<or> (\<exists>pn. pr_phase q = Crashed pn)) \<and>
    (pr_phase q = Exited 0 \<longrightarrow> pr_pending q = [] \<and> open_streams (sys_streams (pr_sys q)) = 0) \<and>
    (pr_pending p = [] \<and> open_streams (sys_streams (pr_sys p)) = 0 \<longrightarrow>
       (\<exists>r. proc_run lib codeString [PrGracefulStop, PrHttpShutdown err] p = Some r \<and> pr_phase r = Exited 0))"
proof (intro conjI impI)
  have closed: "\<not> accepting (pr_phase p)" by (simp add: assms(3) accepting_def)
  note inv = boot_run [OF assms(1,2)]
  show "set (pr_pending q) \<subseteq> set (pr_pending p)" by (rule pending_shrinks_run [OF assms(4) closed])
  show "proc_next lib codeString (PrSignal sig d') p = Some p" by (simp add: live_def assms(3))
  show "\<exists>resp. http_answer CloneOf zone exporter not_found p (r\<lparr>req_path := ''/health''\<rparr>) = Some (Inr resp) \<and>
      resp_status resp = Some 200"
    by (simp add: http_answer_def grpc_up_def assms(3) main_mux_def HealthHandler_def json_reply)
  show "\<exists>p'. proc_next lib codeString (PrDispatch i clk) p = Some p' \<and> pr_phase p' = GrpcStopping \<and>
      conn_of (srv_registry (sys_server (pr_sys p'))) (RegisterRequest_NodeId m) = Some
        (case conn_of (srv_registry (sys_server (pr_sys p))) (RegisterRequest_NodeId m) of
           Some c \<Rightarrow> c + 1 | None \<Rightarrow> 1)"
    if "map_of (pr_pending p) i = Some (PendingUnary ctx (RpcRegister (Inr m))) \<and>
      validateBearerToken lib ctx (agentToken fl) = None \<and> ValidateNodeID (RegisterRequest_NodeId m) = None \<and>
      ValidateAddress (RegisterRequest_Address m) = None \<and> ValidateVersion (RegisterRequest_AgentVersion m) = None \<and>
      RegisterRequest_Resources m \<noteq> None"
    using pending_registration_lands [OF inv(1), of i ctx m lib codeString clk] that inv(3) assms(3)
    by (simp add: grpc_up_def NewAgentServer_def)
  from proc_run_sys [OF assms(4), of n] closed obtain ops where
    path: "sys_path (config_of lib codeString (pr_cp p)) (pr_sys p) ops (pr_sys q)"
      "\<not> registration_pending n p \<longrightarrow> list_all (\<lambda>op. \<not> registers op n) ops" by auto
  show "conn_of (srv_registry (sys_server (pr_sys q))) n = conn_of (srv_registry (sys_server (pr_sys p))) n \<or>
      conn_of (srv_registry (sys_server (pr_sys q))) n = None" if "\<not> registration_pending n p"
    by (rule reg_conn.unregistered_run [OF sys_path_run_ops [OF path(1) inv(1)]]) (use path(2) that in blast)
  show "pr_phase q = GrpcStopping \<or> pr_phase q = Exited 1 \<or> (\<exists>pn. pr_phase q = Crashed pn)"
    if "stream_open i (pr_sys p) \<and> (\<forall>t. PrAction (ActFinish i t) \<notin> set evs) \<or>
       i \<in> fst ` set (pr_pending p) \<and> (\<forall>clk. PrDispatch i clk \<notin> set evs)"
    using that open_stream_blocks [OF assms(4,3), of i] pending_call_blocks [OF assms(4,3), of i]
    unfolding stuck_def by blast
  from drained_run [OF assms(4) inv(2)]
  show "pr_pending q = []" and "open_streams (sys_streams (pr_sys q)) = 0" if "pr_phase q = Exited 0"
    using that by (simp_all add: drained_def quiet_def)
  show "\<exists>r. proc_run lib codeString [PrGracefulStop, PrHttpShutdown err] p = Some r \<and> pr_phase r = Exited 0"
    if "pr_pending p = [] \<and> open_streams (sys_streams (pr_sys p)) = 0"
    using that assms(3) by (simp add: graceful_stop_returned_def http_shutdown_returned_def)
qed


text \<open>
  Actions of the system, taken while the process serves: a unary call is accepted under a number that
  no stream has, and run.
\<close>

fun events_of :: "nat \<Rightarrow> 'ctx action \<Rightarrow> ('ctx, 'cert, 'pool) proc_event list" where
  "events_of k (ActUnary ctx clk call) = [PrAccept k (PendingUnary ctx call), PrDispatch k clk]"
| "events_of k (ActOpen i ctx t) = [PrAccept i (PendingStream ctx), PrDispatch i (demo_clock t)]"
| "events_of k a = [PrAction a]"

fun opens :: "nat \<Rightarrow> 'ctx action \<Rightarrow> bool" where
  "opens k (ActOpen i ctx t) = (i = k)"
| "opens k _ = False"

lemma events_of_run:
  assumes "sys_next (config_of lib codeString (pr_cp p)) a (pr_sys p) = Some (Inr y)"
    and "pr_phase p = Serving" and "pr_pending p = []" and "map_of (sys_streams (pr_sys p)) k = None"
  shows "proc_run lib codeString (events_of k a) p = Some (p\<lparr>pr_sys := y\<rparr>)"
proof (cases a)
  case (ActUnary ctx clk call)
  with assms show ?thesis
    by (simp add: grpc_accept_def grpc_dispatch_def take_action_def phase_sets config_of_def del: sys_next.simps)
next
  case (ActOpen i ctx t)
  then have "map_of (sys_streams (pr_sys p)) i = None" using assms(1) by (auto split: option.splits)
  with ActOpen assms show ?thesis
    by (simp add: grpc_accept_def grpc_dispatch_def take_action_def phase_sets config_of_def demo_clock_def
        del: sys_next.simps)
qed (use assms in \<open>simp_all add: take_action_def phase_sets del: sys_next.simps\<close>)

lemma proc_run_actions:
  assumes "run_sys (config_of lib codeString (pr_cp p)) acts (pr_sys p) = Some (ops, y)" and "pr_phase p = Serving"
    and "pr_pending p = []" and "map_of (sys_streams (pr_sys p)) k = None" and "list_all (\<lambda>a. \<not> opens k a) acts"
  shows "proc_run lib codeString (concat (map (events_of k) acts)) p = Some (p\<lparr>pr_sys := y\<rparr>)"
  using assms
proof (induction acts arbitrary: p ops)
  case (Cons a acts)
  then obtain y1 ops1 where y1: "sys_next (config_of lib codeString (pr_cp p)) a (pr_sys p) = Some (Inr y1)"
    and rest: "run_sys (config_of lib codeString (pr_cp p)) acts y1 = Some (ops1, y)"
    by (auto simp del: sys_next.simps split: option.splits sum.splits prod.splits)
  have "map_of (sys_streams y1) k = None"
  proof (cases a)
    case (ActOpen i ctx t)
    with y1 Cons.prems(4,5) show ?thesis by (auto simp: Let_def case_prod_beta split: option.splits)
  qed (use streams_not_opened [OF y1, of k] Cons.prems(4) in auto)
  with events_of_run [OF y1 Cons.prems(2-4)] Cons.IH [of "p\<lparr>pr_sys := y1\<rparr>" ops1] Cons.prems(2,3,5) rest
  show ?case by (simp add: run_ops_append)
qed simp

text \<open>
  A start without TLS, the small run of the system, and a \<^verbatim>\<open>SIGTERM\<close> while its stream is open. In the second
  life one more registration is accepted between the signal and the call of \<open>GracefulStop\<close>.
\<close>

abbreviation demo_code :: "go_error \<Rightarrow> string" where
  "demo_code \<equiv> cfg_codeString demo_config"

definition demo_disk :: "(string, string) disk" where
  "demo_disk = sample_disk 5"

definition demo_cp :: "(string, string) control_plane" where
  "demo_cp =
     \<lparr>cp_nodeID = ''h'', cp_registry = NewNodeRegistry, cp_tlsEnabled = False, cp_reloader = None, cp_watch = None,
      cp_keepalive = keepalive_params,
      cp_agentServer = NewAgentServer ''cluster-001'' ''localhost:9000'' '''',
      cp_services = RegisterAgentServiceServer [], cp_api = NewAPIServer '''' False,
      cp_httpServer = http_server default_flags\<rparr>"

definition demo_life :: "(string list, string, string) proc_event list" where
  "demo_life = concat (map (events_of 7) demo_opening) @ [PrSignal SIGTERM demo_disk, PrStop]"

definition demo_stopping :: "(string list, string, string) process" where
  "demo_stopping = (boot demo_cp [])\<lparr>pr_sys := demo_y0, pr_phase := GrpcStopping,
     pr_log := [''compute-control-plane initialized and ready'', ''shutting down'']\<rparr>"

definition demo_request :: RegisterRequest where
  "demo_request = \<lparr>RegisterRequest_NodeId = ''late'', RegisterRequest_Address = ''b:1'',
     RegisterRequest_Resources = Some NodeResources_zero, RegisterRequest_AgentVersion = ''1.0''\<rparr>"

definition demo_late_life :: "(string list, string, string) proc_event list" where
  "demo_late_life = concat (map (events_of 7) demo_opening) @
     [PrSignal SIGTERM demo_disk, PrAccept 8 (PendingUnary [] (RpcRegister (Inr demo_request))), PrStop]"

definition demo_late :: "(string list, string, string) process" where
  "demo_late = demo_stopping\<lparr>pr_pending := [(8, PendingUnary [] (RpcRegister (Inr demo_request)))]\<rparr>"

lemma demo_start_runs: "main_start default_flags ''h'' ''u'' None demo_disk = Inr (demo_cp, [])"
  by (simp add: demo_cp_def main_start_def tls_switch_def default_flags_def node_id_def cluster_id_def leader_addr_def)

lemma demo_config_of: "config_of sample_lib demo_code demo_cp = demo_config"
  by (simp add: config_of_def demo_cp_def demo_config_def)

lemma demo_opening_runs:
  "proc_run sample_lib demo_code (concat (map (events_of 7) demo_opening)) (boot demo_cp []) =
     Some ((boot demo_cp [])\<lparr>pr_sys := demo_y0\<rparr>)"
proof (rule proc_run_actions)
  have boot: "pr_cp (boot demo_cp []) = demo_cp" by (simp add: boot_def)
  show "run_sys (config_of sample_lib demo_code (pr_cp (boot demo_cp []))) demo_opening (pr_sys (boot demo_cp []))
      = Some (demo_ops0, demo_y0)"
    unfolding boot demo_config_of boot_start(1) [OF demo_start_runs] by (rule demo_opening_run)
  show "map_of (sys_streams (pr_sys (boot demo_cp []))) 7 = None"
    unfolding boot_start(1) [OF demo_start_runs] by (simp add: sys_init_def)
qed (simp_all add: boot_def demo_opening_def demo_register_def)

lemma demo_life_runs: "proc_run sample_lib demo_code demo_life (boot demo_cp []) = Some demo_stopping"
  by (simp add: demo_life_def run_ops_append demo_opening_runs)
     (simp add: demo_stopping_def live_def boot_def signal_received_def graceful_stop_called_def demo_cp_def)

lemma demo_late_life_runs: "proc_run sample_lib demo_code demo_late_life (boot demo_cp []) = Some demo_late"
  by (simp add: demo_late_life_def run_ops_append demo_opening_runs)
     (simp add: demo_late_def demo_stopping_def phase_sets boot_def signal_received_def graceful_stop_called_def
        grpc_accept_def demo_cp_def demo_y0_def)

lemma demo_stopping_phase: "pr_phase demo_stopping = GrpcStopping"
  by (simp add: demo_stopping_def)

lemma demo_stopping_open: "stream_open 0 (pr_sys demo_stopping)"
  by (simp add: demo_stopping_def stream_open_def demo_y0_def demo_stream_def)

theorem process_refines_system_witness:
  "\<exists>p. proc_run sample_lib demo_code demo_life (boot demo_cp []) = Some p \<and>
     pr_phase p = GrpcStopping \<and> sys_inv (pr_sys p)"
  using process_refines_system [OF demo_start_runs demo_life_runs] demo_life_runs demo_stopping_phase by blast

theorem shutdown_witness:
  "\<exists>q p'. proc_run sample_lib demo_code [PrSignal SIGINT demo_disk, PrAction (ActSweep 3)] demo_late = Some q \<and>
     (pr_phase q = GrpcStopping \<or> pr_phase q = Exited 1 \<or> (\<exists>pn. pr_phase q = Crashed pn)) \<and>
     proc_next sample_lib demo_code (PrDispatch 8 (demo_clock 9)) demo_late = Some p' \<and>
     conn_of (srv_registry (sys_server (pr_sys p'))) ''late'' = Some 1"
proof -
  have phase: "pr_phase demo_late = GrpcStopping" by (simp add: demo_late_def demo_stopping_phase)
  have "\<exists>q. proc_run sample_lib demo_code [PrSignal SIGINT demo_disk, PrAction (ActSweep 3)] demo_late = Some q"
    by (simp add: phase phase_sets take_action_def Let_def case_prod_beta)
  then obtain q where q: "proc_run sample_lib demo_code
      [PrSignal SIGINT demo_disk, PrAction (ActSweep 3)] demo_late = Some q" ..
  have pending: "map_of (pr_pending demo_late) 8 = Some (PendingUnary [] (RpcRegister (Inr demo_request)))"
    by (simp add: demo_late_def)
  have "first_failure 0 Register_rules demo_request = None" by code_simp
  then have ok: "ValidateNodeID (RegisterRequest_NodeId demo_request) = None"
    "ValidateAddress (RegisterRequest_Address demo_request) = None"
    "ValidateVersion (RegisterRequest_AgentVersion demo_request) = None" by (simp_all add: Register_rules_pass)
  have known: "RegisterRequest_NodeId demo_request = ''late''" "RegisterRequest_Resources demo_request \<noteq> None"
    "validateBearerToken sample_lib [] (agentToken default_flags) = None"
    "conn_of (srv_registry (sys_server (pr_sys demo_late))) ''late'' = None"
    by (simp_all add: demo_request_def default_flags_def validateBearerToken_def conn_of_def demo_late_def
        demo_stopping_def demo_y0_def)
  have waits: "8 \<in> fst ` set (pr_pending demo_late)"
    "\<forall>clk. PrDispatch 8 clk \<notin> set [PrSignal SIGINT demo_disk, PrAction (ActSweep 3)]"
    by (simp_all add: demo_late_def)
  note s = shutdown [OF demo_start_runs demo_late_life_runs phase q, where i = 8 and m = demo_request and ctx = "[]"
      and clk = "demo_clock 9"]
  from s waits have "pr_phase q = GrpcStopping \<or> pr_phase q = Exited 1 \<or> (\<exists>pn. pr_phase q = Crashed pn)" by blast
  moreover from s pending ok known(2,3) obtain p' where
    "proc_next sample_lib demo_code (PrDispatch 8 (demo_clock 9)) demo_late = Some p'"
    "conn_of (srv_registry (sys_server (pr_sys p'))) (RegisterRequest_NodeId demo_request) = Some
       (case conn_of (srv_registry (sys_server (pr_sys demo_late))) (RegisterRequest_NodeId demo_request) of
          Some c \<Rightarrow> c + 1 | None \<Rightarrow> 1)" by blast
  ultimately show ?thesis using q known(1,4) by auto
qed

end
