(* ===== verification/Drain.thy ===== *)
theory Drain
  imports Lifecycle
begin

text \<open>
  How a shutdown ends once the agents fall silent: a weight on the pending calls, on the streams and on
  the phase of the process, which every run of a call, every step of a stream's handler, every end of a
  stream and every step of \<open>main\<close> brings down.
  And when it ends if they do not: the age of connections the server is configured with bounds the time
  in which messages can still arrive.
\<close>

subsection \<open>Weight of a stream\<close>

text \<open>The steps a handler has left when no message reaches it any more.\<close>

fun hb_weight :: "hb_pc \<Rightarrow> nat" where
  "hb_weight HbOpened = 2"
| "hb_weight HbRecvFirst = 1"
| "hb_weight (HbGetConnID m) = 5"
| "hb_weight (HbUpdateFirst m c) = 4"
| "hb_weight (HbSendFirst m c) = 3"
| "hb_weight (HbRecv n c) = 2"
| "hb_weight (HbUpdate n c m) = 3"
| "hb_weight (HbRemove n c err) = 1"
| "hb_weight (HbReturned err) = 0"

fun brings_message :: "hb_event \<Rightarrow> bool" where
  "brings_message (HbReceived (Inr m)) = True"
| "brings_message _ = False"

lemma Heartbeat_main_weight:
  assumes "Heartbeat_main lib s ctx pc ev st = Some (Inr (pc', st'))" and "\<not> brings_message ev"
  shows "hb_weight pc' < hb_weight pc"
  using assms
  by (cases "(lib, s, ctx, pc, ev, st)" rule: Heartbeat_main.cases)
     (auto simp: Let_def split: if_splits sum.splits option.splits)

lemma hb_step_weight:
  assumes "AgentServer_Heartbeat lib s ctx ev h st = Some (Inr (h', st'))" and "\<not> brings_message ev"
  shows "hb_weight (hb_pc h') + (if of_handler ev then 1 else 0) \<le> hb_weight (hb_pc h)"
  using assms(1)
proof (cases rule: AgentServer_Heartbeat_cases)
  case (main pc')
  with Heartbeat_main_weight [OF main(1) assms(2)] show ?thesis by simp
qed (use assms(2) in \<open>auto simp: ack_tick_def ack_done_def split: if_splits option.splits\<close>)

lemma hb_step_returned:
  assumes "AgentServer_Heartbeat lib s ctx ev h st = Some (Inr (h', st'))" and "hb_returned (hb_pc h)"
  shows "hb_pc h' = hb_pc h \<and> \<not> of_handler ev"
  using assms
  by (cases "hb_pc h"; cases ev)
     (auto simp: AgentServer_Heartbeat_def ack_tick_def ack_done_def split: option.splits if_splits)

text \<open>What a handler can do next when its agent has gone.\<close>

fun hb_alone :: "hb_pc \<Rightarrow> hb_event" where
  "hb_alone HbRecvFirst = HbReceived (Inl EOF)"
| "hb_alone (HbSendFirst m c) = HbSentFirst None"
| "hb_alone (HbRecv n c) = HbReceived (Inl EOF)"
| "hb_alone _ = HbGo 0"

lemma hb_alone_possible:
  assumes "\<not> hb_returned (hb_pc h)"
  shows "AgentServer_Heartbeat lib s ctx (hb_alone (hb_pc h)) h st \<noteq> None"
    and "\<not> brings_message (hb_alone (hb_pc h))" and "of_handler (hb_alone (hb_pc h))"
  using assms
  by (cases "hb_pc h"; simp add: AgentServer_Heartbeat_def Let_def split: option.split sum.split prod.split)+

subsection \<open>Weight of the streams\<close>

definition stream_weight :: "'ctx stream_rec \<Rightarrow> nat" where
  "stream_weight sr = (if sr_open sr then Suc (hb_weight (hb_pc (sr_hb sr))) else 0)"

definition streams_weight :: "(nat \<times> 'ctx stream_rec) list \<Rightarrow> nat" where
  "streams_weight streams = sum_list (map (stream_weight \<circ> snd) streams)"

lemma streams_weight_update:
  "map_of streams i = Some sr \<Longrightarrow>
     streams_weight (AList.update i sr' streams) + stream_weight sr = streams_weight streams + stream_weight sr'"
  by (induction streams) (auto simp: streams_weight_def)

lemma streams_weight_le: "streams_weight streams \<le> 6 * open_streams streams"
proof (induction streams)
  case (Cons e streams)
  have "hb_weight (hb_pc (sr_hb (snd e))) \<le> 5" by (cases "hb_pc (sr_hb (snd e))") simp_all
  with Cons show ?case by (auto simp: streams_weight_def open_streams_def stream_weight_def)
qed (simp add: streams_weight_def)

text \<open>Streams are told apart by their numbers, and a stream that was left has returned.\<close>

definition streams_ok :: "'ctx sys \<Rightarrow> bool" where
  "streams_ok y \<longleftrightarrow> distinct (map fst (sys_streams y)) \<and>
     (\<forall>i sr. map_of (sys_streams y) i = Some sr \<longrightarrow> \<not> sr_open sr \<longrightarrow> hb_returned (hb_pc (sr_hb sr)))"

lemma streams_ok_next:
  assumes "sys_next cfg a y = Some (Inr y')" and "streams_ok y"
  shows "streams_ok y'"
proof (cases a)
  case (ActStream i ev)
  with assms(1) obtain sr h st where sr: "map_of (sys_streams y) i = Some sr"
    and step: "AgentServer_Heartbeat (cfg_lib cfg) (cfg_server cfg) (sr_ctx sr) ev (sr_hb sr) (sys_server y)
      = Some (Inr (h, st))"
    and y': "y' = y\<lparr>sys_server := st, sys_streams := AList.update i (sr\<lparr>sr_hb := h\<rparr>) (sys_streams y)\<rparr>"
    by (auto split: option.splits sum.splits)
  with assms(2) hb_step_returned [OF step] show ?thesis
    by (auto simp: streams_ok_def map_of_alist_update AList.distinct_update)
next
  case (ActOpen i ctx start)
  with assms show ?thesis
    by (auto simp: streams_ok_def Let_def case_prod_beta map_of_eq_None_iff split: option.splits if_splits)
next
  case (ActFinish i stop)
  with assms show ?thesis
    by (auto simp: streams_ok_def map_of_alist_update AList.distinct_update
        split: option.splits hb_pc.splits if_splits)
qed (use assms in \<open>auto simp: streams_ok_def Let_def case_prod_beta split: sum.splits prod.splits\<close>)

text \<open>The same for a process: its pending calls have numbers of their own, which no stream has.\<close>

definition calls_ok :: "('ctx, 'cert, 'pool) process \<Rightarrow> bool" where
  "calls_ok p \<longleftrightarrow> streams_ok (pr_sys p) \<and> distinct (map fst (pr_pending p)) \<and>
     (\<forall>i\<in>fst ` set (pr_pending p). map_of (sys_streams (pr_sys p)) i = None)"

lemma calls_ok_next:
  assumes "proc_next lib codeString ev p = Some p'" and "calls_ok p"
  shows "calls_ok p'"
  using assms(1)
proof (cases rule: proc_next_cases)
  case (act a y)
  from streams_ok_next [OF act(3)] streams_not_opened [OF act(3) may_act_not_open [OF act(2)]] act(4) assms(2)
  show ?thesis by (auto simp: calls_ok_def)
next
  case (dispatch i clk c y)
  have "map_of (sys_streams y) j = None" if "j \<noteq> i" and "map_of (sys_streams (pr_sys p)) j = None" for j
    using dispatch(4) that by (cases c) (auto simp: Let_def case_prod_beta split: option.splits sum.splits)
  with streams_ok_next [OF dispatch(4)] dispatch(5) assms(2) show ?thesis
    by (auto simp: calls_ok_def set_alist_delete intro: AList.distinct_delete)
qed (use assms(2) in \<open>auto simp: calls_ok_def set_alist_delete intro: AList.distinct_delete\<close>)

lemma calls_ok_run: "proc_run lib codeString evs p = Some q \<Longrightarrow> calls_ok p \<Longrightarrow> calls_ok q"
  by (induction evs arbitrary: p) (auto dest: calls_ok_next split: option.splits)

lemma calls_ok_boot:
  assumes "main_start fl hostname uuid listen d = Inr (cp, ops0)"
    and "proc_run lib codeString evs (boot cp ops0) = Some p"
  shows "calls_ok p"
  by (rule calls_ok_run [OF assms(2)])
     (unfold calls_ok_def boot_start(1) [OF assms(1)], simp add: boot_def streams_ok_def sys_init_def)

subsection \<open>Weight of the process\<close>

text \<open>Running a pending stream opens it, with three steps to go.\<close>

fun pending_weight :: "'ctx pending \<Rightarrow> nat" where
  "pending_weight (PendingUnary ctx call) = 1"
| "pending_weight (PendingStream ctx) = 4"

definition pendings_weight :: "(nat \<times> 'ctx pending) list \<Rightarrow> nat" where
  "pendings_weight ps = sum_list (map (pending_weight \<circ> snd) ps)"

lemma pendings_weight_delete:
  "distinct (map fst ps) \<Longrightarrow> map_of ps i = Some c \<Longrightarrow>
     pendings_weight (AList.delete i ps) + pending_weight c = pendings_weight ps"
  by (induction ps) (auto simp: pendings_weight_def)

lemma pendings_weight_le: "pendings_weight ps \<le> 6 * length ps"
proof (induction ps)
  case (Cons e ps)
  then show ?case by (cases "snd e") (simp_all add: pendings_weight_def)
qed (simp add: pendings_weight_def)

text \<open>The calls a stopping server waits for.\<close>

definition open_calls :: "('ctx, 'cert, 'pool) process \<Rightarrow> nat" where
  "open_calls p = length (pr_pending p) + open_streams (sys_streams (pr_sys p))"

definition calls_weight :: "('ctx, 'cert, 'pool) process \<Rightarrow> nat" where
  "calls_weight p = pendings_weight (pr_pending p) + streams_weight (sys_streams (pr_sys p))"

lemma calls_weight_le: "calls_weight p \<le> 6 * open_calls p"
  using pendings_weight_le [of "pr_pending p"] streams_weight_le [of "sys_streams (pr_sys p)"]
  by (simp add: calls_weight_def open_calls_def)

lemma dispatch_weight:
  assumes "sys_next cfg (action_of i clk c) y = Some (Inr y')"
  shows "streams_weight (sys_streams y') + 1 \<le> streams_weight (sys_streams y) + pending_weight c"
  using assms
  by (cases c) (auto simp: Let_def case_prod_beta streams_weight_def stream_weight_def hb_open_def
      split: option.splits sum.splits)

definition process_weight :: "('ctx, 'cert, 'pool) process \<Rightarrow> nat" where
  "process_weight p =
     (if pr_phase p = GrpcStopping then calls_weight p + 2
      else if pr_phase p = HttpStopping then 1 else 0)"

fun action_message :: "'ctx action \<Rightarrow> bool" where
  "action_message (ActStream i ev) = brings_message ev"
| "action_message _ = False"

fun receives_message :: "('ctx, 'cert, 'pool) proc_event \<Rightarrow> bool" where
  "receives_message (PrAction a) = action_message a"
| "receives_message _ = False"

fun action_progress :: "'ctx action \<Rightarrow> bool" where
  "action_progress (ActStream i ev) = of_handler ev"
| "action_progress (ActFinish i t) = True"
| "action_progress _ = False"

fun progress :: "('ctx, 'cert, 'pool) proc_event \<Rightarrow> bool" where
  "progress (PrDispatch i clk) = True"
| "progress (PrAction a) = action_progress a"
| "progress PrGracefulStop = True"
| "progress (PrHttpShutdown err) = True"
| "progress _ = False"

lemma action_weight:
  assumes "sys_next cfg a y = Some (Inr y')" and "streams_ok y" and "may_act ph a" and "\<not> action_message a"
  shows "streams_weight (sys_streams y') + (if action_progress a then 1 else 0) \<le> streams_weight (sys_streams y)"
proof (cases a)
  case (ActStream i ev)
  with assms(1) obtain sr h st where sr: "map_of (sys_streams y) i = Some sr"
    and step: "AgentServer_Heartbeat (cfg_lib cfg) (cfg_server cfg) (sr_ctx sr) ev (sr_hb sr) (sys_server y)
      = Some (Inr (h, st))"
    and y': "y' = y\<lparr>sys_server := st, sys_streams := AList.update i (sr\<lparr>sr_hb := h\<rparr>) (sys_streams y)\<rparr>"
    by (auto split: option.splits sum.splits)
  have closed: "hb_pc h = hb_pc (sr_hb sr) \<and> \<not> of_handler ev" if "\<not> sr_open sr"
    using hb_step_returned [OF step] assms(2) sr that by (auto simp: streams_ok_def)
  have "hb_weight (hb_pc h) + (if of_handler ev then 1 else 0) \<le> hb_weight (hb_pc (sr_hb sr))"
    using hb_step_weight [OF step] assms(4) ActStream by simp
  with closed streams_weight_update [OF sr, of "sr\<lparr>sr_hb := h\<rparr>"] ActStream show ?thesis
    by (cases "sr_open sr") (auto simp: y' stream_weight_def split: if_splits)
next
  case (ActFinish i t)
  with assms(1) obtain sr where sr: "map_of (sys_streams y) i = Some sr" "sr_open sr"
    and y': "sys_streams y' = AList.update i (sr\<lparr>sr_open := False\<rparr>) (sys_streams y)"
    by (auto split: option.splits hb_pc.splits if_splits)
  from streams_weight_update [OF sr(1), of "sr\<lparr>sr_open := False\<rparr>"] sr(2) ActFinish show ?thesis
    by (simp add: y' stream_weight_def)
qed (use assms in \<open>auto simp: Let_def case_prod_beta\<close>)

lemma process_weight_next:
  assumes "proc_next lib codeString ev p = Some p'" and "\<not> accepting (pr_phase p)" and "calls_ok p"
    and "\<not> receives_message ev"
  shows "process_weight p' + (if progress ev then 1 else 0) \<le> process_weight p"
proof -
  from live_next [OF assms(1)] assms(2) have phases: "pr_phase p = GrpcStopping \<or> pr_phase p = HttpStopping"
    by (auto simp: phase_sets)
  from assms(1) show ?thesis
  proof (cases rule: proc_next_cases)
    case main
    with assms(1,2) phases show ?thesis
      by (cases ev) (auto simp: process_weight_def calls_weight_def phase_sets main_steps
          Let_def case_prod_beta simp del: Watch.simps split: if_splits option.splits)
  next
    case (accept i c)
    with assms(2) show ?thesis by simp
  next
    case (act a y)
    from action_weight [OF act(3) _ act(2)] assms(3,4) act(1,4) have
      "streams_weight (sys_streams (pr_sys p')) + (if action_progress a then 1 else 0) \<le>
         streams_weight (sys_streams (pr_sys p))" by (simp add: calls_ok_def)
    moreover have "\<not> action_progress a" if "pr_phase p = HttpStopping"
      using act(2) that by (cases a) (auto simp: grpc_up_def)
    ultimately show ?thesis using phases act(1,4) by (auto simp: process_weight_def calls_weight_def)
  next
    case (dispatch i clk c y)
    with phases have "pr_phase p = GrpcStopping" by (auto simp: grpc_up_def)
    with dispatch_weight [OF dispatch(4)] pendings_weight_delete [OF _ dispatch(2)] assms(3) dispatch(1,5)
    show ?thesis by (auto simp: process_weight_def calls_weight_def calls_ok_def)
  next
    case (panic pn)
    with phases show ?thesis by (auto simp: process_weight_def)
  qed
qed

lemma process_weight_run:
  assumes "proc_run lib codeString evs p = Some q" and "\<not> accepting (pr_phase p)" and "calls_ok p"
    and "\<forall>ev\<in>set evs. \<not> receives_message ev"
  shows "process_weight q + length (filter progress evs) \<le> process_weight p \<and> calls_ok q \<and>
    \<not> accepting (pr_phase q)"
  using assms
proof (induction evs arbitrary: p)
  case (Cons ev evs)
  then obtain p1 where p1: "proc_next lib codeString ev p = Some p1" "proc_run lib codeString evs p1 = Some q"
    by (auto split: option.splits)
  from process_weight_next [OF p1(1)] phase_moves_on [OF p1(1)] calls_ok_next [OF p1(1)]
    Cons.IH [OF p1(2)] Cons.prems(2-4)
  show ?case by (auto split: if_splits)
qed simp

text \<open>A stopping process can always go on.\<close>

lemma dispatch_possible:
  assumes "calls_ok q" and "(i, c) \<in> set (pr_pending q)" and "grpc_up (pr_phase q)"
  shows "proc_next lib codeString (PrDispatch i clk) q \<noteq> None"
proof -
  from assms(1,2) have "map_of (pr_pending q) i = Some c" "map_of (sys_streams (pr_sys q)) i = None"
    by (force simp: calls_ok_def)+
  with assms(3) show ?thesis
    by (cases c) (auto simp: grpc_dispatch_def take_action_def Let_def case_prod_beta split: sum.split prod.split)
qed

lemma stream_progress:
  assumes "streams_ok (pr_sys q)" and "grpc_up (pr_phase q)" and "open_streams (sys_streams (pr_sys q)) \<noteq> 0"
  shows "\<exists>ev. progress ev \<and> \<not> receives_message ev \<and> proc_next lib codeString ev q \<noteq> None"
proof -
  from assms(3) obtain i sr where "(i, sr) \<in> set (sys_streams (pr_sys q))" and opened: "sr_open sr"
    by (auto simp: open_streams_def filter_empty_conv)
  then have sr: "map_of (sys_streams (pr_sys q)) i = Some sr"
    using assms(1) by (simp add: streams_ok_def)
  show ?thesis
  proof (cases "hb_returned (hb_pc (sr_hb sr))")
    case True
    with sr opened assms(2) show ?thesis
      by (intro exI [of _ "PrAction (ActFinish i 0)"]) (cases "hb_pc (sr_hb sr)"; simp add: take_action_def)
  next
    case False
    with hb_alone_possible [OF False] sr assms(2) show ?thesis
      by (intro exI [of _ "PrAction (ActStream i (hb_alone (hb_pc (sr_hb sr))))"])
         (fastforce simp: take_action_def split: option.split sum.split)
  qed
qed

lemma stopping_progress:
  assumes "live (pr_phase q)" and "\<not> accepting (pr_phase q)" and "calls_ok q"
  shows "\<exists>ev. progress ev \<and> \<not> receives_message ev \<and> proc_next lib codeString ev q \<noteq> None"
proof (cases "pr_phase q = HttpStopping")
  case True
  then show ?thesis by (intro exI [of _ "PrHttpShutdown None"]) (simp add: http_shutdown_returned_def)
next
  case False
  with assms(1,2) have g: "pr_phase q = GrpcStopping" by (auto simp: phase_sets)
  then have up: "grpc_up (pr_phase q)" by (simp add: grpc_up_def)
  consider "quiet q" | i c where "(i, c) \<in> set (pr_pending q)" | "open_streams (sys_streams (pr_sys q)) \<noteq> 0"
    by (cases "pr_pending q") (auto simp: quiet_def)
  then show ?thesis
  proof cases
    case 1
    with g show ?thesis by (intro exI [of _ PrGracefulStop]) (simp add: graceful_stop_returned_def quiet_def)
  next
    case (2 i c)
    with dispatch_possible [OF assms(3) _ up] show ?thesis
      by (intro exI [of _ "PrDispatch i (demo_clock 0)"]) simp
  next
    case 3
    with stream_progress [OF _ up] assms(3) show ?thesis by (simp add: calls_ok_def)
  qed
qed

subsection \<open>Calls of a stopping process\<close>

text \<open>No call is accepted any more, and a message reaches only a call that was there.\<close>

definition call_ids :: "('ctx, 'cert, 'pool) process \<Rightarrow> nat set" where
  "call_ids p = fst ` set (pr_pending p) \<union> fst ` set (sys_streams (pr_sys p))"

fun message_stream :: "('ctx, 'cert, 'pool) proc_event \<Rightarrow> nat option" where
  "message_stream (PrAction (ActStream i (HbReceived (Inr m)))) = Some i"
| "message_stream _ = None"

lemma message_stream_None: "message_stream ev = None \<longleftrightarrow> \<not> receives_message ev"
  by (cases ev rule: message_stream.cases) auto

lemma length_delete_less: "map_of ps i = Some c \<Longrightarrow> length (AList.delete i ps) < length ps"
proof (induction ps)
  case (Cons e ps)
  then show ?case by (cases "fst e = i") (auto simp: AList.delete_eq le_imp_less_Suc)
qed simp

lemma stopping_next:
  assumes "proc_next lib codeString ev p = Some p'" and "\<not> accepting (pr_phase p)"
  shows "open_calls p' \<le> open_calls p \<and> call_ids p' \<subseteq> call_ids p"
  using assms(1)
proof (cases rule: proc_next_cases)
  case (act a y)
  from streams_not_opened [OF act(3) may_act_not_open [OF act(2)]] act(4) show ?thesis
    by (auto simp: open_calls_def call_ids_def map_of_eq_None_iff)
next
  case (dispatch i clk c y)
  then have "open_streams (sys_streams y) \<le> Suc (open_streams (sys_streams (pr_sys p)))"
    and "fst ` set (sys_streams y) \<subseteq> insert i (fst ` set (sys_streams (pr_sys p)))"
    by (cases c; auto simp: open_streams_def Let_def case_prod_beta split: option.splits sum.splits)+
  with length_delete_less [OF dispatch(2)] map_of_SomeD [OF dispatch(2)] dispatch(5) show ?thesis
    by (force simp: open_calls_def call_ids_def set_alist_delete)
next
  case (panic pn)
  have "length (AList.delete i (pr_pending p)) \<le> length (pr_pending p)" for i
    by (simp add: AList.delete_eq)
  with panic show ?thesis by (auto simp: open_calls_def call_ids_def set_alist_delete)
qed (use assms(2) in \<open>auto simp: open_calls_def call_ids_def\<close>)

lemma stopping_run:
  assumes "proc_run lib codeString evs p = Some q" and "\<not> accepting (pr_phase p)" and "calls_ok p"
  shows "\<not> accepting (pr_phase q) \<and> calls_ok q \<and> open_calls q \<le> open_calls p \<and>
    (\<forall>ev\<in>set evs. \<forall>i. message_stream ev = Some i \<longrightarrow> i \<in> call_ids p)"
  using assms
proof (induction evs arbitrary: p)
  case (Cons ev evs)
  then obtain p1 where p1: "proc_next lib codeString ev p = Some p1" "proc_run lib codeString evs p1 = Some q"
    by (auto split: option.splits)
  have "map_of (sys_streams (pr_sys p)) i \<noteq> None" if "message_stream ev = Some i" for i
    using that p1(1) by (cases ev rule: message_stream.cases)
      (auto simp: take_action_def split: option.splits if_splits)
  then have "i \<in> call_ids p" if "message_stream ev = Some i" for i
    using that unfolding call_ids_def map_of_eq_None_iff by blast
  moreover note stopping_next [OF p1(1) Cons.prems(2)]
  moreover have "\<not> accepting (pr_phase q) \<and> calls_ok q \<and> open_calls q \<le> open_calls p1 \<and>
      (\<forall>ev\<in>set evs. \<forall>i. message_stream ev = Some i \<longrightarrow> i \<in> call_ids p1)"
    by (rule Cons.IH [OF p1(2) phase_moves_on [OF p1(1) Cons.prems(2)] calls_ok_next [OF p1(1) Cons.prems(3)]])
  ultimately show ?case by (auto dest: le_trans)
qed simp

text \<open>
  What the gRPC library documents of the limits on a connection: one that is older than
  \<open>MaxConnectionAge\<close>, by up to a tenth of it, is asked to go away, and after \<open>MaxConnectionAgeGrace\<close> it
  is closed by force. So no message reaches a call later than that after the call's connection was made.
\<close>

definition connection_limit :: "keepalive_ServerParameters \<Rightarrow> duration" where
  "connection_limit ka = MaxConnectionAge ka + MaxConnectionAge ka div 10 + MaxConnectionAgeGrace ka"

definition connections_limited ::
  "duration \<Rightarrow> (nat \<Rightarrow> time) \<Rightarrow> (time \<times> ('ctx, 'cert, 'pool) proc_event) list \<Rightarrow> bool" where
  "connections_limited limit born tevs \<longleftrightarrow>
     list_all (\<lambda>(t, ev). case message_stream ev of None \<Rightarrow> True | Some i \<Rightarrow> t \<le> born i + limit) tevs"

lemma late_events: "sorted (map fst tevs) \<Longrightarrow> filter (\<lambda>e. D < fst e) tevs = dropWhile (\<lambda>e. fst e \<le> D) tevs"
proof (induction tevs)
  case (Cons e tevs)
  then show ?case by (cases tevs) auto
qed simp

lemma limited_no_message:
  assumes "connections_limited limit born tevs" and "\<forall>i\<in>ids. born i \<le> T"
    and "\<forall>ev\<in>set (map snd tevs). \<forall>i. message_stream ev = Some i \<longrightarrow> i \<in> ids"
    and "(t, ev) \<in> set tevs" and "T + limit < t"
  shows "\<not> receives_message ev"
proof
  assume "receives_message ev"
  then obtain i where i: "message_stream ev = Some i" using message_stream_None by fastforce
  with assms(3,4) have "i \<in> ids" by force
  moreover from assms(1,4) i have "t \<le> born i + limit" by (force simp: connections_limited_def list_all_iff)
  ultimately show False using assms(2,5) by force
qed

text \<open>The limits a running process has, and what they add up to.\<close>

lemma connection_limit_of:
  assumes "main_start fl hostname uuid listen d = Inr (cp, ops0)"
    and "proc_run lib codeString evs (boot cp ops0) = Some p"
  shows "connection_limit (cp_keepalive (pr_cp p)) = (33 * 60 + 10) * time_Second"
proof -
  have "cp_keepalive (pr_cp p) = keepalive_params"
    using proc_run_cp [OF assms(2)] assms(1)
    by (auto simp: boot_def main_start_def split: if_splits sum.splits prod.splits)
  then show ?thesis by (simp add: connection_limit_def keepalive_params_def time_Second_def)
qed

subsection \<open>Properties\<close>

text \<open>\<^bold>\<open>C19\<close>
  The shutdown ends once the agents fall silent. From the moment \<open>main\<close> asks the gRPC server to stop, and
  as long as no message arrives, the pending calls, the handlers and \<open>main\<close> take at most six steps for each
  call that is pending or stream that is open and two more, whatever ticks, sweeps, signals and polls come
  in between; and until the process has ended, one of those steps is possible.
\<close>

theorem shutdown_ends:
  assumes "main_start fl hostname uuid listen d = Inr (cp, ops0)"
    and "proc_run lib codeString evs0 (boot cp ops0) = Some p" and "pr_phase p = GrpcStopping"
    and "proc_run lib codeString evs p = Some q" and "\<forall>ev\<in>set evs. \<not> receives_message ev"
  shows "length (filter progress evs) \<le>
      6 * (length (pr_pending p) + open_streams (sys_streams (pr_sys p))) + 2 \<and>
    (live (pr_phase q) \<longrightarrow>
       (\<exists>ev. progress ev \<and> \<not> receives_message ev \<and> proc_next lib codeString ev q \<noteq> None))"
proof -
  have "\<not> accepting (pr_phase p)" by (simp add: assms(3) accepting_def)
  from process_weight_run [OF assms(4) this calls_ok_boot [OF assms(1,2)] assms(5)] calls_weight_le [of p]
    stopping_progress [of q lib codeString] assms(3)
  show ?thesis by (auto simp: process_weight_def open_calls_def)
qed

theorem shutdown_ends_witness:
  "\<exists>q. proc_run sample_lib demo_code [PrAction (ActStream 0 (HbReceived (Inl EOF))), PrDispatch 8 (demo_clock 9)]
       demo_late = Some q \<and>
     (live (pr_phase q) \<longrightarrow> (\<exists>ev. progress ev \<and> proc_next sample_lib demo_code ev q \<noteq> None))"
proof -
  let ?evs = "[PrAction (ActStream 0 (HbReceived (Inl EOF))), PrDispatch 8 (demo_clock 9)]"
  have "proc_run sample_lib demo_code ?evs demo_late \<noteq> None"
    by (simp add: demo_late_def demo_stopping_def demo_y0_def demo_stream_def AgentServer_Heartbeat_def
        grpc_up_def take_action_def grpc_dispatch_def split: sum.split)
  then obtain q where q: "proc_run sample_lib demo_code ?evs demo_late = Some q" by blast
  have "pr_phase demo_late = GrpcStopping" by (simp add: demo_late_def demo_stopping_phase)
  from shutdown_ends [OF demo_start_runs demo_late_life_runs this q] q show ?thesis by auto
qed

text \<open>\<^bold>\<open>C20\<close>
  A deadline for the shutdown that needs nothing from the agents. Let \<open>main\<close> ask the gRPC server to stop at
  a time at which the connection of every pending call and every stream is there. Of what happens later
  than 33 minutes and 10 seconds after that time, by the configured age of a connection, the library's
  tenth of it and the grace period, the calls, the handlers and \<open>main\<close> take at most six steps for each call
  that was pending or stream that was open and two more; once they have taken that many the process has
  ended, and until it has, one of those steps is possible, however the agents go on sending.
\<close>

theorem shutdown_deadline:
  assumes "main_start fl hostname uuid listen d = Inr (cp, ops0)"
    and "proc_run lib codeString evs0 (boot cp ops0) = Some p" and "pr_phase p = GrpcStopping"
    and "\<forall>i\<in>call_ids p. born i \<le> T"
    and "proc_run lib codeString (map snd tevs) p = Some q" and "sorted (map fst tevs)"
    and "connections_limited (connection_limit (cp_keepalive (pr_cp p))) born tevs"
    and "late = map snd (filter (\<lambda>e. T + (33 * 60 + 10) * time_Second < fst e) tevs)"
    and "bound = 6 * (length (pr_pending p) + open_streams (sys_streams (pr_sys p))) + 2"
  shows "length (filter progress late) \<le> bound \<and>
    (live (pr_phase q) \<longrightarrow> length (filter progress late) < bound \<and>
       (\<exists>ev. progress ev \<and> \<not> receives_message ev \<and> proc_next lib codeString ev q \<noteq> None))"
proof -
  let ?early = "\<lambda>e. fst e \<le> T + (33 * 60 + 10) * time_Second"
  have stopping: "\<not> accepting (pr_phase p)" by (simp add: assms(3) accepting_def)
  note ok = calls_ok_boot [OF assms(1,2)]
  have late: "late = map snd (dropWhile ?early tevs)" by (simp add: assms(8) late_events [OF assms(6)])
  then have "map snd tevs = map snd (takeWhile ?early tevs) @ late" by (simp flip: map_append)
  with assms(5) obtain m where m: "proc_run lib codeString (map snd (takeWhile ?early tevs)) p = Some m"
    "proc_run lib codeString late m = Some q"
    by (auto simp: run_ops_append split: option.splits)
  from stopping_run [OF assms(5) stopping ok]
  have seen: "\<forall>ev\<in>set (map snd tevs). \<forall>i. message_stream ev = Some i \<longrightarrow> i \<in> call_ids p" by blast
  have silent: "\<forall>ev\<in>set late. \<not> receives_message ev"
    using limited_no_message [OF assms(7,4) seen] connection_limit_of [OF assms(1,2)]
    by (auto simp: assms(8))
  from stopping_run [OF m(1) stopping ok] have mid: "\<not> accepting (pr_phase m)" "calls_ok m"
    "open_calls m \<le> open_calls p" by blast+
  have "process_weight m \<le> bound"
    using calls_weight_le [of m] mid(3) by (simp add: process_weight_def assms(9) open_calls_def)
  moreover have "live (pr_phase q) \<Longrightarrow> \<not> accepting (pr_phase q) \<Longrightarrow> 0 < process_weight q"
    by (auto simp: phase_sets process_weight_def)
  ultimately show ?thesis
    using process_weight_run [OF m(2) mid(1,2) silent] stopping_progress [of q lib codeString] by auto
qed

text \<open>An agent that sends once more after the signal, and is cut off 34 minutes later.\<close>

definition demo_drain :: "(time \<times> (string list, string, string) proc_event) list" where
  "demo_drain = [(5, PrAction (ActStream 0 (HbReceived (Inr demo_beat)))), (5, PrAction (ActStream 0 (HbGo 5))),
     (34 * 60 * time_Second, PrAction (ActStream 0 (HbReceived (Inl (OtherError ''closed'')))))]"

theorem shutdown_deadline_witness:
  "\<exists>q. proc_run sample_lib demo_code (map snd demo_drain) demo_stopping = Some q \<and> pr_phase q = GrpcStopping \<and>
     length (filter progress (map snd (filter (\<lambda>e. 2 + (33 * 60 + 10) * time_Second < fst e) demo_drain))) < 8 \<and>
     (\<exists>ev. progress ev \<and> \<not> receives_message ev \<and> proc_next sample_lib demo_code ev q \<noteq> None)"
proof -
  have "hb_valid demo_beat"
    by (simp add: hb_valid_def demo_beat_def HeartbeatRequest_zero_def validator_ok safe_id_def alnum_char_iff
        safe_char_iff less_eq_char_def letters_digits_def id_punctuation_def)
  then obtain q where q: "proc_run sample_lib demo_code (map snd demo_drain) demo_stopping = Some q"
    "pr_phase q = GrpcStopping"
    by (simp add: demo_drain_def demo_stopping_def demo_y0_def demo_stream_def AgentServer_Heartbeat_def
        grpc_up_def take_action_def hb_validated_ok hb_update_def with_registry_def
        NodeRegistry_UpdateHeartbeat_def demo_beat_def HeartbeatRequest_zero_def Let_def)
  have born: "\<forall>i\<in>call_ids demo_stopping. (\<lambda>i. 2) i \<le> (2 :: time)" by simp
  have sorted: "sorted (map fst demo_drain)" by (simp add: demo_drain_def time_Second_def)
  have limited: "connections_limited (connection_limit (cp_keepalive (pr_cp demo_stopping))) (\<lambda>i. 2) demo_drain"
    unfolding connection_limit_of [OF demo_start_runs demo_life_runs]
    by (simp add: connections_limited_def demo_drain_def time_Second_def)
  have bound: "8 = 6 * (length (pr_pending demo_stopping) + open_streams (sys_streams (pr_sys demo_stopping))) + 2"
    by (simp add: demo_stopping_def boot_def demo_y0_def demo_stream_def open_streams_def)
  show ?thesis
    using shutdown_deadline [OF demo_start_runs demo_life_runs demo_stopping_phase born q(1) sorted limited
        refl bound] q
    by (auto simp: live_def)
qed

end
