(* ===== verification/Operator_View.thy ===== *)
theory Operator_View
  imports Lifecycle
begin

text \<open>
  From the wire to the operator: what the validators keep out of the node table of a running process,
  and what the node listing of that process shows of the registrations and heartbeats it has taken.
\<close>

subsection \<open>What gets into the table\<close>

text \<open>An operation with validated arguments, and a registry of nothing else.\<close>

fun validated_op :: "reg_op \<Rightarrow> bool" where
  "validated_op (RegRegister now n addr res) = (ValidateNodeID n = None \<and> ValidateAddress addr = None)"
| "validated_op (RegHeartbeat now n util ts) = (ValidateHeartbeatTaskCount (int (length ts)) = None)"
| "validated_op _ = True"

definition admitted :: "string \<Rightarrow> NodeInfo \<Rightarrow> bool" where
  "admitted n info \<longleftrightarrow> ValidateNodeID n = None \<and> ValidateAddress (NodeInfo_Address info) = None \<and>
     ValidateHeartbeatTaskCount (int (length (NodeInfo_Tasks info))) = None"

lemma reg_op_validated:
  assumes "sys_inv y" and "reg_op_of cfg a y = Some op"
  shows "validated_op op"
proof (cases "(cfg, a, y)" rule: reg_op_of.cases)
  case (1 cfg' ctx clk m y')
  with assms(2) show ?thesis
    by (auto simp: Register_rules_def split: if_splits option.splits)
next
  case (2 cfg' i ev y')
  with assms obtain sr where "map_of (sys_streams y) i = Some sr" and op: "hb_reg_op (hb_pc (sr_hb sr)) ev = Some op"
    by (auto split: option.splits)
  with assms(1) have "hb_pc_ok (hb_pc (sr_hb sr))"
    using list_all_lookup [of stream_ok "sys_streams y"] by (auto simp: sys_inv_def Let_def stream_ok_def)
  with op show ?thesis
    by (cases "(hb_pc (sr_hb sr), ev)" rule: hb_reg_op.cases) (auto simp: hb_valid_def)
qed (use assms in auto)

lemma length_alist_update: "length (AList.update k v al) \<le> Suc (length al)"
  by (induction al) auto

lemma length_file_tasks: "file_tasks ts m = Inr m' \<Longrightarrow> length m' \<le> length m + length ts"
proof (induction ts m rule: file_tasks.induct)
  case (3 t ts m)
  with length_alist_update [of "TaskStatus_TaskId t" t m] show ?case by simp
qed simp_all

lemma reg_next_heartbeat:
  assumes "reg_next (RegHeartbeat now n util ts) r = Some r'"
  obtains "r' = r"
  | info m where "map_of (nodes r) n = Some info" and "file_tasks ts [] = Inr m"
      and "r' = r\<lparr>nodes := AList.update n (info\<lparr>NodeInfo_LastBeat := now, NodeInfo_Tasks := m\<rparr>) (nodes r)\<rparr>"
  using assms
  by (cases "map_of (nodes r) n")
     (auto simp: NodeRegistry_UpdateHeartbeat_def Let_def split: sum.splits)

lemma reg_next_sweep:
  assumes "reg_next (RegSweep threshold now) r = Some r'" and "distinct (map fst (nodes r))"
  shows "set (nodes r') \<subseteq> set (nodes r)"
proof -
  from assms(1) have "r' = fst (StaleNodeCleanup_tick threshold now r)" by (simp add: case_prod_beta)
  then show ?thesis by (simp add: StaleNodeCleanup_tick_nodes [OF assms(2)])
qed

lemma admitted_next:
  assumes "validated_op op" and "reg_ok r \<and> (\<forall>(n, info)\<in>set (nodes r). admitted n info)"
    and "reg_next op r = Some r'"
  shows "reg_ok r' \<and> (\<forall>(n, info)\<in>set (nodes r'). admitted n info)"
proof
  from assms(2) have dist: "distinct (map fst (nodes r))" by (simp add: reg_ok_def)
  show "reg_ok r'" using assms(2,3) by (blast intro: reg_table.invar_app)
  show "\<forall>(n, info)\<in>set (nodes r'). admitted n info"
  proof (cases op)
    case (RegRegister now n addr res)
    with assms show ?thesis
      by (auto simp: reg_next_Some NodeRegistry_Register_def Let_def set_alist_update [OF dist] admitted_def
          validator_ok split: if_splits)
  next
    case (RegHeartbeat now n util ts)
    from assms(3) [unfolded RegHeartbeat] show ?thesis
    proof (cases rule: reg_next_heartbeat)
      case (2 info m)
      from assms(1) RegHeartbeat length_file_tasks [OF 2(2)] have "ValidateHeartbeatTaskCount (int (length m)) = None"
        by (simp add: validator_ok)
      with assms(2) map_of_SomeD [OF 2(1)] show ?thesis
        unfolding 2(3) by (auto simp: set_alist_update [OF dist] admitted_def)
    qed (use assms(2) in simp)
  next
    case (RegSweep threshold now)
    from reg_next_sweep [OF assms(3) [unfolded RegSweep] dist] assms(2) show ?thesis by blast
  qed (use assms in \<open>auto simp: reg_next_Some NodeRegistry_Remove_def NodeRegistry_RemoveIfConnectionMatches_def
         Let_def set_alist_delete split: option.splits if_splits\<close>)
qed

lemma totalTasks_le:
  "\<forall>(n, info)\<in>set ns. length (NodeInfo_Tasks info) \<le> b \<Longrightarrow> totalTasks k ns \<le> k + b * length ns"
  by (induction k ns rule: totalTasks.induct) fastforce+

lemma admitted_tasks:
  assumes "\<forall>(n, info)\<in>set (nodes r). admitted n info"
  shows "totalTasksLocked r \<le> 10000 * length (nodes r)"
proof -
  from assms have "\<forall>(n, info)\<in>set (nodes r). length (NodeInfo_Tasks info) \<le> 10000"
    by (auto simp: admitted_def validator_ok)
  from totalTasks_le [OF this, of 0] show ?thesis by (simp add: totalTasksLocked_def)
qed

text \<open>
  The tasks gauge may be ahead of the table, which forgets the tasks of a node that registers again, but
  never behind it, and never above what the bound on heartbeats allows the nodes of the table.
\<close>

definition gauge_bounded :: "NodeRegistry \<Rightarrow> nat \<Rightarrow> bool" where
  "gauge_bounded r v \<longleftrightarrow> totalTasksLocked r \<le> v \<and> v \<le> 10000 * length (nodes r)"

lemma length_alist_update_ge: "length al \<le> length (AList.update k v al)"
  by (induction al) auto

lemma sweep_without_metrics:
  assumes "StaleNodeCleanup_tick threshold now r = (r', [], logged)"
  shows "r' = r"
proof -
  from assms have fresh: "\<forall>e\<in>set (nodes r). \<not> stale now threshold (snd e)"
    and r': "r' = r\<lparr>nodes := filter (\<lambda>e. fst e \<notin> fst ` {e \<in> set (nodes r). stale now threshold (snd e)}) (nodes r)\<rparr>"
    by (auto simp: StaleNodeCleanup_tick_def Let_def sweep_conv filter_empty_conv case_prod_beta split: if_splits)
  from fresh have "{e \<in> set (nodes r). stale now threshold (snd e)} = {}" by auto
  with r' show ?thesis by simp
qed

lemma gauge_next:
  assumes "reg_apply op r = Inr (r', ops)" and "gauge_bounded r v"
    and "\<forall>(n, info)\<in>set (nodes r'). admitted n info"
  shows "gauge_bounded r' (last_TasksRunning v ops)"
proof -
  have set: "gauge_bounded r' (last_TasksRunning v ops)" if "last_TasksRunning v ops = totalTasksLocked r'"
    using that admitted_tasks [OF assms(3)] by (simp add: gauge_bounded_def)
  note step = tasks_gauge_step [OF assms(1), of v]
  show ?thesis
  proof (cases op)
    case (RegRegister now n addr res)
    with assms(1) length_alist_update_ge [of "nodes r" n] have "length (nodes r) \<le> length (nodes r')"
      by (auto simp: NodeRegistry_Register_def Let_def split: if_splits)
    with step assms(2) RegRegister show ?thesis by (auto simp: gauge_bounded_def)
  next
    case (RegSweep threshold now)
    with step assms set sweep_without_metrics [of threshold now r r'] show ?thesis
      by (fastforce split: prod.splits)
  qed (use step assms(2) set in auto)
qed

text \<open>What a running system has stored, and what it says of it.\<close>

definition stored_ok :: "'ctx sys \<Rightarrow> bool" where
  "stored_ok y \<longleftrightarrow> sys_inv y \<and>
     (\<forall>(n, info)\<in>set (nodes (srv_registry (sys_server y))). admitted n info) \<and>
     gauge_bounded (srv_registry (sys_server y)) (last_TasksRunning 0 (metric_trace (sys_server y)))"

lemma stored_ok_next:
  assumes "sys_next cfg a y = Some (Inr y')" and "stored_ok y"
  shows "stored_ok y'"
proof -
  let ?r = "srv_registry (sys_server y)" and ?r' = "srv_registry (sys_server y')"
  from assms(2) have inv: "sys_inv y" and adm: "\<forall>(n, info)\<in>set (nodes ?r). admitted n info"
    and gauge: "gauge_bounded ?r (last_TasksRunning 0 (metric_trace (sys_server y)))" by (simp_all add: stored_ok_def)
  from inv have cache: "cache_ok (knownMethods (sys_server y))" and ok: "reg_ok ?r"
    by (simp_all add: sys_inv_def Let_def)
  from sys_next_tasks [OF cache assms(1), of 0] obtain ops where
    trace: "last_TasksRunning 0 (metric_trace (sys_server y')) =
      last_TasksRunning (last_TasksRunning 0 (metric_trace (sys_server y))) ops"
    and eff: "case reg_op_of cfg a y of None \<Rightarrow> ?r' = ?r \<and> ops = []
      | Some op \<Rightarrow> reg_apply op ?r = Inr (?r', ops)" by blast
  show ?thesis
  proof (cases "reg_op_of cfg a y")
    case None
    with eff trace adm gauge sys_inv_next [OF inv assms(1)] show ?thesis by (simp add: stored_ok_def)
  next
    case (Some op)
    with eff have app: "reg_apply op ?r = Inr (?r', ops)" by simp
    then have "reg_next op ?r = Some ?r'" by (simp del: reg_apply.simps)
    with admitted_next [OF reg_op_validated [OF inv Some]] ok adm
    have "\<forall>(n, info)\<in>set (nodes ?r'). admitted n info" by blast
    with gauge_next [OF app gauge this] trace sys_inv_next [OF inv assms(1)] show ?thesis by (simp add: stored_ok_def)
  qed
qed

lemma stored_ok_path: "sys_path cfg y ops y' \<Longrightarrow> stored_ok y \<Longrightarrow> stored_ok y'"
  by (induction rule: sys_path.induct) (auto intro: stored_ok_next)

lemma process_stored:
  assumes "main_start fl hostname uuid listen d = Inr (cp, ops0)"
    and "proc_run lib codeString evs (boot cp ops0) = Some p"
  shows "stored_ok (pr_sys p)"
proof -
  have cp: "pr_cp (boot cp ops0) = cp" by (simp add: boot_def)
  from proc_run_sys [OF assms(2)] obtain ops where "sys_path (config_of lib codeString cp) sys_init ops (pr_sys p)"
    unfolding boot_start(1) [OF assms(1)] cp by blast
  then show ?thesis
    by (rule stored_ok_path)
       (use sys_inv_init in \<open>simp add: stored_ok_def sys_init_def idle_server_def NewNodeRegistry_def
          gauge_bounded_def totalTasksLocked_def\<close>)
qed

subsection \<open>What the listing shows\<close>

text \<open>
  The protobuf decoder never puts a nil entry into a repeated field. The listing is the one place
  that depends on it: it reads every GPU of every node.
\<close>

fun decoded_call :: "'ctx pending \<Rightarrow> bool" where
  "decoded_call (PendingUnary ctx (RpcRegister (Inr m))) =
     (case RegisterRequest_Resources m of None \<Rightarrow> True | Some res \<Rightarrow> None \<notin> set (NodeResources_Gpus res))"
| "decoded_call _ = True"

fun decoded_event :: "('ctx, 'cert, 'pool) proc_event \<Rightarrow> bool" where
  "decoded_event (PrAccept i c) = decoded_call c"
| "decoded_event _ = True"

fun gpus_present :: "reg_op \<Rightarrow> bool" where
  "gpus_present (RegRegister now n addr (Some res)) = (None \<notin> set (NodeResources_Gpus res))"
| "gpus_present _ = True"

lemma reg_op_gpus_present:
  assumes "reg_op_of cfg a y = Some op"
    and "\<And>ctx clk m. a = ActUnary ctx clk (RpcRegister (Inr m)) \<Longrightarrow> decoded_call (PendingUnary ctx (RpcRegister (Inr m)))"
  shows "gpus_present op"
proof (cases "(cfg, a, y)" rule: reg_op_of.cases)
  case (1 cfg' ctx clk m y')
  with assms(1) assms(2) [of ctx clk m] show ?thesis by (auto split: if_splits option.splits)
next
  case (2 cfg' i ev y')
  with assms obtain pc where "hb_reg_op pc ev = Some op" by (auto split: option.splits)
  then show ?thesis by (cases "(pc, ev)" rule: hb_reg_op.cases) auto
qed (use assms in auto)

lemma gpus_present_next:
  assumes "gpus_present op" and "reg_ok r \<and> (\<forall>e\<in>set (nodes r). \<not> has_nil_gpu (snd e))"
    and "reg_next op r = Some r'"
  shows "reg_ok r' \<and> (\<forall>e\<in>set (nodes r'). \<not> has_nil_gpu (snd e))"
proof
  from assms(2) have nil: "\<forall>e\<in>set (nodes r). \<not> has_nil_gpu (snd e)" and dist: "distinct (map fst (nodes r))"
    by (simp_all add: reg_ok_def)
  show "reg_ok r'" using assms(2,3) by (blast intro: reg_table.invar_app)
  show "\<forall>e\<in>set (nodes r'). \<not> has_nil_gpu (snd e)"
  proof (cases op)
    case (RegRegister now n addr res)
    with assms nil show ?thesis
      by (cases res) (auto simp: NodeRegistry_Register_def Let_def set_alist_update [OF dist] has_nil_gpu_def)
  next
    case (RegHeartbeat now n util ts)
    from assms(3) [unfolded RegHeartbeat] show ?thesis
    proof (cases rule: reg_next_heartbeat)
      case (2 info m)
      with nil map_of_SomeD [OF 2(1)] show ?thesis
        by (auto simp: set_alist_update [OF dist] has_nil_gpu_def)
    qed (use nil in simp)
  next
    case (RegSweep threshold now)
    from reg_next_sweep [OF assms(3) [unfolded RegSweep] dist] nil show ?thesis by blast
  qed (use assms(1,3) nil in \<open>auto simp: NodeRegistry_Remove_def NodeRegistry_RemoveIfConnectionMatches_def
         Let_def set_alist_delete split: option.splits if_splits\<close>)
qed

text \<open>So it is with the table and the pending calls of a process.\<close>

definition gpus_ok :: "('ctx, 'cert, 'pool) process \<Rightarrow> bool" where
  "gpus_ok p \<longleftrightarrow> sys_inv (pr_sys p) \<and> (\<forall>c\<in>snd ` set (pr_pending p). decoded_call c) \<and>
     (\<forall>e\<in>set (nodes (srv_registry (sys_server (pr_sys p)))). \<not> has_nil_gpu (snd e))"

lemma sys_gpus_next:
  assumes "sys_next cfg a y = Some (Inr y')" and "sys_inv y"
    and "\<And>ctx clk m. a = ActUnary ctx clk (RpcRegister (Inr m)) \<Longrightarrow> decoded_call (PendingUnary ctx (RpcRegister (Inr m)))"
    and "\<forall>e\<in>set (nodes (srv_registry (sys_server y))). \<not> has_nil_gpu (snd e)"
  shows "sys_inv y' \<and> (\<forall>e\<in>set (nodes (srv_registry (sys_server y'))). \<not> has_nil_gpu (snd e))"
proof
  from assms(2) have cache: "cache_ok (knownMethods (sys_server y))" and ok: "reg_ok (srv_registry (sys_server y))"
    by (simp_all add: sys_inv_def Let_def)
  show "sys_inv y'" by (rule sys_inv_next [OF assms(2,1)])
  show "\<forall>e\<in>set (nodes (srv_registry (sys_server y'))). \<not> has_nil_gpu (snd e)"
  proof (cases "reg_op_of cfg a y")
    case None
    with sys_next_registry [OF cache assms(1)] assms(4) show ?thesis by simp
  next
    case (Some op)
    with sys_next_registry [OF cache assms(1)]
    have "reg_next op (srv_registry (sys_server y)) = Some (srv_registry (sys_server y'))" by simp
    moreover have "gpus_present op" by (rule reg_op_gpus_present [OF Some]) (rule assms(3))
    ultimately show ?thesis using gpus_present_next [of op] ok assms(4) by blast
  qed
qed

lemma gpus_ok_next:
  assumes "proc_next lib codeString ev p = Some p'" and "gpus_ok p" and "decoded_event ev"
  shows "gpus_ok p'"
  using assms(1)
proof (cases rule: proc_next_cases)
  case (act a y)
  from act(2) have "decoded_call (PendingUnary ctx (RpcRegister (Inr m)))"
    if "a = ActUnary ctx clk (RpcRegister (Inr m))" for ctx clk m
    using that by simp
  with sys_gpus_next [OF act(3)] act(4) assms(2) show ?thesis by (simp add: gpus_ok_def)
next
  case (dispatch i clk c y)
  from map_of_SomeD [OF dispatch(2)] assms(2) have "decoded_call c" by (force simp: gpus_ok_def)
  then have "decoded_call (PendingUnary ctx (RpcRegister (Inr m)))"
    if "action_of i clk c = ActUnary ctx clk' (RpcRegister (Inr m))" for ctx clk' m
    using that by (cases c) auto
  with sys_gpus_next [OF dispatch(4)] dispatch(5) assms(2) show ?thesis
    by (fastforce simp: gpus_ok_def set_alist_delete)
qed (use assms(2,3) in \<open>auto simp: gpus_ok_def set_alist_delete\<close>)

lemma gpus_ok_run:
  "proc_run lib codeString evs p = Some q \<Longrightarrow> gpus_ok p \<Longrightarrow> \<forall>ev\<in>set evs. decoded_event ev \<Longrightarrow> gpus_ok q"
  by (induction evs arbitrary: p) (auto dest: gpus_ok_next split: option.splits)

lemma process_gpus_present:
  assumes "main_start fl hostname uuid listen d = Inr (cp, ops0)"
    and "proc_run lib codeString evs (boot cp ops0) = Some p" and "\<forall>ev\<in>set evs. decoded_event ev"
  shows "\<forall>e\<in>set (nodes (srv_registry (sys_server (pr_sys p)))). \<not> has_nil_gpu (snd e)"
proof -
  have "gpus_ok (boot cp ops0)"
    unfolding gpus_ok_def boot_start(1) [OF assms(1)]
    using sys_inv_init by (simp add: boot_def sys_init_def idle_server_def NewNodeRegistry_def)
  from gpus_ok_run [OF assms(2) this assms(3)] show ?thesis by (simp add: gpus_ok_def)
qed

lemma runes_of_id:
  assumes "ValidateNodeID n = None"
  shows "runes n = map of_char n"
proof -
  have "of_char c < (0x80 :: nat)" if "c \<in> letters_digits \<union> id_punctuation" for c
    using that by (auto simp: letters_digits_def id_punctuation_def less_eq_char_def)
  with assms have "list_all (\<lambda>c. of_char c < (0x80 :: nat)) n"
    unfolding validator_ok safe_id_def alnum_char_iff safe_char_iff list_all_iff by blast
  from runes_ascii_text [OF this, of "[]"] show ?thesis by simp
qed

text \<open>An object of the listing describes a node of the abstract table.\<close>

definition describes :: "(time \<Rightarrow> int) \<Rightarrow> jvalue \<Rightarrow> string \<Rightarrow> spec_node \<Rightarrow> bool" where
  "describes zone e n x \<longleftrightarrow>
     member ''node_id'' e = Some (VString (map of_char n)) \<and>
     member ''hostname'' e = Some (VString (runes (NodeResources_Hostname (sn_resources x)))) \<and>
     member ''address'' e = Some (VString (runes (sn_address x))) \<and>
     member ''last_beat'' e = Some (VString (runes (RFC3339 zone (sn_beat x)))) \<and>
     (\<exists>gs. member ''gpus'' e = Some (VArray gs) \<and> length gs = length (NodeResources_Gpus (sn_resources x))) \<and>
     (\<forall>mem. NodeResources_Memory (sn_resources x) = Some mem \<longrightarrow>
        (\<exists>m t. member ''memory'' e = Some m \<and> member ''total_gb'' m = Some (VNumber t) \<and>
           float64_of_rat (number_value t) = gib_of_bytes (MemoryResources_TotalBytes mem)))"

lemma member_gpus:
  "member ''gpus'' (value_of (json_node n)) = Some (VArray (map value_of (map json_gpu (NodeResponse_GPUs n))))"
  by (simp add: json_node_def runes_ascii_Cons)

lemma node_object_describes:
  assumes "ValidateNodeID n = None" and "NodeInfo_Resources info \<noteq> None"
  shows "describes zone (node_object zone (n, info)) n (view_node info)"
  using assms(2)
  by (auto simp: describes_def node_object_def node_view_def view_node_def member_fields member_gpus
      runes_of_id [OF assms(1)] memorySummary_def gib_text)

lemma node_objects_distinct:
  assumes "distinct (map fst ns)" and "\<forall>(n, info)\<in>set ns. ValidateNodeID n = None"
  shows "distinct (map (member ''node_id'') (map (node_object zone) ns))"
proof -
  have "map (member ''node_id'') (map (node_object zone) ns) = map (\<lambda>n. Some (VString (map of_char n))) (map fst ns)"
    using assms(2) by (auto simp: node_object_def node_view_def member_fields runes_of_id)
  moreover have "inj (\<lambda>n :: string. Some (VString (map of_char n)))"
    by (rule injI) (use inj_map_eq_map [OF inj_of_char] in auto)
  ultimately show ?thesis using assms(1) by (simp add: distinct_map inj_on_def inj_def)
qed

lemma listing_shows_table:
  assumes "reg_ok reg" and "\<forall>(n, info)\<in>set (nodes reg). admitted n info"
    and "\<forall>e\<in>set (nodes reg). \<not> has_nil_gpu (snd e)" and "\<And>x. CloneOf x = x"
  shows "\<exists>resp es. NodesHandler CloneOf zone a reg r fresh_response = Inr resp \<and> resp_status resp = Some 200 \<and>
    html_safe (resp_body resp) \<and> read_json (resp_body resp) = Some (VArray es) \<and>
    distinct (map (member ''node_id'') es) \<and>
    (\<forall>n x. table_of reg n = Some x \<longrightarrow> (\<exists>e\<in>set es. describes zone e n x)) \<and>
    (\<forall>e\<in>set es. \<exists>n x. table_of reg n = Some x \<and> describes zone e n x)"
proof -
  let ?es = "map (node_object zone) (nodes reg)"
  have ids: "\<forall>(n, info)\<in>set (nodes reg). ValidateNodeID n = None" using assms(2) by (auto simp: admitted_def)
  have desc: "describes zone (node_object zone (n, info)) n (view_node info)" if "(n, info) \<in> set (nodes reg)" for n info
    by (rule node_object_describes) (use that ids assms(1) in \<open>auto simp: reg_ok_def node_ok_def list_all_iff\<close>)
  have dist: "distinct (map fst (nodes reg))" using assms(1) by (simp add: reg_ok_def)
  have "\<exists>e\<in>set ?es. describes zone e n x" if "table_of reg n = Some x" for n x
  proof -
    from that obtain info where "map_of (nodes reg) n = Some info" and x: "x = view_node info"
      by (auto simp: table_of_def)
    then have "(n, info) \<in> set (nodes reg)" by (simp add: map_of_SomeD)
    with desc x show ?thesis by force
  qed
  moreover have "\<exists>n x. table_of reg n = Some x \<and> describes zone e n x" if "e \<in> set ?es" for e
  proof -
    from that obtain n info where e: "(n, info) \<in> set (nodes reg)" "e = node_object zone (n, info)" by auto
    with dist have "table_of reg n = Some (view_node info)" by (simp add: table_of_def)
    with desc e show ?thesis by blast
  qed
  ultimately show ?thesis
    using listing_read [OF assms(1,4,3), of zone a r] node_objects_distinct [OF dist ids] by metis
qed

subsection \<open>Properties\<close>

text \<open>\<^bold>\<open>C5\<close>
  Only validated input is ever stored, and the metrics are bounded by it. In every state of the process,
  each key of the node table is 1 to 255 letters, digits, hyphens, underscores and dots, beginning with a
  letter or digit; each address has at most 512 bytes and no null byte; no node has more than 10000 tasks.
  The value the tasks gauge was last set to is at least the number of tasks in the table and at most
  10000 for each node. Nothing but the validators stands between the wire and the table.
\<close>

theorem stored_input_is_validated:
  assumes "main_start fl hostname uuid listen d = Inr (cp, ops0)"
    and "proc_run lib codeString evs (boot cp ops0) = Some p"
    and "r = srv_registry (sys_server (pr_sys p))"
    and "gauge = last_TasksRunning 0 (metric_trace (sys_server (pr_sys p)))"
  shows "(\<forall>(n, info)\<in>set (nodes r).
      1 \<le> length n \<and> length n \<le> 255 \<and> hd n \<in> letters_digits \<and> set n \<subseteq> letters_digits \<union> id_punctuation \<and>
      length (NodeInfo_Address info) \<le> 512 \<and> CHR 0x00 \<notin> set (NodeInfo_Address info) \<and>
      length (NodeInfo_Tasks info) \<le> 10000) \<and>
    totalTasksLocked r \<le> gauge \<and> gauge \<le> 10000 * length (nodes r)"
proof -
  from process_stored [OF assms(1,2)] have "\<forall>(n, info)\<in>set (nodes r). admitted n info"
    and gauge: "totalTasksLocked r \<le> gauge \<and> gauge \<le> 10000 * length (nodes r)"
    by (simp_all add: stored_ok_def gauge_bounded_def assms(3,4))
  then have "\<forall>(n, info)\<in>set (nodes r).
      1 \<le> length n \<and> length n \<le> 255 \<and> hd n \<in> letters_digits \<and> set n \<subseteq> letters_digits \<union> id_punctuation \<and>
      length (NodeInfo_Address info) \<le> 512 \<and> CHR 0x00 \<notin> set (NodeInfo_Address info) \<and>
      length (NodeInfo_Tasks info) \<le> 10000"
    unfolding admitted_def validator_ok safe_id_def alnum_char_iff safe_char_iff
    by (auto simp: Suc_le_eq)
  with gauge show ?thesis by blast
qed

theorem stored_input_is_validated_witness:
  "\<exists>p. proc_run sample_lib demo_code demo_life (boot demo_cp []) = Some p \<and>
     nodes (srv_registry (sys_server (pr_sys p))) \<noteq> [] \<and>
     last_TasksRunning 0 (metric_trace (sys_server (pr_sys p))) \<le> 10000"
proof -
  have one: "length (nodes (srv_registry (sys_server (pr_sys demo_stopping)))) = 1"
    by (simp add: demo_stopping_def demo_y0_def)
  with stored_input_is_validated [OF demo_start_runs demo_life_runs refl refl] demo_life_runs show ?thesis by auto
qed

text \<open>\<^bold>\<open>C4\<close>
  What an operator reads. At any moment at which the HTTP server answers, whatever the process has been
  through, a request for the node listing with the configured key is answered 200 with one JSON array:
  one object for each node of the abstract table that the registrations, heartbeats, removals and
  sweeps performed so far make of the empty table, under distinct node ids, and no other. An object
  shows its node's id, hostname, address, last beat, number of GPUs and memory. The one assumption
  on the agents is that the decoder passes on no nil GPU.
\<close>

theorem operator_reads_table:
  assumes "main_start fl hostname uuid listen d = Inr (cp, ops0)"
    and "proc_run lib codeString evs (boot cp ops0) = Some p" and "pr_phase p \<in> {Serving, LoopLeft, GrpcStopping}"
    and "\<forall>ev\<in>set evs. decoded_event ev" and "\<And>x. CloneOf x = x"
    and "req_path r = ''/api/v1/nodes''"
    and "apiKey fl \<in> {'''', values_Get (req_header r) ''X-Api-Key''}"
  shows "\<exists>ops S resp es.
    sys_path \<lparr>cfg_lib = lib, cfg_codeString = codeString, cfg_server =
      NewAgentServer (cluster_id fl uuid) (leader_addr fl) (agentToken fl)\<rparr> sys_init ops (pr_sys p) \<and>
    run_ops spec_next ops (\<lambda>n. None) = Some S \<and> S = table_of (srv_registry (sys_server (pr_sys p))) \<and>
    http_answer CloneOf zone exporter not_found p r = Some (Inr resp) \<and> resp_status resp = Some 200 \<and>
    html_safe (resp_body resp) \<and> read_json (resp_body resp) = Some (VArray es) \<and>
    distinct (map (member ''node_id'') es) \<and>
    (\<forall>n x. S n = Some x \<longrightarrow> (\<exists>e\<in>set es. describes zone e n x)) \<and>
    (\<forall>e\<in>set es. \<exists>n x. S n = Some x \<and> describes zone e n x)"
proof -
  let ?cfg = "\<lparr>cfg_lib = lib, cfg_codeString = codeString,
      cfg_server = NewAgentServer (cluster_id fl uuid) (leader_addr fl) (agentToken fl)\<rparr>"
  let ?reg = "srv_registry (sys_server (pr_sys p))"
  have cp: "pr_cp (boot cp ops0) = cp" by (simp add: boot_def)
  from proc_run_sys [OF assms(2)] obtain ops where "sys_path (config_of lib codeString cp) sys_init ops (pr_sys p)"
    unfolding boot_start(1) [OF assms(1)] cp by blast
  then have path: "sys_path ?cfg sys_init ops (pr_sys p)" unfolding config_of_def boot_start(2) [OF assms(1)] .
  note run = sys_path_run_ops [OF path sys_inv_init]
  have empty: "srv_registry (sys_server sys_init) = NewNodeRegistry" by (simp add: sys_init_def idle_server_def)
  have table: "run_ops spec_next ops (\<lambda>n. None) = Some (table_of ?reg)"
    using reg_table.view_run [OF reg_ok_new, of ops] run by (simp add: empty table_of_new)
  from process_stored [OF assms(1,2)] have ok: "reg_ok ?reg" and adm: "\<forall>(n, info)\<in>set (nodes ?reg). admitted n info"
    by (simp_all add: stored_ok_def sys_inv_def Let_def)
  from process_gpus_present [OF assms(1,2,4)] have nil: "\<forall>e\<in>set (nodes ?reg). \<not> has_nil_gpu (snd e)" .
  have api: "cp_api (pr_cp p) = NewAPIServer (apiKey fl) (cp_tlsEnabled cp)"
    using proc_run_cp [OF assms(2)] assms(1)
    by (auto simp: boot_def main_start_def split: if_splits sum.splits prod.splits)
  from listing_shows_table [OF ok adm nil assms(5), of zone "cp_api (pr_cp p)" r]
  obtain resp es where resp: "NodesHandler CloneOf zone (cp_api (pr_cp p)) ?reg r fresh_response = Inr resp"
    and shown: "resp_status resp = Some 200" "html_safe (resp_body resp)"
      "read_json (resp_body resp) = Some (VArray es)" "distinct (map (member ''node_id'') es)"
      "\<forall>n x. table_of ?reg n = Some x \<longrightarrow> (\<exists>e\<in>set es. describes zone e n x)"
      "\<forall>e\<in>set es. \<exists>n x. table_of ?reg n = Some x \<and> describes zone e n x"
    by blast
  have "RequireAPIKey (cp_api (pr_cp p)) (NodesHandler CloneOf zone (cp_api (pr_cp p)) ?reg) r fresh_response = Inr resp"
    unfolding api_key_policy using assms(7) resp by (auto simp: api NewAPIServer_def)
  with assms(3,6) have "http_answer CloneOf zone exporter not_found p r = Some (Inr resp)"
    by (auto simp: http_answer_def grpc_up_def main_mux_def)
  with path table shown show ?thesis by blast
qed

definition demo_listing :: http_request where
  "demo_listing = \<lparr>req_path = ''/api/v1/nodes'', req_header = [], req_query = []\<rparr>"

theorem operator_reads_table_witness:
  "\<exists>p resp es e. proc_run sample_lib demo_code demo_life (boot demo_cp []) = Some p \<and>
     http_answer (\<lambda>x. x) (\<lambda>t. 3600) (\<lambda>r w. Inr w) (\<lambda>r w. Inr w) p demo_listing = Some (Inr resp) \<and>
     read_json (resp_body resp) = Some (VArray es) \<and> e \<in> set es \<and>
     member ''node_id'' e = Some (VString (map of_char ''n''))"
proof -
  have "\<forall>ev\<in>set demo_life. decoded_event ev"
    by (simp add: demo_life_def demo_opening_def demo_register_def NodeResources_zero_def)
  moreover have "pr_phase demo_stopping \<in> {Serving, LoopLeft, GrpcStopping}" by (simp add: demo_stopping_phase)
  moreover have "req_path demo_listing = ''/api/v1/nodes''"
    and "apiKey default_flags \<in> {'''', values_Get (req_header demo_listing) ''X-Api-Key''}"
    by (simp_all add: demo_listing_def default_flags_def)
  moreover have "table_of (srv_registry (sys_server (pr_sys demo_stopping))) ''n'' \<noteq> None"
    by (simp add: table_of_def demo_stopping_def demo_y0_def)
  ultimately show ?thesis
    using operator_reads_table [OF demo_start_runs demo_life_runs, where CloneOf = "\<lambda>x. x" and zone = "\<lambda>t. 3600"
        and r = demo_listing and exporter = "\<lambda>r w. Inr w" and not_found = "\<lambda>r w. Inr w"] demo_life_runs
    unfolding describes_def by blast
qed

end
