(* ===== verification/Reload_Race.thy ===== *)
theory Reload_Race
  imports TlsReload Go_Maps Connection_Table
begin

text \<open>
  \<^verbatim>\<open>CertReloader.load\<close> of \<^verbatim>\<open>internal/tlsreload\<close>, call by call. The poller and the signal loop call it from
  two goroutines, it takes the lock only to swap, and the files can be replaced between any two of its
  calls. A load in flight is a program point with what it has read so far; one step is one call to the
  operating system, one read of a shared field, or the swap. \<open>load\<close> of \<open>TlsReload\<close> is such a load when
  nothing comes in between.
\<close>

subsection \<open>Files\<close>

text \<open>
  The three files at an instant: the error of opening them, or the modification time and the bytes. The
  parsers of Go's \<^verbatim>\<open>crypto\<close> packages are the record \<open>parsers\<close>.
\<close>

type_synonym tls_file = "string + time \<times> string"

record tls_files =
  file_cert :: tls_file
  file_key :: tls_file
  file_ca :: tls_file

record ('cert, 'pool) parsers =
  X509KeyPair :: "string \<Rightarrow> string \<Rightarrow> string + 'cert"
  CertsFromPEM :: "string \<Rightarrow> 'pool option"

text \<open>What a load that sees the files at one instant finds.\<close>

definition read_pair :: "('cert, 'pool) parsers \<Rightarrow> tls_files \<Rightarrow> string + 'cert" where
  "read_pair P fs =
     (case file_cert fs of
        Inl e \<Rightarrow> Inl e
      | Inr (_, cb) \<Rightarrow> (case file_key fs of Inl e \<Rightarrow> Inl e | Inr (_, kb) \<Rightarrow> X509KeyPair P cb kb))"

definition disk_of :: "('cert, 'pool) parsers \<Rightarrow> tls_files \<Rightarrow> ('cert, 'pool) disk" where
  "disk_of P fs =
     \<lparr>stat_cert = map_sum id fst (file_cert fs), stat_key = map_sum id fst (file_key fs),
      stat_ca = map_sum id fst (file_ca fs), LoadX509KeyPair = read_pair P fs,
      ReadFile_ca = map_sum id snd (file_ca fs), AppendCertsFromPEM = CertsFromPEM P\<rparr>"

subsection \<open>One load, step by step\<close>

text \<open>
  The times are those of certificate, key and CA file as \<open>os.Stat\<close> gave them; the flags say whether a
  change has been seen.
\<close>

datatype ('cert, 'pool) load_pc =
    LdStatCert
  | LdStatKey time
  | LdCompareCert time time
  | LdCompareKey time time bool
  | LdStatCA time time bool
  | LdCompareCA time time bool time
  | LdReadCert time time "time option"
  | LdReadKey time time "time option" string
  | LdReadCA time time "time option" 'cert
  | LdSwap time time "time option" 'cert "'pool option"
  | LdDone go_error

fun load_step ::
  "('cert, 'pool) parsers \<Rightarrow> tls_files \<Rightarrow> ('cert, 'pool) load_pc \<Rightarrow> ('cert, 'pool) CertReloader
     \<Rightarrow> ('cert, 'pool) load_pc \<times> ('cert, 'pool) CertReloader \<times> metric_op list" where
  "load_step P fs LdStatCert r =
     (case file_cert fs of
        Inl e \<Rightarrow> (LdDone (Some (errorf (''stat cert file '' @ certPath r) e)), r, [])
      | Inr (tc, _) \<Rightarrow> (LdStatKey tc, r, []))"
| "load_step P fs (LdStatKey tc) r =
     (case file_key fs of
        Inl e \<Rightarrow> (LdDone (Some (errorf (''stat key file '' @ keyPath r) e)), r, [])
      | Inr (tk, _) \<Rightarrow> (LdCompareCert tc tk, r, []))"
| "load_step P fs (LdCompareCert tc tk) r = (LdCompareKey tc tk (tc \<noteq> certMod r), r, [])"
| "load_step P fs (LdCompareKey tc tk changed) r =
     (let changed = (changed \<or> tk \<noteq> keyMod r)
      in if caCertPath r \<noteq> '''' then (LdStatCA tc tk changed, r, [])
         else if changed then (LdReadCert tc tk None, r, [])
         else (LdDone None, r, []))"
| "load_step P fs (LdStatCA tc tk changed) r =
     (case file_ca fs of
        Inl e \<Rightarrow> (LdDone (Some (errorf (''stat CA cert file '' @ caCertPath r) e)), r, [])
      | Inr (ta, _) \<Rightarrow> (LdCompareCA tc tk changed ta, r, []))"
| "load_step P fs (LdCompareCA tc tk changed ta) r =
     (if changed \<or> ta \<noteq> caMod r then (LdReadCert tc tk (Some ta), r, []) else (LdDone None, r, []))"
| "load_step P fs (LdReadCert tc tk ta) r =
     (case file_cert fs of
        Inl e \<Rightarrow> (LdDone (Some (errorf ''load X509 key pair'' e)), r, [])
      | Inr (_, cb) \<Rightarrow> (LdReadKey tc tk ta cb, r, []))"
| "load_step P fs (LdReadKey tc tk ta cb) r =
     (case (case file_key fs of Inl e \<Rightarrow> Inl e | Inr (_, kb) \<Rightarrow> X509KeyPair P cb kb) of
        Inl e \<Rightarrow> (LdDone (Some (errorf ''load X509 key pair'' e)), r, [])
      | Inr c \<Rightarrow> if caCertPath r \<noteq> '''' then (LdReadCA tc tk ta c, r, []) else (LdSwap tc tk ta c None, r, []))"
| "load_step P fs (LdReadCA tc tk ta c) r =
     (case file_ca fs of
        Inl e \<Rightarrow> (LdDone (Some (errorf (''read CA cert '' @ caCertPath r) e)), r, [])
      | Inr (_, pem) \<Rightarrow>
          (case CertsFromPEM P pem of
             None \<Rightarrow> (LdDone (Some (errorf (''parse CA certificate '' @ caCertPath r) ''no valid PEM found'')), r, [])
           | Some pool \<Rightarrow> (LdSwap tc tk ta c (Some pool), r, [])))"
| "load_step P fs (LdSwap tc tk ta c pool) r =
     (LdDone None,
      r\<lparr>cert := Some c, clientCAPool := pool, hasCA := (caCertPath r \<noteq> ''''), certMod := tc, keyMod := tk,
        caMod := (if caCertPath r \<noteq> '''' then the ta else caMod r)\<rparr>,
      [TLSCertLoadTotal_Inc ''success''])"
| "load_step P fs (LdDone err) r = (LdDone err, r, [])"

subsection \<open>Loads side by side\<close>

text \<open>
  The reloader, the files so far (the present state last), and the loads in flight. A load that has
  returned is taken out by its caller, \<open>Reload\<close> or \<open>Watch\<close>, which counts a failure.
\<close>

record ('cert, 'pool) race =
  rc_reloader :: "('cert, 'pool) CertReloader"
  rc_history :: "tls_files list"
  rc_loads :: "(nat \<times> ('cert, 'pool) load_pc) list"
  rc_metrics :: "metric_op list"

datatype race_event = RcWrite tls_files | RcStart nat | RcStep nat | RcReturn nat

fun race_next ::
  "('cert, 'pool) parsers \<Rightarrow> race_event \<Rightarrow> ('cert, 'pool) race \<Rightarrow> ('cert, 'pool) race option" where
  "race_next P (RcWrite fs) s = Some (s\<lparr>rc_history := rc_history s @ [fs]\<rparr>)"
| "race_next P (RcStart i) s =
     (case map_of (rc_loads s) i of
        Some _ \<Rightarrow> None
      | None \<Rightarrow> Some (s\<lparr>rc_loads := (i, LdStatCert) # rc_loads s\<rparr>))"
| "race_next P (RcStep i) s =
     (case map_of (rc_loads s) i of
        None \<Rightarrow> None
      | Some (LdDone err) \<Rightarrow> None
      | Some pc \<Rightarrow>
          let (pc1, r1, ops) = load_step P (last (rc_history s)) pc (rc_reloader s)
          in Some (s\<lparr>rc_reloader := r1, rc_loads := AList.update i pc1 (rc_loads s),
                     rc_metrics := rc_metrics s @ ops\<rparr>))"
| "race_next P (RcReturn i) s =
     (case map_of (rc_loads s) i of
        Some (LdDone err) \<Rightarrow>
          Some (s\<lparr>rc_loads := AList.delete i (rc_loads s),
                  rc_metrics := rc_metrics s @ (if err \<noteq> None then [TLSCertLoadTotal_Inc ''failure''] else [])\<rparr>)
      | _ \<Rightarrow> None)"

abbreviation race_run where
  "race_run P \<equiv> run_ops (race_next P)"

definition race_start :: "tls_files \<Rightarrow> ('cert, 'pool) CertReloader \<Rightarrow> ('cert, 'pool) race" where
  "race_start fs r = \<lparr>rc_reloader = r, rc_history = [fs], rc_loads = [], rc_metrics = []\<rparr>"


subsection \<open>A load that is left alone\<close>

text \<open>A number of steps of one load, with nothing in between.\<close>

primrec run_load ::
  "('cert, 'pool) parsers \<Rightarrow> tls_files \<Rightarrow> nat \<Rightarrow> ('cert, 'pool) load_pc \<Rightarrow> ('cert, 'pool) CertReloader
     \<Rightarrow> ('cert, 'pool) load_pc \<times> ('cert, 'pool) CertReloader \<times> metric_op list" where
  "run_load P fs 0 pc r = (pc, r, [])"
| "run_load P fs (Suc n) pc r =
     (let (pc1, r1, ops1) = load_step P fs pc r;
          (pc2, r2, ops2) = run_load P fs n pc1 r1
      in (pc2, r2, ops1 @ ops2))"

lemma run_load_done [simp]: "run_load P fs n (LdDone err) r = (LdDone err, r, [])"
  by (induction n) simp_all

text \<open>The half that looks for changes, and the half that reads and swaps.\<close>

lemma run_load_look:
  "run_load P fs (Suc n) LdStatCert r =
     (case file_cert fs of
        Inl e \<Rightarrow> (LdDone (Some (errorf (''stat cert file '' @ certPath r) e)), r, [])
      | Inr (tc, _) \<Rightarrow> run_load P fs n (LdStatKey tc) r)"
  "run_load P fs (Suc n) (LdStatKey tc) r =
     (case file_key fs of
        Inl e \<Rightarrow> (LdDone (Some (errorf (''stat key file '' @ keyPath r) e)), r, [])
      | Inr (tk, _) \<Rightarrow> run_load P fs n (LdCompareCert tc tk) r)"
  "run_load P fs (Suc n) (LdCompareCert tc tk) r = run_load P fs n (LdCompareKey tc tk (tc \<noteq> certMod r)) r"
  "run_load P fs (Suc n) (LdCompareKey tc tk changed) r =
     (if caCertPath r \<noteq> '''' then run_load P fs n (LdStatCA tc tk (changed \<or> tk \<noteq> keyMod r)) r
      else if changed \<or> tk \<noteq> keyMod r then run_load P fs n (LdReadCert tc tk None) r else (LdDone None, r, []))"
  "run_load P fs (Suc n) (LdStatCA tc tk changed) r =
     (case file_ca fs of
        Inl e \<Rightarrow> (LdDone (Some (errorf (''stat CA cert file '' @ caCertPath r) e)), r, [])
      | Inr (ta, _) \<Rightarrow> run_load P fs n (LdCompareCA tc tk changed ta) r)"
  "run_load P fs (Suc n) (LdCompareCA tc tk changed ta) r =
     (if changed \<or> ta \<noteq> caMod r then run_load P fs n (LdReadCert tc tk (Some ta)) r else (LdDone None, r, []))"
  by (simp_all add: Let_def split: sum.split prod.split)

lemma run_load_read:
  "run_load P fs (Suc (Suc (Suc (Suc n)))) (LdReadCert tc tk ta) r =
     (case read_pair P fs of
        Inl e \<Rightarrow> (LdDone (Some (errorf ''load X509 key pair'' e)), r, [])
      | Inr c \<Rightarrow>
          (case load_ca (disk_of P fs) r of
             Inl err \<Rightarrow> (LdDone (Some err), r, [])
           | Inr (pool, has) \<Rightarrow>
               (LdDone None,
                r\<lparr>cert := Some c, clientCAPool := pool, hasCA := has, certMod := tc, keyMod := tk,
                  caMod := (if caCertPath r \<noteq> '''' then the ta else caMod r)\<rparr>,
                [TLSCertLoadTotal_Inc ''success''])))"
  by (cases "file_cert fs"; cases "file_key fs"; cases "file_ca fs")
     (simp_all add: read_pair_def load_ca_def disk_of_def Let_def split: sum.split prod.split option.split)

lemma run_load_looks:
  "run_load P fs (Suc (Suc (Suc (Suc (Suc (Suc n)))))) LdStatCert r =
     (case file_cert fs of
        Inl e \<Rightarrow> (LdDone (Some (errorf (''stat cert file '' @ certPath r) e)), r, [])
      | Inr (tc, _) \<Rightarrow>
     (case file_key fs of
        Inl e \<Rightarrow> (LdDone (Some (errorf (''stat key file '' @ keyPath r) e)), r, [])
      | Inr (tk, _) \<Rightarrow>
          if caCertPath r \<noteq> '''' then
            (case file_ca fs of
               Inl e \<Rightarrow> (LdDone (Some (errorf (''stat CA cert file '' @ caCertPath r) e)), r, [])
             | Inr (ta, _) \<Rightarrow>
                 if tc \<noteq> certMod r \<or> tk \<noteq> keyMod r \<or> ta \<noteq> caMod r
                 then run_load P fs n (LdReadCert tc tk (Some ta)) r else (LdDone None, r, []))
          else if tc \<noteq> certMod r \<or> tk \<noteq> keyMod r
            then run_load P fs (Suc (Suc n)) (LdReadCert tc tk None) r else (LdDone None, r, [])))"
  by (simp only: run_load_look run_load_done disj_assoc split: sum.split prod.split)

lemma run_load_load:
  "run_load P fs 10 LdStatCert r =
     (let (err, r1, ops) = load (disk_of P fs) r in (LdDone err, r1, ops))"
proof -
  have ten: "(10 :: nat) = Suc (Suc (Suc (Suc (Suc (Suc (Suc (Suc (Suc (Suc 0)))))))))" by simp
  have disk: "stat_cert (disk_of P fs) = map_sum id fst (file_cert fs)" "stat_key (disk_of P fs) = map_sum id fst (file_key fs)"
    "stat_ca (disk_of P fs) = map_sum id fst (file_ca fs)" "LoadX509KeyPair (disk_of P fs) = read_pair P fs"
    by (simp_all add: disk_of_def)
  show ?thesis
    unfolding ten run_load_looks run_load_read load_def Let_def disk
    by (cases "file_cert fs"; cases "file_key fs"; cases "file_ca fs"; cases "read_pair P fs";
        cases "load_ca (disk_of P fs) r"; cases "caCertPath r = ''''")
      (simp_all add: case_prod_beta del: run_load.simps)
qed

lemma alist_update_same: "map_of al k = Some v \<Longrightarrow> AList.update k v al = al"
  by (induction al) auto

lemma race_run_load:
  assumes "map_of (rc_loads s) i = Some pc" and "run_load P (last (rc_history s)) k pc (rc_reloader s) = (LdDone err, r1, ops)"
  shows "\<exists>n\<le>k. race_run P (replicate n (RcStep i)) s =
    Some (s\<lparr>rc_reloader := r1, rc_loads := AList.update i (LdDone err) (rc_loads s), rc_metrics := rc_metrics s @ ops\<rparr>)"
  using assms
proof (induction k arbitrary: s pc ops)
  case 0
  then show ?case by (simp add: alist_update_same)
next
  case (Suc k)
  show ?case
  proof (cases "\<exists>e. pc = LdDone e")
    case True
    with Suc.prems show ?thesis by (intro exI [of _ 0]) (auto simp: alist_update_same)
  next
    case False
    obtain pc1 r2 ops1 where step: "load_step P (last (rc_history s)) pc (rc_reloader s) = (pc1, r2, ops1)"
      by (metis prod_cases3)
    define s1 where "s1 = s\<lparr>rc_reloader := r2, rc_loads := AList.update i pc1 (rc_loads s),
        rc_metrics := rc_metrics s @ ops1\<rparr>"
    from False step Suc.prems(1) have nxt: "race_next P (RcStep i) s = Some s1"
      by (cases pc) (simp_all add: s1_def del: load_step.simps)
    from Suc.prems(2) step obtain ops2 where rest: "run_load P (last (rc_history s1)) k pc1 (rc_reloader s1) =
        (LdDone err, r1, ops2)" and ops: "ops = ops1 @ ops2"
      by (auto simp: s1_def split: prod.splits)
    have "map_of (rc_loads s1) i = Some pc1" by (simp add: s1_def map_of_alist_update)
    from Suc.IH [OF this rest] obtain n where "n \<le> k" and "race_run P (replicate n (RcStep i)) s1 =
        Some (s1\<lparr>rc_reloader := r1, rc_loads := AList.update i (LdDone err) (rc_loads s1),
          rc_metrics := rc_metrics s1 @ ops2\<rparr>)" by blast
    with nxt ops show ?thesis
      by (intro exI [of _ "Suc n"]) (simp add: s1_def del: race_next.simps)
  qed
qed

subsection \<open>What a load has seen\<close>

text \<open>
  In the history of one file: the time \<open>t\<close> was read from it; the time \<open>t\<close>, and the bytes \<open>b\<close> then or
  later. Times identify contents when no time comes back with other bytes, nor after other bytes.
\<close>

definition stated :: "tls_file list \<Rightarrow> time \<Rightarrow> bool" where
  "stated h t \<longleftrightarrow> (\<exists>i<length h. \<exists>b. h ! i = Inr (t, b))"

definition seen :: "tls_file list \<Rightarrow> time \<Rightarrow> string \<Rightarrow> bool" where
  "seen h t b \<longleftrightarrow> (\<exists>i k. i \<le> k \<and> k < length h \<and> (\<exists>b0. h ! i = Inr (t, b0)) \<and> (\<exists>t1. h ! k = Inr (t1, b)))"

definition stamped :: "tls_file list \<Rightarrow> bool" where
  "stamped h \<longleftrightarrow>
     (\<forall>i k j t b b1 t1. i \<le> k \<and> k \<le> j \<and> j < length h \<and> h ! i = Inr (t, b1) \<and>
        h ! k = Inr (t1, b) \<and> (\<exists>b2. h ! j = Inr (t, b2)) \<longrightarrow> (t1, b) = (t, b1))"

lemma stated_append: "stated h t \<Longrightarrow> stated (h @ h') t"
  unfolding stated_def by (elim exE conjE) (rule_tac x = i in exI, simp add: nth_append)

lemma seen_append:
  assumes "seen h t b"
  shows "seen (h @ h') t b"
proof -
  from assms obtain i k b0 t1 where "i \<le> k" "k < length h" "h ! i = Inr (t, b0)" "h ! k = Inr (t1, b)"
    unfolding seen_def by blast
  then show ?thesis unfolding seen_def by (intro exI [of _ i] exI [of _ k]) (auto simp: nth_append)
qed

lemma stated_last: "h \<noteq> [] \<Longrightarrow> last h = Inr (t, b) \<Longrightarrow> stated h t"
  unfolding stated_def by (intro exI [of _ "length h - 1"]) (simp add: last_conv_nth)

lemma seen_last:
  assumes "h \<noteq> []" and "stated h t" and "last h = Inr (t1, b)"
  shows "seen h t b"
proof -
  from assms(2) obtain i b0 where "i < length h" "h ! i = Inr (t, b0)" unfolding stated_def by blast
  with assms(1,3) show ?thesis
    unfolding seen_def by (intro exI [of _ i] exI [of _ "length h - 1"]) (auto simp: last_conv_nth)
qed

text \<open>When times identify contents and the file has the time that was stated, the bytes seen are its bytes.\<close>

lemma seen_current:
  assumes "stamped h" and "seen h t b" and "h \<noteq> []" and "last h = Inr (t, b')"
  shows "b = b'"
proof -
  let ?j = "length h - 1"
  from assms(3) have j: "?j < length h" by (simp add: diff_less)
  from assms(2) obtain i k b0 t1 where ik: "i \<le> k" "k < length h" "h ! i = Inr (t, b0)" "h ! k = Inr (t1, b)"
    unfolding seen_def by blast
  from assms(3,4) have last: "h ! ?j = Inr (t, b')" by (simp add: last_conv_nth)
  have "k \<le> ?j" using ik(2) by simp
  then have "(t1, b) = (t, b0)" using assms(1) ik j last unfolding stamped_def by blast
  moreover have "(t, b') = (t, b0)"
    using assms(1) ik \<open>k \<le> ?j\<close> j last order_trans [OF ik(1)] unfolding stamped_def by blast
  ultimately show ?thesis by simp
qed

text \<open>A certificate and pool, backed by bytes that were seen under the given times.\<close>

definition pair_backed :: "('cert, 'pool) parsers \<Rightarrow> tls_files list \<Rightarrow> time \<Rightarrow> time \<Rightarrow> 'cert \<Rightarrow> bool" where
  "pair_backed P h tc tk c \<longleftrightarrow>
     (\<exists>cb kb. seen (map file_cert h) tc cb \<and> seen (map file_key h) tk kb \<and> X509KeyPair P cb kb = Inr c)"

definition pool_backed ::
  "('cert, 'pool) parsers \<Rightarrow> tls_files list \<Rightarrow> string \<Rightarrow> time option \<Rightarrow> 'pool option \<Rightarrow> bool" where
  "pool_backed P h cap ta pool \<longleftrightarrow>
     (if cap = '''' then pool = None
      else \<exists>t pem p. ta = Some t \<and> seen (map file_ca h) t pem \<and> CertsFromPEM P pem = Some p \<and> pool = Some p)"

definition ca_stated :: "tls_files list \<Rightarrow> string \<Rightarrow> time option \<Rightarrow> bool" where
  "ca_stated h cap ta \<longleftrightarrow> (cap \<noteq> '''' \<longrightarrow> (\<exists>t. ta = Some t \<and> stated (map file_ca h) t))"

fun pc_inv :: "('cert, 'pool) parsers \<Rightarrow> tls_files list \<Rightarrow> string \<Rightarrow> ('cert, 'pool) load_pc \<Rightarrow> bool" where
  "pc_inv P h cap LdStatCert \<longleftrightarrow> True"
| "pc_inv P h cap (LdStatKey tc) \<longleftrightarrow> stated (map file_cert h) tc"
| "pc_inv P h cap (LdCompareCert tc tk) \<longleftrightarrow> stated (map file_cert h) tc \<and> stated (map file_key h) tk"
| "pc_inv P h cap (LdCompareKey tc tk changed) \<longleftrightarrow> stated (map file_cert h) tc \<and> stated (map file_key h) tk"
| "pc_inv P h cap (LdStatCA tc tk changed) \<longleftrightarrow>
     cap \<noteq> '''' \<and> stated (map file_cert h) tc \<and> stated (map file_key h) tk"
| "pc_inv P h cap (LdCompareCA tc tk changed ta) \<longleftrightarrow>
     cap \<noteq> '''' \<and> stated (map file_cert h) tc \<and> stated (map file_key h) tk \<and> stated (map file_ca h) ta"
| "pc_inv P h cap (LdReadCert tc tk ta) \<longleftrightarrow>
     stated (map file_cert h) tc \<and> stated (map file_key h) tk \<and> ca_stated h cap ta"
| "pc_inv P h cap (LdReadKey tc tk ta cb) \<longleftrightarrow>
     seen (map file_cert h) tc cb \<and> stated (map file_key h) tk \<and> ca_stated h cap ta"
| "pc_inv P h cap (LdReadCA tc tk ta c) \<longleftrightarrow> cap \<noteq> '''' \<and> pair_backed P h tc tk c \<and> ca_stated h cap ta"
| "pc_inv P h cap (LdSwap tc tk ta c pool) \<longleftrightarrow> pair_backed P h tc tk c \<and> pool_backed P h cap ta pool"
| "pc_inv P h cap (LdDone err) \<longleftrightarrow> True"

definition reloader_inv :: "('cert, 'pool) parsers \<Rightarrow> tls_files list \<Rightarrow> ('cert, 'pool) CertReloader \<Rightarrow> bool" where
  "reloader_inv P h r \<longleftrightarrow>
     (\<exists>c. cert r = Some c \<and> pair_backed P h (certMod r) (keyMod r) c) \<and>
     pool_backed P h (caCertPath r) (Some (caMod r)) (clientCAPool r) \<and>
     hasCA r = (caCertPath r \<noteq> '''')"

definition race_inv :: "('cert, 'pool) parsers \<Rightarrow> ('cert, 'pool) race \<Rightarrow> bool" where
  "race_inv P s \<longleftrightarrow>
     rc_history s \<noteq> [] \<and> reloader_inv P (rc_history s) (rc_reloader s) \<and>
     (\<forall>i pc. map_of (rc_loads s) i = Some pc \<longrightarrow> pc_inv P (rc_history s) (caCertPath (rc_reloader s)) pc)"

lemmas backed_defs = pair_backed_def pool_backed_def ca_stated_def

lemma backed_append:
  "pair_backed P h tc tk c \<Longrightarrow> pair_backed P (h @ h') tc tk c"
  "pool_backed P h cap ta pool \<Longrightarrow> pool_backed P (h @ h') cap ta pool"
  "ca_stated h cap ta \<Longrightarrow> ca_stated (h @ h') cap ta"
  unfolding backed_defs by (auto intro: seen_append stated_append split: if_splits)

lemma pc_inv_append: "pc_inv P h cap pc \<Longrightarrow> pc_inv P (h @ h') cap pc"
  by (cases pc) (simp_all add: seen_append stated_append backed_append)

lemma load_step_inv:
  assumes "load_step P (last h) pc r = (pc1, r1, ops)" and "h \<noteq> []"
    and "pc_inv P h (caCertPath r) pc" and "reloader_inv P h r"
  shows "pc_inv P h (caCertPath r) pc1 \<and> reloader_inv P h r1 \<and> caCertPath r1 = caCertPath r"
proof -
  have last: "last (map f h) = f (last h)" "map f h \<noteq> []" for f :: "tls_files \<Rightarrow> tls_file"
    using assms(2) by (simp_all add: last_map)
  have pair: "pair_backed P h tc tk c"
    if "seen (map file_cert h) tc cb" "stated (map file_key h) tk" "file_key (last h) = Inr (t, kb)"
      "X509KeyPair P cb kb = Inr c" for tc tk cb t kb c
    using that seen_last [OF last(2) that(2), unfolded last(1)] unfolding pair_backed_def by blast
  have pool: "pool_backed P h cap (Some t) (Some p)"
    if "stated (map file_ca h) t" "file_ca (last h) = Inr (t1, pem)" "CertsFromPEM P pem = Some p" "cap \<noteq> ''''"
    for t t1 pem p cap
    using that seen_last [OF last(2) that(1), unfolded last(1)] unfolding pool_backed_def by auto
  note st = stated_last [OF last(2), unfolded last(1)] seen_last [OF last(2), unfolded last(1)]
  show ?thesis
  proof (cases pc)
    case (LdReadKey tc tk ta cb)
    with assms pair show ?thesis
      by (auto simp: pool_backed_def split: sum.splits if_splits)
  next
    case (LdReadCA tc tk ta c)
    with assms pool show ?thesis
      by (auto simp: ca_stated_def split: sum.splits option.splits)
  next
    case (LdSwap tc tk ta c pool)
    with assms(1-3) show ?thesis by (cases "caCertPath r = ''''") (auto simp: reloader_inv_def pool_backed_def)
  qed (use assms st in \<open>auto simp: Let_def ca_stated_def split: sum.splits if_splits\<close>)
qed


lemma race_inv_next:
  assumes "race_next P ev s = Some s1" and inv: "race_inv P s"
  shows "race_inv P s1 \<and> caCertPath (rc_reloader s1) = caCertPath (rc_reloader s) \<and>
    (\<exists>h. rc_history s1 = rc_history s @ h)"
proof (cases ev)
  case (RcWrite fs)
  with assms show ?thesis
    by (fastforce simp: race_inv_def reloader_inv_def intro: backed_append pc_inv_append)
next
  case (RcStep i)
  then obtain pc where pc: "map_of (rc_loads s) i = Some pc" "\<And>err. pc \<noteq> LdDone err"
    using assms(1) by (auto split: option.splits load_pc.splits)
  obtain pc1 r1 ops where step: "load_step P (last (rc_history s)) pc (rc_reloader s) = (pc1, r1, ops)"
    by (metis prod_cases3)
  with pc RcStep assms(1) have s1: "s1 = s\<lparr>rc_reloader := r1, rc_loads := AList.update i pc1 (rc_loads s),
      rc_metrics := rc_metrics s @ ops\<rparr>"
    by (cases pc) (auto simp del: load_step.simps)
  have "pc_inv P (rc_history s) (caCertPath (rc_reloader s)) pc"
    using inv pc(1) by (simp add: race_inv_def)
  with load_step_inv [OF step] inv have "pc_inv P (rc_history s) (caCertPath (rc_reloader s)) pc1"
    and "reloader_inv P (rc_history s) r1" and "caCertPath r1 = caCertPath (rc_reloader s)"
    by (auto simp: race_inv_def)
  with inv show ?thesis
    by (auto simp: s1 race_inv_def map_of_alist_update)
qed (use assms in \<open>auto simp: race_inv_def map_of_alist_delete split: option.splits load_pc.splits if_splits\<close>)


lemma race_inv_run:
  "race_run P evs s = Some s1 \<Longrightarrow> race_inv P s \<Longrightarrow>
     race_inv P s1 \<and> caCertPath (rc_reloader s1) = caCertPath (rc_reloader s)"
proof (induction evs arbitrary: s)
  case (Cons ev evs)
  then obtain s2 where s2: "race_next P ev s = Some s2" "race_run P evs s2 = Some s1"
    by (auto split: option.splits)
  from race_inv_next [OF s2(1) Cons.prems(2)] Cons.IH [OF s2(2)] show ?case by simp
qed simp

text \<open>A load that saw the files at one instant.\<close>

lemma fresh_load_inv:
  assumes "fresh_load (disk_of P fs) r = Some cp" and "h \<noteq> []" and "last h = fs"
  shows "reloader_inv P h (swapped (disk_of P fs) cp r)"
proof -
  have last: "last (map f h) = f fs" "map f h \<noteq> []" for f :: "tls_files \<Rightarrow> tls_file"
    using assms(2,3) by (simp_all add: last_map)
  have now: "seen (map f h) t b" if "f fs = Inr (t, b)" for f :: "tls_files \<Rightarrow> tls_file" and t b
    using seen_last [OF last(2) stated_last [OF last(2)]] last(1) that by metis
  from assms(1) obtain tc cb tk kb c where files: "file_cert fs = Inr (tc, cb)" "file_key fs = Inr (tk, kb)"
    "X509KeyPair P cb kb = Inr c" "fst cp = c"
    by (auto simp: fresh_load_def disk_of_def read_pair_def split: sum.splits prod.splits if_splits option.splits)
  have pool: "\<exists>ta pem p. file_ca fs = Inr (ta, pem) \<and> CertsFromPEM P pem = Some p \<and> snd cp = Some p"
    if "caCertPath r \<noteq> ''''"
    using assms(1) that
    by (cases "file_ca fs") (auto simp: fresh_load_def disk_of_def read_pair_def split: sum.splits prod.splits if_splits option.splits)
  have none: "snd cp = None" if "caCertPath r = ''''" using load_swapped [OF assms(1)] that by simp
  show ?thesis
  proof (cases "caCertPath r = ''''")
    case True
    with none files now [of file_cert, OF files(1)] now [of file_key, OF files(2)] show ?thesis
      by (auto simp: reloader_inv_def pair_backed_def pool_backed_def swapped_def disk_of_def)
  next
    case False
    with pool obtain ta pem p where ca: "file_ca fs = Inr (ta, pem)" "CertsFromPEM P pem = Some p" "snd cp = Some p"
      by blast
    with False files now [of file_cert, OF files(1)] now [of file_key, OF files(2)] now [of file_ca, OF ca(1)] show ?thesis
      by (auto simp: reloader_inv_def pair_backed_def pool_backed_def swapped_def disk_of_def)
  qed
qed

lemma race_start_inv:
  assumes "fst (New (disk_of P fs) cp kp cap) = Inr r" and "stat_cert (disk_of P fs) \<noteq> Inr zero_time"
  shows "race_inv P (race_start fs r)" and "caCertPath r = cap"
proof -
  obtain x where x: "fresh_load (disk_of P fs) (blank_reloader cp kp cap) = Some x"
    "r = swapped (disk_of P fs) x (blank_reloader cp kp cap)"
    using New_state [OF assms(1)] assms(2) by (auto simp: unchanged_def split: option.splits)
  from fresh_load_inv [OF x(1), of "[fs]"] x(2) show "race_inv P (race_start fs r)"
    by (simp add: race_inv_def race_start_def)
  show "caCertPath r = cap" by (simp add: x(2) swapped_def)
qed

lemma unchanged_serves:
  assumes "race_inv P s" and "stamped (map file_cert (rc_history s))" and "stamped (map file_key (rc_history s))"
    and "stamped (map file_ca (rc_history s))" and "d = disk_of P (last (rc_history s))"
    and "unchanged d (rc_reloader s)"
  shows "serves {d} (rc_reloader s)"
proof -
  let ?r = "rc_reloader s" and ?h = "rc_history s"
  have h: "?h \<noteq> []" using assms(1) by (simp add: race_inv_def)
  have last: "map f ?h \<noteq> []" "last (map f ?h) = f (last ?h)" for f :: "tls_files \<Rightarrow> tls_file"
    using h by (simp_all add: last_map)
  from assms(1) obtain c cb kb where c: "cert ?r = Some c" "seen (map file_cert ?h) (certMod ?r) cb"
    "seen (map file_key ?h) (keyMod ?r) kb" "X509KeyPair P cb kb = Inr c"
    and pool: "pool_backed P ?h (caCertPath ?r) (Some (caMod ?r)) (clientCAPool ?r)"
    and ca: "hasCA ?r = (caCertPath ?r \<noteq> '''')"
    by (auto simp: race_inv_def reloader_inv_def pair_backed_def)
  from assms(5,6) obtain cb' kb' where now: "file_cert (last ?h) = Inr (certMod ?r, cb')"
    "file_key (last ?h) = Inr (keyMod ?r, kb')"
    by (auto simp: unchanged_def disk_of_def map_sum_def split: sum.splits)
  from seen_current [OF assms(2) c(2)] seen_current [OF assms(3) c(3)] last now
  have bytes: "cb' = cb" "kb' = kb" by auto
  have pair: "LoadX509KeyPair d = Inr c" using now c(4) by (simp add: assms(5) disk_of_def read_pair_def bytes)
  show ?thesis
  proof (cases "caCertPath ?r = ''''")
    case True
    with pair c(1) pool ca show ?thesis by (simp add: serves_def contents_def pool_backed_def)
  next
    case False
    with pool obtain pem p where p: "seen (map file_ca ?h) (caMod ?r) pem" "CertsFromPEM P pem = Some p"
      "clientCAPool ?r = Some p" by (auto simp: pool_backed_def)
    from False assms(5,6) obtain pem' where "file_ca (last ?h) = Inr (caMod ?r, pem')"
      by (auto simp: unchanged_def disk_of_def map_sum_def split: sum.splits)
    with seen_current [OF assms(4) p(1)] last have "file_ca (last ?h) = Inr (caMod ?r, pem)" by auto
    with False pair c(1) p ca show ?thesis by (simp add: serves_def contents_def assms(5) disk_of_def)
  qed
qed


text \<open>A load of which every other goroutine keeps clear is \<open>Reload\<close>.\<close>

lemma undisturbed:
  assumes "map_of (rc_loads s) i = None"
  shows "\<exists>n\<le>10. race_run P (RcStart i # replicate n (RcStep i) @ [RcReturn i]) s =
    Some (s\<lparr>rc_reloader := fst (Reload (disk_of P (last (rc_history s))) (rc_reloader s)),
            rc_metrics := rc_metrics s @ snd (Reload (disk_of P (last (rc_history s))) (rc_reloader s))\<rparr>)"
proof -
  define s0 where "s0 = s\<lparr>rc_loads := (i, LdStatCert) # rc_loads s\<rparr>"
  obtain err r1 ops where load: "load (disk_of P (last (rc_history s))) (rc_reloader s) = (err, r1, ops)"
    by (metis prod_cases3)
  have start: "race_next P (RcStart i) s = Some s0" using assms by (simp add: s0_def)
  have "map_of (rc_loads s0) i = Some LdStatCert" by (simp add: s0_def)
  moreover have "run_load P (last (rc_history s0)) 10 LdStatCert (rc_reloader s0) = (LdDone err, r1, ops)"
    using run_load_load [of P "last (rc_history s)" "rc_reloader s"] load by (simp add: s0_def)
  ultimately obtain n where "n \<le> 10" and steps: "race_run P (replicate n (RcStep i)) s0 =
      Some (s0\<lparr>rc_reloader := r1, rc_loads := AList.update i (LdDone err) (rc_loads s0),
        rc_metrics := rc_metrics s0 @ ops\<rparr>)"
    using race_run_load by blast
  moreover have "AList.delete i (AList.update i (LdDone err) (rc_loads s0)) = rc_loads s"
    using alist_delete_notin [OF assms] by (simp add: s0_def)
  moreover have "map_of (AList.update i (LdDone err) (rc_loads s0)) i = Some (LdDone err)"
    by (simp add: map_of_alist_update)
  ultimately show ?thesis
    using start load
    by (intro exI [of _ n]) (simp add: run_ops_append s0_def Reload_def del: AList.update.simps split: option.split)
qed

subsection \<open>Properties\<close>

text \<open>\<^bold>\<open>C17\<close>
  Polling is enough, under any interleaving of loads with each other and with changes of the files,
  provided that a modification time identifies the contents of its file: no file is given an earlier
  modification time again after it held other bytes, nor other bytes under the same time. That is the
  hypothesis \<open>stamped\<close>, for each of the three files over the whole run; a file put back with its old
  modification time is outside of it, and then \<open>load\<close> does miss the change (\<open>Reload_not_forced\<close>). Under it, whenever a
  load would find nothing changed, the certificate and pool being served are the ones in the files, so
  a poll that does nothing is right to. And from any state, with loads in flight at any point, one load
  that runs undisturbed on valid files leaves the reloader serving them.
\<close>

theorem polling_catches_up:
  assumes "fst (New (disk_of P fs) cp kp cap) = Inr r" and "stat_cert (disk_of P fs) \<noteq> Inr zero_time"
    and "race_run P evs (race_start fs r) = Some s"
    and "stamped (map file_cert (rc_history s))" and "stamped (map file_key (rc_history s))"
    and "stamped (map file_ca (rc_history s))" and "d = disk_of P (last (rc_history s))"
    and "map_of (rc_loads s) i = None"
  shows "(unchanged d (rc_reloader s) \<longrightarrow> serves {d} (rc_reloader s)) \<and>
    (contents cap d \<noteq> None \<longrightarrow>
       (\<exists>n\<le>10. \<exists>s1. race_run P (RcStart i # replicate n (RcStep i) @ [RcReturn i]) s = Some s1 \<and>
          serves {d} (rc_reloader s1)))"
proof (intro conjI impI)
  let ?r = "rc_reloader s"
  from race_inv_run [OF assms(3) race_start_inv(1) [OF assms(1,2)]] race_start_inv(2) [OF assms(1,2)]
  have inv: "race_inv P s" and cap: "caCertPath ?r = cap" by (simp_all add: race_start_def)
  note unch = unchanged_serves [OF inv assms(4-7)]
  then show "unchanged d ?r \<Longrightarrow> serves {d} ?r" .
  assume valid: "contents cap d \<noteq> None"
  have "serves {d} (fst (Reload d ?r))"
  proof (cases "fresh_load d ?r")
    case None
    with valid have "unchanged d ?r" unfolding cap [symmetric] assms(7)
      by (auto simp: contents_def fresh_load_def unchanged_def disk_of_def read_pair_def map_sum_def
          split: sum.splits prod.splits if_splits option.splits)
    with unch None show ?thesis by (simp add: Reload_state)
  next
    case (Some x)
    from serves_swapped [OF this, of "{d}"] Some show ?thesis by (simp add: Reload_state)
  qed
  with undisturbed [OF assms(8), of P] assms(7)
  show "\<exists>n\<le>10. \<exists>s1. race_run P (RcStart i # replicate n (RcStep i) @ [RcReturn i]) s = Some s1 \<and>
      serves {d} (rc_reloader s1)" by auto
qed

text \<open>\<^bold>\<open>C40\<close>
  Two loads at once can go back in time. A poll reads the files and is about to swap; the files are
  renewed, and a reload on signal loads and serves the new certificate; then the poll swaps in the old
  one, and with no load in flight any more the reloader serves a certificate that is older than the one
  it served before and that is no longer on disk.
\<close>

theorem newer_certificate_overwritten:
  assumes "caCertPath r = ''''" and "i \<noteq> j"
    and "fresh_load (disk_of P old) r = Some (c_old, None)" and "fresh_load (disk_of P new) r = Some (c_new, None)"
  shows "\<exists>s1 s2.
    race_run P (RcStart i # replicate 6 (RcStep i) @ [RcWrite new, RcStart j] @ replicate 7 (RcStep j) @ [RcReturn j])
      (race_start old r) = Some s1 \<and> GetCertificate (rc_reloader s1) = Some c_new \<and>
    race_run P [RcStep i, RcReturn i] s1 = Some s2 \<and> rc_loads s2 = [] \<and>
    last (rc_history s2) = new \<and> GetCertificate (rc_reloader s2) = Some c_old"
  using assms
  by (auto simp: numeral_eq_Suc race_start_def fresh_load_def disk_of_def read_pair_def GetCertificate_def
      split: sum.splits prod.splits if_splits)


text \<open>Files for the examples: a pair of files is accepted when both bear the same name, which is the certificate.\<close>

definition demo_parsers :: "(string, string) parsers" where
  "demo_parsers = \<lparr>X509KeyPair = (\<lambda>cb kb. if cb = kb then Inr cb else Inl ''mismatch''), CertsFromPEM = Some\<rparr>"

definition demo_files :: "time \<Rightarrow> string \<Rightarrow> tls_files" where
  "demo_files t name = \<lparr>file_cert = Inr (t, name), file_key = Inr (t, name), file_ca = Inl ''none''\<rparr>"

definition demo_reloader :: "(string, string) CertReloader" where
  "demo_reloader = projr (fst (New (disk_of demo_parsers (demo_files 1 ''a'')) ''c'' ''k'' ''''))"

lemma demo_reloader_new: "fst (New (disk_of demo_parsers (demo_files 1 ''a'')) ''c'' ''k'' '''') = Inr demo_reloader"
  by (simp add: demo_reloader_def New_def load_def load_ca_def disk_of_def demo_files_def demo_parsers_def
      read_pair_def zero_time_def time_Second_def)

lemma demo_reloader_eq:
  "demo_reloader = \<lparr>cert = Some ''a'', clientCAPool = None, hasCA = False, certPath = ''c'', keyPath = ''k'',
     caCertPath = '''', certMod = 1, keyMod = 1, caMod = zero_time\<rparr>"
  by (simp add: demo_reloader_def New_def load_def load_ca_def disk_of_def demo_files_def demo_parsers_def
      read_pair_def zero_time_def time_Second_def)

theorem polling_catches_up_witness:
  "\<exists>s s1 n. race_run demo_parsers [RcStart 0, RcStep 0, RcWrite (demo_files 2 ''b'')]
      (race_start (demo_files 1 ''a'') demo_reloader) = Some s \<and>
    race_run demo_parsers (RcStart 1 # replicate n (RcStep 1) @ [RcReturn 1]) s = Some s1 \<and>
    serves {disk_of demo_parsers (demo_files 2 ''b'')} (rc_reloader s1)"
proof -
  have stamps: "stamped [Inr (1, ''a''), Inr (2, ''b'')]" "stamped [Inl ''none'', Inl ''none'']"
    by (auto simp: stamped_def less_Suc_eq nth_Cons')
  obtain s where s: "race_run demo_parsers [RcStart 0, RcStep 0, RcWrite (demo_files 2 ''b'')]
      (race_start (demo_files 1 ''a'') demo_reloader) = Some s"
    and parts: "rc_history s = [demo_files 1 ''a'', demo_files 2 ''b'']" "map_of (rc_loads s) 1 = None"
    by (simp add: race_start_def demo_files_def)
  have "stat_cert (disk_of demo_parsers (demo_files 1 ''a'')) \<noteq> Inr zero_time"
    by (simp add: disk_of_def demo_files_def zero_time_def time_Second_def)
  moreover have "contents '''' (disk_of demo_parsers (demo_files 2 ''b'')) \<noteq> None"
    by (simp add: contents_def disk_of_def read_pair_def demo_files_def demo_parsers_def)
  ultimately show ?thesis
    using polling_catches_up [OF demo_reloader_new _ s _ _ _ refl parts(2)] s stamps
    by (simp add: parts(1)) (auto simp: demo_files_def)
qed

theorem newer_certificate_overwritten_witness:
  "\<exists>s1 s2. GetCertificate (rc_reloader s1) = Some ''c'' \<and>
    race_run demo_parsers [RcStep 0, RcReturn 0] s1 = Some s2 \<and> rc_loads s2 = [] \<and>
    last (rc_history s2) = demo_files 3 ''c'' \<and> GetCertificate (rc_reloader s2) = Some ''b''"
proof -
  have "caCertPath demo_reloader = ''''" "(0 :: nat) \<noteq> 1"
    "fresh_load (disk_of demo_parsers (demo_files 2 ''b'')) demo_reloader = Some (''b'', None)"
    "fresh_load (disk_of demo_parsers (demo_files 3 ''c'')) demo_reloader = Some (''c'', None)"
    by (simp_all add: demo_reloader_eq fresh_load_def disk_of_def read_pair_def demo_files_def demo_parsers_def)
  from newer_certificate_overwritten [OF this] show ?thesis by blast
qed

end
