(* ===== verification/Spec2Isabelle.thy ===== *)
theory Spec2Isabelle
  imports Drain Operator_View Reload_Race
begin

text \<open>
  \<^bold>\<open>The nmonit control plane.\<close> nmonit is a cluster monitor: agents on compute nodes register with a
  control plane, stream heartbeats to it, and operators read the cluster's state from its REST API.
  This development models the control plane, the Go program under \<^verbatim>\<open>src/control-plane\<close>, and proves what
  its components promise. File names below are relative to that directory.

  \<^bold>\<open>Parts of the program and their theories.\<close>

  \<^item> \<^verbatim>\<open>gen/compute/v1/*.pb.go\<close>, the generated messages: \<open>Proto_Resource\<close>, \<open>Proto_Agent\<close>, \<open>Proto_Job\<close>,
    \<open>Proto_Storage\<close>, \<open>Proto_Memory\<close>, \<open>Proto_Control\<close>. One record per message, with its zero value, its
    \<open>Reset\<close> and its getters (which accept nil, the \<open>None\<close> of an option); one pair of tables per enum,
    each an instance of the locale \<open>enum_tables\<close> of \<open>Prelude\<close>.
  \<^item> \<^verbatim>\<open>gen/compute/v1/*_grpc.pb.go\<close>, the generated service bindings: \<open>Grpc_Services\<close>. Method names,
    client stubs, unimplemented servers, handlers and descriptors of the five services.
  \<^item> \<^verbatim>\<open>internal/registry\<close>, the table of nodes: \<open>Registry\<close>. Registration, heartbeats, removal, the
    connection number that guards removal, the sweep of stale nodes, the snapshot. The interface the
    heartbeat streams rely on is the locale \<open>connection_table\<close> of \<open>Connection_Table\<close>, interpreted on the
    registry's operations as \<open>reg_conn\<close>. \<open>Registry_Spec\<close> states what the registry promises as an
    abstract table of nodes, and interprets the locale \<open>op_simulation\<close> on the two as \<open>reg_table\<close>.
  \<^item> \<^verbatim>\<open>internal/validator\<close>, input validation: \<open>Validator\<close>, over \<open>Go_Strings\<close> (what is used of Go's
    \<^verbatim>\<open>strings\<close>, \<^verbatim>\<open>path/filepath\<close> and \<^verbatim>\<open>crypto/subtle\<close>) and \<open>Go_Regexp\<close> (UTF-8 decoding, regular
    expressions with their language, and a derivative matcher proved to decide it).
  \<^item> \<^verbatim>\<open>internal/metrics\<close>, method labels and the two interceptors: \<open>Metrics\<close>; the declared
    metrics and the calls made on them: \<open>Metric_Families\<close>.
  \<^item> \<^verbatim>\<open>internal/agent\<close>, the gRPC server: \<open>Agent\<close> has authentication, the validation chains with their
    audit entries, and the six unary handlers, each an interpretation of the locale \<open>validated_rpc\<close> or
    its extension \<open>logging_rpc\<close>; \<open>Heartbeat\<close> has the bidirectional stream as a step machine.
  \<^item> \<^verbatim>\<open>internal/tlsreload\<close>, certificate reloading: \<open>TlsReload\<close>, a load at a time; \<open>Reload_Race\<close>, call by
    call, with other loads and changes of the files in between.
  \<^item> \<^verbatim>\<open>internal/restapi\<close>, the HTTP API: \<open>RestApi\<close>, down to the text of a response: \<open>Go_Json\<close> writes
    JSON the way Go's \<^verbatim>\<open>encoding/json\<close> does and reads it back, \<open>Go_Float\<close> has doubles and their
    shortest decimal text, \<open>Go_Time\<close> has the calendar and \<open>time.RFC3339\<close>.
  \<^item> \<^verbatim>\<open>cmd/control-plane/main.go\<close>, the program: \<open>Main_Program\<close> has start-up, the interceptor chain, TLS,
    routes and signals; \<open>System\<close> puts calls, streams and the sweep together in one transition system;
    \<open>Lifecycle\<close> is the process around it, from ready to exit, with the calls the gRPC server has accepted
    and not run yet; \<open>Drain\<close> shows how its shutdown ends, and
    \<open>Operator_View\<close> follows what agents send from the wire through the node table to the node listing.
  \<^item> \<open>Prelude\<close>, \<open>Go_Maps\<close> and \<open>Effects\<close> hold what all of them share: machine numbers, lemmas on
    association lists, errors, panics, clock readings and the trace of calls to the metrics library.

  \<^bold>\<open>How state and operations correspond.\<close> A struct is a record, a pointer that may be nil an option, a
  Go map an association list whose order stands for the order Go happens to range in, a fixed-width
  integer a word. A method that changes state returns the new state; one that can fail returns
  \<open>error + 'a\<close>; one that can panic returns \<open>panic + 'a\<close>. An operation of the registry runs under its
  mutex and is therefore one step. A load of the certificate is not: it is one step in \<open>TlsReload\<close>,
  \<open>Main_Program\<close> and \<open>Lifecycle\<close>, and several in \<open>Reload_Race\<close>, which says when the two agree. The
  metrics library is third-party: a call to it is appended to a trace. The clock, the disk and the
  network are arguments.

  \<^bold>\<open>Parameters.\<close> The gRPC library appears as the record \<open>grpc_lib\<close> (metadata, peer address, error
  text), the status-code printer \<open>codeString\<close>, and the outcomes of decoding, receiving and sending;
  \<open>proto.CloneOf\<close> and the local time zone's offset from UTC are parameters of the node listing; the metrics
  exporter and the mux's answers to unknown paths are parameters of the routes; certificates, pools
  and the outcomes of reading files are parameters of the reloader; that the gRPC server accepted a call,
  that it ran one, and that a server returned are events of the process. Where a property needs something
  of a parameter it is a hypothesis of the property: of \<open>CloneOf\<close>, that a clone equals its original;
  of the zone, that the offset is less than 100 hours and whole minutes; of the files, that a modification
  time identifies the contents and never comes back with other contents (\<open>stamped\<close>); of the protobuf decoder, that it passes on no nil entry of a
  list (\<open>decoded_event\<close>); of the gRPC library, that it enforces the age of connections it was configured
  with (\<open>connections_limited\<close>). What the model takes from its documentation besides is that \<open>GracefulStop\<close>
  lets no further call in and returns when no call is pending (\<open>grpc_accept\<close>, \<open>graceful_stop_returned\<close>).

  \<^bold>\<open>What the lemmas show.\<close> The registry is well formed in every reachable state, its operations have
  exactly the documented effect on every branch, it implements its abstract table, its gauges are exact
  or wrong exactly as stated, and the connection number protects a reconnected node from an old stream as long as the node was not
  removed in between. The validators accept exactly the stated sets of inputs. Labels do not depend on
  the cache. Authentication accepts exactly the configured token, and refused calls are still
  counted. Each handler answers with the error of its first failing rule and one audit entry, or
  with its response. A stream runs to its end, acknowledges as described, and touches the registry
  only through its heartbeats and its guarded removal. Reloading always serves one consistent state
  of the disk; loads at the same time can put an older certificate back, and the next poll repairs it.
  The text of the node listing cannot be broken by what agents send, and reads back as the nodes
  listed; nothing is stored that the validators refuse, the tasks
  gauge stays between the table and the validators' bound, and in every state of the process the listing
  shows exactly the abstract table of its operations. The theorems below are about the whole:
  invariants of every interleaving, the refinement of the system to a sequence of registry operations and to the abstract table, how long a node stays
  listed, the only possible panics; and, in \<open>Lifecycle\<close>, that the whole process stays within that
  system and what its shutdown waits for, and, in \<open>Drain\<close>, that it ends once the agents fall silent, or
  once their connections are older than the server allows.

  \<^bold>\<open>Bounds and fuel.\<close> The loops of the program are structural recursion over the data or over the
  list of events that reach them; a shutdown ends within six steps for each pending call or open stream and
  two more (\<open>shutdown_ends\<close>), counted from 33 minutes and 10 seconds after the gRPC server was asked to
  stop when the agents go on sending (\<open>shutdown_deadline\<close>). Of Go's library, the UTF-8
  decoder recurses on a shorter input, and the search for the shortest decimal of a double is bounded at 1500 digits: more than any double
  needs, and far more than a size in GiB, which has at most 60 (\<open>gib_text\<close>). The JSON reader, which is
  there to state what a text means, takes the length of the text as the bound on its depth;
  \<open>read_json_line\<close> shows that this is enough for every printed value. The one bound a theorem
  assumes is that fewer than \<open>2\<close> to the \<open>64\<close> operations lie between two registrations, since a
  connection number is 64 bits wide.

  \<^bold>\<open>Not modelled.\<close> The reflection plumbing of the generated messages, which belongs to the protobuf
  runtime; the protobuf bytes on the wire; what the \<^verbatim>\<open>keepalive\<close> and timeout
  settings of the servers make the libraries do, but for the age of connections; log
  output other than the entries listed in \<open>log_entry\<close> and \<open>startup_entry\<close> and the messages of \<open>main\<close>.
  The Rust agent, the network and storage crates, the SDK stubs, deployment files and the protocol
  definitions are outside the Go program and are not modelled.
\<close>

section \<open>The whole program\<close>

subsection \<open>Every interleaving\<close>

text \<open>\<^bold>\<open>C1\<close>
  In every state the running control plane can reach, by any interleaving of unary calls, streams and
  sweeps, the registry is well formed; the gauge of registered nodes equals the number of registered
  nodes; and the gauge of active streams equals the number of heartbeat streams whose handler has not
  been left, under the heartbeat label, and zero under every other.
\<close>

theorem system_gauges:
  assumes "sys_path cfg sys_init ops y"
    and "st = sys_server y"
  shows "distinct (map fst (nodes (srv_registry st))) \<and>
    (\<forall>(n, info)\<in>set (nodes (srv_registry st)).
       NodeInfo_NodeID info = n \<and> NodeInfo_Resources info \<noteq> None) \<and>
    last_RegisteredNodes 0 (metric_trace st) = length (nodes (srv_registry st)) \<and>
    active_streams l (metric_trace st) =
      (if l = ''compute.v1.AgentService.Heartbeat''
       then int (length (filter (\<lambda>e. sr_open (snd e)) (sys_streams y))) else 0)"
proof -
  have label: "hb_label = ''compute.v1.AgentService.Heartbeat''" by code_simp
  from sys_inv_path [OF assms(1) sys_inv_init] show ?thesis
    unfolding assms(2) sys_inv_def Let_def label open_streams_def reg_ok_def list_all_iff node_ok_def
    by (auto simp: case_prod_beta)
qed

theorem system_gauges_witness:
  "\<exists>ops y. sys_path demo_config sys_init ops y \<and>
     last_RegisteredNodes 0 (metric_trace (sys_server y)) = length (nodes (srv_registry (sys_server y)))"
proof -
  note run = run_sys_path [OF demo_opening_run]
  from run system_gauges [OF run refl] show ?thesis by blast
qed

text \<open>\<^bold>\<open>C2\<close>
  The running system refines the registry: whatever calls, streams and sweeps are interleaved, the
  registry they leave behind is the one the sequence of their registry operations makes, applied one
  after the other to the empty registry, and what it holds is what the abstract table makes of the
  same sequence; and each of those operations is a registration, a heartbeat, a guarded removal or a
  sweep at the thirty-second threshold, never an unguarded removal.
\<close>

theorem system_refines_registry:
  assumes "sys_path cfg sys_init ops y"
  shows "run_ops reg_next ops NewNodeRegistry = Some (srv_registry (sys_server y)) \<and>
    run_ops spec_next ops (\<lambda>n. None) = Some (table_of (srv_registry (sys_server y))) \<and>
    list_all (\<lambda>op. (\<exists>t n a r. op = RegRegister t n a r) \<or> (\<exists>t n u ts. op = RegHeartbeat t n u ts) \<or>
      (\<exists>n c. op = RegRemoveIf n c) \<or> (\<exists>t. op = RegSweep (30 * time_Second) t)) ops"
    (is "_ \<and> _ \<and> list_all ?P ops")
proof (intro conjI)
  from sys_path_run_ops [OF assms sys_inv_init]
  show run: "run_ops reg_next ops NewNodeRegistry = Some (srv_registry (sys_server y))"
    by (simp add: sys_init_def idle_server_def)
  from reg_table.view_run [OF reg_ok_new, of ops] run
  show "run_ops spec_next ops (\<lambda>n. None) = Some (table_of (srv_registry (sys_server y)))"
    by (simp add: table_of_new)
  have "?P op" if "reg_op_of cfg a z = Some op" for a op and z :: "'a sys"
  proof (cases "(cfg, a, z)" rule: reg_op_of.cases)
    case (2 cfg' i ev z')
    with that obtain sr :: "'a stream_rec" where "hb_reg_op (hb_pc (sr_hb sr)) ev = Some op" by (auto split: option.splits)
    then show ?thesis by (cases "(hb_pc (sr_hb sr), ev)" rule: hb_reg_op.cases) auto
  qed (use that in \<open>auto simp: stale_threshold_def split: if_splits\<close>)
  note ops = this
  from assms show "list_all ?P ops"
    by (induction rule: sys_path.induct) (auto dest!: ops split: option.splits)
qed

theorem system_refines_registry_witness:
  "\<exists>ops y. sys_path demo_config sys_init ops y \<and>
     run_ops reg_next ops NewNodeRegistry = Some (srv_registry (sys_server y))"
proof -
  note run = run_sys_path [OF demo_opening_run]
  from run system_refines_registry [OF run] show ?thesis by blast
qed

text \<open>\<^bold>\<open>C9\<close>
  A reconnected node survives its old stream. Take any reachable state in which a node has a
  connection number, and any run from there in which the node registers again and is never removed.
  When a stream opened under the old number then closes, every registration stays as it was, the
  node's included.
\<close>

theorem reconnected_node_survives:
  assumes "sys_path cfg sys_init ops0 y0" and "conn_of (srv_registry (sys_server y0)) n = Some c"
    and "sys_path cfg y0 ops y1"
    and "holds_throughout reg_next (\<lambda>r. conn_of r n \<noteq> None) ops (srv_registry (sys_server y0))"
    and "\<exists>op\<in>set ops. registers op n" and "length ops < 2 ^ 64"
    and "map_of (sys_streams y1) i = Some sr" and "hb_pc (sr_hb sr) = HbRemove n c err"
    and "sys_next cfg (ActStream i (HbGo now)) y1 = Some (Inr y2)"
  shows "conn_of (srv_registry (sys_server y2)) = conn_of (srv_registry (sys_server y1))"
proof -
  note inv0 = sys_inv_path [OF assms(1) sys_inv_init]
  from sys_inv_path [OF assms(3) inv0] have "cache_ok (knownMethods (sys_server y1))"
    by (simp add: sys_inv_def Let_def)
  from sys_next_registry [OF this assms(9)] assms(7,8)
  have "reg_next (RegRemoveIf n c) (srv_registry (sys_server y1)) = Some (srv_registry (sys_server y2))"
    by simp
  moreover have "0 < length (filter (\<lambda>op. registers op n) ops)"
    using assms(5) by (auto simp: filter_empty_conv)
  ultimately show ?thesis
    using reg_conn.old_stream_closes_nothing [OF sys_path_run_ops [OF assms(3) inv0] assms(2,4) _ assms(6)]
    by blast
qed

theorem reconnected_node_survives_witness:
  "\<exists>ops0 y0 ops y1 y2. run_sys demo_config demo_opening sys_init = Some (ops0, y0) \<and>
     conn_of (srv_registry (sys_server y0)) ''n'' = Some 1 \<and>
     run_sys demo_config demo_reconnect y0 = Some (ops, y1) \<and>
     sys_next demo_config (ActStream 0 (HbGo 4)) y1 = Some (Inr y2) \<and>
     conn_of (srv_registry (sys_server y2)) ''n'' = conn_of (srv_registry (sys_server y1)) ''n''"
proof -
  have c0: "conn_of (srv_registry (sys_server demo_y0)) ''n'' = Some 1"
    by (simp add: conn_of_def demo_y0_def demo_node_def)
  have alive: "holds_throughout reg_next (\<lambda>r. conn_of r ''n'' \<noteq> None) demo_ops1
      (srv_registry (sys_server demo_y0))"
    by (simp add: demo_ops1_def demo_y0_def reg_next_Some NodeRegistry_Register_def conn_of_def Let_def
        split: option.split)
  have regs: "\<exists>op\<in>set demo_ops1. registers op ''n''" and len: "length demo_ops1 < 2 ^ 64"
    by (simp_all add: demo_ops1_def)
  have sr: "map_of (sys_streams demo_y1) 0 = Some (demo_stream (HbRemove ''n'' 1 None))"
    "hb_pc (sr_hb (demo_stream (HbRemove ''n'' 1 None))) = HbRemove ''n'' 1 None"
    by (simp_all add: demo_y1_def demo_stream_def)
  obtain y2 where step: "sys_next demo_config (ActStream 0 (HbGo 4)) demo_y1 = Some (Inr y2)"
    using sr by (simp add: AgentServer_Heartbeat_def with_registry_def case_prod_beta)
  from reconnected_node_survives [OF run_sys_path [OF demo_opening_run] c0 run_sys_path [OF demo_reconnect_run] alive regs len sr step]
  have "conn_of (srv_registry (sys_server y2)) ''n'' = conn_of (srv_registry (sys_server demo_y1)) ''n''"
    by simp
  with demo_opening_run c0 demo_reconnect_run step show ?thesis by blast
qed

subsection \<open>Staying listed\<close>

text \<open>\<^bold>\<open>C8\<close>
  Liveness of the node list. Whatever else the system does, a node stays listed as long as no sweep
  comes more than thirty seconds after the node was last heard of and none of its streams closes; and
  a node that is not heard of any more is off the list after the first sweep that comes more than
  thirty seconds after its last beat.
\<close>

theorem listed_while_in_touch:
  assumes "sys_path cfg sys_init ops0 y0" and "sys_path cfg y0 ops y1"
    and "map_of (nodes (srv_registry (sys_server y0))) n = Some info"
  shows "(in_touch n (NodeInfo_LastBeat info) ops \<longrightarrow>
      map_of (nodes (srv_registry (sys_server y1))) n \<noteq> None) \<and>
    (ops = pre @ RegSweep (30 * time_Second) now # post \<and>
     list_all (\<lambda>op. hears op n = None) (pre @ post) \<and>
     30 * time_Second < now - NodeInfo_LastBeat info \<longrightarrow>
      map_of (nodes (srv_registry (sys_server y1))) n = None)"
proof -
  note inv0 = sys_inv_path [OF assms(1) sys_inv_init]
  from inv0 have "reg_ok (srv_registry (sys_server y0))" by (simp add: sys_inv_def Let_def)
  from reg_table.view_run [OF this, of ops] sys_path_run_ops [OF assms(2) inv0]
  have run: "run_ops spec_next ops (table_of (srv_registry (sys_server y0))) =
      Some (table_of (srv_registry (sys_server y1)))" by simp
  have look: "table_of (srv_registry (sys_server y0)) n = Some (view_node info)"
    by (simp add: table_of_def assms(3))
  have beat: "sn_beat (view_node info) = NodeInfo_LastBeat info" by (simp add: view_node_def)
  have listed: "map_of (nodes (srv_registry (sys_server y1))) n = None \<longleftrightarrow>
      table_of (srv_registry (sys_server y1)) n = None" by (simp add: table_of_def)
  have "30 * time_Second < time_Sub now (NodeInfo_LastBeat info)
      \<longleftrightarrow> 30 * time_Second < now - NodeInfo_LastBeat info"
    by (rule time_Sub_gt_iff) (simp_all add: minDuration_def maxDuration_def time_Second_def)
  then show ?thesis
    using in_touch_listed [OF run look] run
      silent_gone [where pre = pre and now = now and post = post and n = n and threshold = "30 * time_Second"
        and x = "view_node info" and S = "table_of (srv_registry (sys_server y0))"
        and S' = "table_of (srv_registry (sys_server y1))"] look
    unfolding listed beat list_all_iff by blast
qed

text \<open>The opened stream of the small run, then a cleanup tick, in time and late.\<close>

theorem listed_while_in_touch_witness:
  "\<exists>ops1 y1 ops2 y2.
     run_sys demo_config [ActSweep (20 * time_Second)] demo_y0 = Some (ops1, y1) \<and>
     run_sys demo_config [ActSweep (40 * time_Second)] demo_y0 = Some (ops2, y2) \<and>
     map_of (nodes (srv_registry (sys_server y1))) ''n'' \<noteq> None \<and>
     map_of (nodes (srv_registry (sys_server y2))) ''n'' = None"
proof -
  have info: "map_of (nodes (srv_registry (sys_server demo_y0))) ''n'' = Some (demo_node 2 1)"
    "NodeInfo_LastBeat (demo_node 2 1) = 2"
    by (simp_all add: demo_y0_def demo_node_def)
  have sweep: "\<exists>y. run_sys demo_config [ActSweep t] demo_y0 = Some ([RegSweep (30 * time_Second) t], y)" for t
    by (simp add: Let_def case_prod_beta stale_threshold_def)
  obtain y1 where y1: "run_sys demo_config [ActSweep (20 * time_Second)] demo_y0
      = Some ([RegSweep (30 * time_Second) (20 * time_Second)], y1)" using sweep by blast
  obtain y2 where y2: "run_sys demo_config [ActSweep (40 * time_Second)] demo_y0
      = Some ([RegSweep (30 * time_Second) (40 * time_Second)], y2)" using sweep by blast
  have "in_touch ''n'' 2 [RegSweep (30 * time_Second) (20 * time_Second)]"
    by (simp add: time_Sub_def time_Second_def minDuration_def maxDuration_def)
  with listed_while_in_touch [OF run_sys_path [OF demo_opening_run] run_sys_path [OF y1] info(1)] info(2)
  have "map_of (nodes (srv_registry (sys_server y1))) ''n'' \<noteq> None" by simp
  moreover have "map_of (nodes (srv_registry (sys_server y2))) ''n'' = None"
    using listed_while_in_touch [OF run_sys_path [OF demo_opening_run] run_sys_path [OF y2] info(1),
        of "[]" "40 * time_Second" "[]"] info(2)
    by (simp add: time_Second_def)
  ultimately show ?thesis using y1 y2 by blast
qed

subsection \<open>Panics\<close>

text \<open>\<^bold>\<open>C13\<close>
  The panics, all of them. The control plane panics exactly in two situations: on a registration that
  passes authentication and validation and carries no resources, which any caller can send; and when a
  heartbeat stream files a message with a nil entry in its list of tasks for a node that is registered,
  which the wire format cannot express. The same message for a node that is not registered does no harm.
\<close>

theorem system_panics:
  "sys_next cfg a y = Some (Inl p) \<longleftrightarrow>
     (\<exists>ctx clk m. a = ActUnary ctx clk (RpcRegister (Inr m)) \<and>
        validateBearerToken (cfg_lib cfg) ctx (AgentServer_agentToken (cfg_server cfg)) = None \<and>
        ValidateNodeID (RegisterRequest_NodeId m) = None \<and> ValidateAddress (RegisterRequest_Address m) = None \<and>
        ValidateVersion (RegisterRequest_AgentVersion m) = None \<and> RegisterRequest_Resources m = None \<and>
        p = NilNodeResources (RegisterRequest_NodeId m)) \<or>
     (\<exists>i now sr m. a = ActStream i (HbGo now) \<and> map_of (sys_streams y) i = Some sr \<and>
        hb_message (hb_pc (sr_hb sr)) = Some m \<and> None \<in> set (HeartbeatRequest_Tasks m) \<and>
        map_of (nodes (srv_registry (sys_server y))) (HeartbeatRequest_NodeId m) \<noteq> None \<and> p = NilDeref)"
proof (cases a)
  case (ActUnary ctx clk call)
  with serve_rpc_panics_iff [of cfg clk ctx call "sys_server y" p] show ?thesis
    by (cases "serve_rpc cfg clk ctx call (sys_server y)")
       (auto simp del: serve_rpc.simps split: prod.splits)
next
  case (ActStream i ev)
  show ?thesis
  proof (cases "map_of (sys_streams y) i")
    case (Some sr)
    have "sys_next cfg a y = Some (Inl p) \<longleftrightarrow> AgentServer_Heartbeat (cfg_lib cfg) (cfg_server cfg) (sr_ctx sr) ev
        (sr_hb sr) (sys_server y) = Some (Inl p)"
      by (simp add: ActStream Some split: option.split sum.split prod.split)
    then show ?thesis unfolding stream_step_panics_iff using ActStream Some by auto
  qed (simp add: ActStream)
qed (auto simp: Let_def case_prod_beta split: option.splits hb_pc.splits if_splits)

theorem system_panics_witness:
  "sys_next demo_config (demo_register None 1) sys_init = Some (Inl (NilNodeResources ''n''))"
proof -
  have "ValidateNodeID ''n'' = None" "ValidateAddress ''a:1'' = None" "ValidateVersion ''1.0'' = None"
    by (simp_all add: validator_ok safe_id_def alnum_char_iff safe_char_iff less_eq_char_def letters_digits_def id_punctuation_def)
  moreover have "validateBearerToken (cfg_lib demo_config) [] (AgentServer_agentToken (cfg_server demo_config)) = None"
    by (simp add: demo_config_def NewAgentServer_def validateBearerToken_def)
  ultimately show ?thesis unfolding system_panics by (simp add: demo_register_def)
qed

section \<open>Generated messages\<close>

text \<open>The tables of every enum are inverse to each other: a number has a name exactly when the name has
  that number.
\<close>

theorem enum_tables_inverse:
  "(map_of TaskState_name v = Some s \<longleftrightarrow> map_of TaskState_value s = Some v) \<and>
   (map_of ConsistencyMode_Mode_name v = Some s \<longleftrightarrow> map_of ConsistencyMode_Mode_value s = Some v) \<and>
   (map_of JobType_name v = Some s \<longleftrightarrow> map_of JobType_value s = Some v) \<and>
   (map_of JobState_name v = Some s \<longleftrightarrow> map_of JobState_value s = Some v) \<and>
   (map_of GpuCapability_Cap_name v = Some s \<longleftrightarrow> map_of GpuCapability_Cap_value s = Some v) \<and>
   (map_of AffinityRule_Type_name v = Some s \<longleftrightarrow> map_of AffinityRule_Type_value s = Some v) \<and>
   (map_of ReplicationPolicy_Mode_name v = Some s \<longleftrightarrow> map_of ReplicationPolicy_Mode_value s = Some v)"
  by (intro conjI) (rule TaskState.number_of_name ConsistencyMode_Mode.number_of_name JobType.number_of_name
      JobState.number_of_name GpuCapability_Cap.number_of_name AffinityRule_Type.number_of_name
      ReplicationPolicy_Mode.number_of_name)+

end
